(* ===== verification/Prelude.thy ===== *)
theory Prelude
  imports
    Main
    "HOL-Library.Char_ord"
    "HOL-Library.List_Lexorder"
    "HOL-Library.State_Monad"
    "HOL-Library.Monad_Syntax"
    "HOL-Library.Word"
begin

text \<open>
  What every component shares: the collections of rewrite rules, the state monad's run
  equations, decimal printing (\<open>std::to_string\<close>), and the generic facts on lists and maps.
\<close>

section \<open>Collections\<close>

named_theorems run_simps \<open>run equations of the stateful operations\<close>
named_theorems json_simps \<open>lookup and update equations of JSON objects\<close>
named_theorems text_ok \<open>introduction rules for serialisable text\<close>

section \<open>Exceptions\<close>

text \<open>
  An exception that leaves a function is a value of this type; it is the left summand of the
  results of the operations that may throw.
\<close>

datatype exn =
    Type_Error string
  | Parse_Error string
  | Out_Of_Range string
  | Runtime_Error string

text \<open>Sequencing of computations that may throw.\<close>

fun ebind :: "'e + 'a \<Rightarrow> ('a \<Rightarrow> 'e + 'b) \<Rightarrow> 'e + 'b" where
  "ebind (Inl e) f = Inl e"
| "ebind (Inr a) f = f a"

lemma ebind_Inr: "ebind m f = Inr b \<longleftrightarrow> (\<exists>a. m = Inr a \<and> f a = Inr b)"
  by (cases m) auto

section \<open>The state monad\<close>

lemma run_state_return [run_simps, simp]: "run_state (State_Monad.return a) s = (a, s)"
  by (simp add: State_Monad.return_def)

lemma run_state_bind [run_simps, simp]:
  "run_state (State_Monad.bind m f) s =
    (case run_state m s of (a, s') \<Rightarrow> run_state (f a) s')"
  by (simp add: State_Monad.bind_def)

lemma run_state_get [run_simps, simp]: "run_state State_Monad.get s = (s, s)"
  by (simp add: State_Monad.get_def)

lemma run_state_set [run_simps, simp]: "run_state (State_Monad.set t) s = ((), t)"
  by (simp add: State_Monad.set_def)

lemma run_state_update [run_simps, simp]: "run_state (State_Monad.update f) s = ((), f s)"
  by (simp add: State_Monad.update_def)

section \<open>Decimal printing and reading\<close>

definition digit_char :: "nat \<Rightarrow> char" where
  "digit_char d = char_of (48 + d)"

definition is_digit :: "char \<Rightarrow> bool" where
  "is_digit c \<longleftrightarrow> 48 \<le> (of_char c :: nat) \<and> (of_char c :: nat) \<le> 57"

definition digit_val :: "char \<Rightarrow> nat" where
  "digit_val c = of_char c - 48"

fun show_nat :: "nat \<Rightarrow> string" where
  "show_nat n =
    (if n < 10 then [digit_char n] else show_nat (n div 10) @ [digit_char (n mod 10)])"

declare show_nat.simps [simp del]

definition show_int :: "int \<Rightarrow> string" where
  "show_int i = (if i < 0 then CHR ''-'' # show_nat (nat (- i)) else show_nat (nat i))"

definition read_nat :: "string \<Rightarrow> nat" where
  "read_nat s = foldl (\<lambda>a c. 10 * a + digit_val c) 0 s"

lemma digit_char_props [simp]:
  assumes "d < 10"
  shows "is_digit (digit_char d)" "digit_val (digit_char d) = d"
  using assms by (simp_all add: is_digit_def digit_val_def digit_char_def)

lemma read_nat_snoc: "read_nat (s @ [c]) = 10 * read_nat s + digit_val c"
  by (simp add: read_nat_def)

lemma read_show_nat [simp]: "read_nat (show_nat n) = n"
proof (induction n rule: show_nat.induct)
  case (1 n)
  show ?case
  proof (cases "n < 10")
    case True
    then show ?thesis by (subst show_nat.simps) (simp add: read_nat_def)
  next
    case False
    with 1 have "read_nat (show_nat (n div 10)) = n div 10" by simp
    with False show ?thesis by (subst show_nat.simps) (simp add: read_nat_snoc)
  qed
qed

lemma show_nat_digits [simp]: "\<forall>c \<in> set (show_nat n). is_digit c"
proof (induction n rule: show_nat.induct)
  case (1 n)
  then show ?case by (cases "n < 10") (subst show_nat.simps; auto)+
qed

lemma show_nat_nonempty [simp]: "show_nat n \<noteq> []"
  by (subst show_nat.simps) simp

lemma show_nat_inj: "show_nat m = show_nat n \<Longrightarrow> m = n"
  by (metis read_show_nat)

section \<open>Lists\<close>

lemma takeWhile_append_stop:
  "(\<forall>x \<in> set xs. P x) \<Longrightarrow> (ys = [] \<or> \<not> P (hd ys)) \<Longrightarrow>
    takeWhile P (xs @ ys) = xs \<and> dropWhile P (xs @ ys) = ys"
  by (induction xs) (cases ys; auto)+

lemma find_SomeD: "List.find P xs = Some x \<Longrightarrow> x \<in> set xs \<and> P x"
  by (auto simp: find_Some_iff)

lemma length_filter_all: "length (filter P xs) = length xs \<longleftrightarrow> (\<forall>x \<in> set xs. P x)"
  by (metis filter_True length_filter_less less_irrefl)

lemma map_option_list_all:
  "(\<forall>x \<in> set xs. f (g x) = Some x) \<Longrightarrow> List.map_filter (\<lambda>x. f (g x)) xs = xs"
  by (induction xs) (auto simp: List.map_filter_simps)

end
