(* ===== verification/String_Utils.thy ===== *)
theory String_Utils
  imports Prelude
begin

text \<open>
  \<open>src/src/string_utils.h\<close>: prefix and suffix tests, joining, lower-casing and trimming of
  \<open>std::string\<close>s, with the \<open>find_first_not_of\<close> / \<open>substr\<close> calls they are made of.
\<close>

definition starts_with_char :: "string \<Rightarrow> char \<Rightarrow> bool" where
  "starts_with_char s c \<longleftrightarrow> s \<noteq> [] \<and> hd s = c"

definition starts_with :: "string \<Rightarrow> string \<Rightarrow> bool" where
  "starts_with s p \<longleftrightarrow> length p \<le> length s \<and> take (length p) s = p"

definition ends_with_char :: "string \<Rightarrow> char \<Rightarrow> bool" where
  "ends_with_char s c \<longleftrightarrow> s \<noteq> [] \<and> last s = c"

definition ends_with :: "string \<Rightarrow> string \<Rightarrow> bool" where
  "ends_with s q \<longleftrightarrow> length q \<le> length s \<and> drop (length s - length q) s = q"

text \<open>The loop of \<open>join\<close>: the separator goes in front of every element but the first.\<close>

fun join_from :: "nat \<Rightarrow> string list \<Rightarrow> string \<Rightarrow> string \<Rightarrow> string" where
  "join_from i [] sep result = result"
| "join_from i (x # xs) sep result =
    join_from (Suc i) xs sep ((if 0 < i then result @ sep else result) @ x)"

definition join :: "string list \<Rightarrow> string \<Rightarrow> string" where
  "join v sep = join_from 0 v sep []"

text \<open>\<open>std::tolower\<close> in the C locale.\<close>

definition tolower :: "char \<Rightarrow> char" where
  "tolower c =
    (if 65 \<le> (of_char c :: nat) \<and> (of_char c :: nat) \<le> 90 then char_of ((of_char c :: nat) + 32) else c)"

definition to_lower :: "string \<Rightarrow> string" where
  "to_lower s = map tolower s"

text \<open>\<open>" \t\n\r\f\v"\<close>.\<close>

definition ws :: "string" where
  "ws = [CHR 32, CHR 9, CHR 10, CHR 13, CHR 12, CHR 11]"

fun find_first_not_of :: "string \<Rightarrow> string \<Rightarrow> nat option" where
  "find_first_not_of [] cset = None"
| "find_first_not_of (c # cs) cset =
    (if c \<in> set cset then map_option Suc (find_first_not_of cs cset) else Some 0)"

definition find_last_not_of :: "string \<Rightarrow> string \<Rightarrow> nat option" where
  "find_last_not_of s cset =
    map_option (\<lambda>i. length s - 1 - i) (find_first_not_of (rev s) cset)"

definition substr :: "string \<Rightarrow> nat \<Rightarrow> nat \<Rightarrow> string" where
  "substr s pos n = take n (drop pos s)"

definition trim :: "string \<Rightarrow> string" where
  "trim s =
    (case find_first_not_of s ws of
      None \<Rightarrow> []
    | Some b \<Rightarrow> (case find_last_not_of s ws of
        None \<Rightarrow> []
      | Some e \<Rightarrow> substr s b (e - b + 1)))"

text \<open>\<open>s.find(t) != npos\<close>, and \<open>s.find(c) != npos\<close> for a character.\<close>

fun has_sub :: "string \<Rightarrow> string \<Rightarrow> bool" where
  "has_sub [] t = (t = [])"
| "has_sub (c # cs) t = (starts_with (c # cs) t \<or> has_sub cs t)"

text \<open>A string passed as \<open>c_str()\<close> ends at its first NUL.\<close>

definition c_str :: "string \<Rightarrow> string" where
  "c_str s = takeWhile (\<lambda>c. c \<noteq> CHR 0x00) s"

text \<open>The bytes of the em dash (U+2014) in the messages.\<close>

definition emdash :: "string" where
  "emdash = [CHR 0xE2, CHR 0x80, CHR 0x94]"

section \<open>Facts\<close>

lemma starts_with_iff: "starts_with s p \<longleftrightarrow> (\<exists>r. s = p @ r)"
  unfolding starts_with_def by (metis append_eq_conv_conj append_take_drop_id length_append le_add1)

lemma ends_with_iff: "ends_with s q \<longleftrightarrow> (\<exists>r. s = r @ q)"
proof
  assume "ends_with s q"
  then show "\<exists>r. s = r @ q" unfolding ends_with_def by (metis append_take_drop_id)
next
  assume "\<exists>r. s = r @ q"
  then show "ends_with s q" by (auto simp: ends_with_def)
qed

lemma has_sub_iff: "has_sub s t \<longleftrightarrow> (\<exists>a b. s = a @ t @ b)"
proof (induction s)
  case (Cons c cs)
  have "(\<exists>a b. c # cs = a @ t @ b) \<longleftrightarrow> (\<exists>b. c # cs = t @ b) \<or> (\<exists>a b. cs = a @ t @ b)"
    by (metis append_Cons append_Nil list.inject neq_Nil_conv)
  then show ?case by (simp add: Cons starts_with_iff)
qed simp

lemma join_from_acc:
  "0 < i \<Longrightarrow> join_from i xs sep r = r @ concat (map (\<lambda>x. sep @ x) xs)"
  by (induction i xs sep r rule: join_from.induct) auto

lemma join_Nil [simp]: "join [] sep = []"
  by (simp add: join_def)

lemma join_Cons: "join (x # xs) sep = x @ concat (map (\<lambda>y. sep @ y) xs)"
  by (simp add: join_def join_from_acc)

lemma find_first_not_of_dropWhile:
  "find_first_not_of s cset =
    (if \<forall>c \<in> set s. c \<in> set cset then None
     else Some (length (takeWhile (\<lambda>c. c \<in> set cset) s)))"
  by (induction s) auto

lemma find_first_not_of_None:
  "find_first_not_of s cset = None \<longleftrightarrow> (\<forall>c \<in> set s. c \<in> set cset)"
  by (simp add: find_first_not_of_dropWhile)

lemma length_takeWhile_lt: "\<exists>x \<in> set xs. \<not> P x \<Longrightarrow> length (takeWhile P xs) < length xs"
  by (induction xs) auto

text \<open>Trimming removes the white space at both ends and nothing else.\<close>

lemma trim_eq:
  "trim s = rev (dropWhile (\<lambda>c. c \<in> set ws) (rev (dropWhile (\<lambda>c. c \<in> set ws) s)))"
proof (cases "\<forall>c \<in> set s. c \<in> set ws")
  case True
  then have e: "dropWhile (\<lambda>c. c \<in> set ws) s = []" by (simp add: dropWhile_eq_Nil_conv)
  have "trim s = []" using True by (simp add: trim_def find_first_not_of_dropWhile)
  then show ?thesis unfolding e by simp
next
  case False
  let ?P = "\<lambda>c. c \<in> set ws"
  let ?b = "length (takeWhile ?P s)" and ?d = "length (takeWhile ?P (rev s))"
  have split: "s = takeWhile ?P s @ dropWhile ?P s" by simp
  have ne: "dropWhile ?P s \<noteq> []" using False by (simp add: dropWhile_eq_Nil_conv)
  have rv: "rev s = rev (dropWhile ?P s) @ rev (takeWhile ?P s)"
    by (metis rev_append split)
  have ex: "\<exists>x \<in> set (rev (dropWhile ?P s)). \<not> ?P x"
    using hd_dropWhile [OF ne] hd_in_set [OF ne] by auto
  have tw: "takeWhile ?P (rev s) = takeWhile ?P (rev (dropWhile ?P s))"
    and dw: "dropWhile ?P (rev s) = dropWhile ?P (rev (dropWhile ?P s)) @ rev (takeWhile ?P s)"
    using ex by (subst rv, force simp: takeWhile_append1 dropWhile_append1)+
  have len: "length s = ?b + length (dropWhile ?P s)"
    by (metis length_append split)
  have dle: "?d < length (dropWhile ?P s)"
    using length_takeWhile_lt [OF ex] unfolding tw by simp
  have b: "find_first_not_of s ws = Some ?b"
    using False by (subst find_first_not_of_dropWhile) (simp only: if_False)
  have nr: "\<not> (\<forall>c \<in> set (rev s). c \<in> set ws)" using False by simp
  have e: "find_last_not_of s ws = Some (length s - 1 - ?d)"
    unfolding find_last_not_of_def find_first_not_of_dropWhile if_not_P [OF nr] by simp
  have "trim s = take (length s - 1 - ?d - ?b + 1) (drop ?b s)"
    unfolding trim_def b e by (simp add: substr_def)
  also have "drop ?b s = dropWhile ?P s" by (metis dropWhile_eq_drop)
  also have "length s - 1 - ?d - ?b + 1 = length (dropWhile ?P s) - ?d" using len dle by simp
  also have "take (length (dropWhile ?P s) - ?d) (dropWhile ?P s)
      = rev (drop ?d (rev (dropWhile ?P s)))" by (simp add: rev_drop)
  also have "drop ?d (rev (dropWhile ?P s)) = dropWhile ?P (rev (dropWhile ?P s))"
    by (metis tw dropWhile_eq_drop)
  finally show ?thesis .
qed

lemma trim_id:
  assumes "s = [] \<or> hd s \<notin> set ws \<and> last s \<notin> set ws"
  shows "trim s = s"
proof (cases s)
  case (Cons c cs)
  then have "dropWhile (\<lambda>c. c \<in> set ws) s = s" "rev s \<noteq> []" "hd (rev s) \<notin> set ws"
    using assms by (simp_all add: hd_rev del: rev.simps)
  then show ?thesis
    by (simp add: trim_eq) (metis dropWhile_eq_self_iff rev_rev_ident)
qed (simp add: trim_eq)

end
