(* ===== verification/World.thy ===== *)
theory World
  imports String_Utils
begin

text \<open>
  The world the operations act on: the files and directories of the machine, the clock, the
  random source and the error stream. The outcome of every system call is decided by an
  oracle over the call and its position in the run, so a theorem that quantifies over worlds
  holds for every pattern of I/O failures. \<open>w_hist\<close> collects every state of the file system
  another process could observe (latest first), half-written files included: a property of all
  its entries is a property of every crash point.
\<close>

section \<open>State\<close>

record inode =
  i_text :: string
  i_mode :: nat
  i_group :: "int option"

record dirent =
  d_mode :: nat
  d_group :: "int option"

datatype sysop =
    MkDirs string
  | ReadF string
  | OpenTrunc string
  | BufferOut string
  | WriteOut string
  | ChMod string nat
  | ChOwn string
  | Rename string string
  | RemoveF string
  | Stat string
  | CopyF string string

type_synonym files = "string \<rightharpoonup> inode"

record world =
  w_files :: files
  w_dirs :: "string \<rightharpoonup> dirent"
  w_newmode :: nat
  w_newdirmode :: nat
  w_sys :: "nat \<Rightarrow> sysop \<Rightarrow> bool"
  w_partial :: "nat \<Rightarrow> nat"
  w_tick :: nat
  w_hist :: "files list"
  w_now :: int
  w_random :: "nat \<Rightarrow> (nat \<Rightarrow> 8 word) option"
  w_err :: "string list"
  w_pid :: int
  w_tmpseq :: nat

type_synonym 'a io = "(world, 'a) state"

section \<open>System calls\<close>

definition tick :: "world \<Rightarrow> world" where
  "tick w = w\<lparr>w_tick := Suc (w_tick w)\<rparr>"

definition observe :: "world \<Rightarrow> world" where
  "observe w = w\<lparr>w_hist := w_files w # w_hist w\<rparr>"

definition sys :: "sysop \<Rightarrow> (world \<Rightarrow> bool) \<Rightarrow> (world \<Rightarrow> world) \<Rightarrow> bool io" where
  "sys op can eff = State (\<lambda>w.
    if w_sys w (w_tick w) op \<and> can w
    then (True, observe (eff (tick w)))
    else (False, observe (tick w)))"

definition mk_dirs :: "string \<Rightarrow> bool io" where
  "mk_dirs p = sys (MkDirs p) (\<lambda>w. w_files w p = None)
    (\<lambda>w. w\<lparr>w_dirs := (case w_dirs w p of
       None \<Rightarrow> (w_dirs w)(p \<mapsto> \<lparr>d_mode = w_newdirmode w, d_group = None\<rparr>)
     | Some _ \<Rightarrow> w_dirs w)\<rparr>)"

definition read_file :: "string \<Rightarrow> string option io" where
  "read_file p = State (\<lambda>w.
    (if w_sys w (w_tick w) (ReadF p) then map_option i_text (w_files w p) else None, tick w))"

definition file_exists :: "string \<Rightarrow> bool io" where
  "file_exists p = State (\<lambda>w. (w_files w p \<noteq> None \<or> w_dirs w p \<noteq> None, w))"

text \<open>\<open>std::ofstream(path, trunc)\<close>: an existing file keeps its mode, a new one gets the umask's.\<close>

definition open_trunc :: "string \<Rightarrow> bool io" where
  "open_trunc p = sys (OpenTrunc p) (\<lambda>w. w_dirs w p = None)
    (\<lambda>w. w\<lparr>w_files := (w_files w)(p \<mapsto> (case w_files w p of
       None \<Rightarrow> \<lparr>i_text = [], i_mode = w_newmode w, i_group = None\<rparr>
     | Some f \<Rightarrow> f\<lparr>i_text := []\<rparr>))\<rparr>)"

definition set_text :: "string \<Rightarrow> string \<Rightarrow> world \<Rightarrow> world" where
  "set_text p s w = w\<lparr>w_files := (w_files w)(p := map_option (\<lambda>f. f\<lparr>i_text := s\<rparr>) (w_files w p))\<rparr>"

text \<open>
  Writing to the open file and closing it. On the way, and when the call fails, some prefix
  of the text is in the file.
\<close>

definition write_out :: "string \<Rightarrow> string \<Rightarrow> bool io" where
  "write_out p s = State (\<lambda>w.
    let half = observe (set_text p (take (w_partial w (w_tick w)) s) (tick w))
    in if w_sys w (w_tick w) (WriteOut p) then (True, observe (set_text p s half)) else (False, half))"

text \<open>
  Writing to the stream without closing it: the answer is \<open>good()\<close>, and some prefix of the text
  has reached the file.
\<close>

definition buffer_out :: "string \<Rightarrow> string \<Rightarrow> bool io" where
  "buffer_out p s = State (\<lambda>w. (w_sys w (w_tick w) (BufferOut p),
     observe (set_text p (take (w_partial w (w_tick w)) s) (tick w))))"

definition chmod :: "string \<Rightarrow> nat \<Rightarrow> bool io" where
  "chmod p m = sys (ChMod p m) (\<lambda>w. w_files w p \<noteq> None \<or> w_dirs w p \<noteq> None)
    (\<lambda>w. w\<lparr>w_files := (w_files w)(p := map_option (\<lambda>f. f\<lparr>i_mode := m\<rparr>) (w_files w p)),
            w_dirs := (w_dirs w)(p := map_option (\<lambda>d. d\<lparr>d_mode := m\<rparr>) (w_dirs w p))\<rparr>)"

definition chown :: "string \<Rightarrow> int \<Rightarrow> bool io" where
  "chown p g = sys (ChOwn p) (\<lambda>w. w_files w p \<noteq> None \<or> w_dirs w p \<noteq> None)
    (\<lambda>w. w\<lparr>w_files := (w_files w)(p := map_option (\<lambda>f. f\<lparr>i_group := Some g\<rparr>) (w_files w p)),
            w_dirs := (w_dirs w)(p := map_option (\<lambda>d. d\<lparr>d_group := Some g\<rparr>) (w_dirs w p))\<rparr>)"

definition rename :: "string \<Rightarrow> string \<Rightarrow> bool io" where
  "rename p q = sys (Rename p q) (\<lambda>w. w_files w p \<noteq> None \<and> w_dirs w q = None)
    (\<lambda>w. w\<lparr>w_files := (w_files w)(p := None, q := w_files w p)\<rparr>)"

definition remove_file :: "string \<Rightarrow> bool io" where
  "remove_file p = sys (RemoveF p) (\<lambda>w. w_files w p \<noteq> None)
    (\<lambda>w. w\<lparr>w_files := (w_files w)(p := None)\<rparr>)"

text \<open>\<open>fs::copy_file\<close> with \<open>overwrite_existing\<close>: when it fails, a part may have been written.\<close>

definition copy_file :: "string \<Rightarrow> string \<Rightarrow> bool io" where
  "copy_file p q = State (\<lambda>w. case w_files w p of
      None \<Rightarrow> (False, tick w)
    | Some f \<Rightarrow>
       (let put = (\<lambda>s w. observe (w\<lparr>w_files := (w_files w)(q \<mapsto> f\<lparr>i_text := s\<rparr>)\<rparr>));
            half = put (take (w_partial w (w_tick w)) (i_text f)) (tick w)
        in if w_dirs w q \<noteq> None then (False, tick w)
           else if w_sys w (w_tick w) (CopyF p q) then (True, put (i_text f) half) else (False, half)))"

definition now :: "int io" where
  "now = State (\<lambda>w. (w_now w, w))"

definition rand_bytes :: "nat \<Rightarrow> 8 word list option io" where
  "rand_bytes n = State (\<lambda>w. (map_option (\<lambda>f. map f [0..<n]) (w_random w (w_tick w)), tick w))"

definition cerr :: "string \<Rightarrow> unit io" where
  "cerr line = State_Monad.update (\<lambda>w. w\<lparr>w_err := line # w_err w\<rparr>)"

text \<open>Sequencing of operations that may throw: an exception ends the sequence.\<close>

definition tbind :: "('s, 'e + 'a) state \<Rightarrow> ('a \<Rightarrow> ('s, 'e + 'b) state) \<Rightarrow> ('s, 'e + 'b) state" where
  "tbind m f = do {
     r \<leftarrow> m;
     case r of Inl x \<Rightarrow> State_Monad.return (Inl x) | Inr a \<Rightarrow> f a }"

definition pure :: "'a \<Rightarrow> ('s, 'e + 'a) state" where
  "pure a = State_Monad.return (Inr a)"

definition raise :: "'e \<Rightarrow> ('s, 'e + 'a) state" where
  "raise x = State_Monad.return (Inl x)"

definition plain :: "('s, 'a) state \<Rightarrow> ('s, 'e + 'a) state" where
  "plain m = do { a \<leftarrow> m; State_Monad.return (Inr a) }"

section \<open>Paths\<close>

text \<open>\<open>fs::path::parent_path()\<close> on the absolute paths built here.\<close>

definition parent_path :: "string \<Rightarrow> string" where
  "parent_path p = rev (drop 1 (dropWhile (\<lambda>c. c \<noteq> CHR ''/'') (rev p)))"

definition filename :: "string \<Rightarrow> string" where
  "filename p = rev (takeWhile (\<lambda>c. c \<noteq> CHR ''/'') (rev p))"

section \<open>Run equations\<close>

lemma run_pure [run_simps, simp]: "run_state (pure a) w = (Inr a, w)"
  by (simp add: pure_def)

lemma run_raise [run_simps, simp]: "run_state (raise x) w = (Inl x, w)"
  by (simp add: raise_def)

lemma run_plain [run_simps, simp]:
  "run_state (plain m) w = (case run_state m w of (a, w') \<Rightarrow> (Inr a, w'))"
  by (simp add: plain_def)

lemma run_tbind [run_simps, simp]:
  "run_state (tbind m f) w = (case run_state m w of
     (Inl x, w') \<Rightarrow> (Inl x, w') | (Inr a, w') \<Rightarrow> run_state (f a) w')"
  by (simp add: tbind_def split: sum.splits prod.splits)

lemma tick_fields [simp]:
  "w_files (tick w) = w_files w" "w_dirs (tick w) = w_dirs w" "w_sys (tick w) = w_sys w"
  "w_partial (tick w) = w_partial w" "w_hist (tick w) = w_hist w" "w_now (tick w) = w_now w"
  "w_random (tick w) = w_random w" "w_newmode (tick w) = w_newmode w" "w_err (tick w) = w_err w"
  "w_pid (tick w) = w_pid w" "w_tmpseq (tick w) = w_tmpseq w"
  "w_newdirmode (tick w) = w_newdirmode w" "w_tick (tick w) = Suc (w_tick w)"
  by (simp_all add: tick_def)

lemma observe_fields [simp]:
  "w_files (observe w) = w_files w" "w_dirs (observe w) = w_dirs w" "w_sys (observe w) = w_sys w"
  "w_partial (observe w) = w_partial w" "w_tick (observe w) = w_tick w" "w_now (observe w) = w_now w"
  "w_random (observe w) = w_random w" "w_newmode (observe w) = w_newmode w"
  "w_newdirmode (observe w) = w_newdirmode w" "w_err (observe w) = w_err w"
  "w_pid (observe w) = w_pid w" "w_tmpseq (observe w) = w_tmpseq w"
  "w_hist (observe w) = w_files w # w_hist w"
  by (simp_all add: observe_def)

lemma set_text_fields [simp]:
  "w_dirs (set_text p s w) = w_dirs w" "w_sys (set_text p s w) = w_sys w"
  "w_partial (set_text p s w) = w_partial w" "w_tick (set_text p s w) = w_tick w"
  "w_now (set_text p s w) = w_now w" "w_random (set_text p s w) = w_random w"
  "w_hist (set_text p s w) = w_hist w" "w_newmode (set_text p s w) = w_newmode w"
  "w_newdirmode (set_text p s w) = w_newdirmode w" "w_err (set_text p s w) = w_err w"
  "w_pid (set_text p s w) = w_pid w" "w_tmpseq (set_text p s w) = w_tmpseq w"
  "w_files (set_text p s w) = (w_files w)(p := map_option (\<lambda>f. f\<lparr>i_text := s\<rparr>) (w_files w p))"
  by (simp_all add: set_text_def)

section \<open>What an operation leaves alone\<close>

text \<open>
  \<open>untouched q m\<close>: running \<open>m\<close> changes nothing at path \<open>q\<close>, at no moment. \<open>steady m\<close>: it does not
  change the environment (clock, oracle, random source).
\<close>

definition hist_ext :: "world \<Rightarrow> world \<Rightarrow> (files \<Rightarrow> bool) \<Rightarrow> bool" where
  "hist_ext w w' P \<longleftrightarrow> (\<exists>new. w_hist w' = new @ w_hist w \<and> (\<forall>f \<in> set new. P f))"

definition untouched :: "string \<Rightarrow> 'a io \<Rightarrow> bool" where
  "untouched q m \<longleftrightarrow> (\<forall>w. let w' = snd (run_state m w)
     in w_files w' q = w_files w q \<and> hist_ext w w' (\<lambda>f. f q = w_files w q))"

definition steady :: "'a io \<Rightarrow> bool" where
  "steady m \<longleftrightarrow> (\<forall>w. let w' = snd (run_state m w)
     in w_sys w' = w_sys w \<and> w_partial w' = w_partial w \<and> w_now w' = w_now w
       \<and> w_random w' = w_random w \<and> w_newmode w' = w_newmode w \<and> w_pid w' = w_pid w)"

named_theorems frames \<open>paths an operation leaves alone\<close>
named_theorems steadys \<open>operations that keep the environment\<close>

lemma hist_ext_refl [intro, simp]: "hist_ext w w P"
  by (simp add: hist_ext_def)

lemma hist_ext_same: "w_hist w' = w_hist w \<Longrightarrow> hist_ext w w' P"
  by (simp add: hist_ext_def)

lemma hist_ext_cons: "w_hist w' = f # w_hist w \<Longrightarrow> P f \<Longrightarrow> hist_ext w w' P"
  unfolding hist_ext_def by (rule exI [of _ "[f]"]) simp

lemma hist_ext_trans:
  assumes "hist_ext w w1 P" "hist_ext w1 w2 P"
  shows "hist_ext w w2 P"
proof -
  from assms obtain xs ys where "w_hist w1 = xs @ w_hist w" "\<forall>f \<in> set xs. P f"
    "w_hist w2 = ys @ w_hist w1" "\<forall>f \<in> set ys. P f"
    unfolding hist_ext_def by blast
  then show ?thesis unfolding hist_ext_def by (intro exI [of _ "ys @ xs"]) auto
qed

lemma hist_ext_mono: "hist_ext w w' P \<Longrightarrow> (\<And>f. P f \<Longrightarrow> Q f) \<Longrightarrow> hist_ext w w' Q"
  unfolding hist_ext_def by blast

text \<open>The same over the history list, for runs whose steps are all known.\<close>

definition hist_list :: "files list \<Rightarrow> (files \<Rightarrow> bool) \<Rightarrow> files list \<Rightarrow> bool" where
  "hist_list h0 P h \<longleftrightarrow> (\<exists>new. h = new @ h0 \<and> (\<forall>f \<in> set new. P f))"

lemma hist_ext_list: "hist_ext w w' P \<longleftrightarrow> hist_list (w_hist w) P (w_hist w')"
  by (simp add: hist_ext_def hist_list_def)

lemma hist_list_same [simp, intro]: "hist_list h P h"
  by (simp add: hist_list_def)

lemma hist_list_step [intro]: "P f \<Longrightarrow> hist_list h0 P h \<Longrightarrow> hist_list h0 P (f # h)"
  unfolding hist_list_def by (metis append_Cons set_ConsD)

lemma untouched_bind [frames]:
  assumes "untouched q m" "\<And>a. untouched q (f a)"
  shows "untouched q (State_Monad.bind m f)"
  unfolding untouched_def Let_def
proof
  fix w
  obtain a w1 where 1: "run_state m w = (a, w1)" by fastforce
  let ?w2 = "snd (run_state (f a) w1)"
  have q1: "w_files w1 q = w_files w q" "hist_ext w w1 (\<lambda>f. f q = w_files w q)"
    using assms(1) 1 unfolding untouched_def Let_def by (metis snd_conv)+
  have "w_files ?w2 q = w_files w1 q" "hist_ext w1 ?w2 (\<lambda>f. f q = w_files w1 q)"
    using assms(2) unfolding untouched_def Let_def by blast+
  with q1 show "w_files (snd (run_state (State_Monad.bind m f) w)) q = w_files w q \<and>
      hist_ext w (snd (run_state (State_Monad.bind m f) w)) (\<lambda>f. f q = w_files w q)"
    by (auto simp: 1 intro: hist_ext_trans)
qed

lemma untouched_return [frames]: "untouched q (State_Monad.return a)"
  by (simp add: untouched_def)

lemma untouched_if [frames]:
  "untouched q a \<Longrightarrow> untouched q b \<Longrightarrow> untouched q (if c then a else b)"
  by simp

lemma untouched_sys:
  assumes "\<And>w. w_files (eff w) q = w_files w q" "\<And>w. w_hist (eff w) = w_hist w"
  shows "untouched q (sys op can eff)"
  unfolding untouched_def Let_def sys_def using assms by (auto intro!: hist_ext_cons)

lemma untouched_calls [frames]:
  shows "untouched q (mk_dirs p)"
    and "untouched q (read_file p)"
    and "untouched q (file_exists p)"
    and "q \<noteq> p \<Longrightarrow> untouched q (open_trunc p)"
    and "q \<noteq> p \<Longrightarrow> untouched q (write_out p s)"
    and "q \<noteq> p \<Longrightarrow> untouched q (buffer_out p s)"
    and "q \<noteq> p \<Longrightarrow> untouched q (chmod p m)"
    and "q \<noteq> p \<Longrightarrow> untouched q (chown p g)"
    and "q \<noteq> p \<Longrightarrow> q \<noteq> p' \<Longrightarrow> untouched q (rename p p')"
    and "q \<noteq> p \<Longrightarrow> untouched q (remove_file p)"
    and "untouched q now"
    and "untouched q (rand_bytes n)"
    and "untouched q (cerr l)"
  unfolding mk_dirs_def open_trunc_def chmod_def chown_def rename_def remove_file_def
  by (auto intro!: untouched_sys simp: split: option.splits)
    (auto simp: untouched_def read_file_def file_exists_def now_def rand_bytes_def cerr_def
       write_out_def buffer_out_def Let_def hist_ext_def intro: exI [of _ "[_, _]"])

text \<open>The same for one directory.\<close>

definition keeps_dir :: "string \<Rightarrow> 'a io \<Rightarrow> bool" where
  "keeps_dir q m \<longleftrightarrow> (\<forall>w. w_dirs (snd (run_state m w)) q = w_dirs w q)"

named_theorems dir_frames \<open>directories an operation leaves alone\<close>

lemma keeps_dirD: "keeps_dir q m \<Longrightarrow> run_state m w = (a, w') \<Longrightarrow> w_dirs w' q = w_dirs w q"
  unfolding keeps_dir_def by (metis snd_conv)

lemma keeps_dir_bind [dir_frames]:
  "keeps_dir q m \<Longrightarrow> (\<And>a. keeps_dir q (f a)) \<Longrightarrow> keeps_dir q (State_Monad.bind m f)"
  unfolding keeps_dir_def by (simp split: prod.splits) (metis snd_conv)

lemma keeps_dir_basic [dir_frames]:
  "keeps_dir q (State_Monad.return a)" "keeps_dir q (read_file p)" "keeps_dir q (file_exists p)"
  "keeps_dir q now" "keeps_dir q (cerr l)" "keeps_dir q (write_out p s)" "keeps_dir q (open_trunc p)"
  "keeps_dir q (rename p p')" "keeps_dir q (remove_file p)" "q \<noteq> p \<Longrightarrow> keeps_dir q (mk_dirs p)"
  "q \<noteq> p \<Longrightarrow> keeps_dir q (chmod p m)" "q \<noteq> p \<Longrightarrow> keeps_dir q (chown p g)"
  by (simp_all add: keeps_dir_def read_file_def file_exists_def now_def cerr_def write_out_def open_trunc_def
      rename_def remove_file_def mk_dirs_def chmod_def chown_def sys_def Let_def set_text_def split: option.split)

lemma keeps_dir_if [dir_frames]: "keeps_dir q a \<Longrightarrow> keeps_dir q b \<Longrightarrow> keeps_dir q (if c then a else b)"
  by simp

lemma keeps_dir_wraps [dir_frames]:
  "keeps_dir q (pure a)" "keeps_dir q (raise x)" "keeps_dir q m \<Longrightarrow> keeps_dir q (plain m)"
  unfolding pure_def raise_def plain_def by (auto intro!: dir_frames)

lemma keeps_dir_tbind [dir_frames]:
  "keeps_dir q m \<Longrightarrow> (\<And>a. keeps_dir q (f a)) \<Longrightarrow> keeps_dir q (tbind m f)"
  unfolding tbind_def by (auto intro!: dir_frames split: sum.splits)

lemma steady_bind [steadys]:
  "steady m \<Longrightarrow> (\<And>a. steady (f a)) \<Longrightarrow> steady (State_Monad.bind m f)"
  unfolding steady_def Let_def by (simp split: prod.splits) (metis snd_conv)

lemma steady_basic [steadys]:
  "steady (State_Monad.return a)"
  "steady (read_file p)" "steady (file_exists p)" "steady now" "steady (rand_bytes n)"
  "steady (cerr l)" "steady (write_out p s)" "steady (buffer_out p s)"
  by (simp_all add: steady_def read_file_def file_exists_def now_def rand_bytes_def cerr_def
      write_out_def buffer_out_def Let_def)

lemma steady_calls [steadys]:
  "steady (mk_dirs p)" "steady (open_trunc p)" "steady (chmod p m)" "steady (chown p g)"
  "steady (rename p p')" "steady (remove_file p)"
  by (simp_all add: steady_def sys_def mk_dirs_def open_trunc_def chmod_def chown_def rename_def
      remove_file_def Let_def)

lemma steady_tbind [steadys]:
  "steady m \<Longrightarrow> (\<And>a. steady (f a)) \<Longrightarrow> steady (tbind m f)"
  unfolding tbind_def by (auto intro!: steadys split: sum.splits)

lemma steady_wraps [steadys]: "steady (pure a)" "steady (raise x)" "steady m \<Longrightarrow> steady (plain m)"
  unfolding pure_def raise_def plain_def by (auto intro!: steadys)

lemma untouched_tbind [frames]:
  "untouched q m \<Longrightarrow> (\<And>a. untouched q (f a)) \<Longrightarrow> untouched q (tbind m f)"
  unfolding tbind_def by (auto intro!: frames split: sum.splits)

lemma untouched_wraps [frames]:
  "untouched q (pure a)" "untouched q (raise x)" "untouched q m \<Longrightarrow> untouched q (plain m)"
  unfolding pure_def raise_def plain_def by (auto intro!: frames)

lemma steady_if [steadys]: "steady a \<Longrightarrow> steady b \<Longrightarrow> steady (if c then a else b)"
  by simp

lemma mk_dirs_files: "run_state (mk_dirs p) w = (b, w') \<Longrightarrow> w_files w' = w_files w"
  by (auto simp: mk_dirs_def sys_def split: if_splits)

lemma untouchedD:
  assumes "untouched q m" "run_state m w = (a, w')"
  shows "w_files w' q = w_files w q" "hist_ext w w' (\<lambda>f. f q = w_files w q)"
  using assms unfolding untouched_def Let_def by (metis snd_conv)+

section \<open>Atomic replacement, as an interface\<close>

text \<open>
  What the writers of the machine-owned files promise: on success the destination holds exactly
  the text, on failure it is what it was, and at no moment does it hold anything else. Only the
  destination and its temporary siblings are ever touched.
\<close>

locale atomic_replace =
  fixes put :: "string \<Rightarrow> string \<Rightarrow> bool io"
    and is_tmp :: "string \<Rightarrow> string \<Rightarrow> bool"
  assumes put_text: "run_state (put p s) w = (True, w') \<Longrightarrow> map_option i_text (w_files w' p) = Some s"
    and put_fail: "run_state (put p s) w = (False, w') \<Longrightarrow> w_files w' p = w_files w p"
    and put_hist: "run_state (put p s) w = (b, w') \<Longrightarrow>
          hist_ext w w' (\<lambda>f. f p = w_files w p \<or> f p = w_files w' p)"
    and put_frame: "q \<noteq> p \<Longrightarrow> \<not> is_tmp p q \<Longrightarrow> untouched q (put p s)"
    and put_steady: "steady (put p s)"
begin

lemma put_failed: "run_state (put p s) w = (b, w') \<Longrightarrow> \<not> b \<Longrightarrow> w_files w' p = w_files w p"
  using put_fail by (cases b) auto

text \<open>A reader at any moment sees the old text or the new one.\<close>

lemma put_visible:
  assumes "run_state (put p s) w = (b, w')"
  shows "hist_ext w w' (\<lambda>f. map_option i_text (f p) = map_option i_text (w_files w p)
           \<or> map_option i_text (f p) = Some s)"
proof (cases b)
  case True
  have "map_option i_text (w_files w' p) = Some s" using put_text [of p s w w'] assms True by simp
  with put_hist [OF assms] show ?thesis by (auto elim: hist_ext_mono)
next
  case False
  have "w_files w' p = w_files w p" using put_fail [of p s w w'] assms False by simp
  with put_hist [OF assms] show ?thesis by (auto elim: hist_ext_mono)
qed

lemma put_other:
  assumes "run_state (put p s) w = (b, w')" "q \<noteq> p" "\<not> is_tmp p q"
  shows "w_files w' q = w_files w q"
  using put_frame [OF assms(2,3), of s] assms(1) unfolding untouched_def Let_def by (metis snd_conv)

lemma put_all_or_nothing:
  assumes "run_state (put p s) w = (b, w')"
  shows "map_option i_text (w_files w' p) = (if b then Some s else map_option i_text (w_files w p))"
  using assms put_text put_fail by (cases b) force+

end

end
