(* ===== verification/Config.thy ===== *)
theory Config
  imports World
begin

text \<open>
  \<open>src/src/config.cpp\<close> (POSIX branches): where a session's files live. The process-wide slots (the flavor, the
  \<open>--config-dir\<close> override, the per-directory redirects) and the environment are one record.
\<close>

datatype flavor = Legacy | Modern

datatype session_dir = Modules | Plugins | Keyring | Data | Cache | Logs

record config =
  c_flavor :: flavor
  c_override :: string
  c_env :: "string \<rightharpoonup> string"
  c_dirs :: "session_dir \<rightharpoonup> string"

definition isModern :: "config \<Rightarrow> bool" where
  "isModern c \<longleftrightarrow> c_flavor c = Modern"

definition homeBase :: "config \<Rightarrow> string" where
  "homeBase c = (case c_env c ''HOME'' of None \<Rightarrow> ''/tmp'' | Some home \<Rightarrow> home)"

definition setConfigDir :: "string \<Rightarrow> config \<Rightarrow> config" where
  "setConfigDir path c = c\<lparr>c_override := path\<rparr>"

definition setFlavor :: "flavor \<Rightarrow> config \<Rightarrow> config" where
  "setFlavor f c = c\<lparr>c_flavor := f\<rparr>"

definition configDir :: "config \<Rightarrow> string" where
  "configDir c =
    (if c_override c \<noteq> [] then c_override c
     else case c_env c (if isModern c then ''LOGOSCTL_CONFIG_DIR'' else ''LOGOSCORE_CONFIG_DIR'') of
         Some envDir \<Rightarrow>
           (if envDir \<noteq> [] then envDir
            else homeBase c @ (if isModern c then ''/.logosctl'' else ''/.logoscore''))
       | None \<Rightarrow> homeBase c @ (if isModern c then ''/.logosctl'' else ''/.logoscore''))"

definition daemonDir :: "config \<Rightarrow> string" where
  "daemonDir c = configDir c @ ''/daemon''"

definition daemonConfigPath :: "config \<Rightarrow> string" where
  "daemonConfigPath c = daemonDir c @ (if isModern c then ''/config.yaml'' else ''/config.json'')"

definition daemonStatePath :: "config \<Rightarrow> string" where
  "daemonStatePath c = daemonDir c @ ''/state.json''"

definition daemonTokensPath :: "config \<Rightarrow> string" where
  "daemonTokensPath c = daemonDir c @ ''/tokens.json''"

definition daemonTokensDir :: "config \<Rightarrow> string" where
  "daemonTokensDir c = daemonDir c @ ''/tokens''"

definition clientDir :: "config \<Rightarrow> string" where
  "clientDir c = configDir c @ ''/client''"

definition clientConfigPath :: "config \<Rightarrow> string" where
  "clientConfigPath c = clientDir c @ (if isModern c then ''/config.yaml'' else ''/config.json'')"

text \<open>\<open>fs::path(raw).is_absolute()\<close> on POSIX is the leading slash.\<close>

definition is_absolute :: "string \<Rightarrow> bool" where
  "is_absolute p \<longleftrightarrow> starts_with_char p CHR ''/''"

definition resolveOverride :: "config \<Rightarrow> string \<Rightarrow> string" where
  "resolveOverride c raw =
    (if raw = [] then raw
     else if hd raw = CHR ''~'' \<and> (length raw = 1 \<or> raw ! 1 = CHR ''/'') \<and> homeBase c \<noteq> []
       then homeBase c @ tl raw
     else if hd raw = CHR ''/'' \<or> is_absolute raw then raw
     else configDir c @ ''/'' @ raw)"

definition sessionDir :: "config \<Rightarrow> session_dir \<Rightarrow> string \<Rightarrow> string" where
  "sessionDir c which defaultName =
    (case c_dirs c which of
       Some d \<Rightarrow> if d \<noteq> [] then d else configDir c @ ''/'' @ defaultName
     | None \<Rightarrow> configDir c @ ''/'' @ defaultName)"

definition setSessionDirOverride :: "session_dir \<Rightarrow> string \<Rightarrow> config \<Rightarrow> config" where
  "setSessionDirOverride which path c =
    (if path = [] then c\<lparr>c_dirs := (c_dirs c)(which := None)\<rparr>
     else c\<lparr>c_dirs := (c_dirs c)(which \<mapsto> resolveOverride c path)\<rparr>)"

definition modulesDir :: "config \<Rightarrow> string" where "modulesDir c = sessionDir c Modules ''modules''"
definition pluginsDir :: "config \<Rightarrow> string" where "pluginsDir c = sessionDir c Plugins ''plugins''"
definition keyringDir :: "config \<Rightarrow> string" where "keyringDir c = sessionDir c Keyring ''keyring''"
definition dataDir :: "config \<Rightarrow> string" where "dataDir c = sessionDir c Data ''data''"
definition cacheDir :: "config \<Rightarrow> string" where "cacheDir c = sessionDir c Cache ''cache''"
definition logsDir :: "config \<Rightarrow> string" where "logsDir c = sessionDir c Logs ''logs''"

text \<open>\<open>fs::path(a) / b\<close> on POSIX.\<close>

definition path_append :: "string \<Rightarrow> string \<Rightarrow> string" where
  "path_append a b =
    (if is_absolute b then b
     else if a = [] \<or> last a = CHR ''/'' then a @ b
     else a @ ''/'' @ b)"

definition downloadsDir :: "config \<Rightarrow> string" where
  "downloadsDir c = path_append (cacheDir c) ''downloads''"

definition unsafe_filename :: "string \<Rightarrow> bool" where
  "unsafe_filename f \<longleftrightarrow>
    f = [] \<or> CHR ''/'' \<in> set f \<or> CHR 92 \<in> set f \<or> has_sub f ''..''"

definition clientTokenPath :: "config \<Rightarrow> string \<Rightarrow> string" where
  "clientTokenPath c f =
    (if unsafe_filename f then clientDir c @ ''/__invalid_token_filename__''
     else clientDir c @ ''/'' @ f)"

definition tokenFromEnv :: "config \<Rightarrow> string" where
  "tokenFromEnv c =
    (case c_env c (if isModern c then ''LOGOSCTL_TOKEN'' else ''LOGOSCORE_TOKEN'') of
       Some t \<Rightarrow> t | None \<Rightarrow> [])"

definition getToken :: "config \<Rightarrow> string" where
  "getToken c = tokenFromEnv c"

section \<open>Containment of file names\<close>

lemma parent_path_snoc:
  "CHR ''/'' \<notin> set f \<Longrightarrow> parent_path (d @ ''/'' @ f) = d"
  "CHR ''/'' \<notin> set f \<Longrightarrow> filename (d @ ''/'' @ f) = f"
proof -
  assume nf: "CHR ''/'' \<notin> set f"
  have rl: "\<forall>x \<in> set (rev f). x \<noteq> CHR ''/''" using nf by auto
  have "dropWhile (\<lambda>c. c \<noteq> CHR ''/'') (rev f @ CHR ''/'' # rev d) = CHR ''/'' # rev d"
    and "takeWhile (\<lambda>c. c \<noteq> CHR ''/'') (rev f @ CHR ''/'' # rev d) = rev f"
    using takeWhile_append_stop [of "rev f" "\<lambda>c. c \<noteq> CHR ''/''" "CHR ''/'' # rev d"] rl by auto
  then show "parent_path (d @ ''/'' @ f) = d" "filename (d @ ''/'' @ f) = f"
    by (simp_all add: parent_path_def filename_def)
qed

text \<open>
  Whatever the token file is called, the client reads a file directly inside \<open>client/\<close>: no
  name escapes the directory.
\<close>

theorem clientTokenPath_contained:
  "parent_path (clientTokenPath c f) = clientDir c
   \<and> filename (clientTokenPath c f) \<noteq> ''..'' \<and> filename (clientTokenPath c f) \<noteq> []
   \<and> (filename (clientTokenPath c f) = f \<or> filename (clientTokenPath c f) = ''__invalid_token_filename__'')"
proof (cases "unsafe_filename f")
  case True
  then show ?thesis
    using parent_path_snoc [of "''__invalid_token_filename__''" "clientDir c"]
    by (simp add: clientTokenPath_def)
next
  case False
  then have "f \<noteq> []" "CHR ''/'' \<notin> set f" "\<not> has_sub f ''..''"
    by (auto simp: unsafe_filename_def)
  moreover from this have "f \<noteq> ''..''" by (auto simp: has_sub_iff)
  ultimately show ?thesis
    using False parent_path_snoc [of f "clientDir c"] by (simp add: clientTokenPath_def)
qed

end
