(* ===== verification/Iso_Time.thy ===== *)
theory Iso_Time
  imports String_Utils
begin

text \<open>
  The calendar calls of \<open>src/src/platform_compat.h\<close> and \<open>currentUtcIso8601\<close> of
  \<open>src/src/daemon/daemon_state.cpp\<close>, POSIX branches: \<open>gmtime_r\<close>, \<open>timegm\<close>, \<open>put_time\<close> and \<open>strptime\<close> with the one
  format the program uses, \<open>%Y-%m-%dT%H:%M:%SZ\<close>. Times are seconds since 1970 as integers.
\<close>

section \<open>Calendar\<close>

record tm =
  tm_year :: int  \<comment> \<open>the full year, not the offset from 1900\<close>
  tm_mon :: int   \<comment> \<open>0 to 11\<close>
  tm_mday :: int
  tm_hour :: int
  tm_min :: int
  tm_sec :: int

definition leap :: "int \<Rightarrow> bool" where
  "leap y \<longleftrightarrow> (y mod 4 = 0 \<and> y mod 100 \<noteq> 0) \<or> y mod 400 = 0"

definition ylen :: "int \<Rightarrow> int" where
  "ylen y = (if leap y then 366 else 365)"

definition leaps :: "int \<Rightarrow> int" where
  "leaps y = y div 4 - y div 100 + y div 400"

text \<open>Days from 1970-01-01 to January 1st of year \<open>y\<close>.\<close>

definition year_start :: "int \<Rightarrow> int" where
  "year_start y = 365 * (y - 1970) + leaps (y - 1) - leaps 1969"

definition mlen :: "int \<Rightarrow> int \<Rightarrow> int" where
  "mlen y m = (if m = 1 then (if leap y then 29 else 28)
     else if m = 3 \<or> m = 5 \<or> m = 8 \<or> m = 10 then 30 else 31)"

definition month_start :: "int \<Rightarrow> int \<Rightarrow> int" where
  "month_start y m = (\<Sum>k = 0..<nat m. mlen y (int k))"

definition timegm :: "tm \<Rightarrow> int" where
  "timegm t = ((year_start (tm_year t) + month_start (tm_year t) (tm_mon t) + tm_mday t - 1) * 24
     + tm_hour t) * 3600 + tm_min t * 60 + tm_sec t"

text \<open>\<open>gmtime_r\<close>: the year, then the month, by subtracting lengths.\<close>

function year_of :: "int \<Rightarrow> int \<Rightarrow> int \<times> int" where
  "year_of y d = (if d < ylen y then (y, d) else year_of (y + 1) (d - ylen y))"
  by pat_completeness auto
termination
  by (relation "measure (\<lambda>(y, d). nat d)") (auto simp: ylen_def split: if_splits)

declare year_of.simps [simp del]

fun month_of :: "nat \<Rightarrow> int \<Rightarrow> int \<Rightarrow> int \<Rightarrow> int \<times> int" where
  "month_of 0 y m d = (m, d)"
| "month_of (Suc n) y m d = (if d < mlen y m then (m, d) else month_of n y (m + 1) (d - mlen y m))"

definition gmtime :: "int \<Rightarrow> tm" where
  "gmtime t =
    (let days = t div 86400; secs = t mod 86400;
         (y, yd) = year_of (1970 + 400 * (days div 146097)) (days mod 146097);
         (m, md) = month_of 11 y 0 yd
     in \<lparr>tm_year = y, tm_mon = m, tm_mday = md + 1,
         tm_hour = secs div 3600, tm_min = secs mod 3600 div 60, tm_sec = secs mod 60\<rparr>)"

section \<open>Printing and parsing the stamp\<close>

definition pad2 :: "int \<Rightarrow> string" where
  "pad2 n = [digit_char (nat n div 10), digit_char (nat n mod 10)]"

definition put_time :: "tm \<Rightarrow> string" where
  "put_time t = show_int (tm_year t) @ ''-'' @ pad2 (tm_mon t + 1) @ ''-'' @ pad2 (tm_mday t) @ ''T''
     @ pad2 (tm_hour t) @ '':'' @ pad2 (tm_min t) @ '':'' @ pad2 (tm_sec t) @ ''Z''"

definition currentUtcIso8601 :: "int \<Rightarrow> string" where
  "currentUtcIso8601 tt = put_time (gmtime tt)"

text \<open>
  One numeric conversion of \<open>strptime\<close>: leading white space is skipped, at most \<open>n\<close> digits are
  read while the value can still grow within \<open>hi\<close>, and the value must lie in the field's range.
\<close>

fun get_digits :: "nat \<Rightarrow> nat \<Rightarrow> nat \<Rightarrow> string \<Rightarrow> nat \<times> string" where
  "get_digits 0 hi v s = (v, s)"
| "get_digits (Suc n) hi v [] = (v, [])"
| "get_digits (Suc n) hi v (c # cs) =
    (if is_digit c \<and> v * 10 \<le> hi then get_digits n hi (v * 10 + digit_val c) cs else (v, c # cs))"

definition get_number :: "nat \<Rightarrow> nat \<Rightarrow> nat \<Rightarrow> string \<Rightarrow> (nat \<times> string) option" where
  "get_number lo hi n s =
    (case dropWhile (\<lambda>c. c \<in> set ws) s of
       [] \<Rightarrow> None
     | c # cs \<Rightarrow>
        if is_digit c
        then (let (v, rest) = get_digits (n - 1) hi (digit_val c) cs
              in if lo \<le> v \<and> v \<le> hi then Some (v, rest) else None)
        else None)"

definition expect :: "char \<Rightarrow> string \<Rightarrow> string option" where
  "expect c s = (case s of [] \<Rightarrow> None | d # ds \<Rightarrow> if d = c then Some ds else None)"

text \<open>
  \<open>strptime(s, "%Y-%m-%dT%H:%M:%SZ", &out)\<close>: the broken-down time and the unread rest, \<open>None\<close>
  for a null pointer.
\<close>

definition strptime :: "string \<Rightarrow> (tm \<times> string) option" where
  "strptime s = do {
     (y, s) \<leftarrow> get_number 0 9999 4 s;
     s \<leftarrow> expect CHR ''-'' s;
     (mo, s) \<leftarrow> get_number 1 12 2 s;
     s \<leftarrow> expect CHR ''-'' s;
     (d, s) \<leftarrow> get_number 1 31 2 s;
     s \<leftarrow> expect CHR ''T'' s;
     (h, s) \<leftarrow> get_number 0 23 2 s;
     s \<leftarrow> expect CHR '':'' s;
     (mi, s) \<leftarrow> get_number 0 59 2 s;
     s \<leftarrow> expect CHR '':'' s;
     (sec, s) \<leftarrow> get_number 0 61 2 s;
     s \<leftarrow> expect CHR ''Z'' s;
     Some (\<lparr>tm_year = int y, tm_mon = int mo - 1, tm_mday = int d,
            tm_hour = int h, tm_min = int mi, tm_sec = int sec\<rparr>, s) }"

definition strptimeIso8601Utc :: "string \<Rightarrow> tm option" where
  "strptimeIso8601Utc s = map_option fst (strptime s)"

section \<open>The calendar round trip\<close>

lemma div_pred: "0 < n \<Longrightarrow> y div n - (y - 1) div n = (if y mod n = 0 then 1 else 0)" for n y :: int
proof -
  assume n: "0 < n"
  have y: "y = n * (y div n) + y mod n" "0 \<le> y mod n" "y mod n < n" using n by simp_all
  show ?thesis
  proof (cases "y mod n = 0")
    case True
    have "(y - 1) div n = y div n - 1"
      by (rule int_div_pos_eq [where r = "n - 1"]) (use y True n in \<open>simp_all add: algebra_simps\<close>)
    with True show ?thesis by simp
  next
    case False
    have "(y - 1) div n = y div n"
    proof (rule int_div_pos_eq [where r = "y mod n - 1"])
      show "y - 1 = n * (y div n) + (y mod n - 1)" using y(1) by linarith
      show "0 \<le> y mod n - 1" "y mod n - 1 < n" using y(2,3) False by linarith+
    qed
    with False show ?thesis by simp
  qed
qed

lemma diff_three:
  "a - a' = x \<Longrightarrow> b - b' = y \<Longrightarrow> c - c' = z \<Longrightarrow> a - b + c - (a' - b' + c') = x - y + z" for x y z :: int
  by simp

lemma leaps_step: "leaps y - leaps (y - 1) = (if leap y then 1 else 0)"
proof -
  have "y mod 400 = 0 \<Longrightarrow> y mod 100 = 0" "y mod 100 = 0 \<Longrightarrow> y mod 4 = 0"
    using dvd_trans [of 100 400 y] dvd_trans [of 4 100 y] by auto
  moreover have "leaps y - leaps (y - 1) = (if y mod 4 = 0 then 1 else 0)
      - (if y mod 100 = 0 then 1 else 0) + (if y mod 400 = 0 then 1 else 0)"
    unfolding leaps_def by (rule diff_three) (rule div_pred, simp)+
  ultimately show ?thesis
    unfolding leap_def by (cases "y mod 4 = 0"; cases "y mod 100 = 0"; cases "y mod 400 = 0") simp_all
qed

lemma year_start_step: "year_start (y + 1) = year_start y + ylen y"
proof -
  have "leaps y = leaps (y - 1) + (if leap y then 1 else 0)" using leaps_step [of y] by linarith
  then show ?thesis by (simp add: year_start_def ylen_def)
qed

lemma year_start_era: "year_start (y + 400 * k) = year_start y + 146097 * k"
proof -
  have e: "(y + 400 * k - 1) div n = (y - 1) div n + m * k" if "0 < n" "n * m = 400" for n m :: int
  proof -
    have "y + 400 * k - 1 = (y - 1) + n * (m * k)" using that(2) by (simp add: mult.assoc [symmetric])
    then show ?thesis using that(1) by (simp only:) simp
  qed
  show ?thesis
    using e [of 4 100] e [of 100 4] e [of 400 1] by (simp add: year_start_def leaps_def)
qed

lemma year_of_correct:
  "0 \<le> d \<Longrightarrow> year_of y d = (y', d') \<Longrightarrow>
    year_start y' + d' = year_start y + d \<and> 0 \<le> d' \<and> d' < ylen y' \<and> y \<le> y'"
proof (induction y d arbitrary: y' d' rule: year_of.induct)
  case (1 y d)
  show ?case
  proof (cases "d < ylen y")
    case True
    with 1 show ?thesis by (simp add: year_of.simps)
  next
    case False
    then have "year_of (y + 1) (d - ylen y) = (y', d')" using "1.prems"(2) by (simp add: year_of.simps)
    with "1.IH" False have "year_start y' + d' = year_start (y + 1) + (d - ylen y)
        \<and> 0 \<le> d' \<and> d' < ylen y' \<and> y + 1 \<le> y'" by simp
    then show ?thesis by (simp add: year_start_step)
  qed
qed

lemma year_of_bound: "0 \<le> d \<Longrightarrow> year_of y d = (y', d') \<Longrightarrow> d < year_start Y - year_start y \<Longrightarrow> y' < Y"
proof (rule ccontr)
  assume a: "0 \<le> d" "year_of y d = (y', d')" "d < year_start Y - year_start y" "\<not> y' < Y"
  have mono: "year_start Y \<le> year_start (Y + int k)" for k
  proof (induction k)
    case (Suc k)
    have "year_start (Y + int (Suc k)) = year_start (Y + int k) + ylen (Y + int k)"
      using year_start_step [of "Y + int k"] by (simp add: algebra_simps)
    moreover have "0 \<le> ylen (Y + int k)" by (simp add: ylen_def)
    ultimately show ?case using Suc by linarith
  qed simp
  have "year_start Y \<le> year_start y'" using mono [of "nat (y' - Y)"] a(4) by simp
  with year_of_correct [OF a(1,2)] a(3) show False by simp
qed

lemma month_start_step: "0 \<le> m \<Longrightarrow> month_start y (m + 1) = month_start y m + mlen y m"
proof -
  assume m: "0 \<le> m"
  then have "nat (m + 1) = Suc (nat m)" by simp
  with m show ?thesis by (simp add: month_start_def)
qed

lemma month_of_correct:
  "0 \<le> d \<Longrightarrow> 0 \<le> m \<Longrightarrow> month_of n y m d = (m', d') \<Longrightarrow>
    month_start y m' + d' = month_start y m + d \<and> 0 \<le> d' \<and> m \<le> m' \<and> m' \<le> m + int n
    \<and> (d' < mlen y m' \<or> m' = m + int n)"
proof (induction n y m d arbitrary: m' d' rule: month_of.induct)
  case (2 n y m d)
  show ?case
  proof (cases "d < mlen y m")
    case True
    with 2 show ?thesis by auto
  next
    case False
    with 2 have "month_start y m' + d' = month_start y (m + 1) + (d - mlen y m) \<and> 0 \<le> d'
        \<and> m + 1 \<le> m' \<and> m' \<le> m + 1 + int n \<and> (d' < mlen y m' \<or> m' = m + 1 + int n)" by simp
    with "2.prems"(2) show ?thesis by (auto simp: month_start_step)
  qed
qed simp

lemma month_start_12: "month_start y 11 + mlen y 11 = ylen y"
  by (simp add: month_start_def mlen_def ylen_def eval_nat_numeral)

lemma div_less_bound: "0 < n \<Longrightarrow> a < n * b \<Longrightarrow> a div n < b" for a n b :: int
proof (rule ccontr)
  assume n: "0 < n" and a: "a < n * b" and "\<not> a div n < b"
  then have "n * b \<le> n * (a div n)" by (simp add: mult_left_mono)
  moreover have "n * (a div n) \<le> a" using n by (simp add: minus_mod_eq_mult_div [symmetric])
  ultimately show False using a by simp
qed

lemma gmtime_correct:
  "timegm (gmtime t) = t"
  "0 \<le> tm_mon (gmtime t) \<and> tm_mon (gmtime t) \<le> 11"
  "1 \<le> tm_mday (gmtime t) \<and> tm_mday (gmtime t) \<le> 31"
  "0 \<le> tm_hour (gmtime t) \<and> tm_hour (gmtime t) \<le> 23"
  "0 \<le> tm_min (gmtime t) \<and> tm_min (gmtime t) \<le> 59"
  "0 \<le> tm_sec (gmtime t) \<and> tm_sec (gmtime t) \<le> 59"
proof -
  define days where "days = t div 86400"
  define secs where "secs = t mod 86400"
  define y0 where "y0 = 1970 + 400 * (days div 146097)"
  obtain y yd where Y: "year_of y0 (days mod 146097) = (y, yd)" by fastforce
  obtain m md where M: "month_of 11 y 0 yd = (m, md)" by fastforce
  have g: "gmtime t = \<lparr>tm_year = y, tm_mon = m, tm_mday = md + 1, tm_hour = secs div 3600,
      tm_min = secs mod 3600 div 60, tm_sec = secs mod 60\<rparr>"
    using Y M by (simp add: gmtime_def Let_def days_def secs_def y0_def)
  have y0: "year_start y0 = 146097 * (days div 146097)"
    unfolding y0_def year_start_era by (simp add: year_start_def)
  have yc: "year_start y + yd = year_start y0 + days mod 146097" "0 \<le> yd" "yd < ylen y"
    using year_of_correct [OF _ Y] by simp_all
  have mc: "month_start y m + md = yd" "0 \<le> md" "0 \<le> m" "m \<le> 11" "md < mlen y m \<or> m = 11"
    using month_of_correct [OF yc(2) _ M] by (simp_all add: month_start_def)
  have md31: "md \<le> 30"
  proof (cases "m = 11")
    case True
    with mc(1) yc(3) month_start_12 [of y] show ?thesis by (simp add: mlen_def)
  next
    case False
    with mc(5) show ?thesis by (auto simp: mlen_def split: if_splits)
  qed
  have secs: "0 \<le> secs" "secs < 86400" "days * 86400 + secs = t"
    by (simp_all add: secs_def days_def)
  have "days = year_start y + month_start y m + md" using y0 yc(1) mc(1) by simp
  moreover have "secs div 3600 * 3600 + secs mod 3600 div 60 * 60 + secs mod 60 = secs"
  proof -
    have "secs mod 3600 div 60 * 60 + secs mod 60 = secs mod 3600"
      using div_mult_mod_eq [of "secs mod 3600" 60] mod_mod_cancel [of 60 3600 secs] by simp
    then show ?thesis using div_mult_mod_eq [of secs 3600] by (simp only: add.assoc)
  qed
  moreover have "timegm (gmtime t) = (year_start y + month_start y m + md) * 86400
      + (secs div 3600 * 3600 + secs mod 3600 div 60 * 60 + secs mod 60)"
  proof -
    have alg: "((a + b + (md + 1) - 1) * 24 + h) * 3600 + mi * 60 + s = (a + b + md) * 86400 + (h * 3600 + mi * 60 + s)"
      for a b h mi s :: int by simp
    show ?thesis unfolding g timegm_def tm.simps by (rule alg)
  qed
  ultimately show "timegm (gmtime t) = t" using secs(3) by (simp only:)
  show "0 \<le> tm_mon (gmtime t) \<and> tm_mon (gmtime t) \<le> 11"
    "1 \<le> tm_mday (gmtime t) \<and> tm_mday (gmtime t) \<le> 31" using mc(2,3,4) md31 by (simp_all add: g)
  have "secs div 3600 < 24" by (rule div_less_bound [of 3600 secs 24]) (use secs in simp_all)
  moreover have "secs mod 3600 div 60 < 60" by (rule div_less_bound) simp_all
  moreover have "0 \<le> secs div 3600" "0 \<le> secs mod 3600 div 60" "0 \<le> secs mod 60" "secs mod 60 < 60"
    using secs(1) by (simp_all add: pos_imp_zdiv_nonneg_iff)
  ultimately show "0 \<le> tm_hour (gmtime t) \<and> tm_hour (gmtime t) \<le> 23"
    "0 \<le> tm_min (gmtime t) \<and> tm_min (gmtime t) \<le> 59"
    "0 \<le> tm_sec (gmtime t) \<and> tm_sec (gmtime t) \<le> 59" unfolding g tm.simps by auto
qed

text \<open>The stamps from 1970 to the end of year 9999, the range \<open>%Y\<close> reads back.\<close>

lemma gmtime_year:
  assumes "0 \<le> t" "t < 253402300800"
  shows "1970 \<le> tm_year (gmtime t) \<and> tm_year (gmtime t) \<le> 9999"
proof -
  define days where "days = t div 86400"
  have days: "0 \<le> days" "days < 2932897" using assms by (auto simp: days_def)
  define y0 where "y0 = 1970 + 400 * (days div 146097)"
  obtain y yd where Y: "year_of y0 (days mod 146097) = (y, yd)" by fastforce
  have g: "tm_year (gmtime t) = y"
    using Y by (simp add: gmtime_def Let_def days_def y0_def split: prod.splits)
  have "year_start y0 = 146097 * (days div 146097)"
    unfolding y0_def year_start_era by (simp add: year_start_def)
  moreover have "year_start 10000 = 2932897" by (simp add: year_start_def leaps_def)
  moreover have "146097 * (days div 146097) + days mod 146097 = days" by simp
  ultimately have "days mod 146097 < year_start 10000 - year_start y0" using days(2) by linarith
  from year_of_bound [OF _ Y this] have "y < 10000" by simp
  moreover have "y0 \<le> y" using year_of_correct [OF _ Y] by simp
  moreover have "1970 \<le> y0" using days(1) by (simp add: y0_def)
  ultimately show ?thesis by (simp add: g)
qed

section \<open>The stamp round trip\<close>

lemma digit_char_not_ws [simp]: "d < 10 \<Longrightarrow> digit_char d \<notin> set ws"
  by (auto simp: ws_def digit_char_def dest!: arg_cong [where f = "of_char :: char \<Rightarrow> nat"])

lemma get_number_pad2:
  assumes "0 \<le> n" "n \<le> int hi" "int lo \<le> n" "hi < 100"
  shows "get_number lo hi 2 (pad2 n @ rest) = Some (nat n, rest)"
proof -
  define k where "k = nat n"
  have k: "k \<le> hi" "lo \<le> k" "k < 100" using assms by (auto simp: k_def)
  have d: "k div 10 < 10" "k mod 10 < 10" using k by auto
  have h: "k div 10 * 10 \<le> hi" using k(1) by (metis div_times_less_eq_dividend order_trans)
  show ?thesis
    using k d by (simp add: h get_number_def pad2_def k_def [symmetric])
qed

lemma get_digits_all:
  "\<forall>c \<in> set ds. is_digit c \<Longrightarrow> length ds \<le> n \<Longrightarrow> (foldl (\<lambda>a c. 10 * a + digit_val c) v ds) \<le> hi \<Longrightarrow>
    rest = [] \<or> \<not> is_digit (hd rest) \<Longrightarrow>
    get_digits n hi v (ds @ rest) = (foldl (\<lambda>a c. 10 * a + digit_val c) v ds, rest)"
proof (induction ds arbitrary: n v)
  case Nil
  then show ?case by (cases n; cases rest) auto
next
  case (Cons d ds)
  obtain n' where n: "n = Suc n'" using Cons.prems(2) by (cases n) auto
  have grow: "a \<le> foldl (\<lambda>a c. 10 * a + digit_val c) a xs" for a xs
  proof (induction xs arbitrary: a)
    case (Cons x xs)
    have "a \<le> 10 * a + digit_val x" by simp
    with Cons [of "10 * a + digit_val x"] show ?case by simp
  qed simp
  have "10 * v + digit_val d \<le> hi" using grow [of "10 * v + digit_val d" ds] Cons.prems(3) by simp
  with Cons n show ?case by (simp add: mult.commute)
qed

lemma show_nat_length: "n < 10 ^ k \<Longrightarrow> 0 < k \<Longrightarrow> length (show_nat n) \<le> k"
proof (induction k arbitrary: n)
  case (Suc k)
  show ?case
  proof (cases "n < 10")
    case True
    then show ?thesis by (subst show_nat.simps) simp
  next
    case False
    then have "0 < k" using Suc.prems by (cases k) auto
    moreover have "n div 10 < 10 ^ k" using Suc.prems by (simp add: less_mult_imp_div_less)
    ultimately show ?thesis using Suc.IH False by (subst show_nat.simps) simp
  qed
qed simp

lemma get_number_year:
  assumes "0 \<le> y" "y \<le> 9999"
  shows "get_number 0 9999 4 (show_int y @ CHR ''-'' # rest) = Some (nat y, CHR ''-'' # rest)"
proof -
  define k where "k = nat y"
  have k: "k \<le> 9999" using assms by (auto simp: k_def)
  obtain c cs where cs: "show_nat k = c # cs" by (cases "show_nat k") (use show_nat_nonempty in auto)
  have dig: "\<forall>x \<in> set (c # cs). is_digit x" using show_nat_digits [of k] cs by simp
  have len: "length (c # cs) \<le> 4" using show_nat_length [of k 4] k cs by simp
  have val: "foldl (\<lambda>a c. 10 * a + digit_val c) (digit_val c) cs = k"
    using read_show_nat [of k] by (simp add: cs read_nat_def)
  have nws: "c \<notin> set ws" using dig by (auto simp: ws_def is_digit_def)
  have nd: "\<not> is_digit (CHR ''-'')" by (simp add: is_digit_def)
  have "get_digits 3 9999 (digit_val c) (cs @ CHR ''-'' # rest) = (k, CHR ''-'' # rest)"
    using get_digits_all [of cs 3 "digit_val c" 9999 "CHR ''-'' # rest"] dig len k val nd by simp
  then show ?thesis
    using assms dig k nws by (simp add: get_number_def show_int_def k_def [symmetric] cs)
qed

lemma strptime_put_time:
  assumes "0 \<le> tm_year t" "tm_year t \<le> 9999" "0 \<le> tm_mon t" "tm_mon t \<le> 11"
    "1 \<le> tm_mday t" "tm_mday t \<le> 31" "0 \<le> tm_hour t" "tm_hour t \<le> 23"
    "0 \<le> tm_min t" "tm_min t \<le> 59" "0 \<le> tm_sec t" "tm_sec t \<le> 59"
  shows "strptime (put_time t @ rest) = Some (t, rest)"
  using assms
  by (simp add: strptime_def put_time_def get_number_year get_number_pad2 expect_def)

lemma iso_roundtrip:
  assumes "0 \<le> t" "t < 253402300800"
  shows "map_option timegm (strptimeIso8601Utc (currentUtcIso8601 t)) = Some t"
  using assms gmtime_year [OF assms] gmtime_correct [of t]
    strptime_put_time [of "gmtime t" "[]"]
  by (simp add: currentUtcIso8601_def strptimeIso8601Utc_def)

end
