(* ===== verification/Json.thy ===== *)
theory Json
  imports Prelude
begin

text \<open>
  JSON values as the sources use them through \<open>nlohmann::json\<close>: the value type with its three
  number kinds, objects as \<open>std::map\<close>s (fields sorted by key, one entry per key), the accessors
  that throw, and what a value becomes when it is written as text and parsed again. The text
  printer and parser are a library outside \<open>src/\<close>: they are the fields of \<open>json_lib\<close>, a parameter
  of every operation that reads or writes a document, and \<open>json_lib_ok\<close> is the documented
  behaviour the theorems rely on.
\<close>

section \<open>Values\<close>

text \<open>
  \<open>JInt\<close> is \<open>number_integer\<close> (\<open>int64_t\<close>), \<open>JUInt\<close> is \<open>number_unsigned\<close> (\<open>uint64_t\<close>), \<open>JFloat\<close>
  is \<open>number_float\<close>, carried as the 64 bits of the IEEE double.
\<close>

datatype json =
    JNull
  | JBool bool
  | JInt int
  | JUInt int
  | JFloat "64 word"
  | JStr string
  | JArr "json list"
  | JObj "(string \<times> json) list"

type_synonym fields = "(string \<times> json) list"

abbreviation is_object :: "json \<Rightarrow> bool" where
  "is_object j \<equiv> (case j of JObj _ \<Rightarrow> True | _ \<Rightarrow> False)"

abbreviation is_array :: "json \<Rightarrow> bool" where
  "is_array j \<equiv> (case j of JArr _ \<Rightarrow> True | _ \<Rightarrow> False)"

abbreviation is_string :: "json \<Rightarrow> bool" where
  "is_string j \<equiv> (case j of JStr _ \<Rightarrow> True | _ \<Rightarrow> False)"

abbreviation is_boolean :: "json \<Rightarrow> bool" where
  "is_boolean j \<equiv> (case j of JBool _ \<Rightarrow> True | _ \<Rightarrow> False)"

abbreviation is_number :: "json \<Rightarrow> bool" where
  "is_number j \<equiv> (case j of JInt _ \<Rightarrow> True | JUInt _ \<Rightarrow> True | JFloat _ \<Rightarrow> True | _ \<Rightarrow> False)"

abbreviation is_null :: "json \<Rightarrow> bool" where
  "is_null j \<equiv> j = JNull"

text \<open>\<open>json::type_name()\<close>.\<close>

fun type_name :: "json \<Rightarrow> string" where
  "type_name JNull = ''null''"
| "type_name (JObj _) = ''object''"
| "type_name (JArr _) = ''array''"
| "type_name (JStr _) = ''string''"
| "type_name (JBool _) = ''boolean''"
| "type_name (JInt _) = ''number''"
| "type_name (JUInt _) = ''number''"
| "type_name (JFloat _) = ''number''"

section \<open>Objects\<close>

text \<open>\<open>operator[](key) = value\<close> on an object: insertion in key order, overwriting.\<close>

fun jins :: "string \<Rightarrow> json \<Rightarrow> fields \<Rightarrow> fields" where
  "jins k v [] = [(k, v)]"
| "jins k v ((a, b) # r) =
    (if k = a then (k, v) # r
     else if k < a then (k, v) # (a, b) # r
     else (a, b) # jins k v r)"

text \<open>A sequence of assignments to a fresh object, in program order.\<close>

definition put_all :: "fields \<Rightarrow> fields \<Rightarrow> fields" where
  "put_all asg o0 = fold (\<lambda>(k, v) acc. jins k v acc) asg o0"

definition mk_obj :: "fields \<Rightarrow> json" where
  "mk_obj asg = JObj (put_all asg [])"

definition sorted_keys :: "fields \<Rightarrow> bool" where
  "sorted_keys kvs \<longleftrightarrow> sorted_wrt (<) (map fst kvs)"

lemma map_of_jins [json_simps, simp]: "map_of (jins k v kvs) = (map_of kvs)(k \<mapsto> v)"
  by (induction k v kvs rule: jins.induct) (auto simp: fun_eq_iff)

lemma keys_jins [simp]: "fst ` set (jins k v kvs) = insert k (fst ` set kvs)"
  by (induction k v kvs rule: jins.induct) auto

lemma set_jins_subset: "set (jins k v kvs) \<subseteq> insert (k, v) (set kvs)"
  by (induction k v kvs rule: jins.induct) auto

lemma sorted_keys_Cons [simp]:
  "sorted_keys ((a, b) # r) \<longleftrightarrow> (\<forall>x \<in> fst ` set r. a < x) \<and> sorted_keys r"
  by (simp add: sorted_keys_def)

lemma sorted_keys_jins [intro, simp]: "sorted_keys kvs \<Longrightarrow> sorted_keys (jins k v kvs)"
proof (induction k v kvs rule: jins.induct)
  case (1 k v)
  then show ?case by (simp add: sorted_keys_def)
next
  case (2 k v a b r)
  consider "k = a" | "k \<noteq> a" "k < a" | "k \<noteq> a" "a < k" by (metis linorder_neqE)
  then show ?case
  proof cases
    case 1
    with 2 show ?thesis by simp
  next
    case 2
    then show ?thesis using "2.prems" by (auto intro: less_trans)
  next
    case 3
    then have "\<not> k < a" by (simp add: not_less_iff_gr_or_eq)
    with 2 3 show ?thesis by (simp del: jins.simps add: jins.simps(2))
  qed
qed

lemma sorted_keys_Nil [simp]: "sorted_keys []"
  by (simp add: sorted_keys_def)

lemma put_all_Nil [simp]: "put_all [] o0 = o0"
  by (simp add: put_all_def)

lemma put_all_Cons [simp]: "put_all ((k, v) # asg) o0 = put_all asg (jins k v o0)"
  by (simp add: put_all_def)

lemma put_all_append [simp]: "put_all (xs @ ys) o0 = put_all ys (put_all xs o0)"
  by (simp add: put_all_def)

lemma sorted_keys_put_all [simp]: "sorted_keys o0 \<Longrightarrow> sorted_keys (put_all asg o0)"
  by (induction asg arbitrary: o0) auto

lemma map_of_put_all [json_simps]: "map_of (put_all asg o0) = map_of o0 ++ map_of (rev asg)"
proof (induction asg arbitrary: o0)
  case (Cons kv asg)
  then show ?case by (cases kv) (simp add: map_add_def fun_eq_iff split: option.splits)
qed simp

lemma map_of_mk [json_simps]: "map_of (put_all asg []) = map_of (rev asg)"
  by (simp add: map_of_put_all)

lemma set_put_all_subset: "set (put_all asg o0) \<subseteq> set asg \<union> set o0"
proof (induction asg arbitrary: o0)
  case (Cons kv asg)
  obtain k v where kv: "kv = (k, v)" by fastforce
  have "set (put_all asg (jins k v o0)) \<subseteq> set asg \<union> set (jins k v o0)" by (rule Cons.IH)
  with set_jins_subset [of k v o0] show ?case by (auto simp: kv)
qed simp

text \<open>Two objects with sorted keys are equal when they agree as maps.\<close>

lemma sorted_keys_distinct: "sorted_keys kvs \<Longrightarrow> distinct (map fst kvs)"
  unfolding sorted_keys_def by (induction kvs) force+

lemma map_of_below:
  fixes r :: fields
  shows "\<forall>x \<in> fst ` set r. a < x \<Longrightarrow> c \<le> a \<Longrightarrow> map_of r c = None"
  unfolding map_of_eq_None_iff by (meson leD)

lemma sorted_keys_unique:
  "sorted_keys xs \<Longrightarrow> sorted_keys ys \<Longrightarrow> map_of xs = map_of ys \<Longrightarrow> xs = ys"
proof (induction xs arbitrary: ys)
  case Nil
  then show ?case by (metis map_of_eq_empty_iff map_of.simps(1))
next
  case (Cons x xs)
  obtain a v where x: "x = (a, v)" by fastforce
  have "ys \<noteq> []" using fun_cong [OF Cons.prems(3), of a] x by auto
  then obtain b w zs where ys: "ys = (b, w) # zs" by (metis neq_Nil_conv surj_pair)
  have "\<not> a < b"
    using Cons.prems x ys map_of_below [of zs b a] by (auto simp: fun_eq_iff) (metis option.distinct(1) order.strict_iff_order)
  moreover have "\<not> b < a"
    using Cons.prems x ys map_of_below [of xs a b] by (auto simp: fun_eq_iff) (metis option.distinct(1) order.strict_iff_order)
  ultimately have ab: "a = b" by (simp add: not_less_iff_gr_or_eq)
  have vw: "v = w" using fun_cong [OF Cons.prems(3), of a] x ys ab by simp
  have "map_of xs = map_of zs"
  proof
    fix k
    show "map_of xs k = map_of zs k"
    proof (cases "k = a")
      case True
      then show ?thesis
        using Cons.prems x ys ab map_of_below [of xs a a] map_of_below [of zs a a] by simp
    next
      case False
      with fun_cong [OF Cons.prems(3), of k] x ys ab show ?thesis by simp
    qed
  qed
  with Cons x ys ab vw show ?case by simp
qed

text \<open>Writing in key order into an object rebuilds it.\<close>

lemma jins_last: "\<forall>x \<in> fst ` set kvs. x < k \<Longrightarrow> jins k v kvs = kvs @ [(k, v)]"
proof (induction kvs)
  case (Cons x kvs)
  obtain a b where x: "x = (a, b)" by fastforce
  with Cons.prems have "a < k" by simp
  then have "k \<noteq> a" "\<not> k < a" by (simp_all add: order_less_imp_not_less)
  with Cons x show ?case by simp
qed simp

lemma sorted_keys_append:
  "sorted_keys (xs @ ys) \<longleftrightarrow> sorted_keys xs \<and> sorted_keys ys \<and> (\<forall>x \<in> fst ` set xs. \<forall>y \<in> fst ` set ys. x < y)"
  by (auto simp: sorted_keys_def sorted_wrt_append)

lemma put_all_sorted: "sorted_keys (acc @ xs) \<Longrightarrow> put_all xs acc = acc @ xs"
proof (induction xs arbitrary: acc)
  case (Cons x xs)
  obtain k v where x: "x = (k, v)" by fastforce
  have "sorted_keys ((acc @ [(k, v)]) @ xs)" and "\<forall>y \<in> fst ` set acc. y < k"
    using Cons.prems by (auto simp: x sorted_keys_append)
  with Cons.IH [of "acc @ [(k, v)]"] show ?case by (simp add: x jins_last)
qed simp

section \<open>Accessors that throw\<close>

text \<open>
  \<open>json::value(key, default)\<close> throws on a value that is no object (type_error 306) and on an
  entry of the wrong type (type_error 302); a missing key gives the default.
\<close>

definition no_object :: exn where
  "no_object = Type_Error ''cannot use value() with a non-object''"

definition bad_type :: "string \<Rightarrow> json \<Rightarrow> exn" where
  "bad_type want j = Type_Error (''type must be '' @ want @ '', but is '' @ type_name j)"

definition get_str :: "json \<Rightarrow> exn + string" where
  "get_str j = (case j of JStr s \<Rightarrow> Inr s | _ \<Rightarrow> Inl (bad_type ''string'' j))"

definition get_bool :: "json \<Rightarrow> exn + bool" where
  "get_bool j = (case j of JBool b \<Rightarrow> Inr b | _ \<Rightarrow> Inl (bad_type ''boolean'' j))"

text \<open>
  The integer part of a finite double (\<open>static_cast\<close> truncates towards zero). The cast of a
  value outside the target range is undefined behaviour; here it is wrapped like an integer.
\<close>

definition dbl_exp :: "64 word \<Rightarrow> nat" where
  "dbl_exp d = nat ((uint d div 2 ^ 52) mod 2048)"

definition dbl_frac :: "64 word \<Rightarrow> int" where
  "dbl_frac d = uint d mod 2 ^ 52"

definition dbl_neg :: "64 word \<Rightarrow> bool" where
  "dbl_neg d \<longleftrightarrow> uint d \<ge> 2 ^ 63"

definition dbl_finite :: "64 word \<Rightarrow> bool" where
  "dbl_finite d \<longleftrightarrow> dbl_exp d \<noteq> 2047"

definition dbl_trunc :: "64 word \<Rightarrow> int" where
  "dbl_trunc d =
    (let e = dbl_exp d;
         m = dbl_frac d + (if e = 0 then 0 else 2 ^ 52);
         a = (if e \<ge> 1075 then m * 2 ^ (e - 1075) else m div 2 ^ (1075 - e))
     in if dbl_finite d then (if dbl_neg d then - a else a) else 0)"

definition wrap_int :: "nat \<Rightarrow> int \<Rightarrow> int" where
  "wrap_int w i = (i + 2 ^ (w - 1)) mod 2 ^ w - 2 ^ (w - 1)"

text \<open>\<open>get<int>()\<close> converts every number kind and booleans; \<open>get<int64_t>()\<close> rejects booleans.\<close>

definition get_int :: "json \<Rightarrow> exn + int" where
  "get_int j = (case j of
      JInt i \<Rightarrow> Inr (wrap_int 32 i)
    | JUInt i \<Rightarrow> Inr (wrap_int 32 i)
    | JFloat d \<Rightarrow> Inr (wrap_int 32 (dbl_trunc d))
    | JBool b \<Rightarrow> Inr (if b then 1 else 0)
    | _ \<Rightarrow> Inl (bad_type ''number'' j))"

definition get_int64 :: "json \<Rightarrow> exn + int" where
  "get_int64 j = (case j of
      JInt i \<Rightarrow> Inr (wrap_int 64 i)
    | JUInt i \<Rightarrow> Inr (wrap_int 64 i)
    | JFloat d \<Rightarrow> Inr (wrap_int 64 (dbl_trunc d))
    | _ \<Rightarrow> Inl (bad_type ''number'' j))"

definition jvalue :: "(json \<Rightarrow> exn + 'a) \<Rightarrow> json \<Rightarrow> string \<Rightarrow> 'a \<Rightarrow> exn + 'a" where
  "jvalue get j key dflt = (case j of
      JObj kvs \<Rightarrow> (case map_of kvs key of None \<Rightarrow> Inr dflt | Some v \<Rightarrow> get v)
    | _ \<Rightarrow> Inl no_object)"

text \<open>\<open>contains(key)\<close> and \<open>find(key)\<close> do not throw on a non-object: they find nothing.\<close>

definition jfind :: "json \<Rightarrow> string \<Rightarrow> json option" where
  "jfind j key = (case j of JObj kvs \<Rightarrow> map_of kvs key | _ \<Rightarrow> None)"

definition jcontains :: "json \<Rightarrow> string \<Rightarrow> bool" where
  "jcontains j key \<longleftrightarrow> jfind j key \<noteq> None"

lemma jfind_obj [simp, json_simps]: "jfind (JObj kvs) k = map_of kvs k"
  by (simp add: jfind_def)

lemma jfind_mk_obj [simp, json_simps]: "jfind (mk_obj asg) k = map_of (rev asg) k"
  by (simp add: mk_obj_def map_of_mk)

lemma jfind_nonobj: "\<not> is_object j \<Longrightarrow> jfind j k = None"
  by (cases j) (auto simp: jfind_def)

lemma wrap_int_id: "0 < w \<Longrightarrow> - (2 ^ (w - 1)) \<le> i \<Longrightarrow> i < 2 ^ (w - 1) \<Longrightarrow> wrap_int w i = i"
proof -
  assume w: "0 < w" and lo: "- (2 ^ (w - 1)) \<le> i" and hi: "i < 2 ^ (w - 1)"
  have "(2::int) ^ w = 2 * 2 ^ (w - 1)" using w by (cases w) auto
  with lo hi have "(i + 2 ^ (w - 1)) mod 2 ^ w = i + 2 ^ (w - 1)" by (intro mod_pos_pos_trivial) auto
  then show ?thesis by (simp add: wrap_int_def)
qed

section \<open>Text\<close>

text \<open>
  Valid UTF-8 (RFC 3629), read byte by byte: \<open>k\<close> continuation bytes are still due and the next
  one lies between \<open>lo\<close> and \<open>hi\<close>. \<open>dump()\<close> throws on any other string.
\<close>

fun utf8_run :: "nat \<Rightarrow> nat \<Rightarrow> nat \<Rightarrow> string \<Rightarrow> bool" where
  "utf8_run k lo hi [] = (k = 0)"
| "utf8_run 0 lo hi (c # cs) =
    (let b = (of_char c :: nat)
     in if b < 128 then utf8_run 0 128 191 cs
        else if 194 \<le> b \<and> b \<le> 223 then utf8_run 1 128 191 cs
        else if b = 224 then utf8_run 2 160 191 cs
        else if b = 237 then utf8_run 2 128 159 cs
        else if 225 \<le> b \<and> b \<le> 239 then utf8_run 2 128 191 cs
        else if b = 240 then utf8_run 3 144 191 cs
        else if 241 \<le> b \<and> b \<le> 243 then utf8_run 3 128 191 cs
        else if b = 244 then utf8_run 3 128 143 cs
        else False)"
| "utf8_run (Suc k) lo hi (c # cs) =
    (let b = (of_char c :: nat) in lo \<le> b \<and> b \<le> hi \<and> utf8_run k 128 191 cs)"

definition utf8_ok :: "string \<Rightarrow> bool" where
  "utf8_ok s = utf8_run 0 128 191 s"

definition ascii :: "string \<Rightarrow> bool" where
  "ascii s \<longleftrightarrow> (\<forall>c \<in> set s. (of_char c :: nat) < 128)"

lemma utf8_run_append: "utf8_run k lo hi s \<Longrightarrow> utf8_ok t \<Longrightarrow> utf8_run k lo hi (s @ t)"
proof (induction k lo hi s rule: utf8_run.induct)
  case (1 k lo hi)
  then show ?case by (cases t) (auto simp: utf8_ok_def)
next
  case (2 lo hi c cs)
  then show ?case by (simp add: Let_def split: if_splits)
next
  case (3 k lo hi c cs)
  then show ?case by (simp add: Let_def)
qed

lemma utf8_ok_append [text_ok]: "utf8_ok s \<Longrightarrow> utf8_ok t \<Longrightarrow> utf8_ok (s @ t)"
  using utf8_run_append [of 0 128 191 s t] by (simp add: utf8_ok_def)

lemma ascii_utf8 [text_ok]: "ascii s \<Longrightarrow> utf8_ok s"
proof (induction s)
  case Nil
  then show ?case by (simp add: utf8_ok_def)
next
  case (Cons c s)
  then show ?case by (simp add: ascii_def utf8_ok_def)
qed

text \<open>Every string of a document, keys included, must be valid for \<open>dump()\<close> not to throw.\<close>

fun jtext_ok :: "json \<Rightarrow> bool" where
  "jtext_ok (JStr s) = utf8_ok s"
| "jtext_ok (JArr js) = (\<forall>j \<in> set js. jtext_ok j)"
| "jtext_ok (JObj kvs) = (\<forall>kv \<in> set kvs. utf8_ok (fst kv) \<and> jtext_ok (snd kv))"
| "jtext_ok _ = True"

text \<open>
  What writing a value as text and parsing it gives: the parser makes every non-negative
  integer literal a \<open>number_unsigned\<close>, and a double that is not finite is written as \<open>null\<close>.
\<close>

fun reparse :: "json \<Rightarrow> json" where
  "reparse (JInt i) = (if i < 0 then JInt i else JUInt i)"
| "reparse (JFloat d) = (if dbl_finite d then JFloat d else JNull)"
| "reparse (JArr js) = JArr (map reparse js)"
| "reparse (JObj kvs) = JObj (map (\<lambda>kv. (fst kv, reparse (snd kv))) kvs)"
| "reparse j = j"

lemma map_of_reparse [json_simps]:
  "map_of (map (\<lambda>kv. (fst kv, reparse (snd kv))) kvs) k = map_option reparse (map_of kvs k)"
  by (induction kvs) auto

lemma jfind_reparse [json_simps]: "jfind (reparse j) k = map_option reparse (jfind j k)"
  by (cases j) (auto simp: jfind_def map_of_reparse)

lemma is_object_reparse [simp]: "is_object (reparse j) = is_object j"
  by (cases j) auto

lemma is_array_reparse [simp]: "is_array (reparse j) = is_array j"
  by (cases j) auto

lemma is_string_reparse [simp]: "is_string (reparse j) = is_string j"
  by (cases j) auto

lemma reparse_idem: "reparse (reparse j) = reparse j"
  by (induction j rule: reparse.induct) auto

lemma jtext_ok_put_all:
  "\<forall>kv \<in> set asg. utf8_ok (fst kv) \<and> jtext_ok (snd kv) \<Longrightarrow> jtext_ok (mk_obj asg)"
  using set_put_all_subset [of asg "[]"] by (auto simp: mk_obj_def)

text \<open>The text library: \<open>dump(indent)\<close>, \<open>None\<close> when it throws, and \<open>parse\<close>, \<open>None\<close> when it throws.\<close>

record json_lib =
  jl_dump :: "nat \<Rightarrow> json \<Rightarrow> string option"
  jl_parse :: "string \<Rightarrow> json option"

text \<open>
  The documented behaviour: \<open>dump\<close> throws exactly on text that is not UTF-8, and what it writes,
  followed by the newline the writers append, parses to the value again.
\<close>

definition json_lib_ok :: "json_lib \<Rightarrow> bool" where
  "json_lib_ok L \<longleftrightarrow>
    (\<forall>n j. (jl_dump L n j = None \<longleftrightarrow> \<not> jtext_ok j) \<and>
      (\<forall>s. jl_dump L n j = Some s \<longrightarrow> jl_parse L (s @ [CHR 10]) = Some (reparse j)))"

lemma json_lib_ok_dump: "json_lib_ok L \<Longrightarrow> jl_dump L n j = None \<longleftrightarrow> \<not> jtext_ok j"
  unfolding json_lib_ok_def by blast

lemma json_lib_ok_parse: "json_lib_ok L \<Longrightarrow> jl_dump L n j = Some s \<Longrightarrow> jl_parse L (s @ [CHR 10]) = Some (reparse j)"
  unfolding json_lib_ok_def by blast

section \<open>Encodings, as an interface\<close>

text \<open>
  The components that keep a value in a document promise that the value survives the writing
  and the reading: decoding what the encoder wrote, after a trip through the text, answers the
  value (\<open>ok x\<close> is the decoder's way of saying \<open>x\<close>).
\<close>

locale json_codec =
  fixes enc :: "'a \<Rightarrow> json"
    and dec :: "json \<Rightarrow> 'r"
    and ok :: "'a \<Rightarrow> 'r"
    and wf :: "'a \<Rightarrow> bool"
  assumes dec_enc: "wf x \<Longrightarrow> dec (reparse (enc x)) = ok x"
    and ok_inj: "ok x = ok y \<Longrightarrow> x = y"
begin

text \<open>Two values with the same document are the same value: nothing is lost on the way out.\<close>

lemma enc_inj: "wf x \<Longrightarrow> wf y \<Longrightarrow> enc x = enc y \<Longrightarrow> x = y"
  by (metis dec_enc ok_inj)

lemma dec_map: "\<forall>x \<in> set xs. wf x \<Longrightarrow> map dec (map (\<lambda>x. reparse (enc x)) xs) = map ok xs"
  by (induction xs) (auto simp: dec_enc)

lemma enc_list_inj:
  "\<forall>x \<in> set xs. wf x \<Longrightarrow> \<forall>y \<in> set ys. wf y \<Longrightarrow> map enc xs = map enc ys \<Longrightarrow> xs = ys"
  by (rule map_inj_on [of enc]) (auto simp: inj_on_def intro: enc_inj)

end

end
