(* ===== verification/Token_Text.thy ===== *)
theory Token_Text
  imports Config Iso_Time Json
begin

unbundle bit_operations_syntax

text \<open>
  The text functions of \<open>src/src/daemon/token_store.cpp\<close>: rendering 256 random bits as 43
  characters, the hexadecimal digest, the names allowed in the store, and the expiry test.
\<close>

section \<open>generateToken\<close>

definition alpha :: string where
  "alpha = ''ABCDEFGHIJKLMNOPQRSTUVWXYZabcdefghijklmnopqrstuvwxyz0123456789-_''"

definition kRawBytes :: nat where "kRawBytes = 32"
definition kOutChars :: nat where "kOutChars = 43"

text \<open>The inner loop: as long as six bits are pending, emit one character.\<close>

fun emit :: "32 word \<Rightarrow> nat \<Rightarrow> nat \<Rightarrow> string \<Rightarrow> nat \<times> nat \<times> string" where
  "emit acc bits emitted s =
    (if 6 \<le> bits \<and> emitted < kOutChars
     then emit acc (bits - 6) (Suc emitted) (s @ [alpha ! unat (drop_bit (bits - 6) acc AND 0x3F)])
     else (bits, emitted, s))"

declare emit.simps [simp del]

text \<open>The outer loop over the bytes: \<open>acc = (acc << 8) | raw[i]\<close> in \<open>uint32_t\<close>.\<close>

fun walk :: "8 word list \<Rightarrow> 32 word \<Rightarrow> nat \<Rightarrow> nat \<Rightarrow> string \<Rightarrow> 32 word \<times> nat \<times> nat \<times> string" where
  "walk [] acc bits emitted s = (acc, bits, emitted, s)"
| "walk (b # raw) acc bits emitted s =
    (if emitted < kOutChars
     then (let acc' = push_bit 8 acc OR ucast b;
               (bits', emitted', s') = emit acc' (bits + 8) emitted s
           in walk raw acc' bits' emitted' s')
     else (acc, bits, emitted, s))"

definition encode_token :: "8 word list \<Rightarrow> string" where
  "encode_token raw =
    (case walk raw 0 0 0 [] of (acc, bits, emitted, s) \<Rightarrow>
       if emitted < kOutChars \<and> 0 < bits
       then s @ [alpha ! unat (push_bit (6 - bits) acc AND 0x3F)]
       else s)"

section \<open>hashToken\<close>

definition hex_digit :: "nat \<Rightarrow> char" where
  "hex_digit d = (if d < 10 then char_of (48 + d) else char_of (87 + d))"

definition hex_byte :: "8 word \<Rightarrow> string" where
  "hex_byte b = [hex_digit (unat b div 16), hex_digit (unat b mod 16)]"

definition hashToken :: "(string \<Rightarrow> 8 word list) \<Rightarrow> string \<Rightarrow> string" where
  "hashToken sha256 token = concat (map hex_byte (sha256 token))"

section \<open>isSafeName and isExpired\<close>

definition isalnum :: "char \<Rightarrow> bool" where
  "isalnum c \<longleftrightarrow> (let n = (of_char c :: nat) in
     (48 \<le> n \<and> n \<le> 57) \<or> (65 \<le> n \<and> n \<le> 90) \<or> (97 \<le> n \<and> n \<le> 122))"

definition isSafeName :: "string \<Rightarrow> bool" where
  "isSafeName name =
    (if name = [] \<or> 64 < length name then False
     else if hd name = CHR ''.'' \<or> hd name = CHR ''-'' then False
     else if \<exists>c \<in> set name. \<not> (isalnum c \<or> c = CHR ''_'' \<or> c = CHR ''-'' \<or> c = CHR ''.'') then False
     else if name = ''.'' \<or> name = ''..'' then False
     else if has_sub name ''..'' then False
     else True)"

text \<open>The current time is an argument; an unparseable deadline counts as passed.\<close>

definition isExpired :: "int \<Rightarrow> string \<Rightarrow> bool" where
  "isExpired tnow expiresAt =
    (if expiresAt = [] then False
     else case strptimeIso8601Utc (c_str expiresAt) of
         None \<Rightarrow> True
       | Some tm \<Rightarrow> tnow \<ge> timegm tm)"

section \<open>The token is a base-64 numeral\<close>

text \<open>The value of a byte string, and of a token read back through the alphabet.\<close>

definition bytes_val :: "8 word list \<Rightarrow> nat" where
  "bytes_val raw = foldl (\<lambda>n b. 256 * n + unat b) 0 raw"

fun index_of :: "string \<Rightarrow> char \<Rightarrow> nat" where
  "index_of [] c = 0"
| "index_of (a # as) c = (if a = c then 0 else Suc (index_of as c))"

definition token_val :: "string \<Rightarrow> nat" where
  "token_val s = foldl (\<lambda>n c. 64 * n + index_of alpha c) 0 s"

lemma length_alpha: "length alpha = 64" by (simp add: alpha_def)
lemma distinct_alpha: "distinct alpha" by (simp add: alpha_def)

lemma index_of_nth: "distinct as \<Longrightarrow> i < length as \<Longrightarrow> index_of as (as ! i) = i"
proof (induction as arbitrary: i)
  case (Cons a as)
  then show ?case by (cases i) auto
qed simp

lemma token_val_snoc: "i < 64 \<Longrightarrow> token_val (s @ [alpha ! i]) = 64 * token_val s + i"
  by (simp add: token_val_def index_of_nth distinct_alpha length_alpha)

lemma bytes_val_snoc: "bytes_val (raw @ [b]) = 256 * bytes_val raw + unat b"
  by (simp add: bytes_val_def)

lemma chunk_val:
  fixes acc :: "32 word"
  shows "unat (drop_bit n acc AND 0x3F) = unat acc div 2 ^ n mod 64"
proof -
  have "(0x3F :: 32 word) = mask 6" by (simp add: mask_eq_exp_minus_1)
  then have "drop_bit n acc AND 0x3F = take_bit 6 (drop_bit n acc)" by (simp only: take_bit_eq_mask)
  moreover have "unat (take_bit 6 (drop_bit n acc)) = take_bit 6 (drop_bit n (unat acc))"
    by (simp only: unsigned_take_bit_eq unsigned_drop_bit_eq take_bit_nat_eq_self [OF unsigned_less])
  ultimately show ?thesis by (simp only: take_bit_eq_mod drop_bit_eq_div) simp
qed

lemma emit_steps:
  assumes "6 * emitted + bits \<le> 256"
  shows "emit acc bits emitted s =
     (if bits < 6 then (bits, emitted, s)
      else emit acc (bits - 6) (Suc emitted) (s @ [alpha ! (unat acc div 2 ^ (bits - 6) mod 64)]))"
proof -
  have "6 \<le> bits \<Longrightarrow> emitted < 43" using assms by linarith
  then show ?thesis by (subst emit.simps) (simp add: kOutChars_def chunk_val not_le)
qed

text \<open>
  What the loops keep: the characters so far and the pending low bits of the accumulator are the
  value of the bytes read so far, and every bit read is either emitted or pending.
\<close>

lemma emit_val:
  assumes "6 * emitted + bits \<le> 256" "emit acc bits emitted s = (bits', emitted', s')"
    "length s = emitted" "set s \<subseteq> set alpha"
  shows "bits' < 6 \<and> 6 * emitted' + bits' = 6 * emitted + bits \<and> length s' = emitted' \<and> set s' \<subseteq> set alpha
    \<and> token_val s' * 2 ^ bits' + unat acc mod 2 ^ bits' = token_val s * 2 ^ bits + unat acc mod 2 ^ bits"
  using assms
proof (induction acc bits emitted s rule: emit.induct)
  case (1 acc bits emitted s)
  show ?case
  proof (cases "bits < 6")
    case True
    with 1 show ?thesis by (simp add: emit_steps)
  next
    case False
    define c where "c = unat acc div 2 ^ (bits - 6) mod 64"
    have "emitted < 43" using False 1(2) by linarith
    have c: "c < 64" by (simp add: c_def)
    have e: "emit acc (bits - 6) (Suc emitted) (s @ [alpha ! c]) = (bits', emitted', s')"
      using 1(2,3) False by (simp add: emit_steps c_def)
    have sub: "set (s @ [alpha ! c]) \<subseteq> set alpha" using 1(5) c length_alpha by simp
    have ih: "bits' < 6 \<and> 6 * emitted' + bits' = 6 * Suc emitted + (bits - 6) \<and> length s' = emitted'
      \<and> set s' \<subseteq> set alpha \<and> token_val s' * 2 ^ bits' + unat acc mod 2 ^ bits'
        = token_val (s @ [alpha ! c]) * 2 ^ (bits - 6) + unat acc mod 2 ^ (bits - 6)"
      by (rule 1(1) [unfolded chunk_val, folded c_def, OF _ _ e _ sub])
        (use False \<open>emitted < 43\<close> 1(2,4) in \<open>simp_all add: kOutChars_def\<close>)
    have p: "(2::nat) ^ bits = 64 * 2 ^ (bits - 6)"
      using False power_add [of "2::nat" 6 "bits - 6"] by simp
    have "unat acc mod 2 ^ bits = c * 2 ^ (bits - 6) + unat acc mod 2 ^ (bits - 6)"
      using mod_mult2_eq [of "unat acc" "2 ^ (bits - 6)" 64] by (simp add: p c_def mult.commute)
    then have "token_val (s @ [alpha ! c]) * 2 ^ (bits - 6) + unat acc mod 2 ^ (bits - 6)
        = token_val s * 2 ^ bits + unat acc mod 2 ^ bits"
      by (simp add: token_val_snoc [OF c] p algebra_simps)
    with ih False show ?thesis by simp
  qed
qed

lemma acc_step:
  fixes acc :: "32 word" and b :: "8 word"
  assumes "bits < 6"
  shows "unat (push_bit 8 acc OR ucast b) mod 2 ^ (bits + 8) = (unat acc mod 2 ^ bits) * 256 + unat b"
proof -
  have "push_bit 8 acc AND ucast b = 0"
    by (rule bit_word_eqI) (auto simp: bit_simps dest: bit_imp_le_length)
  then have "push_bit 8 acc OR ucast b = push_bit 8 acc + ucast b"
    by (simp add: disjunctive_add_eq_or)
  moreover have "unat (push_bit 8 acc + ucast b) = (unat acc * 256 + unat b) mod 2 ^ 32"
    using unsigned_less [of b]
    by (simp add: unat_word_ariths push_bit_eq_mult unsigned_ucast_eq take_bit_eq_mod mod_simps mult.commute)
  moreover have "(unat acc * 256 + unat b) mod 2 ^ 32 mod 2 ^ (bits + 8) = (unat acc * 256 + unat b) mod 2 ^ (bits + 8)"
    using assms le_imp_power_dvd [of "bits + 8" 32 "2::nat"] by (intro mod_mod_cancel) simp
  moreover have "(unat acc * 256 + unat b) mod 2 ^ (bits + 8) = (unat acc mod 2 ^ bits) * 256 + unat b"
  proof -
    have b: "unat b < 256" using unsigned_less [of b] by simp
    have "(2::nat) ^ (bits + 8) = 256 * 2 ^ bits" by (simp add: power_add)
    then have "(unat acc * 256 + unat b) mod 2 ^ (bits + 8)
        = 256 * ((unat acc * 256 + unat b) div 256 mod 2 ^ bits) + (unat acc * 256 + unat b) mod 256"
      by (simp only: mod_mult2_eq)
    with b show ?thesis by simp
  qed
  ultimately show ?thesis by simp
qed

lemma walk_val:
  assumes "walk raw acc bits emitted s = (acc', bits', emitted', s')" "bits < 6"
    "6 * emitted + bits + 8 * length raw \<le> 256" "length s = emitted" "set s \<subseteq> set alpha"
    "token_val s * 2 ^ bits + unat acc mod 2 ^ bits = bytes_val pre"
  shows "bits' < 6 \<and> 6 * emitted' + bits' = 6 * emitted + bits + 8 * length raw \<and> length s' = emitted'
     \<and> set s' \<subseteq> set alpha \<and> token_val s' * 2 ^ bits' + unat acc' mod 2 ^ bits' = bytes_val (pre @ raw)"
  using assms
proof (induction raw acc bits emitted s arbitrary: pre rule: walk.induct)
  case (2 b raw acc bits emitted s)
  let ?acc = "push_bit 8 acc OR ucast b"
  obtain b1 e1 s1 where em: "emit ?acc (bits + 8) emitted s = (b1, e1, s1)" by (metis prod_cases3)
  have lt: "emitted < kOutChars" using "2.prems"(3) by (simp add: kOutChars_def)
  have wk: "walk raw ?acc b1 e1 s1 = (acc', bits', emitted', s')"
    using "2.prems"(1) lt em by simp
  have ev: "b1 < 6 \<and> 6 * e1 + b1 = 6 * emitted + (bits + 8) \<and> length s1 = e1 \<and> set s1 \<subseteq> set alpha
    \<and> token_val s1 * 2 ^ b1 + unat ?acc mod 2 ^ b1
      = token_val s * 2 ^ (bits + 8) + unat ?acc mod 2 ^ (bits + 8)"
    by (rule emit_val [OF _ em]) (use "2.prems" in simp_all)
  have "token_val s * 2 ^ (bits + 8) + unat ?acc mod 2 ^ (bits + 8) = bytes_val (pre @ [b])"
    using acc_step [OF "2.prems"(2), of acc b] "2.prems"(6) [symmetric]
    by (simp add: bytes_val_snoc power_add algebra_simps)
  then have "token_val s1 * 2 ^ b1 + unat ?acc mod 2 ^ b1 = bytes_val (pre @ [b])" using ev by simp
  with "2.IH" [OF lt refl em [symmetric] refl refl wk, of "pre @ [b]"] ev "2.prems"(3) show ?case by simp
qed simp

lemma encode_token_val:
  assumes "length raw = kRawBytes"
  shows "length (encode_token raw) = 43 \<and> set (encode_token raw) \<subseteq> set alpha
    \<and> token_val (encode_token raw) = 4 * bytes_val raw"
proof -
  obtain acc bits emitted s where w: "walk raw 0 0 0 [] = (acc, bits, emitted, s)" by (metis prod_cases4)
  have v: "bits < 6 \<and> 6 * emitted + bits = 256 \<and> length s = emitted \<and> set s \<subseteq> set alpha
     \<and> token_val s * 2 ^ bits + unat acc mod 2 ^ bits = bytes_val raw"
    using walk_val [OF w, of "[]"] assms by (simp add: kRawBytes_def token_val_def bytes_val_def)
  then have "bits < 6" "6 * emitted + bits = 256" by simp_all
  then have e: "emitted = 42" "bits = 4" by presburger+
  define c where "c = unat (push_bit 2 acc AND 0x3F)"
  have c: "c = 4 * (unat acc mod 16)"
  proof -
    have "c = unat (push_bit 2 acc) mod 64" using chunk_val [of 0 "push_bit 2 acc"] by (simp add: c_def)
    also have "\<dots> = (unat acc * 4) mod 64"
      by (simp add: push_bit_eq_mult unat_word_ariths mod_mod_cancel mult.commute)
    also have "\<dots> = 4 * (unat acc mod 16)" using mult_mod_right [of 4 "unat acc" 16] by (simp add: mult.commute)
    finally show ?thesis .
  qed
  then have "c < 64" by simp
  moreover have "encode_token raw = s @ [alpha ! c]"
    using w e by (simp add: encode_token_def kOutChars_def c_def)
  ultimately show ?thesis using v e c length_alpha by (simp add: token_val_snoc)
qed

lemma base256: "256 * a + x = 256 * b + y \<Longrightarrow> x < 256 \<Longrightarrow> y < 256 \<Longrightarrow> a = b \<and> x = y" for a b x y :: nat
proof -
  assume e: "256 * a + x = 256 * b + y" and lt: "x < 256" "y < 256"
  have "(256 * a + x) div 256 = (256 * b + y) div 256" "(256 * a + x) mod 256 = (256 * b + y) mod 256"
    by (simp_all only: e)
  with lt show ?thesis by simp
qed

lemma bytes_val_inj: "length xs = length ys \<Longrightarrow> bytes_val xs = bytes_val ys \<Longrightarrow> xs = ys"
proof (induction xs arbitrary: ys rule: rev_induct)
  case (snoc x xs)
  obtain y zs where ys: "ys = zs @ [y]" using snoc.prems(1) by (cases ys rule: rev_cases) auto
  have eq: "256 * bytes_val xs + unat x = 256 * bytes_val zs + unat y"
    using snoc.prems(2) by (simp add: ys bytes_val_snoc)
  have lt: "unat x < 256" "unat y < 256" using unsigned_less [of x] unsigned_less [of y] by simp_all
  from base256 [OF eq lt] have "bytes_val xs = bytes_val zs" and "x = y"
    by (blast, blast intro: unsigned_word_eqI)
  then show ?case using snoc ys by simp
qed simp

lemma encode_token_inj:
  assumes "length xs = kRawBytes" "length ys = kRawBytes" "encode_token xs = encode_token ys"
  shows "xs = ys"
  using encode_token_val [OF assms(1)] encode_token_val [OF assms(2)] assms bytes_val_inj [of xs ys] by simp

section \<open>The digest is injective\<close>

lemma hex_digit_code: "d < 16 \<Longrightarrow> (of_char (hex_digit d) :: nat) = (if d < 10 then 48 + d else 87 + d)"
  by (simp add: hex_digit_def)

lemma hex_digit_inj: "d < 16 \<Longrightarrow> e < 16 \<Longrightarrow> hex_digit d = hex_digit e \<Longrightarrow> d = e"
proof -
  assume lt: "d < 16" "e < 16" and h: "hex_digit d = hex_digit e"
  have "(if d < 10 then 48 + d else 87 + d) = (if e < 10 then 48 + e else 87 + e)"
    unfolding hex_digit_code [OF lt(1), symmetric] hex_digit_code [OF lt(2), symmetric] h ..
  then show "d = e" by (simp split: if_splits)
qed

lemma hex_byte_inj: "hex_byte a = hex_byte b \<Longrightarrow> a = b"
proof -
  assume h: "hex_byte a = hex_byte b"
  have lt: "unat a < 256" "unat b < 256" using unsigned_less [of a] unsigned_less [of b] by simp_all
  then have "unat a div 16 < 16" "unat b div 16 < 16" by auto
  then have "unat a div 16 = unat b div 16" "unat a mod 16 = unat b mod 16"
    using h hex_digit_inj [of "unat a div 16" "unat b div 16"] hex_digit_inj [of "unat a mod 16" "unat b mod 16"]
    by (simp_all add: hex_byte_def)
  then have "unat a = unat b" by (metis div_mult_mod_eq)
  then show ?thesis by (rule unsigned_word_eqI)
qed

lemma hex_bytes_inj: "concat (map hex_byte xs) = concat (map hex_byte ys) \<Longrightarrow> xs = ys"
proof (induction xs arbitrary: ys)
  case Nil
  then show ?case by (cases ys) (auto simp: hex_byte_def)
next
  case (Cons x xs)
  then obtain y zs where ys: "ys = y # zs" by (cases ys) (auto simp: hex_byte_def)
  have len: "length (hex_byte b) = 2" for b by (simp add: hex_byte_def)
  from ys Cons.prems have "hex_byte x = hex_byte y \<and> concat (map hex_byte xs) = concat (map hex_byte zs)"
    using append_eq_append_conv [of "hex_byte x" "hex_byte y"] len by simp
  with Cons.IH ys hex_byte_inj show ?case by blast
qed

lemma hashToken_inj: "hashToken sha s = hashToken sha t \<longleftrightarrow> sha s = sha t"
  by (auto simp: hashToken_def dest: hex_bytes_inj)

lemma ascii_encode_token: "length raw = kRawBytes \<Longrightarrow> ascii (encode_token raw)"
proof -
  have "ascii alpha" by (simp add: ascii_def alpha_def)
  then show "length raw = kRawBytes \<Longrightarrow> ascii (encode_token raw)"
    using encode_token_val [of raw] by (auto simp: ascii_def)
qed

lemma ascii_hash: "ascii (hashToken sha s)"
proof -
  have hd: "(of_char (hex_digit d) :: nat) < 128" if "d < 16" for d
    using that by (auto simp: hex_digit_def)
  then have "ascii (hex_byte b)" for b :: "8 word"
  proof -
    have "unat b < 256" using unsigned_less [of b] by simp
    then have "unat b div 16 < 16" by auto
    with hd [of "unat b div 16"] hd [of "unat b mod 16"] show ?thesis by (simp add: hex_byte_def ascii_def)
  qed
  then show ?thesis by (auto simp: hashToken_def ascii_def)
qed

lemma hashToken_nonempty: "sha s \<noteq> [] \<Longrightarrow> hashToken sha s \<noteq> []"
  by (cases "sha s") (auto simp: hashToken_def hex_byte_def)

section \<open>Safe names\<close>

lemma isSafeNameD:
  assumes "isSafeName name"
  shows "name \<noteq> []" "length name \<le> 64" "CHR ''/'' \<notin> set name" "ascii name" "\<not> has_sub name ''..''"
    "hd name \<noteq> CHR ''.''"
proof -
  from assms have all: "\<forall>c \<in> set name. isalnum c \<or> c = CHR ''_'' \<or> c = CHR ''-'' \<or> c = CHR ''.''"
    by (auto simp: isSafeName_def split: if_splits)
  then show "CHR ''/'' \<notin> set name" by (auto simp: isalnum_def)
  from all show "ascii name" by (auto simp: ascii_def isalnum_def Let_def)
  from assms show "name \<noteq> []" "length name \<le> 64" "\<not> has_sub name ''..''" "hd name \<noteq> CHR ''.''"
    by (auto simp: isSafeName_def split: if_splits)
qed

section \<open>Expiry\<close>

lemma c_str_id: "CHR 0x00 \<notin> set s \<Longrightarrow> c_str s = s"
  unfolding c_str_def takeWhile_eq_all_conv by auto

lemma put_time_no_nul: "0 \<le> tm_mon t \<Longrightarrow> tm_mon t \<le> 11 \<Longrightarrow> 1 \<le> tm_mday t \<Longrightarrow> tm_mday t \<le> 31 \<Longrightarrow>
    0 \<le> tm_hour t \<Longrightarrow> tm_hour t \<le> 23 \<Longrightarrow> 0 \<le> tm_min t \<Longrightarrow> tm_min t \<le> 59 \<Longrightarrow>
    0 \<le> tm_sec t \<Longrightarrow> tm_sec t \<le> 59 \<Longrightarrow> c \<in> set (put_time t) \<Longrightarrow> is_digit c \<or> c \<in> set ''-T:Z''"
proof -
  have pad: "0 \<le> n \<Longrightarrow> n \<le> 99 \<Longrightarrow> c \<in> set (pad2 n) \<Longrightarrow> is_digit c" for n
    by (auto simp: pad2_def nat_le_iff less_mult_imp_div_less)
  have "c \<in> set (show_int i) \<Longrightarrow> is_digit c \<or> c = CHR ''-''" for i
    using show_nat_digits by (auto simp: show_int_def split: if_splits)
  then show "0 \<le> tm_mon t \<Longrightarrow> tm_mon t \<le> 11 \<Longrightarrow> 1 \<le> tm_mday t \<Longrightarrow> tm_mday t \<le> 31 \<Longrightarrow>
    0 \<le> tm_hour t \<Longrightarrow> tm_hour t \<le> 23 \<Longrightarrow> 0 \<le> tm_min t \<Longrightarrow> tm_min t \<le> 59 \<Longrightarrow>
    0 \<le> tm_sec t \<Longrightarrow> tm_sec t \<le> 59 \<Longrightarrow> c \<in> set (put_time t) \<Longrightarrow> is_digit c \<or> c \<in> set ''-T:Z''"
    using pad by (fastforce simp: put_time_def)
qed

lemma stamp_chars: "c \<in> set (currentUtcIso8601 t) \<Longrightarrow> is_digit c \<or> c \<in> set ''-T:Z''"
  unfolding currentUtcIso8601_def using put_time_no_nul [of "gmtime t" c] gmtime_correct [of t] by blast

lemma ascii_stamp: "ascii (currentUtcIso8601 t)"
  unfolding ascii_def using stamp_chars by (fastforce simp: is_digit_def)

lemma c_str_stamp [simp]: "c_str (currentUtcIso8601 t) = currentUtcIso8601 t"
  by (rule c_str_id) (use stamp_chars in \<open>fastforce simp: is_digit_def\<close>)

lemma stamp_nonempty [simp]: "currentUtcIso8601 t \<noteq> []"
  by (simp add: currentUtcIso8601_def put_time_def)

section \<open>Properties\<close>

text \<open>
  The token rendered from 32 random bytes has 43 characters of the alphabet and is the
  base-64 numeral of the 256 bits shifted left by two: nothing is dropped, and two different
  draws give two different tokens.
\<close>

theorem generateToken_text:
  assumes "length raw = kRawBytes" "length raw' = kRawBytes"
  shows "length (encode_token raw) = 43 \<and> set (encode_token raw) \<subseteq> set alpha
    \<and> token_val (encode_token raw) = 4 * bytes_val raw
    \<and> (encode_token raw = encode_token raw' \<longleftrightarrow> raw = raw')"
  using encode_token_val [OF assms(1)] encode_token_inj [OF assms] by auto

lemma generateToken_text_witness:
  "length (encode_token (replicate 32 255)) = 43 \<and> set (encode_token (replicate 32 255)) \<subseteq> set alpha
    \<and> token_val (encode_token (replicate 32 255)) = 4 * bytes_val (replicate 32 255)
    \<and> (encode_token (replicate 32 255) = encode_token (replicate 32 254)
        \<longleftrightarrow> replicate 32 (255 :: 8 word) = replicate 32 254)"
  by (rule generateToken_text) (simp_all add: kRawBytes_def)

text \<open>
  Expiry is exact on every stamp the program prints (1970 to 9999), a token without a
  deadline never expires, and a deadline that does not parse counts as passed.
\<close>

theorem isExpired_exact:
  assumes "0 \<le> t" "t < 253402300800" "s \<noteq> []" "strptime (c_str s) = None"
  shows "(isExpired tnow (currentUtcIso8601 t) \<longleftrightarrow> t \<le> tnow) \<and> \<not> isExpired tnow [] \<and> isExpired tnow s"
  using iso_roundtrip [OF assms(1,2)] assms(3,4)
  by (auto simp: isExpired_def strptimeIso8601Utc_def split: option.splits)

lemma isExpired_exact_witness:
  "isExpired 1700000000 (currentUtcIso8601 1600000000) \<and> \<not> isExpired 1700000000 []
   \<and> isExpired 1700000000 ''soon''"
  using isExpired_exact [of 1600000000 "''soon''" 1700000000]
  by (simp add: strptime_def get_number_def c_str_def ws_def is_digit_def)

end
