(* ===== verification/Samples.thy ===== *)
theory Samples
  imports Config Json
begin

text \<open>
  Concrete instances of the libraries outside \<open>src/\<close>, used by the witnesses only: a small prefix
  code that behaves as \<open>json_lib_ok\<close> asks (shown below), a digest of 32 bytes, and a world in
  which every system call succeeds.
\<close>

section \<open>A JSON text library\<close>

definition enc_nat :: "nat \<Rightarrow> string" where
  "enc_nat n = replicate n CHR ''1'' @ ''0''"

definition enc_int :: "int \<Rightarrow> string" where
  "enc_int i = (if i < 0 then CHR ''-'' else CHR ''+'') # enc_nat (nat \<bar>i\<bar>)"

definition enc_str :: "string \<Rightarrow> string" where
  "enc_str s = enc_nat (length s) @ s"

fun enc_json :: "json \<Rightarrow> string" where
  "enc_json JNull = ''n''"
| "enc_json (JBool b) = (if b then ''t'' else ''f'')"
| "enc_json (JInt i) = CHR ''i'' # enc_int i"
| "enc_json (JUInt i) = CHR ''u'' # enc_int i"
| "enc_json (JFloat d) = CHR ''d'' # enc_nat (unat d)"
| "enc_json (JStr s) = CHR ''s'' # enc_str s"
| "enc_json (JArr js) = CHR ''a'' # enc_nat (length js) @ concat (map enc_json js)"
| "enc_json (JObj kvs) = CHR ''o'' # enc_nat (length kvs) @
     concat (map (\<lambda>kv. enc_str (fst kv) @ enc_json (snd kv)) kvs)"

definition dec_nat :: "string \<Rightarrow> nat \<times> string" where
  "dec_nat s = (let n = length (takeWhile (\<lambda>c. c = CHR ''1'') s) in (n, drop (Suc n) s))"

definition dec_int :: "string \<Rightarrow> int \<times> string" where
  "dec_int s = (case dec_nat (tl s) of (n, r) \<Rightarrow> (if hd s = CHR ''-'' then - int n else int n, r))"

definition dec_str :: "string \<Rightarrow> string \<times> string" where
  "dec_str s = (case dec_nat s of (n, r) \<Rightarrow> (take n r, drop n r))"

fun dec_list :: "(string \<Rightarrow> ('a \<times> string) option) \<Rightarrow> nat \<Rightarrow> string \<Rightarrow> ('a list \<times> string) option" where
  "dec_list d 0 s = Some ([], s)"
| "dec_list d (Suc n) s = (case d s of None \<Rightarrow> None
     | Some (x, r) \<Rightarrow> map_option (\<lambda>(xs, q). (x # xs, q)) (dec_list d n r))"

definition dec_field :: "(string \<Rightarrow> (json \<times> string) option) \<Rightarrow> string \<Rightarrow> ((string \<times> json) \<times> string) option" where
  "dec_field d s = (case dec_str s of (k, r) \<Rightarrow> map_option (\<lambda>(j, q). ((k, j), q)) (d r))"

primrec dec_json :: "nat \<Rightarrow> string \<Rightarrow> (json \<times> string) option" where
  "dec_json 0 s = None"
| "dec_json (Suc f) s =
    (let c = hd s; t = tl s
     in if c = CHR ''n'' then Some (JNull, t)
     else if c = CHR ''t'' then Some (JBool True, t)
     else if c = CHR ''f'' then Some (JBool False, t)
     else if c = CHR ''i'' then (case dec_int t of (i, r) \<Rightarrow> Some (JInt i, r))
     else if c = CHR ''u'' then (case dec_int t of (i, r) \<Rightarrow> Some (JUInt i, r))
     else if c = CHR ''d'' then (case dec_nat t of (n, r) \<Rightarrow> Some (JFloat (of_nat n), r))
     else if c = CHR ''s'' then (case dec_str t of (u, r) \<Rightarrow> Some (JStr u, r))
     else if c = CHR ''a''
       then (case dec_nat t of (n, r) \<Rightarrow> map_option (\<lambda>(js, q). (JArr js, q)) (dec_list (dec_json f) n r))
     else if c = CHR ''o''
       then (case dec_nat t of (n, r) \<Rightarrow>
               map_option (\<lambda>(kvs, q). (JObj kvs, q)) (dec_list (dec_field (dec_json f)) n r))
     else None)"

lemma dec_enc_nat [simp]: "dec_nat (enc_nat n @ r) = (n, r)"
proof -
  have "takeWhile (\<lambda>c. c = CHR ''1'') (replicate n CHR ''1'' @ CHR ''0'' # r) = replicate n CHR ''1''"
    using takeWhile_append_stop [of "replicate n CHR ''1''" "\<lambda>c. c = CHR ''1''" "CHR ''0'' # r"] by simp
  then show ?thesis by (simp add: dec_nat_def enc_nat_def Let_def)
qed

lemma dec_enc_int [simp]: "dec_int (enc_int i @ r) = (i, r)"
  by (simp add: dec_int_def enc_int_def)

lemma dec_enc_str [simp]: "dec_str (enc_str s @ r) = (s, r)"
  by (simp add: dec_str_def enc_str_def)

lemma dec_enc_list:
  "(\<And>x r. x \<in> set xs \<Longrightarrow> d (e x @ r) = Some (x, r)) \<Longrightarrow>
    dec_list d (length xs) (concat (map e xs) @ r) = Some (xs, r)"
  by (induction xs) auto

lemma length_enc_elem: "x \<in> set xs \<Longrightarrow> length (e x) \<le> length (concat (map e xs))"
  by (induction xs) auto

lemma dec_enc_json: "length (enc_json j) \<le> f \<Longrightarrow> dec_json f (enc_json j @ r) = Some (j, r)"
proof (induction j arbitrary: f r rule: enc_json.induct)
  case (7 js)
  then obtain g where g: "f = Suc g" by (cases f) auto
  have "dec_list (dec_json g) (length js) (concat (map enc_json js) @ r) = Some (js, r)" for r
  proof (rule dec_enc_list)
    fix x r assume x: "x \<in> set js"
    have "length (enc_json x) \<le> g" using length_enc_elem [OF x, of enc_json] 7(2) g by simp
    then show "dec_json g (enc_json x @ r) = Some (x, r)" by (rule 7(1) [OF x])
  qed
  with g show ?case by simp
next
  case (8 kvs)
  let ?e = "\<lambda>kv. enc_str (fst kv) @ enc_json (snd kv)"
  from 8 obtain g where g: "f = Suc g" by (cases f) auto
  have "dec_list (dec_field (dec_json g)) (length kvs) (concat (map ?e kvs) @ r) = Some (kvs, r)" for r
  proof (rule dec_enc_list)
    fix x r assume x: "x \<in> set kvs"
    have "length (enc_json (snd x)) \<le> g" using length_enc_elem [OF x, of ?e] 8(2) g by simp
    then have "dec_json g (enc_json (snd x) @ r) = Some (snd x, r)" by (rule 8(1) [OF x])
    then show "dec_field (dec_json g) (?e x @ r) = Some (x, r)" by (simp add: dec_field_def)
  qed
  with g show ?case by simp
next
  case (1 f r) then show ?case by (cases f) auto
next
  case (2 b f r) then show ?case by (cases f; cases b) auto
next
  case (3 b f r) then show ?case by (cases f) auto
next
  case (4 b f r) then show ?case by (cases f) auto
next
  case (5 b f r) then show ?case by (cases f) auto
next
  case (6 b f r) then show ?case by (cases f) auto
qed

definition sample_json :: json_lib where
  "sample_json = \<lparr>jl_dump = (\<lambda>n j. if jtext_ok j then Some (enc_json j) else None),
     jl_parse = (\<lambda>s. map_option (reparse \<circ> fst) (dec_json (length s) s))\<rparr>"

lemma sample_json_ok: "json_lib_ok sample_json"
  by (auto simp: json_lib_ok_def sample_json_def dec_enc_json simp del: dec_json.simps)

section \<open>A digest\<close>

text \<open>Not a cryptographic one: the length and the bytes' sum, padded to 32 bytes.\<close>

definition sample_sha :: "string \<Rightarrow> 8 word list" where
  "sample_sha s = of_nat (sum_list (map of_char s)) # of_nat (length s) # replicate 30 7"

lemma length_sample_sha [simp]: "length (sample_sha s) = 32"
  by (simp add: sample_sha_def)

section \<open>A world\<close>

text \<open>Every call succeeds, the clock stands still, the random source counts.\<close>

definition sample_world :: world where
  "sample_world = \<lparr>w_files = Map.empty, w_dirs = Map.empty, w_newmode = 420, w_newdirmode = 493,
     w_sys = (\<lambda>_ _. True), w_partial = (\<lambda>_. 0), w_tick = 0, w_hist = [], w_now = 1700000000,
     w_random = (\<lambda>t. Some (\<lambda>i. of_nat (t + i))), w_err = [], w_pid = 4711, w_tmpseq = 0\<rparr>"

text \<open>The session of a user called \<open>s\<close>, without overrides.\<close>

definition sample_cfg :: config where
  "sample_cfg = \<lparr>c_flavor = Modern, c_override = ''/s'', c_env = Map.empty, c_dirs = Map.empty\<rparr>"

text \<open>The world with one file, and the text the sample library gives a document.\<close>

definition sample_file :: "string \<Rightarrow> string \<Rightarrow> world" where
  "sample_file p s = sample_world\<lparr>w_files := [p \<mapsto> \<lparr>i_text = s, i_mode = 384, i_group = None\<rparr>]\<rparr>"

lemma sample_dump: "jtext_ok j \<Longrightarrow> jl_dump sample_json n j = Some (enc_json j)"
  by (simp add: sample_json_def)

lemma sample_worlds [simp]:
  "w_sys sample_world n op" "w_dirs sample_world = Map.empty" "w_files sample_world = Map.empty"
  "w_now sample_world = 1700000000" "w_hist sample_world = []" "w_random sample_world n \<noteq> None"
  "w_sys (sample_file p s) n op" "w_dirs (sample_file p s) = Map.empty"
  "w_files (sample_file p s) = [p \<mapsto> \<lparr>i_text = s, i_mode = 384, i_group = None\<rparr>]"
  "w_now (sample_file p s) = 1700000000" "w_hist (sample_file p s) = []" "w_random (sample_file p s) n \<noteq> None"
  by (simp_all add: sample_world_def sample_file_def)

end
