(* ===== verification/Token_Store.thy ===== *)
theory Token_Store
  imports Token_Text Samples
begin

text \<open>
  \<open>src/src/daemon/token_store.cpp\<close>: the hashed token list in \<open>tokens.json\<close> and the raw token
  files beside it. Every operation runs over a \<open>world\<close>, so its theorems hold for every pattern of
  I/O failures; what may throw returns \<open>exn + _\<close>.
\<close>

section \<open>Entries\<close>

record token_env =
  t_cfg :: config
  t_json :: json_lib
  t_sha256 :: "string \<Rightarrow> 8 word list"

definition kTokensFileSchemaVersion :: int where
  "kTokensFileSchemaVersion = 2"

record token_entry =
  te_name :: string
  te_hash :: string
  te_issuedAt :: string
  te_expiresAt :: string
  te_localOnly :: bool

definition tokenEntryToJson :: "token_entry \<Rightarrow> json" where
  "tokenEntryToJson e = mk_obj
    [(''name'', JStr (te_name e)),
     (''hash'', JStr (te_hash e)),
     (''issued_at'', JStr (te_issuedAt e)),
     (''expires_at'', if te_expiresAt e = [] then JNull else JStr (te_expiresAt e)),
     (''local_only'', JBool (te_localOnly e))]"

definition tokenEntryFromJson :: "json \<Rightarrow> exn + token_entry option" where
  "tokenEntryFromJson j =
    (if \<not> is_object j then Inr None
     else ebind (jvalue get_str j ''name'' []) (\<lambda>name.
       ebind (jvalue get_str j ''hash'' []) (\<lambda>hash.
       ebind (jvalue get_str j ''issued_at'' []) (\<lambda>issuedAt.
       if name = [] \<or> hash = [] then Inr None
       else ebind (case jfind j ''expires_at'' of
                None \<Rightarrow> Inr []
              | Some v \<Rightarrow> if is_null v then Inr [] else jvalue get_str j ''expires_at'' []) (\<lambda>expiresAt.
            ebind (jvalue get_bool j ''local_only'' False) (\<lambda>localOnly.
              Inr (Some \<lparr>te_name = name, te_hash = hash, te_issuedAt = issuedAt,
                         te_expiresAt = expiresAt, te_localOnly = localOnly\<rparr>)))))))"

section \<open>TokensFile\<close>

definition filePath :: "token_env \<Rightarrow> string" where
  "filePath E = daemonTokensPath (t_cfg E)"

text \<open>The entry loop: an element that is no entry is skipped, one that throws ends the read.\<close>

fun entries_of :: "json list \<Rightarrow> exn + token_entry list" where
  "entries_of [] = Inr []"
| "entries_of (j # js) =
    ebind (tokenEntryFromJson j) (\<lambda>t.
      ebind (entries_of js) (\<lambda>ts. Inr (case t of None \<Rightarrow> ts | Some e \<Rightarrow> e # ts)))"

definition parse_text :: "token_env \<Rightarrow> string option \<Rightarrow> json option" where
  "parse_text E text = (case text of None \<Rightarrow> None | Some s \<Rightarrow> jl_parse (t_json E) s)"

definition tokensRead :: "token_env \<Rightarrow> (exn + token_entry list) io" where
  "tokensRead E = do {
     text \<leftarrow> read_file (filePath E);
     case parse_text E text of
       None \<Rightarrow> pure []
     | Some obj \<Rightarrow> (case jvalue get_int obj ''version'' 0 of
         Inl x \<Rightarrow> raise x
       | Inr v \<Rightarrow>
          if v \<noteq> kTokensFileSchemaVersion
          then do {
            _ \<leftarrow> cerr (''TokensFile: unsupported schema version '' @ show_int v @ '' in '' @ filePath E
              @ '' '' @ emdash @ '' reissue tokens to regenerate (expected version ''
              @ show_int kTokensFileSchemaVersion @ '').'');
            pure [] }
          else (case jfind obj ''tokens'' of
                  Some (JArr js) \<Rightarrow> State_Monad.return (entries_of js)
                | _ \<Rightarrow> pure [])) }"

definition onDiskVersionUnsupported :: "token_env \<Rightarrow> (exn + bool) io" where
  "onDiskVersionUnsupported E = do {
     text \<leftarrow> read_file (filePath E);
     case parse_text E text of
       None \<Rightarrow> pure False
     | Some obj \<Rightarrow>
        if \<not> is_object obj then pure False
        else (case jvalue get_int obj ''version'' 0 of
            Inl x \<Rightarrow> raise x
          | Inr v \<Rightarrow> pure (v \<noteq> kTokensFileSchemaVersion)) }"

definition tokens_doc :: "token_entry list \<Rightarrow> json" where
  "tokens_doc ts = mk_obj
    [(''version'', JInt kTokensFileSchemaVersion), (''tokens'', JArr (map tokenEntryToJson ts))]"

definition owner_rw :: nat where "owner_rw = 384"    \<comment> \<open>0600\<close>
definition owner_rwx :: nat where "owner_rwx = 448"  \<comment> \<open>0700\<close>

text \<open>The temporary file, its mode and the rename; the outcome of \<open>chmod\<close> is not looked at.\<close>

definition commit_file :: "string \<Rightarrow> string \<Rightarrow> bool io" where
  "commit_file path text = do {
     opened \<leftarrow> open_trunc (path @ ''.tmp'');
     if \<not> opened then State_Monad.return False
     else do {
       written \<leftarrow> write_out (path @ ''.tmp'') text;
       if \<not> written then State_Monad.return False
       else do {
         _ \<leftarrow> chmod (path @ ''.tmp'') owner_rw;
         renamed \<leftarrow> rename (path @ ''.tmp'') path;
         if \<not> renamed then do {
           _ \<leftarrow> remove_file (path @ ''.tmp'');
           State_Monad.return False }
         else State_Monad.return True } } }"

text \<open>\<open>dump\<close> runs after the temporary file was opened, so a throw leaves that file behind.\<close>

definition tokensWrite :: "token_env \<Rightarrow> token_entry list \<Rightarrow> (exn + bool) io" where
  "tokensWrite E ts = do {
     made \<leftarrow> mk_dirs (parent_path (filePath E));
     if \<not> made then pure False
     else (case jl_dump (t_json E) 4 (tokens_doc ts) of
         None \<Rightarrow> do {
           opened \<leftarrow> open_trunc (filePath E @ ''.tmp'');
           if \<not> opened then pure False else raise (Type_Error ''invalid UTF-8 byte'') }
       | Some s \<Rightarrow> plain (commit_file (filePath E) (s @ [CHR 10]))) }"

section \<open>TokenStore\<close>

definition generateToken :: "string io" where
  "generateToken = do {
     raw \<leftarrow> rand_bytes kRawBytes;
     State_Monad.return (case raw of None \<Rightarrow> [] | Some bs \<Rightarrow> encode_token bs) }"

definition newTokenStore :: "token_env \<Rightarrow> unit io" where
  "newTokenStore E = do {
     made \<leftarrow> mk_dirs (daemonTokensDir (t_cfg E));
     if made then do { _ \<leftarrow> chmod (daemonTokensDir (t_cfg E)) owner_rwx; State_Monad.return () }
     else State_Monad.return () }"

definition rawTokenFilePath :: "token_env \<Rightarrow> string \<Rightarrow> string" where
  "rawTokenFilePath E name = daemonTokensDir (t_cfg E) @ ''/'' @ name @ ''.json''"

definition raw_doc :: "string \<Rightarrow> string \<Rightarrow> string \<Rightarrow> json" where
  "raw_doc name token issuedAt = mk_obj
    [(''version'', JInt 1), (''name'', JStr name), (''token'', JStr token), (''issued_at'', JStr issuedAt)]"

definition writeRawTokenFile :: "token_env \<Rightarrow> string \<Rightarrow> string \<Rightarrow> string \<Rightarrow> string \<Rightarrow> (exn + bool) io" where
  "writeRawTokenFile E path name token issuedAt = do {
     made \<leftarrow> mk_dirs (parent_path path);
     if \<not> made then pure False
     else do {
       opened \<leftarrow> open_trunc path;
       if \<not> opened then pure False
       else (case jl_dump (t_json E) 4 (raw_doc name token issuedAt) of
           None \<Rightarrow> raise (Type_Error ''invalid UTF-8 byte'')
         | Some s \<Rightarrow> do {
             good \<leftarrow> buffer_out path (s @ [CHR 10]);
             if \<not> good then pure False
             else do {
               _ \<leftarrow> write_out path (s @ [CHR 10]);
               _ \<leftarrow> chmod path owner_rw;
               pure True } }) } }"

datatype issue_status = Issue_Ok | Issue_InvalidName | Issue_AlreadyExists | Issue_IoError

record issue_result =
  ir_status :: issue_status
  ir_token :: string

definition issue_failed :: "issue_status \<Rightarrow> (exn + issue_result) io" where
  "issue_failed st = pure \<lparr>ir_status = st, ir_token = []\<rparr>"

text \<open>\<open>tokens.erase(it)\<close> at the first entry of the name.\<close>

fun erase_first :: "string \<Rightarrow> token_entry list \<Rightarrow> token_entry list" where
  "erase_first name [] = []"
| "erase_first name (e # es) = (if te_name e = name then es else e # erase_first name es)"

text \<open>Staging the raw file, committing \<open>tokens.json\<close>, promoting the raw file.\<close>

definition issue_commit :: "token_env \<Rightarrow> string \<Rightarrow> string \<Rightarrow> string \<Rightarrow> token_entry list \<Rightarrow> (exn + issue_result) io" where
  "issue_commit E name raw issuedAt tokens =
     (let rawPath = rawTokenFilePath E name; rawNewPath = rawPath @ ''.new''
      in tbind (writeRawTokenFile E rawNewPath name raw issuedAt) (\<lambda>staged.
         if \<not> staged then issue_failed Issue_IoError
         else tbind (tokensWrite E tokens) (\<lambda>written.
           if \<not> written then do { _ \<leftarrow> remove_file rawNewPath; issue_failed Issue_IoError }
           else do {
             renamed \<leftarrow> rename rawNewPath rawPath;
             _ \<leftarrow> (if \<not> renamed then rename rawNewPath rawPath else State_Monad.return True);
             pure \<lparr>ir_status = Issue_Ok, ir_token = raw\<rparr> })))"

definition issueToken :: "token_env \<Rightarrow> string \<Rightarrow> string \<Rightarrow> bool \<Rightarrow> bool \<Rightarrow> (exn + issue_result) io" where
  "issueToken E name expiresAt localOnly replace =
    (if \<not> isSafeName name then issue_failed Issue_InvalidName
     else tbind (onDiskVersionUnsupported E) (\<lambda>unsupported.
       if unsupported then do {
         _ \<leftarrow> cerr (''TokenStore: refusing to issue '' @ emdash @ '' '' @ filePath E
           @ '' has an unsupported schema version. Back it up and reissue tokens to regenerate it.'');
         issue_failed Issue_IoError }
       else tbind (tokensRead E) (\<lambda>tokens.
         if (\<exists>e \<in> set tokens. te_name e = name) \<and> \<not> replace then issue_failed Issue_AlreadyExists
         else do {
           raw \<leftarrow> generateToken;
           if raw = [] then issue_failed Issue_IoError
           else do {
             tt \<leftarrow> now;
             issue_commit E name raw (currentUtcIso8601 tt)
               (erase_first name tokens @
                 [\<lparr>te_name = name, te_hash = hashToken (t_sha256 E) raw,
                   te_issuedAt = currentUtcIso8601 tt, te_expiresAt = expiresAt,
                   te_localOnly = localOnly\<rparr>]) } })))"

datatype revoke_status = Revoke_Ok | Revoke_InvalidName | Revoke_NotFound | Revoke_IoError

definition revokeToken :: "token_env \<Rightarrow> string \<Rightarrow> (exn + revoke_status) io" where
  "revokeToken E name =
    (if \<not> isSafeName name then pure Revoke_InvalidName
     else tbind (onDiskVersionUnsupported E) (\<lambda>unsupported.
       if unsupported then do {
         _ \<leftarrow> cerr (''TokenStore: refusing to revoke '' @ emdash @ '' '' @ filePath E
           @ '' has an unsupported schema version. Back it up and reissue tokens to regenerate it.'');
         pure Revoke_IoError }
       else tbind (tokensRead E) (\<lambda>tokens.
         let kept = filter (\<lambda>e. te_name e \<noteq> name) tokens
         in if length kept = length tokens then pure Revoke_NotFound
            else tbind (tokensWrite E kept) (\<lambda>written.
              if \<not> written then pure Revoke_IoError
              else do { _ \<leftarrow> remove_file (rawTokenFilePath E name); pure Revoke_Ok }))))"

record issued_token =
  it_name :: string
  it_issuedAt :: string
  it_expiresAt :: string
  it_localOnly :: bool
  it_rawFilePresent :: bool

fun list_entries :: "token_env \<Rightarrow> token_entry list \<Rightarrow> issued_token list io" where
  "list_entries E [] = State_Monad.return []"
| "list_entries E (e # es) = do {
     present \<leftarrow> file_exists (rawTokenFilePath E (te_name e));
     rest \<leftarrow> list_entries E es;
     State_Monad.return (\<lparr>it_name = te_name e, it_issuedAt = te_issuedAt e,
       it_expiresAt = te_expiresAt e, it_localOnly = te_localOnly e, it_rawFilePresent = present\<rparr> # rest) }"

definition listTokens :: "token_env \<Rightarrow> (exn + issued_token list) io" where
  "listTokens E = tbind (tokensRead E) (\<lambda>tokens. plain (list_entries E tokens))"

text \<open>The loop of \<open>lookupByToken\<close>: the first entry with the digest decides.\<close>

fun match_token :: "int \<Rightarrow> string \<Rightarrow> string \<Rightarrow> token_entry list \<Rightarrow> string option" where
  "match_token tnow h proto [] = None"
| "match_token tnow h proto (e # es) =
    (if te_hash e \<noteq> h then match_token tnow h proto es
     else if isExpired tnow (te_expiresAt e) then None
     else if te_localOnly e \<and> proto \<noteq> ''local'' then None
     else Some (te_name e))"

definition lookupByToken :: "token_env \<Rightarrow> string \<Rightarrow> string \<Rightarrow> (exn + string option) io" where
  "lookupByToken E token proto =
    (if token = [] then pure None
     else tbind (tokensRead E) (\<lambda>tokens. do {
       tnow \<leftarrow> now;
       pure (match_token tnow (hashToken (t_sha256 E) token) proto tokens) }))"

section \<open>The entry codec\<close>

lemma entry_codec:
  assumes "te_name e \<noteq> []" "te_hash e \<noteq> []"
  shows "tokenEntryFromJson (reparse (tokenEntryToJson e)) = Inr (Some e)"
  using assms
  by (simp add: tokenEntryFromJson_def jvalue_def jfind_def tokenEntryToJson_def mk_obj_def
      get_str_def get_bool_def json_simps)

interpretation entry: json_codec tokenEntryToJson tokenEntryFromJson "\<lambda>e. Inr (Some e)"
  "\<lambda>e. te_name e \<noteq> [] \<and> te_hash e \<noteq> []"
  by unfold_locales (auto simp: entry_codec)

lemmas commit_unfold = commit_file_def open_trunc_def write_out_def chmod_def rename_def remove_file_def
  sys_def Let_def

interpretation commit: atomic_replace commit_file "\<lambda>p q. q = p @ ''.tmp''"
proof
  fix p s w w' b q
  show "run_state (commit_file p s) w = (True, w') \<Longrightarrow> map_option i_text (w_files w' p) = Some s"
    by (auto simp: commit_unfold set_text_def split: if_splits)
  show "run_state (commit_file p s) w = (False, w') \<Longrightarrow> w_files w' p = w_files w p"
    by (auto simp: commit_unfold set_text_def split: if_splits)
  show "run_state (commit_file p s) w = (b, w') \<Longrightarrow>
      hist_ext w w' (\<lambda>f. f p = w_files w p \<or> f p = w_files w' p)"
    by (auto simp: commit_unfold set_text_def hist_ext_list intro!: hist_list_step split: if_splits)
  show "q \<noteq> p \<Longrightarrow> \<not> q = p @ ''.tmp'' \<Longrightarrow> untouched q (commit_file p s)"
    unfolding commit_file_def by (auto intro!: frames)
  show "steady (commit_file p s)"
    unfolding commit_file_def by (auto intro!: steadys)
qed

section \<open>What the file says\<close>

text \<open>The token list a document stands for, and the one of the file on disk.\<close>

definition tokens_view :: "token_env \<Rightarrow> string option \<Rightarrow> exn + token_entry list" where
  "tokens_view E text = (case parse_text E text of
       None \<Rightarrow> Inr []
     | Some obj \<Rightarrow> (case jvalue get_int obj ''version'' 0 of
         Inl x \<Rightarrow> Inl x
       | Inr v \<Rightarrow> if v \<noteq> kTokensFileSchemaVersion then Inr []
           else (case jfind obj ''tokens'' of Some (JArr js) \<Rightarrow> entries_of js | _ \<Rightarrow> Inr [])))"

definition stored :: "token_env \<Rightarrow> world \<Rightarrow> exn + token_entry list" where
  "stored E w = tokens_view E (map_option i_text (w_files w (filePath E)))"

abbreviation good_entry :: "token_entry \<Rightarrow> bool" where
  "good_entry e \<equiv> te_name e \<noteq> [] \<and> te_hash e \<noteq> []"

lemma good_entryI: "tokenEntryFromJson j = Inr (Some e) \<Longrightarrow> good_entry e"
  by (auto simp: tokenEntryFromJson_def ebind_Inr split: if_splits)

lemma entries_of_good: "entries_of js = Inr es \<Longrightarrow> e \<in> set es \<Longrightarrow> good_entry e"
proof (induction js arbitrary: es)
  case (Cons j js)
  then show ?case by (auto simp: ebind_Inr good_entryI split: option.splits)
qed simp

lemma tokens_view_good: "tokens_view E text = Inr es \<Longrightarrow> e \<in> set es \<Longrightarrow> good_entry e"
  by (auto simp: tokens_view_def entries_of_good split: option.splits sum.splits json.splits if_splits)

lemma entries_of_encoded:
  "\<forall>e \<in> set es. good_entry e \<Longrightarrow> entries_of (map (reparse \<circ> tokenEntryToJson) es) = Inr es"
  by (induction es) (auto simp: entry_codec)

lemma tokens_view_doc:
  assumes "json_lib_ok (t_json E)" "jl_dump (t_json E) n (tokens_doc es) = Some s"
    "\<forall>e \<in> set es. good_entry e"
  shows "tokens_view E (Some (s @ [CHR 10])) = Inr es"
proof -
  have "jl_parse (t_json E) (s @ [CHR 10]) = Some (reparse (tokens_doc es))"
    using assms(1,2) by (rule json_lib_ok_parse)
  moreover have "jfind (reparse (tokens_doc es)) ''tokens'' = Some (JArr (map (reparse \<circ> tokenEntryToJson) es))"
    by (simp add: json_simps tokens_doc_def)
  moreover have "jvalue get_int (reparse (tokens_doc es)) ''version'' 0 = Inr kTokensFileSchemaVersion"
    by (simp add: tokens_doc_def jvalue_def mk_obj_def get_int_def wrap_int_def kTokensFileSchemaVersion_def)
  ultimately show ?thesis
    using entries_of_encoded [OF assms(3)] by (simp add: tokens_view_def parse_text_def)
qed

section \<open>Runs of the file operations\<close>

lemma tokensRead_run:
  "fst (run_state (tokensRead E) w)
    = (if w_sys w (w_tick w) (ReadF (filePath E)) then stored E w else Inr [])"
  by (simp add: tokensRead_def read_file_def cerr_def stored_def tokens_view_def parse_text_def
      split: option.splits sum.splits json.splits)

lemma tokensRead_keeps:
  assumes "run_state (tokensRead E) w = (r, w')"
  shows "w_files w' = w_files w" "w_hist w' = w_hist w" "w_now w' = w_now w" "w_random w' = w_random w"
    "w_dirs w' = w_dirs w" "w_sys w' = w_sys w"
  using assms
  by (auto simp: tokensRead_def read_file_def cerr_def split: option.splits sum.splits json.splits if_splits)

lemma version_check_run:
  "fst (run_state (onDiskVersionUnsupported E) w)
    = (case parse_text E (if w_sys w (w_tick w) (ReadF (filePath E))
         then map_option i_text (w_files w (filePath E)) else None) of
        None \<Rightarrow> Inr False
      | Some obj \<Rightarrow> if \<not> is_object obj then Inr False
          else (case jvalue get_int obj ''version'' 0 of Inl x \<Rightarrow> Inl x
                | Inr v \<Rightarrow> Inr (v \<noteq> kTokensFileSchemaVersion)))"
  by (simp add: onDiskVersionUnsupported_def read_file_def split: option.splits sum.splits)

lemma version_check_keeps:
  assumes "run_state (onDiskVersionUnsupported E) w = (r, w')"
  shows "w_files w' = w_files w" "w_hist w' = w_hist w" "w_now w' = w_now w" "w_random w' = w_random w"
    "w_dirs w' = w_dirs w" "w_sys w' = w_sys w"
  using assms
  by (auto simp: onDiskVersionUnsupported_def read_file_def split: option.splits sum.splits if_splits)

text \<open>
  \<open>tokensWrite\<close>: the destination has the new document exactly when the answer is \<open>True\<close>, is the old
  file otherwise (a throw included), and never anything else.
\<close>

lemma tokensWrite_run:
  assumes "run_state (tokensWrite E ts) w = (r, w')"
  shows "r = Inr True \<Longrightarrow> \<exists>s. jl_dump (t_json E) 4 (tokens_doc ts) = Some s \<and>
           map_option i_text (w_files w' (filePath E)) = Some (s @ [CHR 10])"
    and "r \<noteq> Inr True \<Longrightarrow> w_files w' (filePath E) = w_files w (filePath E)"
    and "hist_ext w w' (\<lambda>f. f (filePath E) = w_files w (filePath E) \<or> f (filePath E) = w_files w' (filePath E))"
proof -
  obtain made w1 where m: "run_state (mk_dirs (parent_path (filePath E))) w = (made, w1)" by fastforce
  note f1 = untouchedD [OF untouched_calls(1) m, of "filePath E"]
  show "r = Inr True \<Longrightarrow> \<exists>s. jl_dump (t_json E) 4 (tokens_doc ts) = Some s \<and>
           map_option i_text (w_files w' (filePath E)) = Some (s @ [CHR 10])"
    using assms m by (auto simp: tokensWrite_def dest: commit.put_text split: option.splits prod.splits if_splits)
  show "r \<noteq> Inr True \<Longrightarrow> w_files w' (filePath E) = w_files w (filePath E)"
    using assms m f1(1) untouchedD(1) [OF untouched_calls(4) [of "filePath E" "filePath E @ ''.tmp''"]]
    by (auto simp: tokensWrite_def dest: commit.put_failed split: option.splits prod.splits if_splits)
  show "hist_ext w w' (\<lambda>f. f (filePath E) = w_files w (filePath E) \<or> f (filePath E) = w_files w' (filePath E))"
  proof (cases made)
    case False
    with assms m f1(2) show ?thesis by (auto simp: tokensWrite_def elim: hist_ext_mono)
  next
    case True
    show ?thesis
    proof (cases "jl_dump (t_json E) 4 (tokens_doc ts)")
      case None
      then obtain b where o: "run_state (open_trunc (filePath E @ ''.tmp'')) w1 = (b, w')"
        using assms m True by (auto simp: tokensWrite_def split: prod.splits if_splits)
      have "hist_ext w1 w' (\<lambda>f. f (filePath E) = w_files w1 (filePath E))"
        by (rule untouchedD(2) [OF untouched_calls(4) o]) simp
      with f1 show ?thesis by (auto intro: hist_ext_trans elim: hist_ext_mono)
    next
      case (Some s)
      then obtain b where "run_state (commit_file (filePath E) (s @ [CHR 10])) w1 = (b, w')"
        using assms m True by (auto simp: tokensWrite_def split: prod.splits)
      from commit.put_hist [OF this] f1 show ?thesis by (auto intro: hist_ext_trans elim: hist_ext_mono)
    qed
  qed
qed

lemma tokensWrite_frame: "q \<noteq> filePath E \<Longrightarrow> q \<noteq> filePath E @ ''.tmp'' \<Longrightarrow> untouched q (tokensWrite E ts)"
  unfolding tokensWrite_def
  by (auto intro!: frames commit.put_frame split: option.splits)

lemma writeRaw_frame: "q \<noteq> p \<Longrightarrow> untouched q (writeRawTokenFile E p name token issuedAt)"
  unfolding writeRawTokenFile_def by (auto intro!: frames split: option.splits)

lemma reads_frame: "untouched q (tokensRead E)" "untouched q (onDiskVersionUnsupported E)"
  unfolding tokensRead_def onDiskVersionUnsupported_def
  by (auto intro!: frames split: option.splits sum.splits json.splits)

text \<open>The paths of the store are pairwise different.\<close>

lemma store_paths [simp]:
  "filePath E \<noteq> rawTokenFilePath E n" "rawTokenFilePath E n \<noteq> filePath E"
  "filePath E \<noteq> rawTokenFilePath E n @ ''.new''" "rawTokenFilePath E n @ ''.new'' \<noteq> filePath E"
  "rawTokenFilePath E n \<noteq> filePath E @ ''.tmp''"
  "rawTokenFilePath E n @ ''.new'' \<noteq> filePath E @ ''.tmp''"
  by (simp_all add: filePath_def rawTokenFilePath_def daemonTokensPath_def daemonTokensDir_def)

section \<open>Issuing and revoking\<close>

text \<open>What \<open>issue_commit\<close> does to \<open>tokens.json\<close>, to the raw files and to everything else.\<close>

lemma issue_commit_run:
  assumes "run_state (issue_commit E name raw at ts) w = (r, w')"
  shows "(\<exists>res. r = Inr res \<and> ir_status res = Issue_Ok \<and> ir_token res = raw \<and>
            (\<exists>s. jl_dump (t_json E) 4 (tokens_doc ts) = Some s \<and>
              map_option i_text (w_files w' (filePath E)) = Some (s @ [CHR 10])))
       \<or> ((\<forall>res. r = Inr res \<longrightarrow> ir_status res \<noteq> Issue_Ok)
            \<and> w_files w' (filePath E) = w_files w (filePath E)
            \<and> w_files w' (rawTokenFilePath E name) = w_files w (rawTokenFilePath E name))"
    and "hist_ext w w' (\<lambda>f. f (filePath E) = w_files w (filePath E) \<or> f (filePath E) = w_files w' (filePath E))"
proof -
  let ?raw = "rawTokenFilePath E name" and ?tj = "filePath E"
  obtain st w1 where 1: "run_state (writeRawTokenFile E (?raw @ ''.new'') name raw at) w = (st, w1)"
    by fastforce
  have f1: "q \<noteq> ?raw @ ''.new'' \<Longrightarrow> w_files w1 q = w_files w q \<and> hist_ext w w1 (\<lambda>f. f q = w_files w q)" for q
    using untouchedD [OF writeRaw_frame 1] by blast
  have goal: "((\<exists>res. r = Inr res \<and> ir_status res = Issue_Ok \<and> ir_token res = raw \<and>
            (\<exists>s. jl_dump (t_json E) 4 (tokens_doc ts) = Some s \<and>
              map_option i_text (w_files w' ?tj) = Some (s @ [CHR 10])))
       \<or> ((\<forall>res. r = Inr res \<longrightarrow> ir_status res \<noteq> Issue_Ok)
            \<and> w_files w' ?tj = w_files w ?tj \<and> w_files w' ?raw = w_files w ?raw))
      \<and> hist_ext w w' (\<lambda>f. f ?tj = w_files w ?tj \<or> f ?tj = w_files w' ?tj)"
  proof (cases "st = Inr True")
    case False
    with assms 1 have "w' = w1" "\<forall>res. r = Inr res \<longrightarrow> ir_status res \<noteq> Issue_Ok"
      by (auto simp: issue_commit_def Let_def issue_failed_def split: sum.splits if_splits)
    then show ?thesis using f1 [of ?tj] f1 [of ?raw] by (auto elim: hist_ext_mono)
  next
    case True
    obtain wr w2 where 2: "run_state (tokensWrite E ts) w1 = (wr, w2)" by fastforce
    note tw = tokensWrite_run [OF 2]
    have raw2: "w_files w2 ?raw = w_files w1 ?raw"
      by (rule untouchedD(1) [OF tokensWrite_frame 2]) simp_all
    have h2: "hist_ext w w2 (\<lambda>f. f ?tj = w_files w ?tj \<or> f ?tj = w_files w2 ?tj)"
      using f1 [of ?tj] tw(3) by (auto intro: hist_ext_trans elim: hist_ext_mono)
    show ?thesis
    proof (cases "wr = Inr True")
      case True2: True
      define m where "m = (do {
             renamed \<leftarrow> rename (?raw @ ''.new'') ?raw;
             _ \<leftarrow> (if \<not> renamed then rename (?raw @ ''.new'') ?raw else State_Monad.return True);
             pure \<lparr>ir_status = Issue_Ok, ir_token = raw\<rparr> } :: (exn + issue_result) io)"
      have m: "run_state m w2 = (r, w')"
        using assms 1 2 True True2 by (simp add: issue_commit_def Let_def m_def)
      have r: "r = Inr \<lparr>ir_status = Issue_Ok, ir_token = raw\<rparr>"
        using m by (auto simp: m_def split: prod.splits if_splits)
      have "untouched ?tj m" unfolding m_def by (auto intro!: frames)
      note fm = untouchedD [OF this m]
      have "hist_ext w w' (\<lambda>f. f ?tj = w_files w ?tj \<or> f ?tj = w_files w' ?tj)"
        using h2 fm by (auto intro: hist_ext_trans elim: hist_ext_mono)
      with r tw(1) [OF True2] fm(1) show ?thesis by simp
    next
      case False
      have w': "(w' = w2 \<or> (\<exists>b. run_state (remove_file (?raw @ ''.new'')) w2 = (b, w')))
          \<and> (\<forall>res. r = Inr res \<longrightarrow> ir_status res \<noteq> Issue_Ok)"
        using assms 1 2 True False
        by (auto simp: issue_commit_def Let_def issue_failed_def split: sum.splits if_splits prod.splits)
      have fr: "w_files w' q = w_files w2 q \<and> hist_ext w2 w' (\<lambda>f. f q = w_files w2 q)"
        if "q \<noteq> ?raw @ ''.new''" for q
        using w' untouchedD [OF untouched_calls(10) [OF that]] by auto
      have "hist_ext w w' (\<lambda>f. f ?tj = w_files w ?tj \<or> f ?tj = w_files w' ?tj)"
        using h2 fr [of ?tj] by (auto intro: hist_ext_trans elim: hist_ext_mono)
      with w' fr [of ?tj] fr [of ?raw] tw(2) [OF False] f1 [of ?tj] f1 [of ?raw] raw2 show ?thesis by simp
    qed
  qed
  then show "(\<exists>res. r = Inr res \<and> ir_status res = Issue_Ok \<and> ir_token res = raw \<and>
            (\<exists>s. jl_dump (t_json E) 4 (tokens_doc ts) = Some s \<and>
              map_option i_text (w_files w' ?tj) = Some (s @ [CHR 10])))
       \<or> ((\<forall>res. r = Inr res \<longrightarrow> ir_status res \<noteq> Issue_Ok)
            \<and> w_files w' ?tj = w_files w ?tj \<and> w_files w' ?raw = w_files w ?raw)"
    and "hist_ext w w' (\<lambda>f. f ?tj = w_files w ?tj \<or> f ?tj = w_files w' ?tj)" by blast+
qed

text \<open>
  A run of \<open>issueToken\<close> either stops before the first write, or goes on to \<open>issue_commit\<close> with the list
  read from the file, the entry of that name replaced, and a token made of 32 fresh bytes.
\<close>

definition new_entry :: "token_env \<Rightarrow> string \<Rightarrow> string \<Rightarrow> string \<Rightarrow> string \<Rightarrow> bool \<Rightarrow> token_entry" where
  "new_entry E name raw at expiresAt localOnly =
    \<lparr>te_name = name, te_hash = hashToken (t_sha256 E) raw, te_issuedAt = at,
     te_expiresAt = expiresAt, te_localOnly = localOnly\<rparr>"

lemma issueToken_run:
  assumes "run_state (issueToken E name exp lo rep) w = (r, w')"
  obtains (stopped) "w_files w' = w_files w" "w_hist w' = w_hist w" "\<forall>res. r = Inr res \<longrightarrow> ir_status res \<noteq> Issue_Ok"
  | (committed) old bs at w1 where "isSafeName name" "stored E w = Inr old \<or> old = []"
      "rep \<or> name \<notin> te_name ` set old" "length bs = kRawBytes" "w_random w1 \<noteq> (\<lambda>_. None)"
      "w_files w1 = w_files w" "w_hist w1 = w_hist w"
      "run_state (issue_commit E name (encode_token bs) at
         (erase_first name old @ [new_entry E name (encode_token bs) at exp lo])) w1 = (r, w')"
proof (cases "isSafeName name")
  case False
  with assms show thesis by (intro stopped) (auto simp: issueToken_def issue_failed_def)
next
  case True
  obtain u wa where a: "run_state (onDiskVersionUnsupported E) w = (u, wa)" by fastforce
  obtain t wb where b: "run_state (tokensRead E) wa = (t, wb)" by fastforce
  note ka = version_check_keeps [OF a] and kb = tokensRead_keeps [OF b]
  obtain raw wc where c: "run_state generateToken wb = (raw, wc)" by fastforce
  have kc: "w_files wc = w_files wb" "w_hist wc = w_hist wb" "w_random wc = w_random wb"
    using c by (auto simp: generateToken_def rand_bytes_def)
  have st: "t = stored E w \<or> t = Inr []"
    using tokensRead_run [of E wa] b ka(1) by (auto simp: stored_def split: if_splits)
  show thesis
  proof (cases "\<exists>old. u = Inr False \<and> t = Inr old \<and> (rep \<or> name \<notin> te_name ` set old) \<and> raw \<noteq> []")
    case False
    then have "(w_files w' = w_files wa \<and> w_hist w' = w_hist wa \<or> w' = wb \<or> w' = wc)
        \<and> (\<forall>res. r = Inr res \<longrightarrow> ir_status res \<noteq> Issue_Ok)"
      using assms True a b c
      by (auto simp: issueToken_def issue_failed_def cerr_def split: sum.splits if_splits)
    then show thesis using ka kb kc by (intro stopped) auto
  next
    case go: True
    then obtain old where old: "u = Inr False" "t = Inr old" "rep \<or> name \<notin> te_name ` set old" "raw \<noteq> []" by blast
    from c old(4) obtain g where g: "w_random wb (w_tick wb) = Some g" "raw = encode_token (map g [0..<kRawBytes])"
      by (auto simp: generateToken_def rand_bytes_def split: option.splits)
    have "w_random wc \<noteq> (\<lambda>_. None)" using g(1) kc(3) by auto
    moreover have "run_state (issue_commit E name raw (currentUtcIso8601 (w_now wc))
         (erase_first name old @ [new_entry E name raw (currentUtcIso8601 (w_now wc)) exp lo])) wc = (r, w')"
      using assms True a b c old
      by (auto simp: issueToken_def now_def new_entry_def image_iff split: if_splits)
    ultimately show thesis
      using True st old g(2) ka kb kc by (intro committed [of old "map g [0..<kRawBytes]"]) auto
  qed
qed

lemma revokeToken_run:
  assumes "run_state (revokeToken E name) w = (r, w')"
  obtains (stopped) "w_files w' = w_files w" "w_hist w' = w_hist w" "r \<noteq> Inr Revoke_Ok"
  | (wrote) old wr w1 w2 where "isSafeName name" "stored E w = Inr old \<or> old = []"
      "name \<in> te_name ` set old" "w_files w1 = w_files w" "w_hist w1 = w_hist w"
      "run_state (tokensWrite E (filter (\<lambda>e. te_name e \<noteq> name) old)) w1 = (wr, w2)"
      "r = Inr Revoke_Ok \<longleftrightarrow> wr = Inr True"
      "w' = (if wr = Inr True then snd (run_state (remove_file (rawTokenFilePath E name)) w2) else w2)"
proof (cases "isSafeName name")
  case False
  with assms show thesis by (intro stopped) (auto simp: revokeToken_def)
next
  case True
  obtain u wa where a: "run_state (onDiskVersionUnsupported E) w = (u, wa)" by fastforce
  obtain t wb where b: "run_state (tokensRead E) wa = (t, wb)" by fastforce
  note ka = version_check_keeps [OF a] and kb = tokensRead_keeps [OF b]
  have st: "t = stored E w \<or> t = Inr []"
    using tokensRead_run [of E wa] b ka(1) by (auto simp: stored_def split: if_splits)
  have len: "length (filter (\<lambda>e. te_name e \<noteq> name) old) = length old \<longleftrightarrow> name \<notin> te_name ` set old" for old
    unfolding length_filter_all by auto
  show thesis
  proof (cases "\<exists>old. u = Inr False \<and> t = Inr old \<and> name \<in> te_name ` set old")
    case False
    then have "(w_files w' = w_files wa \<and> w_hist w' = w_hist wa \<or> w' = wb) \<and> r \<noteq> Inr Revoke_Ok"
      using assms True a b len by (auto simp: revokeToken_def cerr_def Let_def split: sum.splits if_splits)
    then show thesis using ka kb by (intro stopped) auto
  next
    case go: True
    then obtain old where old: "u = Inr False" "t = Inr old" "name \<in> te_name ` set old" by blast
    obtain wr w2 where c: "run_state (tokensWrite E (filter (\<lambda>e. te_name e \<noteq> name) old)) wb = (wr, w2)" by fastforce
    have "(r = Inr Revoke_Ok \<longleftrightarrow> wr = Inr True)
        \<and> w' = (if wr = Inr True then snd (run_state (remove_file (rawTokenFilePath E name)) w2) else w2)"
      using assms True a b c old len
      by (auto simp: revokeToken_def Let_def split: sum.splits if_splits prod.splits)
    with True st old ka kb c show thesis by (intro wrote [of old wb wr w2]) auto
  qed
qed

section \<open>Healthy runs\<close>

text \<open>
  \<open>store_ready\<close>: every system call succeeds and no directory stands where a file of the store goes.
\<close>

lemma dir_paths [simp]:
  "daemonTokensDir (t_cfg E) \<noteq> filePath E" "daemonTokensDir (t_cfg E) \<noteq> filePath E @ ''.tmp''"
  "daemonTokensDir (t_cfg E) \<noteq> rawTokenFilePath E n" "daemonTokensDir (t_cfg E) \<noteq> rawTokenFilePath E n @ ''.new''"
  "daemonDir (t_cfg E) \<noteq> filePath E" "daemonDir (t_cfg E) \<noteq> filePath E @ ''.tmp''"
  "daemonDir (t_cfg E) \<noteq> rawTokenFilePath E n" "daemonDir (t_cfg E) \<noteq> rawTokenFilePath E n @ ''.new''"
  by (simp_all add: filePath_def rawTokenFilePath_def daemonTokensPath_def daemonTokensDir_def)

lemmas dir_paths' [simp] = dir_paths [symmetric] store_paths [symmetric]

definition store_ready :: "token_env \<Rightarrow> string \<Rightarrow> world \<Rightarrow> bool" where
  "store_ready E name w \<longleftrightarrow> (\<forall>n op. w_sys w n op)
     \<and> w_files w (daemonTokensDir (t_cfg E)) = None \<and> w_files w (daemonDir (t_cfg E)) = None
     \<and> w_dirs w (filePath E) = None \<and> w_dirs w (filePath E @ ''.tmp'') = None
     \<and> w_dirs w (rawTokenFilePath E name) = None \<and> w_dirs w (rawTokenFilePath E name @ ''.new'') = None"

lemma store_parents:
  "parent_path (filePath E) = daemonDir (t_cfg E)"
  "isSafeName name \<Longrightarrow> parent_path (rawTokenFilePath E name @ ''.new'') = daemonTokensDir (t_cfg E)"
  using parent_path_snoc(1) [of "''tokens.json''" "daemonDir (t_cfg E)"]
    parent_path_snoc(1) [of "name @ ''.json.new''" "daemonTokensDir (t_cfg E)"] isSafeNameD(3) [of name]
  by (simp_all add: filePath_def daemonTokensPath_def rawTokenFilePath_def)

lemma writeRaw_ready:
  assumes "store_ready E name w" "isSafeName name" "jl_dump (t_json E) 4 (raw_doc name raw at) = Some s"
  shows "fst (run_state (writeRawTokenFile E (rawTokenFilePath E name @ ''.new'') name raw at) w) = Inr True
   \<and> store_ready E name (snd (run_state (writeRawTokenFile E (rawTokenFilePath E name @ ''.new'') name raw at) w))"
  using assms
  by (simp add: writeRawTokenFile_def store_parents mk_dirs_def open_trunc_def write_out_def
      buffer_out_def chmod_def sys_def Let_def store_ready_def set_text_def split: option.split)

lemma tokensWrite_ready:
  assumes "store_ready E name w" "isSafeName name" "jl_dump (t_json E) 4 (tokens_doc ts) = Some s"
  shows "fst (run_state (tokensWrite E ts) w) = Inr True
    \<and> store_ready E name (snd (run_state (tokensWrite E ts) w))"
  using assms
  by (simp add: tokensWrite_def store_parents mk_dirs_def commit_unfold
      store_ready_def set_text_def split: option.split)

lemma version_doc:
  assumes "json_lib_ok (t_json E)" "jl_dump (t_json E) n (tokens_doc es) = Some s"
    "map_option i_text (w_files w (filePath E)) = Some (s @ [CHR 10])"
  shows "fst (run_state (onDiskVersionUnsupported E) w) = Inr False"
proof -
  have "jl_parse (t_json E) (s @ [CHR 10]) = Some (reparse (tokens_doc es))"
    using assms(1,2) by (rule json_lib_ok_parse)
  moreover have "jvalue get_int (reparse (tokens_doc es)) ''version'' 0 = Inr kTokensFileSchemaVersion"
    "is_object (reparse (tokens_doc es))"
    by (simp_all add: tokens_doc_def jvalue_def mk_obj_def get_int_def wrap_int_def kTokensFileSchemaVersion_def)
  ultimately show ?thesis using assms(3) by (auto simp: version_check_run parse_text_def)
qed

lemma raw_doc_text:
  "isSafeName name \<Longrightarrow> length raw = kRawBytes \<Longrightarrow>
    jtext_ok (raw_doc name (encode_token raw) (currentUtcIso8601 t))"
  unfolding raw_doc_def
  by (rule jtext_ok_put_all)
    (auto simp: ascii_utf8 ascii_encode_token ascii_stamp isSafeNameD(4) intro!: ascii_utf8, auto simp: ascii_def)

lemma entry_text:
  "utf8_ok (te_name e) \<Longrightarrow> utf8_ok (te_hash e) \<Longrightarrow> utf8_ok (te_issuedAt e) \<Longrightarrow> utf8_ok (te_expiresAt e) \<Longrightarrow>
    jtext_ok (tokenEntryToJson e)"
  unfolding tokenEntryToJson_def
  by (rule jtext_ok_put_all) (auto intro!: ascii_utf8 simp: ascii_def)

lemma tokens_text: "(\<forall>e \<in> set ts. jtext_ok (tokenEntryToJson e)) \<Longrightarrow> jtext_ok (tokens_doc ts)"
  unfolding tokens_doc_def by (rule jtext_ok_put_all) (auto intro!: ascii_utf8 simp: ascii_def)

lemma new_entry_text:
  "isSafeName name \<Longrightarrow> utf8_ok exp \<Longrightarrow> jtext_ok (tokenEntryToJson (new_entry E name raw (currentUtcIso8601 t) exp lo))"
  by (rule entry_text) (simp_all add: new_entry_def ascii_utf8 ascii_hash ascii_stamp isSafeNameD(4))

text \<open>In a healthy world an issue of a safe name succeeds.\<close>

lemma issue_ready:
  assumes "json_lib_ok (t_json E)" "isSafeName name" "utf8_ok exp" "store_ready E name w"
    "\<forall>n. w_random w n \<noteq> None" "fst (run_state (onDiskVersionUnsupported E) w) = Inr False"
    "stored E w = Inr old" "\<forall>e \<in> set old. jtext_ok (tokenEntryToJson e)"
    "rep \<or> name \<notin> te_name ` set old"
  shows "\<exists>res w'. run_state (issueToken E name exp lo rep) w = (Inr res, w') \<and> ir_status res = Issue_Ok"
proof -
  obtain wa where a: "run_state (onDiskVersionUnsupported E) w = (Inr False, wa)"
    using assms(6) by (metis prod.collapse)
  obtain t wb where b: "run_state (tokensRead E) wa = (t, wb)" by fastforce
  note ka = version_check_keeps [OF a] and kb = tokensRead_keeps [OF b]
  have ready: "store_ready E name wb" using ka kb assms(4) by (simp add: store_ready_def)
  have t: "t = Inr old"
    using tokensRead_run [of E wa] b ka(1,6) assms(4,7) by (simp add: stored_def store_ready_def)
  obtain g where g: "w_random wb (w_tick wb) = Some g" using assms(5) ka(4) kb(4) by fastforce
  define raw where "raw = encode_token (map g [0..<kRawBytes])"
  have len: "length (map g [0..<kRawBytes]) = kRawBytes" by simp
  have raw: "raw \<noteq> []" using encode_token_val [OF len] by (auto simp: raw_def)
  define wc where "wc = tick wb"
  have c: "run_state generateToken wb = (raw, wc)"
    using g by (simp add: generateToken_def rand_bytes_def raw_def wc_def)
  have readyc: "store_ready E name wc" using ready by (simp add: store_ready_def wc_def)
  define at where "at = currentUtcIso8601 (w_now wc)"
  define ts where "ts = erase_first name old @ [new_entry E name raw at exp lo]"
  have "jtext_ok (raw_doc name raw at)" unfolding raw_def at_def by (rule raw_doc_text [OF assms(2) len])
  then obtain s1 where s1: "jl_dump (t_json E) 4 (raw_doc name raw at) = Some s1"
    using json_lib_ok_dump [OF assms(1)] by (meson not_None_eq)
  have "set (erase_first name old) \<subseteq> set old" by (induction old) auto
  then have "jtext_ok (tokens_doc ts)"
    using assms(8) new_entry_text [OF assms(2,3)] by (intro tokens_text) (auto simp: ts_def at_def)
  then obtain s2 where s2: "jl_dump (t_json E) 4 (tokens_doc ts) = Some s2"
    using json_lib_ok_dump [OF assms(1)] by (meson not_None_eq)
  obtain wd where d: "run_state (writeRawTokenFile E (rawTokenFilePath E name @ ''.new'') name raw at) wc = (Inr True, wd)"
    "store_ready E name wd"
    using writeRaw_ready [OF readyc assms(2) s1] by (metis prod.collapse)
  obtain we where e: "run_state (tokensWrite E ts) wd = (Inr True, we)"
    using tokensWrite_ready [OF d(2) assms(2) s2] by (metis prod.collapse)
  have ic: "fst (run_state (issue_commit E name raw at ts) wc) = Inr \<lparr>ir_status = Issue_Ok, ir_token = raw\<rparr>"
    using d(1) e by (simp add: issue_commit_def Let_def split: prod.split)
  have "run_state (issueToken E name exp lo rep) w = run_state (issue_commit E name raw at ts) wc"
    using a b c t assms(2,9) raw
    by (auto simp: issueToken_def now_def ts_def new_entry_def at_def image_iff)
  with ic show ?thesis by (metis issue_result.select_convs(1) prod.collapse)
qed

text \<open>In a healthy world a revocation of a name that is there succeeds.\<close>

lemma revoke_ready:
  assumes "json_lib_ok (t_json E)" "isSafeName name" "store_ready E name w"
    "fst (run_state (onDiskVersionUnsupported E) w) = Inr False"
    "stored E w = Inr old" "jtext_ok (tokens_doc (filter (\<lambda>e. te_name e \<noteq> name) old))"
    "name \<in> te_name ` set old"
  shows "\<exists>w'. run_state (revokeToken E name) w = (Inr Revoke_Ok, w')"
proof -
  obtain wa where a: "run_state (onDiskVersionUnsupported E) w = (Inr False, wa)"
    using assms(4) by (metis prod.collapse)
  obtain t wb where b: "run_state (tokensRead E) wa = (t, wb)" by fastforce
  note ka = version_check_keeps [OF a] and kb = tokensRead_keeps [OF b]
  have ready: "store_ready E name wb" using ka kb assms(3) by (simp add: store_ready_def)
  have t: "t = Inr old"
    using tokensRead_run [of E wa] b ka(1,6) assms(3,5) by (simp add: stored_def store_ready_def)
  obtain s where "jl_dump (t_json E) 4 (tokens_doc (filter (\<lambda>e. te_name e \<noteq> name) old)) = Some s"
    using json_lib_ok_dump [OF assms(1)] assms(6) by (meson not_None_eq)
  from tokensWrite_ready [OF ready assms(2) this] obtain we where
    e: "run_state (tokensWrite E (filter (\<lambda>e. te_name e \<noteq> name) old)) wb = (Inr True, we)"
    by (metis prod.collapse)
  have "length (filter (\<lambda>e. te_name e \<noteq> name) old) \<noteq> length old"
    using assms(7) unfolding length_filter_all by auto
  with a b t e assms(2) show ?thesis by (simp add: revokeToken_def Let_def split: prod.split)
qed

text \<open>No operation of the store changes the environment.\<close>

lemma steady_issue: "steady (issueToken E name exp lo rep)"
  unfolding issueToken_def issue_commit_def writeRawTokenFile_def tokensWrite_def tokensRead_def
    onDiskVersionUnsupported_def issue_failed_def generateToken_def commit_file_def Let_def
  by (auto intro!: steadys split: option.split sum.split json.split)

end
