(* ===== verification/Token_Safety.thy ===== *)
theory Token_Safety
  imports Token_Store
begin

text \<open>
  What the token store promises: issuing makes a token valid, revoking makes a name unreachable,
  a failed operation changes nothing, a crash at any moment leaves a whole document, and a file
  of another schema version is never rewritten.
\<close>

section \<open>Lists of entries\<close>

lemma set_erase_first: "set (erase_first n es) \<subseteq> set es"
  by (induction es) auto

lemma erase_first_names:
  "distinct (map te_name es) \<Longrightarrow>
    distinct (map te_name (erase_first n es)) \<and> n \<notin> te_name ` set (erase_first n es)"
  using set_erase_first by (induction es) (auto simp: image_iff, blast)

lemma match_token_sound:
  "match_token tnow h proto es = Some n \<Longrightarrow> \<exists>e \<in> set es. te_name e = n \<and> te_hash e = h
     \<and> \<not> isExpired tnow (te_expiresAt e) \<and> (te_localOnly e \<longrightarrow> proto = ''local'')"
  by (induction es) (auto split: if_splits)

lemma match_token_skip:
  "\<forall>e \<in> set es. te_hash e \<noteq> h \<Longrightarrow> match_token tnow h proto (es @ fs) = match_token tnow h proto fs"
  by (induction es) auto

lemma lookup_run:
  assumes "t \<noteq> []"
  shows "fst (run_state (lookupByToken E t proto) w) =
    (if w_sys w (w_tick w) (ReadF (filePath E))
     then (case stored E w of Inl x \<Rightarrow> Inl x
           | Inr es \<Rightarrow> Inr (match_token (w_now w) (hashToken (t_sha256 E) t) proto es))
     else Inr None)"
proof -
  obtain r w1 where r: "run_state (tokensRead E) w = (r, w1)" by fastforce
  have "r = (if w_sys w (w_tick w) (ReadF (filePath E)) then stored E w else Inr [])"
    using tokensRead_run [of E w] r by simp
  with assms r tokensRead_keeps(3) [OF r] show ?thesis
    by (cases "stored E w") (simp_all add: lookupByToken_def now_def)
qed

text \<open>What an issue that wrote stores.\<close>

lemma issue_stored:
  assumes "json_lib_ok (t_json E)" "\<forall>s. t_sha256 E s \<noteq> []"
    "run_state (issueToken E name exp lo rep) w = (Inr res, w')" "ir_status res = Issue_Ok"
  obtains old bs at where "isSafeName name" "stored E w = Inr old \<or> old = []" "length bs = kRawBytes"
    "ir_token res = encode_token bs" "rep \<or> name \<notin> te_name ` set old"
    "stored E w' = Inr (erase_first name old @ [new_entry E name (encode_token bs) at exp lo])"
  using assms(3)
proof (cases rule: issueToken_run)
  case stopped
  with assms(4) show thesis by blast
next
  case (committed old bs at w1)
  let ?ts = "erase_first name old @ [new_entry E name (encode_token bs) at exp lo]"
  from issue_commit_run(1) [OF committed(8)] assms(4) obtain s where
    s: "jl_dump (t_json E) 4 (tokens_doc ?ts) = Some s" "ir_token res = encode_token bs"
       "map_option i_text (w_files w' (filePath E)) = Some (s @ [CHR 10])" by blast
  have "\<forall>e \<in> set old. good_entry e"
    using committed(2) tokens_view_good by (auto simp: stored_def)
  then have "\<forall>e \<in> set ?ts. good_entry e"
    using set_erase_first [of name old] isSafeNameD(1) [OF committed(1)] assms(2)
    by (auto simp: new_entry_def hashToken_nonempty)
  from tokens_view_doc [OF assms(1) s(1) this] s(3) have "stored E w' = Inr ?ts"
    unfolding stored_def s(3) by simp
  with committed s(2) show thesis by (intro that) auto
qed

text \<open>What a revocation that succeeded stores, and what one that failed leaves.\<close>

lemma revoke_stored:
  assumes "json_lib_ok (t_json E)" "run_state (revokeToken E name) w = (Inr Revoke_Ok, w')"
  shows "\<exists>old. stored E w = Inr old \<and> stored E w' = Inr (filter (\<lambda>e. te_name e \<noteq> name) old)"
  using assms(2)
proof (cases rule: revokeToken_run)
  case (wrote old wr w1 w2)
  let ?ts = "filter (\<lambda>e. te_name e \<noteq> name) old"
  have old: "stored E w = Inr old" using wrote(2,3) by auto
  have wr: "wr = Inr True" using wrote(7) by simp
  obtain s where s: "jl_dump (t_json E) 4 (tokens_doc ?ts) = Some s"
      "map_option i_text (w_files w2 (filePath E)) = Some (s @ [CHR 10])"
    using tokensWrite_run(1) [OF wrote(6) wr] by blast
  have "\<forall>e \<in> set ?ts. good_entry e" using old tokens_view_good by (auto simp: stored_def)
  note view = tokens_view_doc [OF assms(1) s(1) this]
  have "w_files w' (filePath E) = w_files w2 (filePath E)"
    using untouchedD(1) [OF untouched_calls(10), of "filePath E" "rawTokenFilePath E name" w2] wr wrote(8)
    by (metis prod.collapse store_paths(1))
  then have "stored E w' = Inr ?ts" using view s(2) unfolding stored_def by (simp only:)
  with old show ?thesis by blast
qed simp

lemma revoke_failed:
  assumes "run_state (revokeToken E name) w = (q, w')" "q \<noteq> Inr Revoke_Ok"
  shows "w_files w' (filePath E) = w_files w (filePath E)"
  using assms(1)
proof (cases rule: revokeToken_run)
  case (wrote old wr w1 w2)
  with tokensWrite_run(2) [OF wrote(6)] assms(2) show ?thesis by auto
qed simp

lemma issue_refused:
  assumes "run_state (issueToken E name exp lo rep) w = (r, w')"
    "\<forall>res. r = Inr res \<longrightarrow> ir_status res \<noteq> Issue_Ok"
  shows "w_files w' (filePath E) = w_files w (filePath E)
    \<and> w_files w' (rawTokenFilePath E name) = w_files w (rawTokenFilePath E name)"
  using assms(1)
proof (cases rule: issueToken_run)
  case (committed old bs at w1)
  from issue_commit_run(1) [OF committed(8)] assms(2) committed(6) show ?thesis by auto
qed simp

section \<open>A store for the witnesses\<close>

definition sample_env :: token_env where
  "sample_env = \<lparr>t_cfg = sample_cfg, t_json = sample_json, t_sha256 = sample_sha\<rparr>"

definition sample_entry :: token_entry where
  "sample_entry = \<lparr>te_name = ''alice'', te_hash = hashToken sample_sha ''x'', te_issuedAt = ''2024-01-01T00:00:00Z'',
     te_expiresAt = [], te_localOnly = False\<rparr>"

definition alice_world :: world where
  "alice_world = sample_file (filePath sample_env) (enc_json (tokens_doc [sample_entry]) @ [CHR 10])"

definition empty_issue :: "(exn + issue_result) \<times> world" where
  "empty_issue = run_state (issueToken sample_env ''bob'' [] False False) sample_world"

lemma sample_env_fields [simp]:
  "t_json sample_env = sample_json" "t_sha256 sample_env = sample_sha" "t_cfg sample_env = sample_cfg"
  by (simp_all add: sample_env_def)

lemma sample_ascii: "utf8_ok []" "utf8_ok ''alice''" "utf8_ok ''2024-01-01T00:00:00Z''"
  by (simp_all add: utf8_ok_def)

lemma sample_text: "jtext_ok (tokens_doc [sample_entry])"
  by (rule tokens_text) (auto simp: sample_entry_def ascii_utf8 ascii_hash sample_ascii intro!: entry_text)

lemma sample_names [simp]: "isSafeName ''alice''" "isSafeName ''bob''"
  by (simp_all add: isSafeName_def isalnum_def starts_with_def)

lemma alice_stored: "stored sample_env alice_world = Inr [sample_entry]"
  unfolding stored_def alice_world_def
  using tokens_view_doc [of sample_env 4 "[sample_entry]"] sample_json_ok sample_dump [OF sample_text]
  by (simp add: sample_entry_def hashToken_nonempty sample_sha_def)

lemma sample_ready: "store_ready sample_env n sample_world" "store_ready sample_env n alice_world"
  using dir_paths [of sample_env] by (simp_all add: store_ready_def alice_world_def)

lemma alice_random: "\<forall>n. w_random alice_world n \<noteq> None"
  by (simp add: alice_world_def sample_file_def sample_world_def)

lemma alice_version: "fst (run_state (onDiskVersionUnsupported sample_env) alice_world) = Inr False"
  by (rule version_doc [of _ 4 "[sample_entry]" "enc_json (tokens_doc [sample_entry])"])
    (simp_all add: sample_json_ok sample_dump sample_text alice_world_def)

lemma empty_stored:
  "stored sample_env sample_world = Inr []" "fst (run_state (onDiskVersionUnsupported sample_env) sample_world) = Inr False"
  by (simp_all add: stored_def tokens_view_def parse_text_def version_check_run)

lemma empty_issued: "\<exists>res w'. empty_issue = (Inr res, w') \<and> ir_status res = Issue_Ok"
  unfolding empty_issue_def
  by (rule issue_ready [where old = "[]"]) (simp_all add: sample_json_ok sample_ready empty_stored utf8_ok_def)

lemma alice_revoked: "\<exists>w'. run_state (revokeToken sample_env ''alice'') alice_world = (Inr Revoke_Ok, w')"
  by (rule revoke_ready [where old = "[sample_entry]"])
    (simp_all add: sample_json_ok sample_ready alice_version alice_stored sample_text, simp_all add: sample_entry_def tokens_text)

section \<open>Properties\<close>

text \<open>
  C1: a token that was issued is accepted: looking it up right after answers the name it was issued
  for, unless its deadline has passed, it is bound to the local transport and came over another
  one, or another entry of the file already has the same digest.
\<close>

theorem issue_then_lookup:
  assumes "json_lib_ok (t_json E)" "\<forall>s. t_sha256 E s \<noteq> []"
    "run_state (issueToken E name exp lo rep) w = (Inr res, w')" "ir_status res = Issue_Ok"
    "\<forall>old. stored E w = Inr old \<longrightarrow> (\<forall>e \<in> set old. te_hash e \<noteq> hashToken (t_sha256 E) (ir_token res))"
    "w_sys w' (w_tick w') (ReadF (filePath E))"
    "\<not> isExpired (w_now w') exp" "lo \<longrightarrow> proto = ''local''"
  shows "fst (run_state (lookupByToken E (ir_token res) proto) w') = Inr (Some name)"
  using assms(1-4)
proof (rule issue_stored)
  fix old bs at
  assume o: "stored E w = Inr old \<or> old = []" "length bs = kRawBytes" "ir_token res = encode_token bs"
    "stored E w' = Inr (erase_first name old @ [new_entry E name (encode_token bs) at exp lo])"
  have "ir_token res \<noteq> []" using encode_token_val [OF o(2)] o(3) by auto
  moreover have "\<forall>e \<in> set (erase_first name old). te_hash e \<noteq> hashToken (t_sha256 E) (ir_token res)"
    using set_erase_first [of name old] o(1) assms(5) by auto
  ultimately show ?thesis
    using o(3,4) assms(6-8) by (simp add: lookup_run match_token_skip new_entry_def)
qed

text \<open>
  C2: after a successful revocation no token whatsoever authenticates as that name, now or in any
  later world whose \<open>tokens.json\<close> is the one written; every other entry is still there.
\<close>

theorem revoke_then_lookup:
  assumes "json_lib_ok (t_json E)" "run_state (revokeToken E name) w = (Inr Revoke_Ok, w')"
    "w_files v (filePath E) = w_files w' (filePath E)"
  shows "fst (run_state (lookupByToken E t proto) v) \<noteq> Inr (Some name)
    \<and> (\<exists>old. stored E w = Inr old \<and> stored E w' = Inr (filter (\<lambda>e. te_name e \<noteq> name) old))"
proof -
  obtain old where old: "stored E w = Inr old" "stored E w' = Inr (filter (\<lambda>e. te_name e \<noteq> name) old)"
    using revoke_stored [OF assms(1,2)] by blast
  then have sv: "stored E v = Inr (filter (\<lambda>e. te_name e \<noteq> name) old)" using assms(3) by (simp add: stored_def)
  have "match_token (w_now v) h proto (filter (\<lambda>e. te_name e \<noteq> name) old) \<noteq> Some name" for h
    using match_token_sound [of "w_now v" h proto "filter (\<lambda>e. te_name e \<noteq> name) old" name] by auto
  then have "fst (run_state (lookupByToken E t proto) v) \<noteq> Inr (Some name)"
    using sv by (cases "t = []") (simp add: lookupByToken_def, simp add: lookup_run)
  with old show ?thesis by blast
qed

text \<open>
  C3: an accepted token is a known one: a lookup answers a name only for a non-empty token whose
  digest is in the file, under that name, not expired, and local if the entry is local-only.
\<close>

theorem lookup_sound:
  assumes "fst (run_state (lookupByToken E t proto) w) = Inr (Some name)"
  shows "t \<noteq> [] \<and> (\<exists>es. stored E w = Inr es \<and> (\<exists>e \<in> set es. te_name e = name
    \<and> te_hash e = hashToken (t_sha256 E) t \<and> \<not> isExpired (w_now w) (te_expiresAt e)
    \<and> (te_localOnly e \<longrightarrow> proto = ''local'')))"
proof (cases "t = []")
  case True
  with assms show ?thesis by (simp add: lookupByToken_def)
next
  case False
  with assms obtain es where "stored E w = Inr es"
    "match_token (w_now w) (hashToken (t_sha256 E) t) proto es = Some name"
    by (auto simp: lookup_run split: if_splits sum.splits)
  with False match_token_sound show ?thesis by blast
qed

text \<open>
  C4: an issue that does not answer \<open>Ok\<close>, an exception included, leaves \<open>tokens.json\<close> and the raw
  file of the name exactly as they were.
\<close>

theorem issue_failed_unchanged:
  assumes "run_state (issueToken E name exp lo rep) w = (r, w')"
    "\<forall>res. r = Inr res \<longrightarrow> ir_status res \<noteq> Issue_Ok"
  shows "w_files w' (filePath E) = w_files w (filePath E)
    \<and> w_files w' (rawTokenFilePath E name) = w_files w (rawTokenFilePath E name)"
  using issue_refused [OF assms] .

text \<open>
  C5: at every moment of an issue or a revocation, crash points included, \<open>tokens.json\<close> is the file
  from before the operation or the file it ends with; no reader ever sees a half-written one.
\<close>

theorem tokens_never_half_written:
  assumes "run_state (issueToken E name exp lo rep) w = (r, w')" "run_state (revokeToken E name) v = (q, v')"
  shows "hist_ext w w' (\<lambda>f. f (filePath E) = w_files w (filePath E) \<or> f (filePath E) = w_files w' (filePath E))
    \<and> hist_ext v v' (\<lambda>f. f (filePath E) = w_files v (filePath E) \<or> f (filePath E) = w_files v' (filePath E))"
proof
  show "hist_ext w w' (\<lambda>f. f (filePath E) = w_files w (filePath E) \<or> f (filePath E) = w_files w' (filePath E))"
    using assms(1)
  proof (cases rule: issueToken_run)
    case stopped
    then show ?thesis by (simp add: hist_ext_same)
  next
    case (committed old bs at w1)
    from issue_commit_run(2) [OF committed(8)] committed(6,7) show ?thesis by (simp add: hist_ext_def)
  qed
  show "hist_ext v v' (\<lambda>f. f (filePath E) = w_files v (filePath E) \<or> f (filePath E) = w_files v' (filePath E))"
    using assms(2)
  proof (cases rule: revokeToken_run)
    case stopped
    then show ?thesis by (simp add: hist_ext_same)
  next
    case (wrote old wr w1 w2)
    note tw = tokensWrite_run(3) [OF wrote(6)]
    have "w_files v' (filePath E) = w_files w2 (filePath E)
        \<and> hist_ext w2 v' (\<lambda>f. f (filePath E) = w_files w2 (filePath E))"
      using untouchedD [OF untouched_calls(10), of "filePath E" "rawTokenFilePath E name" w2] wrote(8)
      by (metis hist_ext_refl prod.collapse store_paths(1))
    with tw wrote(4,5) have "hist_ext w1 v' (\<lambda>f. f (filePath E) = w_files v (filePath E)
        \<or> f (filePath E) = w_files v' (filePath E))"
      by (auto intro: hist_ext_trans elim: hist_ext_mono)
    with wrote(5) show ?thesis by (simp add: hist_ext_def)
  qed
qed

text \<open>
  Names stay unique: when the entries on disk have pairwise different names, so they have
  after any issue and after any revocation, whatever their outcome.
\<close>

theorem names_stay_unique:
  assumes "json_lib_ok (t_json E)" "\<forall>s. t_sha256 E s \<noteq> []"
    "stored E w = Inr old" "distinct (map te_name old)"
    "run_state (issueToken E name exp lo rep) w = (r, w') \<or> run_state (revokeToken E name) w = (q, w')"
  shows "\<exists>es. stored E w' = Inr es \<and> distinct (map te_name es)"
proof -
  have same: "w_files w' (filePath E) = w_files w (filePath E) \<Longrightarrow> ?thesis"
    using assms(3,4) by (simp add: stored_def)
  from assms(5) show ?thesis
  proof
    assume i: "run_state (issueToken E name exp lo rep) w = (r, w')"
    show ?thesis
    proof (cases "\<exists>res. r = Inr res \<and> ir_status res = Issue_Ok")
      case False
      then show ?thesis using issue_refused [OF i] same by blast
    next
      case True
      then obtain res where res: "r = Inr res" "ir_status res = Issue_Ok" by blast
      from assms(1,2) i [unfolded res(1)] res(2) show ?thesis
      proof (rule issue_stored)
        fix o2 bs at
        assume o2: "stored E w = Inr o2 \<or> o2 = []"
          "stored E w' = Inr (erase_first name o2 @ [new_entry E name (encode_token bs) at exp lo])"
        have "distinct (map te_name o2)" using o2(1) assms(3,4) by auto
        with erase_first_names [OF this, of name] o2(2) show ?thesis by (simp add: new_entry_def)
      qed
    qed
  next
    assume v: "run_state (revokeToken E name) w = (q, w')"
    show ?thesis
    proof (cases "q = Inr Revoke_Ok")
      case True
      from revoke_stored [OF assms(1) v [unfolded True]] assms(3,4) show ?thesis
        by (auto simp: distinct_map inj_on_def)
    next
      case False
      with revoke_failed [OF v] same show ?thesis by blast
    qed
  qed
qed

text \<open>
  A \<open>tokens.json\<close> of another schema version is never rewritten: when the check reads such a
  document, issue and revoke answer \<open>IoError\<close> and touch no file at all.
\<close>

theorem unsupported_version_untouched:
  assumes "isSafeName name" "w_sys w (w_tick w) (ReadF (filePath E))"
    "w_files w (filePath E) = Some f" "jl_parse (t_json E) (i_text f) = Some (JObj kvs)"
    "jvalue get_int (JObj kvs) ''version'' 0 = Inr v" "v \<noteq> kTokensFileSchemaVersion"
    "run_state (issueToken E name exp lo rep) w = (r, w')" "run_state (revokeToken E name) w = (q, w'')"
  shows "r = Inr \<lparr>ir_status = Issue_IoError, ir_token = []\<rparr> \<and> q = Inr Revoke_IoError
    \<and> w_files w' = w_files w \<and> w_hist w' = w_hist w \<and> w_files w'' = w_files w \<and> w_hist w'' = w_hist w"
proof -
  have u: "fst (run_state (onDiskVersionUnsupported E) w) = Inr True"
    using assms(2-6) by (simp add: version_check_run parse_text_def)
  then obtain w1 where w1: "run_state (onDiskVersionUnsupported E) w = (Inr True, w1)"
    by (metis fst_conv surj_pair)
  with assms(1,7,8) version_check_keeps [OF w1] show ?thesis
    by (auto simp: issueToken_def revokeToken_def issue_failed_def cerr_def)
qed

text \<open>
  No token name leads out of the token directory: the raw file of a safe name is a direct child
  of \<open>daemon/tokens\<close> called \<open>name.json\<close>, and different names have different files.
\<close>

theorem raw_files_contained:
  assumes "isSafeName name" "isSafeName name'"
  shows "parent_path (rawTokenFilePath E name) = daemonTokensDir (t_cfg E)
    \<and> filename (rawTokenFilePath E name) = name @ ''.json''
    \<and> (rawTokenFilePath E name = rawTokenFilePath E name' \<longleftrightarrow> name = name')"
  using parent_path_snoc [of "name @ ''.json''" "daemonTokensDir (t_cfg E)"] isSafeNameD(3) [OF assms(1)]
  by (simp add: rawTokenFilePath_def)

text \<open>
  Without randomness there is no token: when the generator fails, an issue never succeeds and
  no file changes at any moment.
\<close>

theorem no_entropy_no_token:
  assumes "w_random w = (\<lambda>_. None)" "run_state (issueToken E name exp lo rep) w = (r, w')"
  shows "w_files w' = w_files w \<and> w_hist w' = w_hist w \<and> (\<forall>res. r = Inr res \<longrightarrow> ir_status res \<noteq> Issue_Ok \<and> ir_token res = [])"
proof -
  obtain u wa where a: "run_state (onDiskVersionUnsupported E) w = (u, wa)" by fastforce
  obtain t wb where b: "run_state (tokensRead E) wa = (t, wb)" by fastforce
  note ka = version_check_keeps [OF a] and kb = tokensRead_keeps [OF b]
  have "w_random wb = (\<lambda>_. None)" using ka kb assms(1) by simp
  then have g: "run_state generateToken wb = ([], tick wb)"
    by (simp add: generateToken_def rand_bytes_def)
  show ?thesis
    using assms(2) a b g ka kb
    by (auto simp: issueToken_def issue_failed_def cerr_def split: sum.splits if_splits)
qed

text \<open>
  \<open>list\<close> answers one row per entry of the file, in order, with the entry's name, stamps and
  binding and whether its raw file is present, and changes no file.
\<close>

theorem listTokens_rows:
  assumes "stored E w = Inr es" "w_sys w (w_tick w) (ReadF (filePath E))"
    "run_state (listTokens E) w = (r, w')"
  shows "w_files w' = w_files w \<and> r = Inr (map (\<lambda>e. \<lparr>it_name = te_name e, it_issuedAt = te_issuedAt e,
     it_expiresAt = te_expiresAt e, it_localOnly = te_localOnly e,
     it_rawFilePresent = (w_files w (rawTokenFilePath E (te_name e)) \<noteq> None
        \<or> w_dirs w (rawTokenFilePath E (te_name e)) \<noteq> None)\<rparr>) es)"
proof -
  obtain t wb where b: "run_state (tokensRead E) w = (t, wb)" by fastforce
  have t: "t = Inr es" using tokensRead_run [of E w] b assms(1,2) by simp
  have dirs: "w_dirs wb = w_dirs w"
    using b by (auto simp: tokensRead_def read_file_def cerr_def split: option.splits sum.splits json.splits if_splits)
  have "run_state (list_entries E xs) v = (map (\<lambda>e. \<lparr>it_name = te_name e, it_issuedAt = te_issuedAt e,
     it_expiresAt = te_expiresAt e, it_localOnly = te_localOnly e,
     it_rawFilePresent = (w_files v (rawTokenFilePath E (te_name e)) \<noteq> None
        \<or> w_dirs v (rawTokenFilePath E (te_name e)) \<noteq> None)\<rparr>) xs, v)" for xs v
    by (induction xs) (simp_all add: file_exists_def)
  with assms(3) b t dirs tokensRead_keeps(1) [OF b] show ?thesis by (auto simp: listTokens_def)
qed

text \<open>
  C6: in a healthy world (every call succeeds, nothing in the way, the file of this version or
  missing) issuing a safe name that is free, or replacing one, succeeds.
\<close>

theorem issue_succeeds:
  assumes "json_lib_ok (t_json E)" "isSafeName name" "utf8_ok exp" "store_ready E name w"
    "\<forall>n. w_random w n \<noteq> None" "fst (run_state (onDiskVersionUnsupported E) w) = Inr False"
    "stored E w = Inr old" "\<forall>e \<in> set old. jtext_ok (tokenEntryToJson e)"
    "rep \<or> name \<notin> te_name ` set old"
  shows "\<exists>res w'. run_state (issueToken E name exp lo rep) w = (Inr res, w') \<and> ir_status res = Issue_Ok"
  using assms by (rule issue_ready)

section \<open>Witnesses\<close>

lemma issue_succeeds_witness:
  "\<exists>res w'. run_state (issueToken sample_env ''bob'' [] True False) alice_world = (Inr res, w')
     \<and> ir_status res = Issue_Ok"
proof (rule issue_succeeds)
  show "\<forall>e \<in> set [sample_entry]. jtext_ok (tokenEntryToJson e)"
    by (auto simp: sample_entry_def ascii_utf8 ascii_hash sample_ascii intro!: entry_text)
  show "False \<or> ''bob'' \<notin> te_name ` set [sample_entry]" by (simp add: sample_entry_def)
qed (simp_all add: sample_json_ok sample_ready alice_version alice_stored alice_random utf8_ok_def)

lemma issue_then_lookup_witness:
  "\<exists>res w'. empty_issue = (Inr res, w')
     \<and> fst (run_state (lookupByToken sample_env (ir_token res) ''tcp'') w') = Inr (Some ''bob'')"
proof -
  obtain res w' where i: "empty_issue = (Inr res, w')" "ir_status res = Issue_Ok" using empty_issued by blast
  have k: "w_sys w' n op" for n op
    using steady_issue [of sample_env "''bob''" "[]" False False] i(1)
    unfolding steady_def empty_issue_def Let_def by (metis sample_worlds(1) snd_conv)
  have "fst (run_state (lookupByToken sample_env (ir_token res) ''tcp'') w') = Inr (Some ''bob'')"
    by (rule issue_then_lookup [OF _ _ i(1) [unfolded empty_issue_def] i(2)])
      (simp_all add: sample_json_ok k empty_stored isExpired_def sample_sha_def)
  with i show ?thesis by blast
qed

lemma revoke_then_lookup_witness:
  "\<exists>w'. run_state (revokeToken sample_env ''alice'') alice_world = (Inr Revoke_Ok, w')
     \<and> fst (run_state (lookupByToken sample_env ''x'' ''local'') w') \<noteq> Inr (Some ''alice'')"
proof -
  obtain w' where w': "run_state (revokeToken sample_env ''alice'') alice_world = (Inr Revoke_Ok, w')"
    using alice_revoked by blast
  with revoke_then_lookup [of sample_env, OF _ w' refl] show ?thesis by (simp add: sample_json_ok)
qed

lemma alice_lookup: "fst (run_state (lookupByToken sample_env ''x'' ''tcp'') alice_world) = Inr (Some ''alice'')"
  using alice_stored by (simp add: lookup_run alice_world_def) (simp add: sample_entry_def isExpired_def)

lemma lookup_sound_witness:
  "\<exists>es. stored sample_env alice_world = Inr es \<and> (\<exists>e \<in> set es. te_name e = ''alice'')"
  using lookup_sound [OF alice_lookup] by blast

lemma alice_taken:
  "\<exists>w'. run_state (issueToken sample_env ''alice'' [] False False) alice_world
     = (Inr \<lparr>ir_status = Issue_AlreadyExists, ir_token = []\<rparr>, w')"
proof -
  obtain wa where a: "run_state (onDiskVersionUnsupported sample_env) alice_world = (Inr False, wa)"
    using alice_version by (metis prod.collapse)
  have "fst (run_state (tokensRead sample_env) wa) = Inr [sample_entry]"
    using tokensRead_run [of sample_env wa] version_check_keeps [OF a] alice_stored
    by (simp add: stored_def) (simp add: alice_world_def)
  then obtain wb where "run_state (tokensRead sample_env) wa = (Inr [sample_entry], wb)"
    by (metis prod.collapse)
  with a show ?thesis by (simp add: issueToken_def issue_failed_def sample_entry_def)
qed

lemma issue_failed_unchanged_witness:
  "\<exists>r w'. run_state (issueToken sample_env ''alice'' [] False False) alice_world = (r, w')
     \<and> w_files w' (filePath sample_env) = w_files alice_world (filePath sample_env)"
proof -
  obtain w' where w': "run_state (issueToken sample_env ''alice'' [] False False) alice_world
     = (Inr \<lparr>ir_status = Issue_AlreadyExists, ir_token = []\<rparr>, w')" using alice_taken by blast
  from issue_failed_unchanged [OF w'] w' show ?thesis by auto
qed

lemma tokens_never_half_written_witness:
  "hist_ext sample_world (snd empty_issue)
     (\<lambda>f. f (filePath sample_env) = w_files sample_world (filePath sample_env)
        \<or> f (filePath sample_env) = w_files (snd empty_issue) (filePath sample_env))"
  using tokens_never_half_written [of sample_env "''bob''" "[]" False False sample_world "fst empty_issue" "snd empty_issue"]
  by (simp add: empty_issue_def) (metis prod.collapse)

lemma names_stay_unique_witness:
  "\<exists>es. stored sample_env (snd empty_issue) = Inr es \<and> distinct (map te_name es)"
  by (rule names_stay_unique [of sample_env sample_world "[]" "''bob''" "[]" False False "fst empty_issue"])
    (simp_all add: sample_json_ok empty_stored sample_sha_def empty_issue_def)

lemma unsupported_version_untouched_witness:
  "\<exists>w r w'. run_state (issueToken sample_env ''bob'' [] False True) w = (r, w')
     \<and> r = Inr \<lparr>ir_status = Issue_IoError, ir_token = []\<rparr> \<and> w_files w' = w_files w"
proof -
  let ?d = "JObj [(''version'', JUInt 3)]"
  let ?w = "sample_file (filePath sample_env) (enc_json ?d @ [CHR 10])"
  obtain r w' where 1: "run_state (issueToken sample_env ''bob'' [] False True) ?w = (r, w')" by fastforce
  obtain q w'' where 2: "run_state (revokeToken sample_env ''bob'') ?w = (q, w'')" by fastforce
  have d: "jtext_ok ?d" by (simp add: utf8_ok_def)
  have "jl_parse sample_json (enc_json ?d @ [CHR 10]) = Some ?d"
    using json_lib_ok_parse [OF sample_json_ok sample_dump [OF d, of 4]] by simp
  then have "r = Inr \<lparr>ir_status = Issue_IoError, ir_token = []\<rparr> \<and> w_files w' = w_files ?w"
    using unsupported_version_untouched [OF sample_names(2) _ _ _ _ _ 1 2, where kvs = "[(''version'', JUInt 3)]" and v = 3]
    by (simp add: jvalue_def get_int_def wrap_int_def kTokensFileSchemaVersion_def del: enc_json.simps)
  with 1 show ?thesis by blast
qed

lemma raw_files_contained_witness:
  "parent_path (rawTokenFilePath sample_env ''alice'') = daemonTokensDir sample_cfg
   \<and> rawTokenFilePath sample_env ''alice'' \<noteq> rawTokenFilePath sample_env ''bob''"
  using raw_files_contained [OF sample_names, of sample_env] by simp

lemma no_entropy_no_token_witness:
  "w_files (snd (run_state (issueToken sample_env ''bob'' [] False False) (sample_world\<lparr>w_random := \<lambda>_. None\<rparr>))) = Map.empty"
  using no_entropy_no_token [of "sample_world\<lparr>w_random := \<lambda>_. None\<rparr>", OF _ prod.collapse [symmetric]] by simp

lemma listTokens_rows_witness:
  "fst (run_state (listTokens sample_env) alice_world) = Inr [\<lparr>it_name = ''alice'',
     it_issuedAt = ''2024-01-01T00:00:00Z'', it_expiresAt = [], it_localOnly = False, it_rawFilePresent = False\<rparr>]"
proof -
  have "w_sys alice_world (w_tick alice_world) (ReadF (filePath sample_env))" by (simp add: alice_world_def)
  from listTokens_rows [OF alice_stored this prod.collapse [symmetric]] show ?thesis
    by (simp add: sample_entry_def) (simp add: alice_world_def)
qed

end
