(* ===== verification/Json_Schema.thy ===== *)
theory Json_Schema
  imports Json
begin

text \<open>
  \<open>src/src/json_schema.h\<close>: type-checked reads of the configuration documents. \<open>Errors\<close> keeps the
  first message noted (a record threaded through the reads by the state monad), \<open>Reader\<close> is a
  mapping with the dotted path of that mapping. Every read notes a mismatch and answers the
  default; nothing here throws.
\<close>

section \<open>typeName\<close>

fun typeName :: "json \<Rightarrow> string" where
  "typeName JNull = ''nothing''"
| "typeName (JObj _) = ''a mapping''"
| "typeName (JArr _) = ''a list''"
| "typeName (JStr _) = ''a string''"
| "typeName (JBool _) = ''true or false''"
| "typeName (JInt _) = ''a whole number''"
| "typeName (JUInt _) = ''a whole number''"
| "typeName (JFloat _) = ''a decimal number''"

section \<open>Errors\<close>

record errors =
  m_message :: string

type_synonym 'a reads = "(errors, 'a) state"

definition no_errors :: errors where
  "no_errors = \<lparr>m_message = []\<rparr>"

definition errs_ok :: "errors \<Rightarrow> bool" where
  "errs_ok e \<longleftrightarrow> m_message e = []"

definition note_err :: "string \<Rightarrow> unit reads" where
  "note_err msg = State_Monad.update (\<lambda>e. if m_message e = [] then e\<lparr>m_message := msg\<rparr> else e)"

definition mismatch :: "string \<Rightarrow> string \<Rightarrow> json \<Rightarrow> unit reads" where
  "mismatch key expected got =
    note_err (key @ '': expected '' @ expected @ '', but got '' @ typeName got @ ''.'')"

section \<open>Reader\<close>

record reader =
  m_obj :: json
  m_prefix :: string

definition reader_of :: "json \<Rightarrow> string \<Rightarrow> reader" where
  "reader_of obj prefix = \<lparr>m_obj = obj, m_prefix = prefix\<rparr>"

definition rpath :: "reader \<Rightarrow> string \<Rightarrow> string" where
  "rpath r key = m_prefix r @ key"

definition present :: "reader \<Rightarrow> string \<Rightarrow> json option" where
  "present r key = (case jfind (m_obj r) key of
      None \<Rightarrow> None
    | Some v \<Rightarrow> if is_null v then None else Some v)"

definition r_str :: "reader \<Rightarrow> string \<Rightarrow> string \<Rightarrow> string reads" where
  "r_str r key dflt = (case present r key of
      None \<Rightarrow> State_Monad.return dflt
    | Some v \<Rightarrow> (case v of
        JStr s \<Rightarrow> State_Monad.return s
      | _ \<Rightarrow> do { mismatch (rpath r key) ''a string'' v; State_Monad.return dflt }))"

definition r_boolean :: "reader \<Rightarrow> string \<Rightarrow> bool \<Rightarrow> bool reads" where
  "r_boolean r key dflt = (case present r key of
      None \<Rightarrow> State_Monad.return dflt
    | Some v \<Rightarrow> (case v of
        JBool b \<Rightarrow> State_Monad.return b
      | _ \<Rightarrow> do { mismatch (rpath r key) ''true or false'' v; State_Monad.return dflt }))"

definition int64_min :: int where "int64_min = - (2 ^ 63)"
definition int64_max :: int where "int64_max = 2 ^ 63 - 1"

text \<open>
  \<open>tooBig\<close>: a \<open>number_unsigned\<close> past \<open>INT64_MAX\<close> is reported before the conversion that would wrap it.
\<close>

definition r_integer :: "reader \<Rightarrow> string \<Rightarrow> int \<Rightarrow> int \<Rightarrow> int \<Rightarrow> int reads" where
  "r_integer r key dflt lo hi = (case present r key of
      None \<Rightarrow> State_Monad.return dflt
    | Some v \<Rightarrow>
       (let whole = (case v of JInt i \<Rightarrow> Some (False, i) | JUInt i \<Rightarrow> Some (i > int64_max, i) | _ \<Rightarrow> None)
        in case whole of
            None \<Rightarrow> do { mismatch (rpath r key) ''a whole number'' v; State_Monad.return dflt }
          | Some (tooBig, i) \<Rightarrow>
             (let n = (if tooBig then 0 else i)
              in if tooBig \<or> n < lo \<or> n > hi
                 then do {
                   note_err (rpath r key @ '': expected a whole number between '' @ show_int lo @
                         '' and '' @ show_int hi @
                         (if tooBig then ''.'' else '', but got '' @ show_int n @ ''.''));
                   State_Monad.return dflt }
                 else State_Monad.return n)))"

text \<open>The element loop of \<open>stringList\<close>; \<open>None\<close> is the early return on a mismatch.\<close>

fun string_elems :: "string \<Rightarrow> nat \<Rightarrow> json list \<Rightarrow> string list option reads" where
  "string_elems path i [] = State_Monad.return (Some [])"
| "string_elems path i (JStr s # es) = do {
     rest \<leftarrow> string_elems path (Suc i) es;
     State_Monad.return (map_option ((#) s) rest) }"
| "string_elems path i (e # es) = do {
     mismatch (path @ ''['' @ show_nat i @ '']'') ''a string'' e;
     State_Monad.return None }"

definition r_stringList :: "reader \<Rightarrow> string \<Rightarrow> string list \<Rightarrow> string list reads" where
  "r_stringList r key dflt = (case present r key of
      None \<Rightarrow> State_Monad.return dflt
    | Some v \<Rightarrow> (case v of
        JArr es \<Rightarrow> do {
          out \<leftarrow> string_elems (rpath r key) 0 es;
          State_Monad.return (case out of None \<Rightarrow> dflt | Some l \<Rightarrow> l) }
      | _ \<Rightarrow> do { mismatch (rpath r key) ''a list of strings'' v; State_Monad.return dflt }))"

definition r_mapping :: "reader \<Rightarrow> string \<Rightarrow> string \<Rightarrow> fields option reads" where
  "r_mapping r key expected = (case present r key of
      None \<Rightarrow> State_Monad.return None
    | Some v \<Rightarrow> (case v of
        JObj kvs \<Rightarrow> State_Monad.return (Some kvs)
      | _ \<Rightarrow> do { mismatch (rpath r key) expected v; State_Monad.return None }))"

definition r_list :: "reader \<Rightarrow> string \<Rightarrow> string \<Rightarrow> json list option reads" where
  "r_list r key expected = (case present r key of
      None \<Rightarrow> State_Monad.return None
    | Some v \<Rightarrow> (case v of
        JArr es \<Rightarrow> State_Monad.return (Some es)
      | _ \<Rightarrow> do { mismatch (rpath r key) expected v; State_Monad.return None }))"

section \<open>First error wins\<close>

text \<open>
  The contract of every read: it never drops a message that is already there, it never
  replaces one, and it only ever adds a non-empty one.
\<close>

definition keeps_first :: "'a reads \<Rightarrow> bool" where
  "keeps_first m \<longleftrightarrow> (\<forall>e. m_message e \<noteq> [] \<longrightarrow> snd (run_state m e) = e)"

named_theorems first_wins \<open>reads that keep the first error\<close>

lemma keeps_first_return [first_wins]: "keeps_first (State_Monad.return a)"
  by (simp add: keeps_first_def)

lemma keeps_first_get [first_wins]: "keeps_first State_Monad.get"
  by (simp add: keeps_first_def)

lemma keeps_first_bind [first_wins]:
  "keeps_first m \<Longrightarrow> (\<And>a. keeps_first (f a)) \<Longrightarrow> keeps_first (State_Monad.bind m f)"
  by (simp add: keeps_first_def split: prod.splits) (metis snd_conv)

lemma keeps_first_note_err [first_wins]: "keeps_first (note_err msg)"
  by (simp add: keeps_first_def note_err_def)

lemma keeps_first_mismatch [first_wins]: "keeps_first (mismatch k x v)"
  by (simp add: mismatch_def first_wins)

lemma keeps_first_if [first_wins]:
  "keeps_first a \<Longrightarrow> keeps_first b \<Longrightarrow> keeps_first (if c then a else b)"
  by simp

lemma keeps_first_string_elems [first_wins]: "keeps_first (string_elems path i es)"
  by (induction path i es rule: string_elems.induct) (auto intro!: first_wins)

lemma keeps_first_reads [first_wins]:
  "keeps_first (r_str r key d)"
  "keeps_first (r_boolean r key b)"
  "keeps_first (r_integer r key i lo hi)"
  "keeps_first (r_stringList r key l)"
  "keeps_first (r_mapping r key x)"
  "keeps_first (r_list r key x)"
  unfolding r_str_def r_boolean_def r_integer_def r_stringList_def r_mapping_def r_list_def Let_def
  by (auto intro!: first_wins split: option.splits json.splits prod.splits)

lemma keeps_firstD: "keeps_first m \<Longrightarrow> run_state m e = (a, e') \<Longrightarrow> m_message e' = [] \<Longrightarrow> m_message e = []"
  unfolding keeps_first_def by (metis snd_conv)

section \<open>Reads of well-typed and of missing keys\<close>

lemma note_err_run [simp]:
  "run_state (note_err msg) e = ((), if m_message e = [] then e\<lparr>m_message := msg\<rparr> else e)"
  by (simp add: note_err_def)

lemma mismatch_fails [simp]: "m_message (snd (run_state (mismatch k x v) e)) \<noteq> []"
  by (simp add: mismatch_def)

lemma reads_absent [simp]:
  assumes "present r key = None"
  shows "r_str r key d = State_Monad.return d"
    and "r_boolean r key b = State_Monad.return b"
    and "r_integer r key i lo hi = State_Monad.return i"
    and "r_stringList r key l = State_Monad.return l"
    and "r_mapping r key x = State_Monad.return None"
    and "r_list r key x = State_Monad.return None"
  using assms
  by (simp_all add: r_str_def r_boolean_def r_integer_def r_stringList_def r_mapping_def r_list_def)

lemma r_str_present [simp]:
  "present r key = Some (JStr s) \<Longrightarrow> r_str r key d = State_Monad.return s"
  by (simp add: r_str_def)

lemma r_boolean_present [simp]:
  "present r key = Some (JBool b) \<Longrightarrow> r_boolean r key d = State_Monad.return b"
  by (simp add: r_boolean_def)

lemma r_mapping_present [simp]:
  "present r key = Some (JObj kvs) \<Longrightarrow> r_mapping r key x = State_Monad.return (Some kvs)"
  by (simp add: r_mapping_def)

lemma r_list_present [simp]:
  "present r key = Some (JArr es) \<Longrightarrow> r_list r key x = State_Monad.return (Some es)"
  by (simp add: r_list_def)

lemma r_integer_present [simp]:
  "present r key = Some (JInt i) \<Longrightarrow> lo \<le> i \<Longrightarrow> i \<le> hi \<Longrightarrow> hi \<le> int64_max \<Longrightarrow>
     r_integer r key d lo hi = State_Monad.return i"
  "present r key = Some (JUInt i) \<Longrightarrow> lo \<le> i \<Longrightarrow> i \<le> hi \<Longrightarrow> hi \<le> int64_max \<Longrightarrow>
     r_integer r key d lo hi = State_Monad.return i"
  by (auto simp: r_integer_def)

lemma string_elems_strings [simp]:
  "string_elems path i (map JStr ss) = State_Monad.return (Some ss)"
proof (induction ss arbitrary: i)
  case (Cons s ss)
  then show ?case by (simp add: State_Monad.bind_def State_Monad.return_def)
qed simp

lemma r_stringList_present [simp]:
  "present r key = Some (JArr (map JStr ss)) \<Longrightarrow> r_stringList r key d = State_Monad.return ss"
  by (simp add: r_stringList_def State_Monad.bind_def State_Monad.return_def)

text \<open>An integer read without an error lies in the range asked for, or is the default.\<close>

lemma r_integer_range:
  assumes "run_state (r_integer r key d lo hi) e = (n, e')" "lo \<le> d" "d \<le> hi"
  shows "lo \<le> n \<and> n \<le> hi"
  using assms
  by (auto simp: r_integer_def mismatch_def Let_def split: option.splits json.splits if_splits)

lemma present_reader_of [simp, json_simps]:
  "present (reader_of j prefix) key =
    (case jfind j key of None \<Rightarrow> None | Some v \<Rightarrow> if is_null v then None else Some v)"
  by (simp add: present_def reader_of_def)

lemma rpath_reader_of [simp]: "rpath (reader_of j prefix) key = prefix @ key"
  by (simp add: rpath_def reader_of_def)

text \<open>A read that leaves no error met no value of the wrong type.\<close>

lemma r_str_clean:
  assumes "run_state (r_str r key d) e = (s, e')" "m_message e' = []"
  shows "present r key = None \<and> s = d \<or> present r key = Some (JStr s)"
  using assms by (auto simp: r_str_def mismatch_def split: option.splits json.splits if_splits)

end
