(* ===== verification/Daemon_Config.thy ===== *)
theory Daemon_Config
  imports Json_Schema Samples
begin

text \<open>
  The configuration document of \<open>src/src/daemon/daemon_state.cpp\<close>: writing a \<open>DaemonConfig\<close> as JSON,
  the type-checked reading back, the TLS defaults and the choice of a dial address. A read that
  fails answers \<open>None\<close> (\<open>std::nullopt\<close>) with the reason in the error record.
\<close>

section \<open>Data\<close>

record transport_info =
  ti_protocol :: string
  ti_host :: string
  ti_port :: "16 word"
  ti_caFile :: string
  ti_verifyPeer :: bool
  ti_codec :: string
  ti_certFile :: string
  ti_keyFile :: string

record session_dirs =
  sd_modules :: string
  sd_plugins :: string
  sd_keyring :: string
  sd_data :: string
  sd_cache :: string
  sd_logs :: string

record logging_config =
  lc_enabled :: bool
  lc_file :: string
  lc_maxSizeMb :: nat
  lc_maxFiles :: nat
  lc_console :: bool

text \<open>\<open>modules\<close> is a \<open>std::map\<close>: the pairs sorted by name.\<close>

type_synonym module_transports = "(string \<times> transport_info list) list"

record daemon_config =
  dc_modulesDirs :: "string list"
  dc_persistencePath :: string
  dc_dirs :: session_dirs
  dc_logging :: logging_config
  dc_modules :: module_transports
  dc_sslCert :: string
  dc_sslKey :: string
  dc_sslCa :: string
  dc_signaturePolicy :: string
  dc_insecureTcp :: bool
  dc_container :: string
  dc_accessPolicy :: string
  dc_accessGroup :: string

definition no_dirs :: session_dirs where
  "no_dirs = \<lparr>sd_modules = [], sd_plugins = [], sd_keyring = [], sd_data = [], sd_cache = [], sd_logs = []\<rparr>"

definition default_logging :: logging_config where
  "default_logging = \<lparr>lc_enabled = True, lc_file = ''daemon.log'', lc_maxSizeMb = 10, lc_maxFiles = 5,
     lc_console = True\<rparr>"

definition default_config :: daemon_config where
  "default_config = \<lparr>dc_modulesDirs = [], dc_persistencePath = [], dc_dirs = no_dirs,
     dc_logging = default_logging, dc_modules = [], dc_sslCert = [], dc_sslKey = [], dc_sslCa = [],
     dc_signaturePolicy = [], dc_insecureTcp = False, dc_container = [], dc_accessPolicy = [],
     dc_accessGroup = []\<rparr>"

definition kDaemonConfigSchemaVersion :: int where "kDaemonConfigSchemaVersion = 2"

section \<open>Writing\<close>

definition transportToJson :: "transport_info \<Rightarrow> bool \<Rightarrow> json" where
  "transportToJson t includeSecrets = mk_obj
    ([(''protocol'', JStr (ti_protocol t))]
     @ (if ti_protocol t \<noteq> ''local''
        then [(''host'', JStr (ti_host t)),
              (''port'', JUInt (uint (ti_port t))),
              (''codec'', JStr (if ti_codec t = [] then ''json'' else ti_codec t))] else [])
     @ (if ti_protocol t = ''tcp_ssl''
        then (if ti_caFile t \<noteq> [] then [(''ca_file'', JStr (ti_caFile t))] else [])
           @ [(''verify_peer'', JBool (ti_verifyPeer t))]
           @ (if includeSecrets
              then (if ti_certFile t \<noteq> [] then [(''cert'', JStr (ti_certFile t))] else [])
                 @ (if ti_keyFile t \<noteq> [] then [(''key'', JStr (ti_keyFile t))] else [])
              else [])
        else []))"

definition opt_field :: "string \<Rightarrow> string \<Rightarrow> fields" where
  "opt_field k v = (if v \<noteq> [] then [(k, JStr v)] else [])"

definition dirs_fields :: "session_dirs \<Rightarrow> fields" where
  "dirs_fields d = opt_field ''modules'' (sd_modules d) @ opt_field ''plugins'' (sd_plugins d)
     @ opt_field ''keyring'' (sd_keyring d) @ opt_field ''data'' (sd_data d)
     @ opt_field ''cache'' (sd_cache d) @ opt_field ''logs'' (sd_logs d)"

definition modules_fields :: "module_transports \<Rightarrow> bool \<Rightarrow> fields" where
  "modules_fields ms includeSecrets = map (\<lambda>m. (fst m,
     mk_obj [(''transports'', JArr (map (\<lambda>t. transportToJson t includeSecrets) (snd m)))])) ms"

definition logging_json :: "logging_config \<Rightarrow> json" where
  "logging_json l = mk_obj
    [(''enabled'', JBool (lc_enabled l)), (''file'', JStr (lc_file l)),
     (''max_size_mb'', JUInt (int (lc_maxSizeMb l))), (''max_files'', JUInt (int (lc_maxFiles l))),
     (''console'', JBool (lc_console l))]"

definition config_fields :: "daemon_config \<Rightarrow> bool \<Rightarrow> fields" where
  "config_fields cfg includeSecrets =
     [(''modules_dirs'', JArr (map JStr (dc_modulesDirs cfg))),
      (''persistence_path'', JStr (dc_persistencePath cfg)),
      (''modules'', mk_obj (modules_fields (dc_modules cfg) includeSecrets)),
      (''ssl'', mk_obj [(''cert'', JStr (dc_sslCert cfg)), (''key'', JStr (dc_sslKey cfg)),
                        (''ca'', JStr (dc_sslCa cfg))])]
     @ (if dirs_fields (dc_dirs cfg) \<noteq> [] then [(''dirs'', mk_obj (dirs_fields (dc_dirs cfg)))] else [])
     @ [(''logging'', logging_json (dc_logging cfg)),
        (''insecure_tcp'', JBool (dc_insecureTcp cfg))]
     @ opt_field ''container'' (dc_container cfg)
     @ opt_field ''access_policy'' (dc_accessPolicy cfg)
     @ opt_field ''access_group'' (dc_accessGroup cfg)
     @ opt_field ''signature_policy'' (dc_signaturePolicy cfg)"

definition daemonConfigToJson :: "daemon_config \<Rightarrow> bool \<Rightarrow> json" where
  "daemonConfigToJson cfg includeSecrets = mk_obj (config_fields cfg includeSecrets)"

section \<open>Reading\<close>

definition isValidSignaturePolicy :: "string \<Rightarrow> bool" where
  "isValidSignaturePolicy policy \<longleftrightarrow> policy = ''none'' \<or> policy = ''warn'' \<or> policy = ''require''"

definition known_protocol :: "string \<Rightarrow> bool" where
  "known_protocol p \<longleftrightarrow> p = ''local'' \<or> p = ''tcp'' \<or> p = ''tcp_ssl''"

definition transportFromJson :: "json \<Rightarrow> string \<Rightarrow> transport_info option reads" where
  "transportFromJson j path =
    (if \<not> is_object j then do {
       _ \<leftarrow> mismatch path ''a mapping describing one transport'' j;
       State_Monad.return None }
     else (let r = reader_of j (path @ ''.'')
      in do {
       protocol \<leftarrow> r_str r ''protocol'' [];
       if \<not> known_protocol protocol then do {
         _ \<leftarrow> note_err (rpath r ''protocol'' @ '': expected one of \"local\", \"tcp\", \"tcp_ssl\"''
           @ (if protocol = [] then '', but it is missing.''
              else '', but got \"'' @ protocol @ ''\".''));
         State_Monad.return None }
       else do {
         host \<leftarrow> r_str r ''host'' [];
         port \<leftarrow> r_integer r ''port'' 0 0 65535;
         caFile \<leftarrow> r_str r ''ca_file'' [];
         verifyPeer \<leftarrow> r_boolean r ''verify_peer'' True;
         certFile \<leftarrow> r_str r ''cert'' [];
         keyFile \<leftarrow> r_str r ''key'' [];
         codec \<leftarrow> r_str r ''codec'' ''json'';
         e \<leftarrow> State_Monad.get;
         State_Monad.return (if \<not> errs_ok e then None
           else Some \<lparr>ti_protocol = protocol, ti_host = host, ti_port = word_of_int port,
             ti_caFile = caFile, ti_verifyPeer = verifyPeer, ti_codec = codec,
             ti_certFile = certFile, ti_keyFile = keyFile\<rparr>) } }))"

fun read_transports :: "string \<Rightarrow> nat \<Rightarrow> json list \<Rightarrow> transport_info list option reads" where
  "read_transports modulePath i [] = State_Monad.return (Some [])"
| "read_transports modulePath i (j # js) = do {
     t \<leftarrow> transportFromJson j (modulePath @ ''.transports['' @ show_nat i @ '']'');
     case t of
       None \<Rightarrow> State_Monad.return None
     | Some t \<Rightarrow> do {
         rest \<leftarrow> read_transports modulePath (Suc i) js;
         State_Monad.return (map_option ((#) t) rest) } }"

text \<open>\<open>std::map::emplace\<close>: an entry that is there stays.\<close>

fun emplace :: "string \<Rightarrow> 'a \<Rightarrow> (string \<times> 'a) list \<Rightarrow> (string \<times> 'a) list" where
  "emplace k v [] = [(k, v)]"
| "emplace k v ((a, b) # r) =
    (if k = a then (a, b) # r
     else if k < a then (k, v) # (a, b) # r
     else (a, b) # emplace k v r)"

text \<open>
  One module: the list of its transport entries, \<open>Some None\<close> when it names none (the loop goes
  on), \<open>None\<close> when the document is refused.
\<close>

definition module_list :: "string \<Rightarrow> json \<Rightarrow> json list option option reads" where
  "module_list modulePath v = (case v of
      JNull \<Rightarrow> State_Monad.return (Some None)
    | JArr es \<Rightarrow> State_Monad.return (Some (Some es))
    | JObj kvs \<Rightarrow> do {
        arr \<leftarrow> r_list (reader_of v (modulePath @ ''.'')) ''transports'' ''a list of transports'';
        case arr of
          Some es \<Rightarrow> State_Monad.return (Some (Some es))
        | None \<Rightarrow> do {
            e \<leftarrow> State_Monad.get;
            State_Monad.return (if \<not> errs_ok e then None else Some None) } }
    | _ \<Rightarrow> do {
        _ \<leftarrow> mismatch modulePath ''a list of transports, or a mapping with a \"transports\" list'' v;
        State_Monad.return None })"

fun read_modules :: "string \<Rightarrow> fields \<Rightarrow> module_transports \<Rightarrow> module_transports option reads" where
  "read_modules path [] acc = State_Monad.return (Some acc)"
| "read_modules path ((name, v) # rest) acc =
    (if name = [] then read_modules path rest acc
     else do {
       arr \<leftarrow> module_list (path @ ''.'' @ name) v;
       case arr of
         None \<Rightarrow> State_Monad.return None
       | Some None \<Rightarrow> read_modules path rest acc
       | Some (Some es) \<Rightarrow> do {
           ts \<leftarrow> read_transports (path @ ''.'' @ name) 0 es;
           case ts of
             None \<Rightarrow> State_Monad.return None
           | Some ts \<Rightarrow> read_modules path rest (if ts \<noteq> [] then emplace name ts acc else acc) } })"

definition read_ssl :: "reader \<Rightarrow> (string \<times> string \<times> string) reads" where
  "read_ssl r = do {
     ssl \<leftarrow> r_mapping r ''ssl'' ''a mapping'';
     case ssl of
       None \<Rightarrow> State_Monad.return ([], [], [])
     | Some kvs \<Rightarrow> (let sr = reader_of (JObj kvs) (rpath r ''ssl'' @ ''.'')
        in do {
          cert \<leftarrow> r_str sr ''cert'' [];
          key \<leftarrow> r_str sr ''key'' [];
          ca \<leftarrow> r_str sr ''ca'' [];
          State_Monad.return (cert, key, ca) }) }"

definition read_dirs :: "reader \<Rightarrow> session_dirs reads" where
  "read_dirs r = do {
     dirs \<leftarrow> r_mapping r ''dirs'' ''a mapping'';
     case dirs of
       None \<Rightarrow> State_Monad.return no_dirs
     | Some kvs \<Rightarrow> (let d = reader_of (JObj kvs) (rpath r ''dirs'' @ ''.'')
        in do {
          modules \<leftarrow> r_str d ''modules'' [];
          plugins \<leftarrow> r_str d ''plugins'' [];
          keyring \<leftarrow> r_str d ''keyring'' [];
          data \<leftarrow> r_str d ''data'' [];
          cache \<leftarrow> r_str d ''cache'' [];
          logs \<leftarrow> r_str d ''logs'' [];
          State_Monad.return \<lparr>sd_modules = modules, sd_plugins = plugins, sd_keyring = keyring,
            sd_data = data, sd_cache = cache, sd_logs = logs\<rparr> }) }"

definition read_logging :: "reader \<Rightarrow> logging_config reads" where
  "read_logging r = do {
     logging \<leftarrow> r_mapping r ''logging'' ''a mapping'';
     case logging of
       None \<Rightarrow> State_Monad.return default_logging
     | Some kvs \<Rightarrow> (let l = reader_of (JObj kvs) (rpath r ''logging'' @ ''.'')
        in do {
          enabled \<leftarrow> r_boolean l ''enabled'' True;
          file \<leftarrow> r_str l ''file'' ''daemon.log'';
          maxSizeMb \<leftarrow> r_integer l ''max_size_mb'' 10 0 (1024 * 1024);
          maxFiles \<leftarrow> r_integer l ''max_files'' 5 0 1000000;
          console \<leftarrow> r_boolean l ''console'' True;
          State_Monad.return \<lparr>lc_enabled = enabled, lc_file = file, lc_maxSizeMb = nat maxSizeMb,
            lc_maxFiles = nat maxFiles, lc_console = console\<rparr> }) }"

text \<open>The fields after the modules.\<close>

definition read_rest :: "reader \<Rightarrow> string list \<Rightarrow> string \<Rightarrow> module_transports \<Rightarrow> daemon_config option reads" where
  "read_rest r modulesDirs persistencePath modules = do {
     (sslCert, sslKey, sslCa) \<leftarrow> read_ssl r;
     dirs0 \<leftarrow> read_dirs r;
     logging \<leftarrow> read_logging r;
     insecureTcp \<leftarrow> r_boolean r ''insecure_tcp'' False;
     container \<leftarrow> r_str r ''container'' [];
     accessPolicy \<leftarrow> r_str r ''access_policy'' [];
     accessGroup \<leftarrow> r_str r ''access_group'' [];
     signaturePolicy \<leftarrow> r_str r ''signature_policy'' [];
     if signaturePolicy \<noteq> [] \<and> \<not> isValidSignaturePolicy signaturePolicy then do {
       _ \<leftarrow> note_err (rpath r ''signature_policy'' @ '': expected one of \"none\", \"warn\", \"require\", but got \"''
         @ signaturePolicy @ ''\".'');
       State_Monad.return None }
     else do {
       e \<leftarrow> State_Monad.get;
       State_Monad.return (if \<not> errs_ok e then None
         else Some \<lparr>dc_modulesDirs = modulesDirs, dc_persistencePath = persistencePath,
           dc_dirs = (if sd_data dirs0 = [] then dirs0\<lparr>sd_data := persistencePath\<rparr> else dirs0),
           dc_logging = logging, dc_modules = modules, dc_sslCert = sslCert, dc_sslKey = sslKey,
           dc_sslCa = sslCa, dc_signaturePolicy = signaturePolicy, dc_insecureTcp = insecureTcp,
           dc_container = container, dc_accessPolicy = accessPolicy, dc_accessGroup = accessGroup\<rparr>) } }"

definition daemonConfigFromJson :: "json \<Rightarrow> string \<Rightarrow> daemon_config option reads" where
  "daemonConfigFromJson obj prefix = (let r = reader_of obj prefix
     in do {
       modulesDirs \<leftarrow> r_stringList r ''modules_dirs'' [];
       persistencePath \<leftarrow> r_str r ''persistence_path'' [];
       modules \<leftarrow> r_mapping r ''modules'' ''a mapping'';
       ms \<leftarrow> (case modules of
           None \<Rightarrow> State_Monad.return (Some [])
         | Some kvs \<Rightarrow> read_modules (rpath r ''modules'') kvs []);
       case ms of
         None \<Rightarrow> State_Monad.return None
       | Some ms \<Rightarrow> read_rest r modulesDirs persistencePath ms })"

text \<open>\<open>parseDaemonConfigDocument\<close>: \<open>Inl\<close> is \<open>nullopt\<close> with the message in \<open>error\<close>.\<close>

definition parseDaemonConfigDocument :: "json \<Rightarrow> string + daemon_config" where
  "parseDaemonConfigDocument obj =
    (if \<not> is_object obj then Inl ''The config document must be a mapping at the top level.''
     else case run_state (r_integer (reader_of obj []) ''version'' 0 int64_min int64_max) no_errors of
       (v, e) \<Rightarrow>
         if \<not> errs_ok e then Inl (m_message e)
         else if v \<noteq> kDaemonConfigSchemaVersion
         then Inl (''unsupported schema version '' @ show_int v @ '' '' @ emdash
           @ '' rewrite it with `daemon config set` (expected version ''
           @ show_int kDaemonConfigSchemaVersion @ '').'')
         else (case run_state (daemonConfigFromJson obj []) e of
             (None, e') \<Rightarrow> Inl (if errs_ok e' then ''the document could not be read.'' else m_message e')
           | (Some cfg, e') \<Rightarrow> Inr cfg))"

section \<open>TLS material and dial addresses\<close>

definition apply_ssl_transport :: "daemon_config \<Rightarrow> transport_info \<Rightarrow> transport_info" where
  "apply_ssl_transport cfg t =
    (if ti_protocol t \<noteq> ''tcp_ssl'' then t
     else t\<lparr>ti_certFile := (if ti_certFile t = [] then dc_sslCert cfg else ti_certFile t),
            ti_keyFile := (if ti_keyFile t = [] then dc_sslKey cfg else ti_keyFile t),
            ti_caFile := (if ti_caFile t = [] then dc_sslCa cfg else ti_caFile t)\<rparr>)"

definition applySslDefaults :: "daemon_config \<Rightarrow> daemon_config" where
  "applySslDefaults cfg =
    (if dc_sslCert cfg = [] \<and> dc_sslKey cfg = [] \<and> dc_sslCa cfg = [] then cfg
     else cfg\<lparr>dc_modules := map (\<lambda>m. (fst m, map (apply_ssl_transport cfg) (snd m))) (dc_modules cfg)\<rparr>)"

definition tls_incomplete :: "transport_info \<Rightarrow> bool" where
  "tls_incomplete t \<longleftrightarrow> ti_protocol t = ''tcp_ssl'' \<and> \<not> (ti_certFile t \<noteq> [] \<and> ti_keyFile t \<noteq> [])"

definition findTlsListenersMissingMaterial :: "daemon_config \<Rightarrow> string list" where
  "findTlsListenersMissingMaterial cfg = concat (map (\<lambda>m.
     map (\<lambda>t. fst m @ '' tcp_ssl '' @ ti_host t @ '':'' @ show_nat (unat (ti_port t)))
       (filter tls_incomplete (snd m))) (dc_modules cfg))"

definition pickClientDialTransport :: "transport_info list \<Rightarrow> transport_info option" where
  "pickClientDialTransport ts =
    (if ts = [] then None
     else case find (\<lambda>t. ti_protocol t = ''local'') ts of Some t \<Rightarrow> Some t | None \<Rightarrow> Some (hd ts))"

definition toClientDialHost :: "string \<Rightarrow> string" where
  "toClientDialHost bindHost =
    (if bindHost = [] then ''127.0.0.1''
     else if bindHost = ''0.0.0.0'' then ''127.0.0.1''
     else if bindHost = ''::'' \<or> bindHost = ''::0'' then ''::1''
     else bindHost)"

definition toClientEntry :: "transport_info \<Rightarrow> json" where
  "toClientEntry t = mk_obj
    ([(''transport'', JStr (ti_protocol t))]
     @ (if ti_protocol t = ''tcp'' \<or> ti_protocol t = ''tcp_ssl''
        then [(''host'', JStr (toClientDialHost (ti_host t))), (''port'', JUInt (uint (ti_port t)))]
           @ (if ti_codec t \<noteq> [] then [(''codec'', JStr (ti_codec t))] else [])
        else [])
     @ (if ti_protocol t = ''tcp_ssl''
        then (if ti_caFile t \<noteq> [] then [(''ca'', JStr (ti_caFile t))] else [])
           @ [(''verify_peer'', JBool (ti_verifyPeer t))]
        else []))"

end
