(* ===== verification/Daemon_Config_Props.thy ===== *)
theory Daemon_Config_Props
  imports Daemon_Config
begin

text \<open>
  What the configuration reader and writer guarantee: a document that loads is complete and well
  formed, what is written is read back, and state documents carry no per-listener key material.
\<close>

section \<open>Transports\<close>

definition wf_transport :: "transport_info \<Rightarrow> bool" where
  "wf_transport t \<longleftrightarrow> known_protocol (ti_protocol t)
     \<and> (ti_protocol t = ''local'' \<longrightarrow> ti_host t = [] \<and> ti_port t = 0 \<and> ti_codec t = ''json'')
     \<and> ti_codec t \<noteq> []
     \<and> (ti_protocol t \<noteq> ''tcp_ssl'' \<longrightarrow> ti_caFile t = [] \<and> ti_verifyPeer t \<and> ti_certFile t = [] \<and> ti_keyFile t = [])"

definition strip_transport :: "bool \<Rightarrow> transport_info \<Rightarrow> transport_info" where
  "strip_transport includeSecrets t = (if includeSecrets then t else t\<lparr>ti_certFile := [], ti_keyFile := []\<rparr>)"

lemma run_get_ok [simp]: "errs_ok no_errors"
  by (simp add: errs_ok_def no_errors_def)

lemma word16_range: "uint (p :: 16 word) \<le> 65535"
proof -
  have "uint p < 2 ^ 16" using uint_lt2p [of p] by simp
  then show ?thesis by simp
qed

lemma max_range [simp]: "(65535 :: int) \<le> int64_max" "(1048576 :: int) \<le> int64_max" "(1000000 :: int) \<le> int64_max"
  by (simp_all add: int64_max_def)

lemma transport_back:
  assumes "wf_transport t"
  shows "run_state (transportFromJson (reparse (transportToJson t b)) path) no_errors
    = (Some (strip_transport b t), no_errors)"
proof -
  have o: "is_object (reparse (transportToJson t b))" by (simp add: transportToJson_def mk_obj_def)
  consider "ti_protocol t = ''local''" | "ti_protocol t = ''tcp''" | "ti_protocol t = ''tcp_ssl''"
    using assms by (auto simp: wf_transport_def known_protocol_def)
  then show ?thesis
  proof cases
    case 1
    with assms o show ?thesis
      by (simp add: transportFromJson_def transportToJson_def wf_transport_def strip_transport_def
          json_simps known_protocol_def)
  next
    case 2
    with assms o show ?thesis
      by (simp add: transportFromJson_def transportToJson_def wf_transport_def strip_transport_def
          json_simps known_protocol_def word16_range)
  next
    case 3
    with assms o show ?thesis
      by (cases "ti_caFile t = []"; cases "ti_certFile t = []"; cases "ti_keyFile t = []"; cases b)
        (simp_all add: transportFromJson_def transportToJson_def wf_transport_def strip_transport_def
          json_simps known_protocol_def word16_range)
  qed
qed

interpretation transport: json_codec "\<lambda>t. transportToJson t True"
  "\<lambda>j. run_state (transportFromJson j []) no_errors" "\<lambda>t. (Some t, no_errors)" wf_transport
  by unfold_locales (simp_all add: transport_back strip_transport_def)

section \<open>The document round trip\<close>

definition strip_config :: "bool \<Rightarrow> daemon_config \<Rightarrow> daemon_config" where
  "strip_config b cfg = cfg\<lparr>dc_modules := map (\<lambda>m. (fst m, map (strip_transport b) (snd m))) (dc_modules cfg)\<rparr>"

definition wf_config :: "daemon_config \<Rightarrow> bool" where
  "wf_config cfg \<longleftrightarrow> sorted_wrt (<) (map fst (dc_modules cfg))
     \<and> (\<forall>m \<in> set (dc_modules cfg). fst m \<noteq> [] \<and> snd m \<noteq> [] \<and> (\<forall>t \<in> set (snd m). wf_transport t))
     \<and> (dc_signaturePolicy cfg = [] \<or> isValidSignaturePolicy (dc_signaturePolicy cfg))
     \<and> lc_maxSizeMb (dc_logging cfg) \<le> 1048576 \<and> lc_maxFiles (dc_logging cfg) \<le> 1000000
     \<and> (sd_data (dc_dirs cfg) = [] \<longrightarrow> dc_persistencePath cfg = [])"

lemma read_transports_back:
  "\<forall>t \<in> set ts. wf_transport t \<Longrightarrow>
    run_state (read_transports mp i (map (\<lambda>t. reparse (transportToJson t b)) ts)) no_errors
      = (Some (map (strip_transport b) ts), no_errors)"
  by (induction ts arbitrary: i) (simp_all add: transport_back)

lemma emplace_last:
  "\<forall>x \<in> fst ` set acc. x < k \<Longrightarrow> emplace k v acc = acc @ [(k, v)]"
proof (induction acc)
  case (Cons x acc)
  obtain a b where x: "x = (a, b)" by fastforce
  with Cons.prems have "a < k" by simp
  then have "k \<noteq> a" "\<not> k < a" by (simp_all add: order_less_imp_not_less)
  with Cons x show ?case by simp
qed simp

abbreviation module_json :: "bool \<Rightarrow> transport_info list \<Rightarrow> json" where
  "module_json b ts \<equiv> mk_obj [(''transports'', JArr (map (\<lambda>t. transportToJson t b) ts))]"

lemma module_list_back:
  "run_state (module_list mp (reparse (module_json b ts))) no_errors
    = (Some (Some (map (\<lambda>t. reparse (transportToJson t b)) ts)), no_errors)"
  by (simp add: module_list_def mk_obj_def comp_def)

lemma read_modules_back:
  "sorted_wrt (<) (map fst acc @ map fst ms) \<Longrightarrow>
    \<forall>m \<in> set ms. fst m \<noteq> [] \<and> snd m \<noteq> [] \<and> (\<forall>t \<in> set (snd m). wf_transport t) \<Longrightarrow>
    run_state (read_modules path (map (\<lambda>m. (fst m, reparse (module_json b (snd m)))) ms) acc) no_errors
      = (Some (acc @ map (\<lambda>m. (fst m, map (strip_transport b) (snd m))) ms), no_errors)"
proof (induction ms arbitrary: acc)
  case (Cons m ms)
  obtain k ts where m: "m = (k, ts)" by fastforce
  have lt: "\<forall>x \<in> fst ` set acc. x < k" using Cons.prems(1) by (auto simp: m sorted_wrt_append)
  have ts: "k \<noteq> []" "ts \<noteq> []" "\<forall>t \<in> set ts. wf_transport t" using Cons.prems(2) by (auto simp: m)
  have "run_state (read_modules path (map (\<lambda>m. (fst m, reparse (module_json b (snd m)))) ms)
      (acc @ [(k, map (strip_transport b) ts)])) no_errors
    = (Some ((acc @ [(k, map (strip_transport b) ts)]) @ map (\<lambda>m. (fst m, map (strip_transport b) (snd m))) ms), no_errors)"
    using Cons.prems by (intro Cons.IH) (auto simp: m)
  then show ?case
    using ts lt by (simp add: m module_list_back read_transports_back emplace_last del: read_transports.simps reparse.simps)
qed simp

lemma modules_json_back:
  assumes "sorted_wrt (<) (map fst ms)"
  shows "reparse (mk_obj (modules_fields ms b)) = JObj (map (\<lambda>m. (fst m, reparse (module_json b (snd m)))) ms)"
proof -
  have "sorted_keys ([] @ modules_fields ms b)"
    using assms by (simp add: sorted_keys_def modules_fields_def comp_def)
  from put_all_sorted [OF this] show ?thesis by (simp add: mk_obj_def modules_fields_def comp_def)
qed

lemma map_of_opt_field [simp]:
  "map_of (opt_field k v) k' = (if k' = k \<and> v \<noteq> [] then Some (JStr v) else None)"
  "map_of (rev (opt_field k v)) k' = (if k' = k \<and> v \<noteq> [] then Some (JStr v) else None)"
  by (simp_all add: opt_field_def)

lemma dirs_lookup:
  "map_of (rev (dirs_fields d)) ''modules'' = (if sd_modules d \<noteq> [] then Some (JStr (sd_modules d)) else None)"
  "map_of (rev (dirs_fields d)) ''plugins'' = (if sd_plugins d \<noteq> [] then Some (JStr (sd_plugins d)) else None)"
  "map_of (rev (dirs_fields d)) ''keyring'' = (if sd_keyring d \<noteq> [] then Some (JStr (sd_keyring d)) else None)"
  "map_of (rev (dirs_fields d)) ''data'' = (if sd_data d \<noteq> [] then Some (JStr (sd_data d)) else None)"
  "map_of (rev (dirs_fields d)) ''cache'' = (if sd_cache d \<noteq> [] then Some (JStr (sd_cache d)) else None)"
  "map_of (rev (dirs_fields d)) ''logs'' = (if sd_logs d \<noteq> [] then Some (JStr (sd_logs d)) else None)"
  by (simp_all add: dirs_fields_def map_add_def split: option.split)

lemma no_dirs_fields: "dirs_fields d = [] \<Longrightarrow> d = no_dirs"
  by (auto simp: dirs_fields_def opt_field_def no_dirs_def split: if_splits)

text \<open>The keys of the document, one by one.\<close>

abbreviation config_key :: "daemon_config \<Rightarrow> bool \<Rightarrow> string \<Rightarrow> json option" where
  "config_key cfg b k \<equiv> map_of (rev (config_fields cfg b)) k"

lemma config_keys:
  "config_key cfg b ''modules_dirs'' = Some (JArr (map JStr (dc_modulesDirs cfg)))"
  "config_key cfg b ''persistence_path'' = Some (JStr (dc_persistencePath cfg))"
  "config_key cfg b ''modules'' = Some (mk_obj (modules_fields (dc_modules cfg) b))"
  "config_key cfg b ''ssl'' = Some (mk_obj [(''cert'', JStr (dc_sslCert cfg)), (''key'', JStr (dc_sslKey cfg)),
     (''ca'', JStr (dc_sslCa cfg))])"
  "config_key cfg b ''dirs'' = (if dirs_fields (dc_dirs cfg) \<noteq> [] then Some (mk_obj (dirs_fields (dc_dirs cfg))) else None)"
  "config_key cfg b ''logging'' = Some (logging_json (dc_logging cfg))"
  "config_key cfg b ''insecure_tcp'' = Some (JBool (dc_insecureTcp cfg))"
  "config_key cfg b ''container'' = (if dc_container cfg \<noteq> [] then Some (JStr (dc_container cfg)) else None)"
  "config_key cfg b ''access_policy'' = (if dc_accessPolicy cfg \<noteq> [] then Some (JStr (dc_accessPolicy cfg)) else None)"
  "config_key cfg b ''access_group'' = (if dc_accessGroup cfg \<noteq> [] then Some (JStr (dc_accessGroup cfg)) else None)"
  "config_key cfg b ''signature_policy'' = (if dc_signaturePolicy cfg \<noteq> [] then Some (JStr (dc_signaturePolicy cfg)) else None)"
  "config_key cfg b ''version'' = None"
  by (simp_all add: config_fields_def map_add_def split: option.split)

lemma jfind_obj_reparse: "jfind (reparse (mk_obj xs)) k = map_option reparse (map_of (rev xs) k)"
  by (simp add: json_simps)

lemma obj_shape: "\<exists>kvs. reparse (mk_obj xs) = JObj kvs \<and> (\<forall>k. map_of kvs k = map_option reparse (map_of (rev xs) k))"
proof -
  have "reparse (mk_obj xs) = JObj (map (\<lambda>kv. (fst kv, reparse (snd kv))) (put_all xs []))"
    by (simp add: mk_obj_def)
  then show ?thesis by (simp add: map_of_reparse map_of_mk)
qed

text \<open>A document of the configuration: every key but the version is the one written.\<close>

definition config_doc :: "json \<Rightarrow> daemon_config \<Rightarrow> bool \<Rightarrow> bool" where
  "config_doc obj cfg b \<longleftrightarrow> (\<forall>k. k \<noteq> ''version'' \<longrightarrow> jfind obj k = map_option reparse (config_key cfg b k))"

lemma config_block:
  assumes "config_doc obj cfg b" "config_key cfg b key = Some (mk_obj xs)" "key \<noteq> ''version''"
  obtains kvs where "jfind obj key = Some (JObj kvs)" "\<And>k. map_of kvs k = map_option reparse (map_of (rev xs) k)"
proof -
  obtain kvs where "reparse (mk_obj xs) = JObj kvs" "\<forall>k. map_of kvs k = map_option reparse (map_of (rev xs) k)"
    using obj_shape by blast
  with assms show thesis by (intro that [of kvs]) (auto simp: config_doc_def)
qed

lemma r_str_optional:
  "jfind obj k = map_option reparse (if v \<noteq> [] then Some (JStr v) else None) \<Longrightarrow>
    r_str (reader_of obj p) k [] = State_Monad.return v"
  by (cases "v = []") simp_all

lemma ssl_back:
  assumes "config_doc obj cfg b"
  shows "run_state (read_ssl (reader_of obj p)) no_errors = ((dc_sslCert cfg, dc_sslKey cfg, dc_sslCa cfg), no_errors)"
proof (rule config_block [OF assms config_keys(4)])
  fix kvs assume "jfind obj ''ssl'' = Some (JObj kvs)" "\<And>k. map_of kvs k = map_option reparse (map_of (rev [
     (''cert'', JStr (dc_sslCert cfg)), (''key'', JStr (dc_sslKey cfg)), (''ca'', JStr (dc_sslCa cfg))]) k)"
  then show ?thesis by (simp add: read_ssl_def)
qed simp

lemma logging_back:
  assumes "config_doc obj cfg b" "lc_maxSizeMb (dc_logging cfg) \<le> 1048576" "lc_maxFiles (dc_logging cfg) \<le> 1000000"
  shows "run_state (read_logging (reader_of obj p)) no_errors = (dc_logging cfg, no_errors)"
proof (rule config_block [OF assms(1) config_keys(6) [unfolded logging_json_def]])
  fix kvs
  let ?l = "dc_logging cfg"
  assume "jfind obj ''logging'' = Some (JObj kvs)" "\<And>k. map_of kvs k = map_option reparse (map_of (rev [
     (''enabled'', JBool (lc_enabled ?l)), (''file'', JStr (lc_file ?l)),
     (''max_size_mb'', JUInt (int (lc_maxSizeMb ?l))), (''max_files'', JUInt (int (lc_maxFiles ?l))),
     (''console'', JBool (lc_console ?l))]) k)"
  with assms(2,3) show ?thesis by (simp add: read_logging_def)
qed simp

lemma dirs_back:
  assumes "config_doc obj cfg b"
  shows "run_state (read_dirs (reader_of obj p)) no_errors = (dc_dirs cfg, no_errors)"
proof (cases "dirs_fields (dc_dirs cfg) = []")
  case True
  have "jfind obj ''dirs'' = None" using assms config_keys(5) [of cfg b] True by (simp add: config_doc_def)
  then show ?thesis using no_dirs_fields [OF True] by (simp add: read_dirs_def)
next
  case False
  then have "config_key cfg b ''dirs'' = Some (mk_obj (dirs_fields (dc_dirs cfg)))" by (simp add: config_keys(5))
  then show ?thesis
  proof (rule config_block [OF assms])
    fix kvs assume "jfind obj ''dirs'' = Some (JObj kvs)"
      "\<And>k. map_of kvs k = map_option reparse (map_of (rev (dirs_fields (dc_dirs cfg))) k)"
    then show ?thesis by (simp add: read_dirs_def Let_def dirs_lookup r_str_optional [where obj = "JObj kvs"])
  qed simp
qed

lemma rest_back:
  assumes "config_doc obj cfg b" "wf_config cfg"
  shows "run_state (read_rest (reader_of obj p) (dc_modulesDirs cfg) (dc_persistencePath cfg) ms) no_errors
    = (Some (cfg\<lparr>dc_modules := ms\<rparr>), no_errors)"
proof -
  have lk: "jfind obj k = map_option reparse (config_key cfg b k)" if "k \<noteq> ''version''" for k
    using assms(1) that by (simp add: config_doc_def)
  have wf: "lc_maxSizeMb (dc_logging cfg) \<le> 1048576" "lc_maxFiles (dc_logging cfg) \<le> 1000000"
    "sd_data (dc_dirs cfg) = [] \<longrightarrow> dc_persistencePath cfg = []"
    "dc_signaturePolicy cfg = [] \<or> isValidSignaturePolicy (dc_signaturePolicy cfg)"
    using assms(2) by (auto simp: wf_config_def)
  have keys: "run_state (r_boolean (reader_of obj p) ''insecure_tcp'' False) no_errors = (dc_insecureTcp cfg, no_errors)"
    "run_state (r_str (reader_of obj p) ''container'' []) no_errors = (dc_container cfg, no_errors)"
    "run_state (r_str (reader_of obj p) ''access_policy'' []) no_errors = (dc_accessPolicy cfg, no_errors)"
    "run_state (r_str (reader_of obj p) ''access_group'' []) no_errors = (dc_accessGroup cfg, no_errors)"
    "run_state (r_str (reader_of obj p) ''signature_policy'' []) no_errors = (dc_signaturePolicy cfg, no_errors)"
    by (simp_all add: lk config_keys r_str_optional [where obj = obj])
  show ?thesis
    unfolding read_rest_def
    using wf by (auto simp: ssl_back [OF assms(1)] dirs_back [OF assms(1)] logging_back [OF assms(1)] keys)
qed

lemma config_back:
  assumes "config_doc obj cfg b" "wf_config cfg"
  shows "run_state (daemonConfigFromJson obj p) no_errors = (Some (strip_config b cfg), no_errors)"
proof -
  have lk: "jfind obj k = map_option reparse (config_key cfg b k)" if "k \<noteq> ''version''" for k
    using assms(1) that by (simp add: config_doc_def)
  have dirs: "run_state (r_stringList (reader_of obj p) ''modules_dirs'' []) no_errors = (dc_modulesDirs cfg, no_errors)"
    and pers: "run_state (r_str (reader_of obj p) ''persistence_path'' []) no_errors = (dc_persistencePath cfg, no_errors)"
    by (simp_all add: lk config_keys comp_def)
  have mods: "run_state (r_mapping (reader_of obj p) ''modules'' ''a mapping'') no_errors
      = (Some (map (\<lambda>m. (fst m, reparse (module_json b (snd m)))) (dc_modules cfg)), no_errors)"
    using assms(2) by (simp add: lk config_keys modules_json_back wf_config_def)
  have "run_state (read_modules (rpath (reader_of obj p) ''modules'')
      (map (\<lambda>m. (fst m, reparse (module_json b (snd m)))) (dc_modules cfg)) []) no_errors
    = (Some ([] @ map (\<lambda>m. (fst m, map (strip_transport b) (snd m))) (dc_modules cfg)), no_errors)"
    using assms(2) by (intro read_modules_back) (auto simp: wf_config_def)
  then show ?thesis
    unfolding daemonConfigFromJson_def Let_def
    by (simp add: dirs pers mods rest_back [OF assms] strip_config_def)
qed

section \<open>What an accepted document says\<close>

lemma transport_clean:
  assumes "run_state (transportFromJson j path) e = (Some t, e')"
  shows "m_message e' = [] \<and> known_protocol (ti_protocol t)"
  using assms
  by (auto simp: transportFromJson_def Let_def errs_ok_def split: if_splits prod.splits)

lemma transports_clean:
  "run_state (read_transports mp i js) e = (Some ts, e') \<Longrightarrow>
    length ts = length js \<and> (\<forall>t \<in> set ts. known_protocol (ti_protocol t))"
proof (induction js arbitrary: i e ts e')
  case (Cons j js)
  obtain t e1 where t: "run_state (transportFromJson j (mp @ ''.transports['' @ show_nat i @ '']'')) e = (t, e1)"
    by fastforce
  with Cons.prems obtain x where x: "t = Some x" by (cases t) auto
  obtain rest e2 where r: "run_state (read_transports mp (Suc i) js) e1 = (rest, e2)" by fastforce
  with Cons.prems t x obtain xs where xs: "rest = Some xs" "ts = x # xs" by (cases rest) auto
  from Cons.IH [OF r [unfolded xs(1)]] transport_clean [OF t [unfolded x]] xs(2) show ?case by simp
qed simp

text \<open>The transport entries a module value lists: a bare list, or the list under \<open>transports\<close>.\<close>

fun listed :: "json \<Rightarrow> json list" where
  "listed (JArr es) = es"
| "listed (JObj kvs) = (case map_of kvs ''transports'' of Some (JArr es) \<Rightarrow> es | _ \<Rightarrow> [])"
| "listed _ = []"

lemma module_list_listed:
  assumes "run_state (module_list mp v) e = (Some arr, e')"
  shows "listed v = (case arr of None \<Rightarrow> [] | Some es \<Rightarrow> es) \<or> m_message e' \<noteq> []"
  using assms
  by (auto simp: module_list_def r_list_def present_def reader_of_def errs_ok_def mismatch_def
      split: json.splits option.splits prod.splits if_splits)

lemma set_emplace: "set (emplace k v r) \<subseteq> insert (k, v) (set r)" "set r \<subseteq> set (emplace k v r)"
  "k \<notin> fst ` set r \<Longrightarrow> (k, v) \<in> set (emplace k v r)"
  by (induction k v r rule: emplace.induct) auto

lemma first_wins_transport [first_wins]: "keeps_first (transportFromJson j path)"
  unfolding transportFromJson_def Let_def
  by (auto intro!: first_wins)

lemma first_wins_transports [first_wins]: "keeps_first (read_transports mp i js)"
  by (induction js arbitrary: i) (auto intro!: first_wins split: option.split)

lemma first_wins_module_list [first_wins]: "keeps_first (module_list mp v)"
  unfolding module_list_def by (auto intro!: first_wins split: json.split option.split)

lemma first_wins_modules [first_wins]: "keeps_first (read_modules path kvs acc)"
  by (induction path kvs acc rule: read_modules.induct) (auto intro!: first_wins split: option.split)

lemma first_wins_rest [first_wins]: "keeps_first (read_rest r md pp ms)"
  unfolding read_rest_def read_ssl_def read_dirs_def read_logging_def Let_def
  by (auto intro!: first_wins split: option.split prod.split)

text \<open>
  Reading the modules without an error keeps what was there, adds only complete entries, and gives
  every module that lists transports all of them.
\<close>

lemma modules_sound:
  assumes "run_state (read_modules path kvs acc) e = (Some ms, e')" "m_message e' = []"
    "distinct (map fst kvs)" "fst ` set acc \<inter> fst ` set kvs = {}"
  shows "set acc \<subseteq> set ms
    \<and> (\<forall>m \<in> set ms. m \<in> set acc \<or> (fst m \<noteq> [] \<and> snd m \<noteq> [] \<and> (\<forall>t \<in> set (snd m). known_protocol (ti_protocol t))))
    \<and> (\<forall>(name, v) \<in> set kvs. name \<noteq> [] \<and> listed v \<noteq> [] \<longrightarrow>
         (\<exists>ts. (name, ts) \<in> set ms \<and> length ts = length (listed v)))"
  using assms
proof (induction kvs arbitrary: acc e)
  case (Cons kv kvs)
  obtain name v where kv: "kv = (name, v)" by fastforce
  show ?case
  proof (cases "name = []")
    case True
    with Cons.prems Cons.IH [of acc e] show ?thesis by (auto simp: kv)
  next
    case False
    obtain arr e1 where a: "run_state (module_list (path @ ''.'' @ name) v) e = (arr, e1)" by fastforce
    from Cons.prems(1) a False obtain arr' where arr': "arr = Some arr'" by (cases arr) (auto simp: kv)
    show ?thesis
    proof (cases arr')
      case None
      with Cons.prems(1) a arr' False have r: "run_state (read_modules path kvs acc) e1 = (Some ms, e')"
        by (simp add: kv)
      have "m_message e1 = []" using keeps_firstD [OF first_wins_modules r Cons.prems(2)] .
      then have "listed v = []" using module_list_listed [OF a [unfolded arr']] None by simp
      with Cons.IH [OF r Cons.prems(2)] Cons.prems(3,4) show ?thesis by (auto simp: kv)
    next
      case (Some es)
      obtain ts e2 where t: "run_state (read_transports (path @ ''.'' @ name) 0 es) e1 = (ts, e2)" by fastforce
      from Cons.prems(1) a arr' Some t False obtain ts' where ts': "ts = Some ts'" by (cases ts) (auto simp: kv)
      let ?acc = "if ts' \<noteq> [] then emplace name ts' acc else acc"
      have r: "run_state (read_modules path kvs ?acc) e2 = (Some ms, e')"
        using Cons.prems(1) a arr' Some t ts' False by (simp add: kv)
      have m2: "m_message e2 = []" using keeps_firstD [OF first_wins_modules r Cons.prems(2)] .
      have "m_message e1 = []" using keeps_firstD [OF first_wins_transports t m2] .
      then have l: "listed v = es" using module_list_listed [OF a [unfolded arr']] Some by simp
      have tc: "length ts' = length es \<and> (\<forall>t \<in> set ts'. known_protocol (ti_protocol t))"
        by (rule transports_clean [OF t [unfolded ts']])
      have new: "name \<notin> fst ` set acc" using Cons.prems(4) by (auto simp: kv)
      have sub: "set ?acc \<subseteq> insert (name, ts') (set acc)" "set acc \<subseteq> set ?acc"
        "ts' \<noteq> [] \<Longrightarrow> (name, ts') \<in> set ?acc"
        using set_emplace(1) [of name ts' acc] set_emplace(2) [of acc name ts'] set_emplace(3) [OF new, of ts'] by auto
      have dis: "fst ` set ?acc \<inter> fst ` set kvs = {}"
      proof -
        have "fst ` set ?acc \<subseteq> insert name (fst ` set acc)" using image_mono [OF sub(1), of fst] by simp
        moreover have "name \<notin> fst ` set kvs" "fst ` set acc \<inter> fst ` set kvs = {}"
          using Cons.prems(3,4) by (auto simp: kv)
        ultimately show ?thesis by blast
      qed
      have ih: "set ?acc \<subseteq> set ms"
        "\<forall>m \<in> set ms. m \<in> set ?acc \<or> (fst m \<noteq> [] \<and> snd m \<noteq> [] \<and> (\<forall>t \<in> set (snd m). known_protocol (ti_protocol t)))"
        "\<forall>(name, v) \<in> set kvs. name \<noteq> [] \<and> listed v \<noteq> [] \<longrightarrow>
           (\<exists>ts. (name, ts) \<in> set ms \<and> length ts = length (listed v))"
        using Cons.IH [OF r Cons.prems(2) _ dis] Cons.prems(3) by auto
      have "set acc \<subseteq> set ms" using ih(1) sub(2) by blast
      moreover have "\<forall>m \<in> set ms. m \<in> set acc \<or> (fst m \<noteq> [] \<and> snd m \<noteq> [] \<and> (\<forall>t \<in> set (snd m). known_protocol (ti_protocol t)))"
      proof
        fix m assume "m \<in> set ms"
        moreover have "m \<in> set ?acc \<Longrightarrow> m \<in> set acc \<or> (ts' \<noteq> [] \<and> m = (name, ts'))"
          using sub(1) by (cases "ts' = []") auto
        ultimately show "m \<in> set acc \<or> (fst m \<noteq> [] \<and> snd m \<noteq> [] \<and> (\<forall>t \<in> set (snd m). known_protocol (ti_protocol t)))"
          using ih(2) tc False by fastforce
      qed
      moreover have "listed v \<noteq> [] \<longrightarrow> (name, ts') \<in> set ms \<and> length ts' = length (listed v)"
        using tc l sub(3) ih(1) by (cases "ts' = []") auto
      ultimately show ?thesis using ih(3) by (auto simp: kv)
    qed
  qed
qed simp

text \<open>The fields after the modules: the policy is checked, the modules are kept.\<close>

lemma rest_sound:
  assumes "run_state (read_rest r md pp ms) e = (Some cfg, e')"
  shows "m_message e' = [] \<and> dc_modules cfg = ms
    \<and> (dc_signaturePolicy cfg = [] \<or> isValidSignaturePolicy (dc_signaturePolicy cfg))"
  using assms
  by (auto simp: read_rest_def errs_ok_def split: if_splits prod.splits)

lemma config_parsed:
  assumes "wf_config cfg"
  shows "parseDaemonConfigDocument
    (reparse (mk_obj (config_fields cfg True @ [(''version'', JInt kDaemonConfigSchemaVersion)]))) = Inr cfg"
proof -
  let ?d = "mk_obj (config_fields cfg True @ [(''version'', JInt kDaemonConfigSchemaVersion)])"
  have "config_doc (reparse ?d) cfg True"
    by (simp add: config_doc_def jfind_obj_reparse map_add_def split: option.split)
  note cb = config_back [OF this assms, of "[]"]
  have v: "jfind (reparse ?d) ''version'' = Some (JUInt 2)"
    by (simp add: jfind_obj_reparse kDaemonConfigSchemaVersion_def map_add_def)
  have "is_object (reparse ?d)" by (simp add: mk_obj_def)
  moreover have "strip_config True cfg = cfg"
    by (simp add: strip_config_def strip_transport_def [abs_def])
  moreover have "run_state (r_integer (reader_of (reparse ?d) []) ''version'' 0 int64_min int64_max) no_errors = (2, no_errors)"
    by (simp add: v int64_min_def int64_max_def)
  ultimately show ?thesis
    using cb by (simp add: parseDaemonConfigDocument_def kDaemonConfigSchemaVersion_def)
qed

section \<open>Properties\<close>



text \<open>A refused document always comes with a reason.\<close>

lemma config_refused_with_reason:
  assumes "parseDaemonConfigDocument obj = Inl msg"
  shows "msg \<noteq> []"
  using assms
  by (auto simp: parseDaemonConfigDocument_def errs_ok_def split: if_splits prod.splits option.splits)

text \<open>
  The document for clients names no per-listener certificate or key, and reading it back gives
  the configuration without them.
\<close>

theorem published_config_without_listener_keys:
  assumes "wf_config cfg"
  shows "(\<forall>m \<in> set (dc_modules cfg). \<forall>t \<in> set (snd m).
       jfind (transportToJson t False) ''cert'' = None \<and> jfind (transportToJson t False) ''key'' = None)
    \<and> run_state (daemonConfigFromJson (reparse (daemonConfigToJson cfg False)) p) no_errors
        = (Some (strip_config False cfg), no_errors)"
proof
  show "\<forall>m \<in> set (dc_modules cfg). \<forall>t \<in> set (snd m).
       jfind (transportToJson t False) ''cert'' = None \<and> jfind (transportToJson t False) ''key'' = None"
    by (simp add: transportToJson_def map_add_def)
  have "config_doc (reparse (daemonConfigToJson cfg False)) cfg False"
    by (simp add: config_doc_def daemonConfigToJson_def jfind_obj_reparse)
  from config_back [OF this assms] show "run_state (daemonConfigFromJson (reparse (daemonConfigToJson cfg False)) p) no_errors
        = (Some (strip_config False cfg), no_errors)" .
qed

text \<open>The top-level block is a different matter: it is written in both documents.\<close>

lemma published_config_has_ssl_key:
  "\<exists>ssl. jfind (daemonConfigToJson cfg False) ''ssl'' = Some ssl \<and> jfind ssl ''key'' = Some (JStr (dc_sslKey cfg))"
  using config_keys(4) [of cfg False] by (simp add: daemonConfigToJson_def)

text \<open>
  The TLS defaults fill gaps only: a listener that names its own material keeps it, listeners
  of other protocols are untouched, applying twice is applying once, and with a default
  certificate and key no TLS listener is left without material.
\<close>

theorem ssl_defaults:
  assumes "m \<in> set (dc_modules cfg)" "t \<in> set (snd m)"
  shows "(\<exists>m' \<in> set (dc_modules (applySslDefaults cfg)). fst m' = fst m \<and> (\<exists>t' \<in> set (snd m').
       ti_protocol t' = ti_protocol t \<and> ti_host t' = ti_host t \<and> ti_port t' = ti_port t
       \<and> (ti_certFile t \<noteq> [] \<longrightarrow> ti_certFile t' = ti_certFile t)
       \<and> (ti_keyFile t \<noteq> [] \<longrightarrow> ti_keyFile t' = ti_keyFile t)
       \<and> (ti_caFile t \<noteq> [] \<longrightarrow> ti_caFile t' = ti_caFile t)
       \<and> (ti_protocol t \<noteq> ''tcp_ssl'' \<longrightarrow> t' = t)))
    \<and> applySslDefaults (applySslDefaults cfg) = applySslDefaults cfg
    \<and> (dc_sslCert cfg \<noteq> [] \<and> dc_sslKey cfg \<noteq> [] \<longrightarrow> findTlsListenersMissingMaterial (applySslDefaults cfg) = [])"
proof (intro conjI)
  let ?t = "if dc_sslCert cfg = [] \<and> dc_sslKey cfg = [] \<and> dc_sslCa cfg = [] then t else apply_ssl_transport cfg t"
  let ?m = "if dc_sslCert cfg = [] \<and> dc_sslKey cfg = [] \<and> dc_sslCa cfg = [] then m
    else (fst m, map (apply_ssl_transport cfg) (snd m))"
  have "?m \<in> set (dc_modules (applySslDefaults cfg))" "fst ?m = fst m" "?t \<in> set (snd ?m)"
    using assms by (auto simp: applySslDefaults_def)
  moreover have "ti_protocol ?t = ti_protocol t \<and> ti_host ?t = ti_host t \<and> ti_port ?t = ti_port t
       \<and> (ti_certFile t \<noteq> [] \<longrightarrow> ti_certFile ?t = ti_certFile t)
       \<and> (ti_keyFile t \<noteq> [] \<longrightarrow> ti_keyFile ?t = ti_keyFile t)
       \<and> (ti_caFile t \<noteq> [] \<longrightarrow> ti_caFile ?t = ti_caFile t) \<and> (ti_protocol t \<noteq> ''tcp_ssl'' \<longrightarrow> ?t = t)"
    by (simp add: apply_ssl_transport_def)
  ultimately show "\<exists>m' \<in> set (dc_modules (applySslDefaults cfg)). fst m' = fst m \<and> (\<exists>t' \<in> set (snd m').
       ti_protocol t' = ti_protocol t \<and> ti_host t' = ti_host t \<and> ti_port t' = ti_port t
       \<and> (ti_certFile t \<noteq> [] \<longrightarrow> ti_certFile t' = ti_certFile t)
       \<and> (ti_keyFile t \<noteq> [] \<longrightarrow> ti_keyFile t' = ti_keyFile t)
       \<and> (ti_caFile t \<noteq> [] \<longrightarrow> ti_caFile t' = ti_caFile t)
       \<and> (ti_protocol t \<noteq> ''tcp_ssl'' \<longrightarrow> t' = t))" by blast
  have idem: "apply_ssl_transport (cfg\<lparr>dc_modules := ms\<rparr>) (apply_ssl_transport cfg x) = apply_ssl_transport cfg x" for ms x
    by (simp add: apply_ssl_transport_def)
  show "applySslDefaults (applySslDefaults cfg) = applySslDefaults cfg"
    by (simp add: applySslDefaults_def idem comp_def)
  have "dc_sslCert cfg \<noteq> [] \<and> dc_sslKey cfg \<noteq> [] \<Longrightarrow> \<not> tls_incomplete (apply_ssl_transport cfg x)" for x
    by (simp add: tls_incomplete_def apply_ssl_transport_def)
  then show "dc_sslCert cfg \<noteq> [] \<and> dc_sslKey cfg \<noteq> [] \<longrightarrow> findTlsListenersMissingMaterial (applySslDefaults cfg) = []"
    by (auto simp: findTlsListenersMissingMaterial_def applySslDefaults_def filter_empty_conv)
qed

text \<open>The check for missing TLS material is silent exactly when every TLS listener has a certificate and a key.\<close>

lemma tls_check_exact:
  "findTlsListenersMissingMaterial cfg = [] \<longleftrightarrow>
    \<not> (\<exists>m \<in> set (dc_modules cfg). \<exists>t \<in> set (snd m). ti_protocol t = ''tcp_ssl'' \<and> (ti_certFile t = [] \<or> ti_keyFile t = []))"
  by (auto simp: findTlsListenersMissingMaterial_def tls_incomplete_def filter_empty_conv)

text \<open>
  A co-resident client never dials a wildcard address: the dial host of a listener is not a
  wildcard, is the bind address whenever that is not one, and the transport chosen is a bound one,
  local when there is a local one.
\<close>

theorem dial_spec:
  "toClientDialHost h \<notin> {[], ''0.0.0.0'', ''::'', ''::0''}
   \<and> (h \<notin> {[], ''0.0.0.0'', ''::'', ''::0''} \<longrightarrow> toClientDialHost h = h)
   \<and> (pickClientDialTransport ts = None \<longleftrightarrow> ts = [])
   \<and> (\<forall>t. pickClientDialTransport ts = Some t \<longrightarrow> t \<in> set ts
        \<and> ((\<exists>u \<in> set ts. ti_protocol u = ''local'') \<longrightarrow> ti_protocol t = ''local''))"
  by (auto simp: toClientDialHost_def pickClientDialTransport_def find_None_iff dest!: find_SomeD split: option.splits)

section \<open>Witnesses\<close>

definition sample_transport :: transport_info where
  "sample_transport = \<lparr>ti_protocol = ''tcp_ssl'', ti_host = ''0.0.0.0'', ti_port = 8645, ti_caFile = [],
     ti_verifyPeer = False, ti_codec = ''cbor'', ti_certFile = ''/c.pem'', ti_keyFile = []\<rparr>"

definition sample_config :: daemon_config where
  "sample_config = default_config\<lparr>dc_modulesDirs := [''/m''], dc_modules := [(''core_service'', [sample_transport])],
     dc_sslCert := ''/d.pem'', dc_sslKey := ''/d.key'', dc_signaturePolicy := ''require''\<rparr>"

definition sample_doc :: json where
  "sample_doc = mk_obj (config_fields sample_config True @ [(''version'', JInt kDaemonConfigSchemaVersion)])"

lemma sample_config_wf: "wf_config sample_config"
  by (simp add: wf_config_def sample_config_def default_config_def no_dirs_def default_logging_def
      sample_transport_def wf_transport_def known_protocol_def isValidSignaturePolicy_def)

lemma sample_doc_text: "jtext_ok sample_doc"
  by code_simp


lemma sample_doc_modules:
  "jfind (reparse sample_doc) ''modules''
    = Some (JObj [(''core_service'', reparse (module_json True [sample_transport]))])"
proof -
  have "jfind (reparse sample_doc) ''modules'' = Some (reparse (mk_obj (modules_fields (dc_modules sample_config) True)))"
    unfolding sample_doc_def jfind_obj_reparse using config_keys(3) [of sample_config True] by (simp add: map_add_def)
  also have "reparse (mk_obj (modules_fields (dc_modules sample_config) True))
    = JObj [(''core_service'', reparse (module_json True [sample_transport]))]"
    by (subst modules_json_back) (simp_all add: sample_config_def)
  finally show ?thesis .
qed


lemma published_config_without_listener_keys_witness:
  "run_state (daemonConfigFromJson (reparse (daemonConfigToJson sample_config False)) []) no_errors
     = (Some (strip_config False sample_config), no_errors)
   \<and> jfind (transportToJson sample_transport False) ''cert'' = None"
  using published_config_without_listener_keys [OF sample_config_wf, of "[]"] by (simp add: sample_config_def)

lemma ssl_defaults_witness:
  "findTlsListenersMissingMaterial (applySslDefaults sample_config) = []
   \<and> applySslDefaults (applySslDefaults sample_config) = applySslDefaults sample_config"
  using ssl_defaults [of "(''core_service'', [sample_transport])" sample_config sample_transport]
  by (simp add: sample_config_def)

lemma dial_spec_witness:
  "pickClientDialTransport [sample_transport, sample_transport\<lparr>ti_protocol := ''local''\<rparr>] = Some (sample_transport\<lparr>ti_protocol := ''local''\<rparr>)
   \<and> ti_protocol (sample_transport\<lparr>ti_protocol := ''local''\<rparr>) = ''local'' \<and> toClientDialHost ''10.0.0.1'' = ''10.0.0.1''"
proof -
  have p: "pickClientDialTransport [sample_transport, sample_transport\<lparr>ti_protocol := ''local''\<rparr>]
    = Some (sample_transport\<lparr>ti_protocol := ''local''\<rparr>)"
    by (simp add: pickClientDialTransport_def sample_transport_def)
  with dial_spec [of "''10.0.0.1''" "[sample_transport, sample_transport\<lparr>ti_protocol := ''local''\<rparr>]"] show ?thesis
    by simp
qed

end
