(* ===== verification/Yaml_Json.thy ===== *)
theory Yaml_Json
  imports Json_Schema Samples
begin

text \<open>
  \<open>src/src/yaml_json.cpp\<close>: the conversion between YAML documents and JSON values. yaml-cpp is
  outside \<open>src/\<close>: loading a text into a node tree, decoding a scalar as a boolean, an integer or a
  double, reading a key as a string and rendering the emitter's event stream are the fields of
  \<open>yaml_lib\<close>.
\<close>

section \<open>Nodes and emitter events\<close>

datatype ynode =
    YNull
  | YScalar string string  \<comment> \<open>tag and text\<close>
  | YSequence "ynode list"
  | YMap "(ynode \<times> ynode) list"

datatype yevent =
    BeginMap | EndMap | BeginSeq | EndSeq | Key | Value | DoubleQuoted | NullEv
  | StrEv string | BoolEv bool | IntEv int | DoubleEv "64 word"

record yaml_lib =
  y_load :: "string \<Rightarrow> string + ynode"        \<comment> \<open>\<open>Inl\<close> is \<open>what()\<close> of the exception\<close>
  y_bool :: "string \<Rightarrow> bool option"
  y_int64 :: "string \<Rightarrow> int option"
  y_double :: "string \<Rightarrow> 64 word option"
  y_key :: "ynode \<Rightarrow> string option"           \<comment> \<open>\<open>as<std::string>()\<close>, \<open>None\<close> when it throws\<close>
  y_emit :: "yevent list \<Rightarrow> string"

section \<open>From YAML to JSON\<close>

definition scalarToJson :: "yaml_lib \<Rightarrow> string \<Rightarrow> string \<Rightarrow> json" where
  "scalarToJson Y tag s =
    (if tag = ''!'' then JStr s
     else case y_bool Y s of
         Some b \<Rightarrow> JBool b
       | None \<Rightarrow> (case y_int64 Y s of
           Some i \<Rightarrow> JInt i
         | None \<Rightarrow> (case y_double Y s of
             Some d \<Rightarrow> JFloat d
           | None \<Rightarrow> if s = [] \<or> s = ''~'' \<or> s = ''null'' then JNull else JStr s)))"

definition plainWouldChangeType :: "yaml_lib \<Rightarrow> string \<Rightarrow> bool" where
  "plainWouldChangeType Y s =
    (if s = [] \<or> s = ''~'' \<or> s = ''null'' then True
     else if y_bool Y s \<noteq> None then True
     else if y_int64 Y s \<noteq> None then True
     else if y_double Y s \<noteq> None then True
     else False)"

text \<open>\<open>nodeToJson\<close>; \<open>None\<close> is the exception of a key that is no string.\<close>

fun nodeToJson :: "yaml_lib \<Rightarrow> ynode \<Rightarrow> json option"
  and elemsToJson :: "yaml_lib \<Rightarrow> ynode list \<Rightarrow> json list option"
  and pairsToJson :: "yaml_lib \<Rightarrow> (ynode \<times> ynode) list \<Rightarrow> fields \<Rightarrow> fields option" where
  "nodeToJson Y YNull = Some JNull"
| "nodeToJson Y (YScalar tag s) = Some (scalarToJson Y tag s)"
| "nodeToJson Y (YSequence ns) = map_option JArr (elemsToJson Y ns)"
| "nodeToJson Y (YMap kvs) = map_option JObj (pairsToJson Y kvs [])"
| "elemsToJson Y [] = Some []"
| "elemsToJson Y (n # ns) = (case nodeToJson Y n of None \<Rightarrow> None
     | Some j \<Rightarrow> map_option ((#) j) (elemsToJson Y ns))"
| "pairsToJson Y [] obj = Some obj"
| "pairsToJson Y ((k, n) # kvs) obj = (case y_key Y k of None \<Rightarrow> None
     | Some key \<Rightarrow> (case nodeToJson Y n of None \<Rightarrow> None
         | Some j \<Rightarrow> pairsToJson Y kvs (jins key j obj)))"

text \<open>\<open>yaml_json::parse\<close>: \<open>Inl\<close> is the error text.\<close>

definition yaml_parse :: "yaml_lib \<Rightarrow> string \<Rightarrow> string + json" where
  "yaml_parse Y text = (case y_load Y text of
       Inl what \<Rightarrow> Inl what
     | Inr root \<Rightarrow>
         if root = YNull then Inr (JObj [])
         else (case nodeToJson Y root of None \<Rightarrow> Inl ''bad conversion'' | Some j \<Rightarrow> Inr j))"

section \<open>From JSON to YAML\<close>

fun emit_yaml :: "yaml_lib \<Rightarrow> json \<Rightarrow> yevent list" where
  "emit_yaml Y (JObj kvs) =
     BeginMap # concat (map (\<lambda>kv. Key # StrEv (fst kv) # Value # emit_yaml Y (snd kv)) kvs) @ [EndMap]"
| "emit_yaml Y (JArr js) = BeginSeq # concat (map (emit_yaml Y) js) @ [EndSeq]"
| "emit_yaml Y (JStr s) = (if plainWouldChangeType Y s then [DoubleQuoted, StrEv s] else [StrEv s])"
| "emit_yaml Y (JBool b) = [BoolEv b]"
| "emit_yaml Y (JInt i) = [IntEv i]"
| "emit_yaml Y (JUInt i) = [IntEv i]"
| "emit_yaml Y (JFloat d) = [DoubleEv d]"
| "emit_yaml Y JNull = [NullEv]"

definition yaml_dump :: "yaml_lib \<Rightarrow> json \<Rightarrow> string" where
  "yaml_dump Y v = (let s = y_emit Y (emit_yaml Y v)
     in if s \<noteq> [] \<and> last s \<noteq> CHR 10 then s @ [CHR 10] else s)"

section \<open>A string survives the trip\<close>

text \<open>
  The node a value was written as: a string is quoted (tag \<open>!\<close>) at least when its plain form
  would change type; scalars of other types are plain. A whole number is its decimal text.
\<close>

fun written_as :: "yaml_lib \<Rightarrow> json \<Rightarrow> ynode \<Rightarrow> bool" where
  "written_as Y JNull n \<longleftrightarrow> n = YNull"
| "written_as Y (JBool b) n \<longleftrightarrow> n = YScalar ''?'' (if b then ''true'' else ''false'')"
| "written_as Y (JInt i) n \<longleftrightarrow> n = YScalar ''?'' (show_int i)"
| "written_as Y (JUInt i) n \<longleftrightarrow> n = YScalar ''?'' (show_int i)"
| "written_as Y (JFloat d) n \<longleftrightarrow> False"
| "written_as Y (JStr s) n \<longleftrightarrow> (\<exists>tag. n = YScalar tag s \<and> (plainWouldChangeType Y s \<longrightarrow> tag = ''!''))"
| "written_as Y (JArr js) n \<longleftrightarrow> (\<exists>ns. n = YSequence ns \<and> list_all2 (\<lambda>j m. written_as Y j m) js ns)"
| "written_as Y (JObj kvs) n \<longleftrightarrow> (\<exists>ns. n = YMap ns \<and>
     list_all2 (\<lambda>kv m. y_key Y (fst m) = Some (fst kv) \<and> written_as Y (snd kv) (snd m)) kvs ns)"

text \<open>
  What reading back answers: whole numbers come back as \<open>int64_t\<close>. The values looked at have no
  doubles, whole numbers in the range of \<open>int64_t\<close> and printable text.
\<close>

fun yaml_norm :: "json \<Rightarrow> json" where
  "yaml_norm (JUInt i) = JInt i"
| "yaml_norm (JArr js) = JArr (map yaml_norm js)"
| "yaml_norm (JObj kvs) = JObj (map (\<lambda>kv. (fst kv, yaml_norm (snd kv))) kvs)"
| "yaml_norm j = j"

definition printable :: "string \<Rightarrow> bool" where
  "printable s \<longleftrightarrow> utf8_ok s \<and> (\<forall>c \<in> set s. 32 \<le> (of_char c :: nat) \<and> (of_char c :: nat) \<noteq> 127)"

fun yaml_ok :: "json \<Rightarrow> bool" where
  "yaml_ok (JFloat d) = False"
| "yaml_ok (JInt i) = (int64_min \<le> i \<and> i \<le> int64_max)"
| "yaml_ok (JUInt i) = (0 \<le> i \<and> i \<le> int64_max)"
| "yaml_ok (JArr js) = (\<forall>j \<in> set js. yaml_ok j)"
| "yaml_ok (JObj kvs) = (sorted_keys kvs \<and> (\<forall>kv \<in> set kvs. printable (fst kv) \<and> yaml_ok (snd kv)))"
| "yaml_ok (JStr s) = printable s"
| "yaml_ok j = True"

text \<open>
  The documented behaviour of yaml-cpp: an emitted value without doubles loads as a node it can be
  written as; \<open>true\<close> and \<open>false\<close> decode as booleans, a decimal \<open>int64_t\<close> as that integer.
\<close>

definition yaml_lib_ok :: "yaml_lib \<Rightarrow> bool" where
  "yaml_lib_ok Y \<longleftrightarrow>
    (\<forall>j. yaml_ok j \<longrightarrow> (\<exists>n. y_load Y (yaml_dump Y j) = Inr n \<and> written_as Y j n))
    \<and> y_bool Y ''true'' = Some True \<and> y_bool Y ''false'' = Some False
    \<and> (\<forall>i. int64_min \<le> i \<and> i \<le> int64_max \<longrightarrow> y_bool Y (show_int i) = None \<and> y_int64 Y (show_int i) = Some i)"

lemma elems_back:
  "(\<And>j n. j \<in> set js \<Longrightarrow> yaml_ok j \<Longrightarrow> written_as Y j n \<Longrightarrow> nodeToJson Y n = Some (yaml_norm j)) \<Longrightarrow>
    \<forall>j \<in> set js. yaml_ok j \<Longrightarrow> list_all2 (written_as Y) js ns \<Longrightarrow> elemsToJson Y ns = Some (map yaml_norm js)"
proof (induction js arbitrary: ns)
  case (Cons j js)
  from Cons.prems(3) obtain n ns' where ns: "ns = n # ns'" "written_as Y j n" "list_all2 (written_as Y) js ns'"
    by (auto simp: list_all2_Cons1)
  have "elemsToJson Y ns' = Some (map yaml_norm js)" using Cons.prems ns(3) by (intro Cons.IH) auto
  moreover have "nodeToJson Y n = Some (yaml_norm j)" using Cons.prems(1) [of j n] Cons.prems(2) ns(2) by simp
  ultimately show ?case by (simp add: ns(1))
qed simp

lemma pairs_back:
  "(\<And>kv n. kv \<in> set kvs \<Longrightarrow> yaml_ok (snd kv) \<Longrightarrow> written_as Y (snd kv) n \<Longrightarrow>
      nodeToJson Y n = Some (yaml_norm (snd kv))) \<Longrightarrow>
    \<forall>kv \<in> set kvs. yaml_ok (snd kv) \<Longrightarrow> sorted_keys (acc @ kvs) \<Longrightarrow>
    list_all2 (\<lambda>kv m. y_key Y (fst m) = Some (fst kv) \<and> written_as Y (snd kv) (snd m)) kvs ns \<Longrightarrow>
    pairsToJson Y ns acc = Some (acc @ map (\<lambda>kv. (fst kv, yaml_norm (snd kv))) kvs)"
proof (induction kvs arbitrary: ns acc)
  case (Cons kv kvs)
  obtain k v where kv: "kv = (k, v)" by fastforce
  from Cons.prems(4) obtain kn vn ns' where ns: "ns = (kn, vn) # ns'" "y_key Y kn = Some k" "written_as Y v vn"
    "list_all2 (\<lambda>kv m. y_key Y (fst m) = Some (fst kv) \<and> written_as Y (snd kv) (snd m)) kvs ns'"
    by (auto simp: kv list_all2_Cons1)
  have srt: "sorted_keys (acc @ [(k, yaml_norm v)] @ kvs)" and lt: "\<forall>x \<in> fst ` set acc. x < k"
    using Cons.prems(3) by (auto simp: sorted_keys_append kv)
  have "pairsToJson Y ns' (acc @ [(k, yaml_norm v)])
      = Some ((acc @ [(k, yaml_norm v)]) @ map (\<lambda>kv. (fst kv, yaml_norm (snd kv))) kvs)"
    using Cons.prems(1,2) srt ns(4) by (intro Cons.IH) auto
  moreover have "nodeToJson Y vn = Some (yaml_norm v)"
    using Cons.prems(1) [of kv vn] Cons.prems(2) ns(3) by (simp add: kv)
  ultimately show ?case using ns(1,2) lt by (simp add: jins_last kv)
qed simp

lemma read_back:
  assumes "yaml_lib_ok Y"
  shows "yaml_ok j \<Longrightarrow> written_as Y j n \<Longrightarrow> nodeToJson Y n = Some (yaml_norm j)"
proof (induction j arbitrary: n)
  case (JArr js)
  from JArr.prems obtain ns where ns: "n = YSequence ns" "list_all2 (written_as Y) js ns" by auto
  have "elemsToJson Y ns = Some (map yaml_norm js)"
    by (rule elems_back [OF _ _ ns(2)]) (use JArr in auto)
  with ns(1) show ?case by simp
next
  case (JObj kvs)
  from JObj.prems obtain ns where ns: "n = YMap ns"
    "list_all2 (\<lambda>kv m. y_key Y (fst m) = Some (fst kv) \<and> written_as Y (snd kv) (snd m)) kvs ns" by auto
  have "pairsToJson Y ns [] = Some ([] @ map (\<lambda>kv. (fst kv, yaml_norm (snd kv))) kvs)"
    by (rule pairs_back [OF _ _ _ ns(2)]) (use JObj in \<open>force simp: snds.simps\<close>)+
  with ns(1) show ?case by simp
next
  case (JStr s)
  then obtain tag where n: "n = YScalar tag s" "plainWouldChangeType Y s \<longrightarrow> tag = ''!''" by auto
  show ?case
  proof (cases "tag = ''!''")
    case False
    with n(2) have "\<not> plainWouldChangeType Y s" by blast
    then have "s \<noteq> []" "s \<noteq> ''~''" "s \<noteq> ''null''" "y_bool Y s = None" "y_int64 Y s = None" "y_double Y s = None"
      unfolding plainWouldChangeType_def by (simp_all split: if_splits)
    with n(1) show ?thesis by (simp add: scalarToJson_def)
  qed (simp add: n scalarToJson_def)
next
  case (JBool b)
  have "y_bool Y ''true'' = Some True" "y_bool Y ''false'' = Some False" using assms by (auto simp: yaml_lib_ok_def)
  with JBool show ?case by (cases b) (simp_all add: scalarToJson_def)
next
  case (JInt i)
  then have "y_bool Y (show_int i) = None \<and> y_int64 Y (show_int i) = Some i" using assms by (simp add: yaml_lib_ok_def)
  with JInt show ?case by (simp add: scalarToJson_def)
next
  case (JUInt i)
  then have "y_bool Y (show_int i) = None \<and> y_int64 Y (show_int i) = Some i"
    using assms by (simp add: yaml_lib_ok_def int64_min_def)
  with JUInt show ?case by (simp add: scalarToJson_def)
qed simp_all

lemma load_back:
  assumes "yaml_lib_ok Y" "yaml_ok j" "j \<noteq> JNull"
  obtains n where "y_load Y (yaml_dump Y j) = Inr n" "n \<noteq> YNull" "nodeToJson Y n = Some (yaml_norm j)"
proof -
  obtain n where n: "y_load Y (yaml_dump Y j) = Inr n" "written_as Y j n"
    using assms(1,2) unfolding yaml_lib_ok_def by blast
  have "n \<noteq> YNull" using n(2) assms(3) by (cases j) auto
  with read_back [OF assms(1,2) n(2)] n(1) show thesis by (intro that)
qed


section \<open>A concrete library\<close>

text \<open>The events as a prefix code, read back into nodes; used by the witness only.\<close>

fun enc_event :: "yevent \<Rightarrow> string" where
  "enc_event BeginMap = ''{''"
| "enc_event EndMap = ''}''"
| "enc_event BeginSeq = ''[''"
| "enc_event EndSeq = '']''"
| "enc_event Key = ''k''"
| "enc_event Value = ''v''"
| "enc_event DoubleQuoted = ''q''"
| "enc_event NullEv = ''n''"
| "enc_event (StrEv s) = CHR ''s'' # enc_str s"
| "enc_event (BoolEv b) = (if b then ''t'' else ''f'')"
| "enc_event (IntEv i) = CHR ''i'' # enc_int i"
| "enc_event (DoubleEv d) = ''d''"

fun dec_until :: "(string \<Rightarrow> ('a \<times> string) option) \<Rightarrow> char \<Rightarrow> nat \<Rightarrow> string \<Rightarrow> ('a list \<times> string) option" where
  "dec_until d stop 0 s = None"
| "dec_until d stop (Suc n) s =
    (if s \<noteq> [] \<and> hd s = stop then Some ([], tl s)
     else case d s of None \<Rightarrow> None
       | Some (x, r) \<Rightarrow> map_option (\<lambda>(xs, q). (x # xs, q)) (dec_until d stop n r))"

definition dec_pair :: "(string \<Rightarrow> (ynode \<times> string) option) \<Rightarrow> string \<Rightarrow> ((ynode \<times> ynode) \<times> string) option" where
  "dec_pair d s = (case dec_str (drop 2 s) of (k, r) \<Rightarrow>
     map_option (\<lambda>(n, q). ((YScalar ''?'' k, n), q)) (d (drop 1 r)))"

primrec dec_node :: "nat \<Rightarrow> string \<Rightarrow> (ynode \<times> string) option" where
  "dec_node 0 s = None"
| "dec_node (Suc f) s =
    (let c = hd s; t = tl s
     in if c = CHR ''{'' then map_option (\<lambda>(kvs, q). (YMap kvs, q)) (dec_until (dec_pair (dec_node f)) CHR ''}'' f t)
     else if c = CHR ''['' then map_option (\<lambda>(ns, q). (YSequence ns, q)) (dec_until (dec_node f) CHR '']'' f t)
     else if c = CHR ''q'' then (case dec_str (drop 1 t) of (u, r) \<Rightarrow> Some (YScalar ''!'' u, r))
     else if c = CHR ''s'' then (case dec_str t of (u, r) \<Rightarrow> Some (YScalar ''?'' u, r))
     else if c = CHR ''t'' then Some (YScalar ''?'' ''true'', t)
     else if c = CHR ''f'' then Some (YScalar ''?'' ''false'', t)
     else if c = CHR ''i'' then (case dec_int t of (i, r) \<Rightarrow> Some (YScalar ''?'' (show_int i), r))
     else if c = CHR ''n'' then Some (YNull, t)
     else None)"

definition read_int :: "string \<Rightarrow> int option" where
  "read_int s = (let i = (if s \<noteq> [] \<and> hd s = CHR ''-'' then - int (read_nat (tl s)) else int (read_nat s))
     in if show_int i = s then Some i else None)"

definition sample_yaml :: yaml_lib where
  "sample_yaml = \<lparr>
     y_load = (\<lambda>s. case dec_node (length s) s of None \<Rightarrow> Inl ''bad'' | Some (n, r) \<Rightarrow> Inr n),
     y_bool = (\<lambda>s. if s = ''true'' then Some True else if s = ''false'' then Some False else None),
     y_int64 = read_int, y_double = (\<lambda>_. None),
     y_key = (\<lambda>n. case n of YScalar tag s \<Rightarrow> Some s | _ \<Rightarrow> None),
     y_emit = (\<lambda>evs. concat (map enc_event evs))\<rparr>"

lemma dec_enc_until:
  assumes "\<And>x r. x \<in> set xs \<Longrightarrow> \<exists>y. d (e x @ r) = Some (y, r) \<and> P x y"
    "\<And>x. x \<in> set xs \<Longrightarrow> e x \<noteq> [] \<and> hd (e x) \<noteq> stop" "length xs < n"
  shows "\<exists>ys. dec_until d stop n (concat (map e xs) @ stop # r) = Some (ys, r) \<and> list_all2 P xs ys"
  using assms
proof (induction xs arbitrary: n)
  case Nil
  then show ?case by (cases n) auto
next
  case (Cons x xs)
  then obtain m where n: "n = Suc m" by (cases n) auto
  obtain y where y: "d (e x @ concat (map e xs) @ stop # r) = Some (y, concat (map e xs) @ stop # r)" "P x y"
    using Cons.prems(1) [of x] by auto
  obtain ys where "dec_until d stop m (concat (map e xs) @ stop # r) = Some (ys, r)" "list_all2 P xs ys"
    using Cons.IH [of m] Cons.prems n by auto
  with y Cons.prems(2) [of x] n show ?case by auto
qed

abbreviation ytext :: "json \<Rightarrow> string" where
  "ytext j \<equiv> concat (map enc_event (emit_yaml sample_yaml j))"

lemma ytext_start: "ytext j \<noteq> [] \<and> hd (ytext j) \<noteq> CHR ''}'' \<and> hd (ytext j) \<noteq> CHR '']''"
  by (cases j) auto

lemma length_le_concat: "(\<And>x. x \<in> set xs \<Longrightarrow> e x \<noteq> []) \<Longrightarrow> length xs \<le> length (concat (map e xs))"
proof (induction xs)
  case (Cons x xs)
  have "length xs \<le> length (concat (map e xs))" using Cons by simp
  moreover have "1 \<le> length (e x)" using Cons.prems [of x] by (cases "e x") auto
  ultimately show ?case by simp
qed simp

definition ypair :: "string \<times> json \<Rightarrow> string" where
  "ypair kv = CHR ''k'' # CHR ''s'' # enc_str (fst kv) @ CHR ''v'' # ytext (snd kv)"

lemma ytext_arr: "ytext (JArr js) = CHR ''['' # concat (map ytext js) @ '']''"
proof -
  have "concat (map enc_event (concat (map (emit_yaml sample_yaml) js))) = concat (map ytext js)"
    by (induction js) simp_all
  then show ?thesis by simp
qed

lemma ytext_obj: "ytext (JObj kvs) = CHR ''{'' # concat (map ypair kvs) @ ''}''"
proof -
  have "concat (map enc_event (concat (map (\<lambda>kv. Key # StrEv (fst kv) # Value # emit_yaml sample_yaml (snd kv)) kvs)))
      = concat (map ypair kvs)"
    by (induction kvs) (simp_all add: ypair_def)
  then show ?thesis by simp
qed

lemma dec_ytext:
  "yaml_ok j \<Longrightarrow> length (ytext j) \<le> f \<Longrightarrow> \<exists>n. dec_node f (ytext j @ r) = Some (n, r) \<and> written_as sample_yaml j n"
proof (induction j arbitrary: f r)
  case (JArr js)
  have t: "length (ytext (JArr js)) = Suc (Suc (length (concat (map ytext js))))" unfolding ytext_arr by simp
  then obtain g where g: "f = Suc g" using JArr.prems(2) by (cases f) auto
  have le: "length (ytext x) \<le> g" if "x \<in> set js" for x
    using length_enc_elem [OF that, of ytext] JArr.prems(2) g t by linarith
  have "length js \<le> length (concat (map ytext js))" using ytext_start by (intro length_le_concat) blast
  then have n: "length js < g" using JArr.prems(2) g t by linarith
  have "\<exists>ys. dec_until (dec_node g) CHR '']'' g (concat (map ytext js) @ CHR '']'' # r) = Some (ys, r)
      \<and> list_all2 (written_as sample_yaml) js ys"
    using n ytext_start JArr.IH JArr.prems(1) le by (intro dec_enc_until) auto
  then obtain ys where ys: "dec_until (dec_node g) CHR '']'' g (concat (map ytext js) @ CHR '']'' # r) = Some (ys, r)"
    "list_all2 (written_as sample_yaml) js ys" by blast
  have "dec_node f (ytext (JArr js) @ r) = Some (YSequence ys, r)"
    unfolding ytext_arr by (simp add: g ys(1))
  with ys(2) show ?case by simp
next
  case (JObj kvs)
  have t: "length (ytext (JObj kvs)) = Suc (Suc (length (concat (map ypair kvs))))" unfolding ytext_obj by simp
  then obtain g where g: "f = Suc g" using JObj.prems(2) by (cases f) auto
  let ?P = "\<lambda>kv m. y_key sample_yaml (fst m) = Some (fst kv) \<and> written_as sample_yaml (snd kv) (snd m)"
  have el: "\<exists>y. dec_pair (dec_node g) (ypair kv @ q) = Some (y, q) \<and> ?P kv y" if kv: "kv \<in> set kvs" for kv q
  proof -
    have "length (ypair kv) \<le> g" using length_enc_elem [OF kv, of ypair] JObj.prems(2) g t by linarith
    then have "length (ytext (snd kv)) \<le> g" by (simp add: ypair_def)
    moreover have "snd kv \<in> Basic_BNFs.snds kv" by (simp add: Basic_BNFs.snds.simps)
    ultimately obtain n where "dec_node g (ytext (snd kv) @ q) = Some (n, q)" "written_as sample_yaml (snd kv) n"
      using JObj.IH [OF kv] JObj.prems(1) kv by (metis yaml_ok.simps(5))
    then show ?thesis by (simp add: dec_pair_def ypair_def) (simp add: sample_yaml_def)
  qed
  have "length kvs \<le> length (concat (map ypair kvs))" by (rule length_le_concat) (simp add: ypair_def)
  then have n: "length kvs < g" using JObj.prems(2) g t by linarith
  have "\<exists>ys. dec_until (dec_pair (dec_node g)) CHR ''}'' g (concat (map ypair kvs) @ CHR ''}'' # r) = Some (ys, r)
      \<and> list_all2 ?P kvs ys"
    using n el by (intro dec_enc_until) (auto simp: ypair_def)
  then obtain ys where ys: "dec_until (dec_pair (dec_node g)) CHR ''}'' g (concat (map ypair kvs) @ CHR ''}'' # r) = Some (ys, r)"
    "list_all2 ?P kvs ys" by blast
  have "dec_node f (ytext (JObj kvs) @ r) = Some (YMap ys, r)"
    unfolding ytext_obj by (simp add: g ys(1))
  with ys(2) show ?case by simp
next
  case (JBool b f r) then show ?case by (cases f; cases b) auto
next
  case (JInt b f r) then show ?case by (cases f) auto
next
  case (JUInt b f r) then show ?case by (cases f) auto
next
  case (JStr s f r) then show ?case by (cases f; cases "plainWouldChangeType sample_yaml s") auto
next
  case (JNull f r) then show ?case by (cases f) auto
qed simp

lemma hd_digit: "is_digit c \<Longrightarrow> c \<noteq> CHR ''t'' \<and> c \<noteq> CHR ''f'' \<and> c \<noteq> CHR ''-''"
  by (auto simp: is_digit_def)

lemma hd_show_nat: "is_digit (hd (show_nat n))"
  using show_nat_digits [of n] show_nat_nonempty [of n] by (metis hd_in_set)

lemma sample_ints: "y_bool sample_yaml (show_int i) = None" "read_int (show_int i) = Some i"
proof -
  have "hd (show_int i) \<noteq> CHR ''t'' \<and> hd (show_int i) \<noteq> CHR ''f''"
    using hd_digit [OF hd_show_nat] by (simp add: show_int_def)
  then show "y_bool sample_yaml (show_int i) = None" by (auto simp: sample_yaml_def)
  show "read_int (show_int i) = Some i"
  proof (cases "i < 0")
    case True
    then show ?thesis by (simp add: read_int_def show_int_def)
  next
    case False
    with hd_digit [OF hd_show_nat, of "nat i"] show ?thesis by (simp add: read_int_def show_int_def)
  qed
qed

lemma emit_sample: "y_emit sample_yaml evs = concat (map enc_event evs)"
  by (simp add: sample_yaml_def)

lemma sample_yaml_ok: "yaml_lib_ok sample_yaml"
proof -
  have "\<exists>n. y_load sample_yaml (yaml_dump sample_yaml j) = Inr n \<and> written_as sample_yaml j n" if ok: "yaml_ok j" for j
  proof -
    obtain r where r: "yaml_dump sample_yaml j = ytext j @ r"
      unfolding yaml_dump_def emit_sample Let_def by (cases "ytext j \<noteq> [] \<and> last (ytext j) \<noteq> CHR 10") auto
    obtain n where "dec_node (length (ytext j @ r)) (ytext j @ r) = Some (n, r)" "written_as sample_yaml j n"
      using dec_ytext [OF ok, of "length (ytext j @ r)" r] by auto
    then show ?thesis unfolding r by (simp add: sample_yaml_def)
  qed
  moreover have "y_bool sample_yaml ''true'' = Some True" "y_bool sample_yaml ''false'' = Some False"
    "y_int64 sample_yaml = read_int" by (simp_all add: sample_yaml_def)
  ultimately show ?thesis using sample_ints by (simp add: yaml_lib_ok_def)
qed


end
