(* ===== verification/Daemon_Files.thy ===== *)
theory Daemon_Files
  imports Daemon_Config_Props Yaml_Json Config
begin

unbundle bit_operations_syntax

text \<open>
  The files of \<open>src/src/daemon/daemon_state.cpp\<close>: the atomic writer with its per-writer temporary
  name, \<open>daemon/config\<close>, \<open>daemon/state.json\<close>, the group lookup and the client artifacts written at
  boot. The group database is outside \<open>src/\<close> and is a parameter, as are the text libraries.
\<close>

section \<open>Environment\<close>

datatype gr_answer = Gr_ERANGE | Gr_None | Gr_Gid int

record daemon_env =
  d_cfg :: config
  d_json :: json_lib
  d_yaml :: yaml_lib
  d_getgrnam :: "string \<Rightarrow> nat \<Rightarrow> gr_answer"  \<comment> \<open>name and buffer size\<close>

section \<open>atomicWriteText\<close>

definition tmp_name :: "string \<Rightarrow> string io" where
  "tmp_name path = State (\<lambda>w.
     (path @ ''.tmp.'' @ show_int (w_pid w) @ ''.'' @ show_nat (w_tmpseq w), w\<lparr>w_tmpseq := Suc (w_tmpseq w)\<rparr>))"

definition atomic_put :: "string \<Rightarrow> string \<Rightarrow> nat \<Rightarrow> bool io" where
  "atomic_put path text mode = do {
     tmp \<leftarrow> tmp_name path;
     opened \<leftarrow> open_trunc tmp;
     if \<not> opened then State_Monad.return False
     else do {
       written \<leftarrow> write_out tmp text;
       if \<not> written then State_Monad.return False
       else do {
         ok \<leftarrow> chmod tmp mode;
         if \<not> ok then do { _ \<leftarrow> remove_file tmp; State_Monad.return False }
         else do {
           renamed \<leftarrow> rename tmp path;
           if \<not> renamed then do { _ \<leftarrow> remove_file tmp; State_Monad.return False }
           else State_Monad.return True } } } }"

definition atomicWriteText :: "string \<Rightarrow> string \<Rightarrow> nat \<Rightarrow> bool io" where
  "atomicWriteText path text mode = do {
     made \<leftarrow> mk_dirs (parent_path path);
     if \<not> made then State_Monad.return False else atomic_put path text mode }"

definition atomicWriteJson :: "daemon_env \<Rightarrow> string \<Rightarrow> json \<Rightarrow> nat \<Rightarrow> (exn + bool) io" where
  "atomicWriteJson D path obj mode = (case jl_dump (d_json D) 4 obj of
      None \<Rightarrow> raise (Type_Error ''invalid UTF-8 byte'')
    | Some s \<Rightarrow> plain (atomicWriteText path (s @ [CHR 10]) mode))"

definition mode_rw :: nat where "mode_rw = 384"     \<comment> \<open>0600\<close>
definition mode_rwx :: nat where "mode_rwx = 448"   \<comment> \<open>0700\<close>
definition mode_share_file :: nat where "mode_share_file = 416"  \<comment> \<open>0640\<close>
definition mode_share_dir :: nat where "mode_share_dir = 488"    \<comment> \<open>0750\<close>

section \<open>DaemonConfigFile\<close>

definition config_document :: "daemon_config \<Rightarrow> json" where
  "config_document cfg = mk_obj (config_fields cfg True @ [(''version'', JInt kDaemonConfigSchemaVersion)])"

definition config_read :: "daemon_env \<Rightarrow> daemon_config option io" where
  "config_read D = do {
     text \<leftarrow> read_file (daemonConfigPath (d_cfg D));
     case text of
       None \<Rightarrow> State_Monad.return None
     | Some s \<Rightarrow> (case yaml_parse (d_yaml D) s of
         Inl what \<Rightarrow> do {
           _ \<leftarrow> cerr (''DaemonConfig: '' @ daemonConfigPath (d_cfg D) @ '' is not valid YAML: '' @ what);
           State_Monad.return None }
       | Inr parsed \<Rightarrow> (case parseDaemonConfigDocument parsed of
           Inl err \<Rightarrow> do {
             _ \<leftarrow> cerr (''DaemonConfig: '' @ daemonConfigPath (d_cfg D) @ '': '' @ err);
             State_Monad.return None }
         | Inr cfg \<Rightarrow> State_Monad.return (Some cfg))) }"

definition config_write :: "daemon_env \<Rightarrow> daemon_config \<Rightarrow> (exn + bool) io" where
  "config_write D cfg =
     (if isModern (d_cfg D)
      then plain (atomicWriteText (daemonConfigPath (d_cfg D)) (yaml_dump (d_yaml D) (config_document cfg)) mode_rw)
      else atomicWriteJson D (daemonConfigPath (d_cfg D)) (config_document cfg) mode_rw)"

section \<open>DaemonRuntimeStateFile\<close>

definition kDaemonRuntimeStateSchemaVersion :: int where "kDaemonRuntimeStateSchemaVersion = 2"

record runtime_state =
  rs_fileOk :: bool
  rs_schemaVersion :: int
  rs_instanceId :: string
  rs_pid :: int
  rs_startedAt :: string
  rs_configSource :: string
  rs_resolved :: daemon_config

definition empty_state :: runtime_state where
  "empty_state = \<lparr>rs_fileOk = False, rs_schemaVersion = 0, rs_instanceId = [], rs_pid = - 1,
     rs_startedAt = [], rs_configSource = [], rs_resolved = default_config\<rparr>"

definition state_document :: "runtime_state \<Rightarrow> json" where
  "state_document st = mk_obj
    ([(''version'', JInt kDaemonRuntimeStateSchemaVersion),
      (''instance_id'', JStr (rs_instanceId st)),
      (''pid'', JInt (rs_pid st)),
      (''started_at'', JStr (rs_startedAt st))]
     @ (if rs_configSource st \<noteq> [] then [(''config_source'', JStr (rs_configSource st))] else [])
     @ [(''resolved'', daemonConfigToJson (rs_resolved st) False)])"

definition state_write :: "daemon_env \<Rightarrow> runtime_state \<Rightarrow> (exn + bool) io" where
  "state_write D st = atomicWriteJson D (daemonStatePath (d_cfg D)) (state_document st) mode_rw"

text \<open>The reads of an object of the right version; an unusable file answers its message.\<close>

definition state_fields :: "string \<Rightarrow> json \<Rightarrow> int \<Rightarrow> string + runtime_state" where
  "state_fields path obj version =
     (case run_state (do {
         instanceId \<leftarrow> r_str (reader_of obj []) ''instance_id'' [];
         pid \<leftarrow> r_integer (reader_of obj []) ''pid'' (- 1) int64_min int64_max;
         startedAt \<leftarrow> r_str (reader_of obj []) ''started_at'' [];
         configSource \<leftarrow> r_str (reader_of obj []) ''config_source'' [];
         resolvedObj \<leftarrow> r_mapping (reader_of obj []) ''resolved'' ''a mapping'';
         resolved \<leftarrow> (case resolvedObj of
             None \<Rightarrow> State_Monad.return (Some default_config)
           | Some kvs \<Rightarrow> daemonConfigFromJson (JObj kvs) ''resolved.'');
         State_Monad.return (instanceId, pid, startedAt, configSource, resolved) }) no_errors of
       ((instanceId, pid, startedAt, configSource, resolved), e) \<Rightarrow>
         (case resolved of
           None \<Rightarrow> Inl (''DaemonRuntimeState: refusing to load partial resolved block from '' @ path)
         | Some cfg \<Rightarrow>
             if \<not> errs_ok e then Inl (''DaemonRuntimeState: '' @ path @ '': '' @ m_message e)
             else Inr \<lparr>rs_fileOk = (instanceId \<noteq> []), rs_schemaVersion = version, rs_instanceId = instanceId,
               rs_pid = pid, rs_startedAt = startedAt, rs_configSource = configSource, rs_resolved = cfg\<rparr>))"

definition state_read :: "daemon_env \<Rightarrow> runtime_state io" where
  "state_read D = do {
     text \<leftarrow> read_file (daemonStatePath (d_cfg D));
     case (case text of None \<Rightarrow> None | Some s \<Rightarrow> jl_parse (d_json D) s) of
       None \<Rightarrow> State_Monad.return empty_state
     | Some obj \<Rightarrow>
        if \<not> is_object obj then State_Monad.return empty_state
        else (case run_state (r_integer (reader_of obj []) ''version'' 0 int64_min int64_max) no_errors of
          (v, e) \<Rightarrow>
            if \<not> errs_ok e then do {
              _ \<leftarrow> cerr (''DaemonRuntimeState: '' @ daemonStatePath (d_cfg D) @ '': '' @ m_message e);
              State_Monad.return empty_state }
            else if wrap_int 32 v \<noteq> kDaemonRuntimeStateSchemaVersion then do {
              _ \<leftarrow> cerr (''DaemonRuntimeState: unsupported schema version '' @ show_int (wrap_int 32 v)
                @ '' in '' @ daemonStatePath (d_cfg D) @ '' '' @ emdash
                @ '' relaunch the daemon to regenerate (expected version ''
                @ show_int kDaemonRuntimeStateSchemaVersion @ '').'');
              State_Monad.return (empty_state\<lparr>rs_schemaVersion := wrap_int 32 v\<rparr>) }
            else (case state_fields (daemonStatePath (d_cfg D)) obj (wrap_int 32 v) of
                Inl msg \<Rightarrow> do {
                  _ \<leftarrow> cerr msg;
                  State_Monad.return empty_state }
              | Inr st \<Rightarrow> State_Monad.return st)) }"

definition state_remove :: "daemon_env \<Rightarrow> bool io" where
  "state_remove D = remove_file (daemonStatePath (d_cfg D))"

section \<open>resolveOsGroupGid\<close>

text \<open>The retry loop over \<open>getgrnam_r\<close>: the buffer holds \<open>1024 * 2 ^ k\<close> bytes.\<close>

function group_lookup :: "(string \<Rightarrow> nat \<Rightarrow> gr_answer) \<Rightarrow> string \<Rightarrow> nat \<Rightarrow> int option" where
  "group_lookup db spec k = (case db spec (1024 * 2 ^ k) of
       Gr_ERANGE \<Rightarrow> if 1024 * 2 ^ k < (1048576 :: nat) then group_lookup db spec (Suc k) else None
     | Gr_None \<Rightarrow> None
     | Gr_Gid g \<Rightarrow> Some g)"
  by pat_completeness auto
termination
proof (relation "measure (\<lambda>(db, spec, k). 10 - k)")
  fix spec :: string and k :: nat
  assume "1024 * 2 ^ k < (1048576 :: nat)"
  then have "(2::nat) ^ k < 2 ^ 10" by simp
  then have "k < 10" by (rule power_less_imp_less_exp [rotated]) simp
  then show "\<And>db. ((db, spec, Suc k), db, spec, k) \<in> measure (\<lambda>(db, spec, k). 10 - k)" by simp
qed simp

declare group_lookup.simps [simp del]

definition resolveOsGroupGid :: "(string \<Rightarrow> nat \<Rightarrow> gr_answer) \<Rightarrow> string \<Rightarrow> int option" where
  "resolveOsGroupGid db spec =
    (if spec \<noteq> [] \<and> find_first_not_of spec ''0123456789'' = None
     then (if read_nat spec > 4294967295 then None else Some (int (read_nat spec)))
     else group_lookup db spec 0)"

section \<open>writeLocalClientArtifacts\<close>

definition stat_mode :: "string \<Rightarrow> nat option io" where
  "stat_mode p = State (\<lambda>w. (if w_sys w (w_tick w) (Stat p)
     then (case w_dirs w p of Some d \<Rightarrow> Some (d_mode d) | None \<Rightarrow> map_option i_mode (w_files w p))
     else None, tick w))"

text \<open>The group, when it is known.\<close>

definition resolve_share :: "daemon_env \<Rightarrow> string \<Rightarrow> int option io" where
  "resolve_share D accessGroup =
    (if accessGroup = [] then State_Monad.return None
     else case resolveOsGroupGid (d_getgrnam D) accessGroup of
         Some g \<Rightarrow> State_Monad.return (Some g)
       | None \<Rightarrow> do {
           _ \<leftarrow> cerr (''writeLocalClientArtifacts: unknown --access-group '' @ [CHR 39] @ accessGroup @ [CHR 39]
             @ '' '' @ emdash @ '' client artifacts stay owner-only'');
           State_Monad.return None })"

text \<open>Locking \<open>daemon/\<close> before anything is widened; failing to lock gives up sharing.\<close>

definition lock_daemon_dir :: "daemon_env \<Rightarrow> int option \<Rightarrow> int option io" where
  "lock_daemon_dir D share = (case share of
      None \<Rightarrow> State_Monad.return None
    | Some g \<Rightarrow> do {
        there \<leftarrow> file_exists (daemonDir (d_cfg D));
        if there then do {
          locked \<leftarrow> chmod (daemonDir (d_cfg D)) mode_rwx;
          if \<not> locked then do {
            _ \<leftarrow> cerr (''writeLocalClientArtifacts: could not lock '' @ daemonDir (d_cfg D)
              @ '' to owner-only '' @ emdash @ '' not sharing the config dir'');
            State_Monad.return None }
          else State_Monad.return (Some g) }
        else State_Monad.return (Some g) })"

definition widen_dirs :: "daemon_env \<Rightarrow> int option \<Rightarrow> unit io" where
  "widen_dirs D share = (case share of
      None \<Rightarrow> State_Monad.return ()
    | Some g \<Rightarrow> do {
        _ \<leftarrow> chown (clientDir (d_cfg D)) g;
        _ \<leftarrow> chmod (clientDir (d_cfg D)) mode_share_dir;
        cst \<leftarrow> stat_mode (configDir (d_cfg D));
        case cst of
          None \<Rightarrow> State_Monad.return ()
        | Some m \<Rightarrow> do {
            _ \<leftarrow> chown (configDir (d_cfg D)) g;
            _ \<leftarrow> chmod (configDir (d_cfg D)) ((m AND 4095) OR 8);
            State_Monad.return () } })"

text \<open>Whether \<open>client/config\<close> is to be written, and with which token file.\<close>

definition client_cfg_decision :: "daemon_env \<Rightarrow> string \<Rightarrow> (bool \<times> string) io" where
  "client_cfg_decision D instanceId = do {
     there \<leftarrow> file_exists (clientConfigPath (d_cfg D));
     if \<not> there then State_Monad.return (True, ''auto.json'')
     else do {
       text \<leftarrow> read_file (clientConfigPath (d_cfg D));
       State_Monad.return (case text of
           None \<Rightarrow> (False, ''auto.json'')
         | Some s \<Rightarrow>
             (let existing = (case yaml_parse (d_yaml D) s of
                    Inr j \<Rightarrow> if is_object j then j else JObj [] | Inl _ \<Rightarrow> JObj []);
                  er = reader_of existing [];
                  existingInstance = fst (run_state (r_str er ''instance_id'' []) no_errors);
                  named = fst (run_state (r_str er ''token_file'' []) no_errors)
              in if existingInstance \<noteq> [] \<and> existingInstance \<noteq> instanceId
                 then (True, if named \<noteq> [] then named else ''auto.json'')
                 else (False, ''auto.json''))) } }"

definition dial_entry :: "transport_info list \<Rightarrow> json" where
  "dial_entry ts = (case pickClientDialTransport ts of
      Some t \<Rightarrow> toClientEntry t
    | None \<Rightarrow> JObj [(''transport'', JStr ''local'')])"

definition client_document :: "string \<Rightarrow> string \<Rightarrow> transport_info list \<Rightarrow> transport_info list \<Rightarrow> json" where
  "client_document tokenFile instanceId core cap = mk_obj
    [(''version'', JInt 2), (''token_file'', JStr tokenFile), (''instance_id'', JStr instanceId),
     (''daemon'', mk_obj [(''core_service'', dial_entry core), (''capability_module'', dial_entry cap)])]"

definition auto_document :: "string \<Rightarrow> string \<Rightarrow> json" where
  "auto_document token issuedAt = mk_obj
    [(''version'', JInt 1), (''name'', JStr ''auto''), (''token'', JStr token), (''issued_at'', JStr issuedAt)]"

definition share_file :: "string \<Rightarrow> int option \<Rightarrow> unit io" where
  "share_file p share = (case share of None \<Rightarrow> State_Monad.return ()
     | Some g \<Rightarrow> do { _ \<leftarrow> chown p g; State_Monad.return () })"

definition write_client_cfg :: "daemon_env \<Rightarrow> string \<Rightarrow> json \<Rightarrow> int option \<Rightarrow> nat \<Rightarrow> (exn + bool) io" where
  "write_client_cfg D p doc share fileMode = tbind
     (if isModern (d_cfg D) then plain (atomicWriteText p (yaml_dump (d_yaml D) doc) fileMode)
      else atomicWriteJson D p doc fileMode)
     (\<lambda>wrote. if \<not> wrote then pure False else do { _ \<leftarrow> share_file p share; pure True })"

definition writeLocalClientArtifacts ::
    "daemon_env \<Rightarrow> string \<Rightarrow> string \<Rightarrow> string \<Rightarrow> transport_info list \<Rightarrow> transport_info list \<Rightarrow> string \<Rightarrow> (exn + bool) io" where
  "writeLocalClientArtifacts D instanceId autoTokenRaw issuedAt core cap accessGroup = do {
     share0 \<leftarrow> resolve_share D accessGroup;
     made \<leftarrow> mk_dirs (clientDir (d_cfg D));
     if \<not> made then pure False
     else do {
       share \<leftarrow> lock_daemon_dir D share0;
       _ \<leftarrow> widen_dirs D share;
       (writeCfg, tokenFile) \<leftarrow> client_cfg_decision D instanceId;
       tbind (if writeCfg
              then write_client_cfg D (clientConfigPath (d_cfg D)) (client_document tokenFile instanceId core cap)
                     share (if share = None then mode_rw else mode_share_file)
              else pure True)
         (\<lambda>ok. if \<not> ok then pure False
           else tbind (atomicWriteJson D (clientTokenPath (d_cfg D) ''auto.json'') (auto_document autoTokenRaw issuedAt)
                         (if share = None then mode_rw else mode_share_file))
             (\<lambda>wrote. if \<not> wrote then pure False
               else do { _ \<leftarrow> share_file (clientTokenPath (d_cfg D) ''auto.json'') share; pure True })) } }"

end
