(* ===== verification/Daemon_Files_Props.thy ===== *)
theory Daemon_Files_Props
  imports Daemon_Files
begin

text \<open>
  The guarantees of the machine-owned files: atomic publication at the requested mode, the round
  trip of \<open>state.json\<close>, and what the client artifacts leave alone.
\<close>

section \<open>Atomic publication\<close>

lemma tmp_name_run:
  "run_state (tmp_name p) w = (p @ ''.tmp.'' @ show_int (w_pid w) @ ''.'' @ show_nat (w_tmpseq w),
     w\<lparr>w_tmpseq := Suc (w_tmpseq w)\<rparr>)"
  by (simp add: tmp_name_def)

lemma untouched_tmp_bind:
  assumes "\<And>n. untouched q (f (p @ ''.tmp.'' @ n))"
  shows "untouched q (State_Monad.bind (tmp_name p) f)"
  unfolding untouched_def Let_def
proof
  fix w :: world
  let ?n = "show_int (w_pid w) @ ''.'' @ show_nat (w_tmpseq w)"
  let ?v = "w\<lparr>w_tmpseq := Suc (w_tmpseq w)\<rparr>"
  have "untouched q (f (p @ ''.tmp.'' @ ?n))" by (rule assms)
  then have "w_files (snd (run_state (f (p @ ''.tmp.'' @ ?n)) ?v)) q = w_files ?v q
      \<and> hist_ext ?v (snd (run_state (f (p @ ''.tmp.'' @ ?n)) ?v)) (\<lambda>fs. fs q = w_files ?v q)"
    unfolding untouched_def Let_def by blast
  then show "w_files (snd (run_state (State_Monad.bind (tmp_name p) f) w)) q = w_files w q \<and>
      hist_ext w (snd (run_state (State_Monad.bind (tmp_name p) f) w)) (\<lambda>fs. fs q = w_files w q)"
    by (simp add: tmp_name_def hist_ext_def)
qed

lemma atomic_put_run:
  assumes "run_state (atomic_put p s m) w = (b, w')"
  shows "b \<Longrightarrow> \<exists>i. w_files w' p = Some i \<and> i_text i = s \<and> i_mode i = m"
    and "\<not> b \<Longrightarrow> w_files w' p = w_files w p"
    and "hist_ext w w' (\<lambda>f. f p = w_files w p \<or> f p = w_files w' p)"
  using assms
  by (auto simp: atomic_put_def tmp_name_def open_trunc_def write_out_def chmod_def rename_def remove_file_def
      sys_def Let_def set_text_def hist_ext_list intro!: hist_list_step split: if_splits)

lemma atomic_put_frame: "q \<noteq> p \<Longrightarrow> \<forall>n. q \<noteq> p @ ''.tmp.'' @ n \<Longrightarrow> untouched q (atomic_put p s m)"
  unfolding atomic_put_def by (rule untouched_tmp_bind) (auto intro!: frames)

lemma atomic_text_run:
  assumes "run_state (atomicWriteText p s m) w = (b, w')"
  shows "b \<Longrightarrow> \<exists>i. w_files w' p = Some i \<and> i_text i = s \<and> i_mode i = m"
    and "\<not> b \<Longrightarrow> w_files w' p = w_files w p"
    and "hist_ext w w' (\<lambda>f. f p = w_files w p \<or> f p = w_files w' p)"
proof -
  obtain made w1 where 1: "run_state (mk_dirs (parent_path p)) w = (made, w1)" by fastforce
  note f1 = untouchedD [OF untouched_calls(1) 1, of p]
  have r: "made \<Longrightarrow> run_state (atomic_put p s m) w1 = (b, w')" "\<not> made \<Longrightarrow> \<not> b \<and> w' = w1"
    using assms 1 by (auto simp: atomicWriteText_def)
  show "b \<Longrightarrow> \<exists>i. w_files w' p = Some i \<and> i_text i = s \<and> i_mode i = m"
    using r atomic_put_run(1) by (cases made) auto
  show "\<not> b \<Longrightarrow> w_files w' p = w_files w p"
    using r f1 atomic_put_run(2) by (cases made) auto
  show "hist_ext w w' (\<lambda>f. f p = w_files w p \<or> f p = w_files w' p)"
  proof (cases made)
    case True
    from atomic_put_run(3) [OF r(1) [OF True]] f1 show ?thesis by (auto intro: hist_ext_trans elim: hist_ext_mono)
  next
    case False
    with r(2) f1 show ?thesis by (auto elim: hist_ext_mono)
  qed
qed

lemma atomic_text_frame: "q \<noteq> p \<Longrightarrow> \<forall>n. q \<noteq> p @ ''.tmp.'' @ n \<Longrightarrow> untouched q (atomicWriteText p s m)"
  unfolding atomicWriteText_def by (auto intro!: frames atomic_put_frame)

lemma atomic_text_steady: "steady (atomicWriteText p s m)"
proof -
  have "steady (tmp_name p)" by (simp add: steady_def tmp_name_def)
  then show ?thesis unfolding atomicWriteText_def atomic_put_def by (auto intro!: steadys)
qed

interpretation atomic: atomic_replace "\<lambda>p s. atomicWriteText p s m" "\<lambda>p q. \<exists>n. q = p @ ''.tmp.'' @ n" for m
proof
  fix p s w w' b q
  show "run_state (atomicWriteText p s m) w = (True, w') \<Longrightarrow> map_option i_text (w_files w' p) = Some s"
    using atomic_text_run(1) by fastforce
  show "run_state (atomicWriteText p s m) w = (False, w') \<Longrightarrow> w_files w' p = w_files w p"
    using atomic_text_run(2) by fastforce
  show "run_state (atomicWriteText p s m) w = (b, w') \<Longrightarrow>
      hist_ext w w' (\<lambda>f. f p = w_files w p \<or> f p = w_files w' p)"
    by (rule atomic_text_run(3))
  show "q \<noteq> p \<Longrightarrow> \<not> (\<exists>n. q = p @ ''.tmp.'' @ n) \<Longrightarrow> untouched q (atomicWriteText p s m)"
    by (rule atomic_text_frame) auto
  show "steady (atomicWriteText p s m)" by (rule atomic_text_steady)
qed

lemma atomic_json_run:
  assumes "run_state (atomicWriteJson D p obj m) w = (r, w')"
  shows "r = Inr True \<Longrightarrow> \<exists>s i. jl_dump (d_json D) 4 obj = Some s \<and> w_files w' p = Some i
           \<and> i_text i = s @ [CHR 10] \<and> i_mode i = m"
    and "r \<noteq> Inr True \<Longrightarrow> w_files w' p = w_files w p"
proof -
  show "r = Inr True \<Longrightarrow> \<exists>s i. jl_dump (d_json D) 4 obj = Some s \<and> w_files w' p = Some i
           \<and> i_text i = s @ [CHR 10] \<and> i_mode i = m"
  proof (cases "jl_dump (d_json D) 4 obj")
    case (Some s)
    assume "r = Inr True"
    with assms Some have "run_state (atomicWriteText p (s @ [CHR 10]) m) w = (True, w')"
      by (auto simp: atomicWriteJson_def split: prod.splits)
    from atomic_text_run(1) [OF this] Some show ?thesis by blast
  qed (use assms in \<open>simp add: atomicWriteJson_def\<close>)
  show "r \<noteq> Inr True \<Longrightarrow> w_files w' p = w_files w p"
  proof (cases "jl_dump (d_json D) 4 obj")
    case (Some s)
    assume "r \<noteq> Inr True"
    with assms Some have "run_state (atomicWriteText p (s @ [CHR 10]) m) w = (False, w')"
      by (auto simp: atomicWriteJson_def split: prod.splits)
    from atomic_text_run(2) [OF this] show ?thesis by blast
  qed (use assms in \<open>simp add: atomicWriteJson_def\<close>)
qed

lemma atomic_json_frame: "q \<noteq> p \<Longrightarrow> \<forall>n. q \<noteq> p @ ''.tmp.'' @ n \<Longrightarrow> untouched q (atomicWriteJson D p obj m)"
  unfolding atomicWriteJson_def by (auto intro!: frames atomic_text_frame split: option.split)

section \<open>state.json\<close>

lemma state_lookup:
  fixes st
  defines "f \<equiv> \<lambda>k. map_of (rev ([(''version'', JInt kDaemonRuntimeStateSchemaVersion),
      (''instance_id'', JStr (rs_instanceId st)), (''pid'', JInt (rs_pid st)),
      (''started_at'', JStr (rs_startedAt st))]
     @ (if rs_configSource st \<noteq> [] then [(''config_source'', JStr (rs_configSource st))] else [])
     @ [(''resolved'', daemonConfigToJson (rs_resolved st) False)])) k"
  shows "f ''version'' = Some (JInt 2)" "f ''instance_id'' = Some (JStr (rs_instanceId st))"
    "f ''pid'' = Some (JInt (rs_pid st))" "f ''started_at'' = Some (JStr (rs_startedAt st))"
    "f ''config_source'' = (if rs_configSource st \<noteq> [] then Some (JStr (rs_configSource st)) else None)"
    "f ''resolved'' = Some (daemonConfigToJson (rs_resolved st) False)"
  by (simp_all add: f_def kDaemonRuntimeStateSchemaVersion_def map_add_def)

lemma r_str_written: "jfind obj k = Some (JStr s) \<Longrightarrow> r_str (reader_of obj p) k d = State_Monad.return s"
  by simp

lemma r_int_written:
  "jfind obj k = map_option reparse (Some (JInt i)) \<Longrightarrow> int64_min \<le> i \<Longrightarrow> i \<le> int64_max \<Longrightarrow>
    r_integer (reader_of obj p) k d int64_min int64_max = State_Monad.return i"
  by (cases "i < 0") simp_all

lemma state_back:
  assumes "wf_config (rs_resolved st)" "int64_min \<le> rs_pid st" "rs_pid st \<le> int64_max"
  shows "state_fields path (reparse (state_document st)) 2
    = Inr (st\<lparr>rs_fileOk := (rs_instanceId st \<noteq> []), rs_schemaVersion := 2,
              rs_resolved := strip_config False (rs_resolved st)\<rparr>)"
proof -
  let ?o = "reparse (state_document st)"
  have lk: "jfind ?o k = map_option reparse (map_of (rev ([(''version'', JInt kDaemonRuntimeStateSchemaVersion),
      (''instance_id'', JStr (rs_instanceId st)), (''pid'', JInt (rs_pid st)),
      (''started_at'', JStr (rs_startedAt st))]
     @ (if rs_configSource st \<noteq> [] then [(''config_source'', JStr (rs_configSource st))] else [])
     @ [(''resolved'', daemonConfigToJson (rs_resolved st) False)])) k)" for k
    unfolding state_document_def by (rule jfind_obj_reparse)
  obtain kvs where kvs: "reparse (daemonConfigToJson (rs_resolved st) False) = JObj kvs"
    using obj_shape unfolding daemonConfigToJson_def by blast
  have doc: "config_doc (JObj kvs) (rs_resolved st) False"
    unfolding kvs [symmetric] by (simp add: config_doc_def daemonConfigToJson_def jfind_obj_reparse)
  have "jfind ?o ''resolved'' = Some (JObj kvs)"
    using lk [of "''resolved''"] state_lookup(6) [of st] kvs by simp
  moreover have "jfind ?o ''instance_id'' = Some (JStr (rs_instanceId st))"
    using lk [of "''instance_id''"] state_lookup(2) [of st] by simp
  moreover have "jfind ?o ''started_at'' = Some (JStr (rs_startedAt st))"
    using lk [of "''started_at''"] state_lookup(4) [of st] by simp
  moreover have "jfind ?o ''pid'' = map_option reparse (Some (JInt (rs_pid st)))"
    using lk [of "''pid''"] state_lookup(3) [of st] by simp
  moreover have "jfind ?o ''config_source'' = map_option reparse (if rs_configSource st \<noteq> [] then Some (JStr (rs_configSource st)) else None)"
    using lk [of "''config_source''"] state_lookup(5) [of st] by simp
  ultimately show ?thesis
    unfolding state_fields_def
    by (simp add: r_int_written [OF _ assms(2,3)] r_str_optional config_back [OF doc assms(1)])
qed

section \<open>Client artifacts\<close>

lemma client_paths [simp]:
  "clientConfigPath c \<noteq> daemonDir c" "clientConfigPath c \<noteq> clientDir c" "clientConfigPath c \<noteq> configDir c"
  "clientConfigPath c \<noteq> clientTokenPath c ''auto.json''"
  "clientConfigPath c \<noteq> clientTokenPath c ''auto.json'' @ ''.tmp.'' @ n"
  "configDir c \<noteq> clientDir c" "daemonDir c \<noteq> clientDir c" "daemonDir c \<noteq> configDir c"
  "configDir c \<noteq> daemonDir c"
  by (simp_all add: clientConfigPath_def clientDir_def daemonDir_def clientTokenPath_def unsafe_filename_def
      starts_with_def)

lemma client_parents [simp]:
  "parent_path (clientConfigPath c) = clientDir c" "parent_path (clientTokenPath c ''auto.json'') = clientDir c"
  using parent_path_snoc(1) [of "''config.yaml''" "clientDir c"] parent_path_snoc(1) [of "''config.json''" "clientDir c"]
    parent_path_snoc(1) [of "''auto.json''" "clientDir c"]
  by (simp_all add: clientConfigPath_def clientTokenPath_def unsafe_filename_def starts_with_def)

lemma untouched_stat [frames]: "untouched q (stat_mode p)"
  by (simp add: untouched_def stat_mode_def Let_def hist_ext_def)

lemma keeps_dir_stat [dir_frames]: "keeps_dir q (stat_mode p)" "keeps_dir q (tmp_name p)"
  by (simp_all add: keeps_dir_def stat_mode_def tmp_name_def)

lemma keeps_dir_tmp_bind:
  "(\<And>n. keeps_dir q (f (p @ ''.tmp.'' @ n))) \<Longrightarrow> keeps_dir q (State_Monad.bind (tmp_name p) f)"
  by (simp add: keeps_dir_def tmp_name_def)

lemma keeps_dir_atomic [dir_frames]:
  "q \<noteq> parent_path p \<Longrightarrow> \<forall>n. q \<noteq> p @ ''.tmp.'' @ n \<Longrightarrow> keeps_dir q (atomicWriteText p s m)"
  unfolding atomicWriteText_def atomic_put_def by (auto intro!: dir_frames keeps_dir_tmp_bind)

lemma keeps_dir_atomic_json [dir_frames]:
  "q \<noteq> parent_path p \<Longrightarrow> \<forall>n. q \<noteq> p @ ''.tmp.'' @ n \<Longrightarrow> keeps_dir q (atomicWriteJson D p j m)"
  unfolding atomicWriteJson_def by (auto intro!: dir_frames split: option.split)

lemma artifact_frames [frames]:
  "untouched q (resolve_share D g)"
  "q \<noteq> daemonDir (d_cfg D) \<Longrightarrow> untouched q (lock_daemon_dir D sh)"
  "q \<noteq> clientDir (d_cfg D) \<Longrightarrow> q \<noteq> configDir (d_cfg D) \<Longrightarrow> untouched q (widen_dirs D sh)"
  "untouched q (client_cfg_decision D iid)"
  "q \<noteq> p \<Longrightarrow> untouched q (share_file p sh)"
  unfolding resolve_share_def lock_daemon_dir_def widen_dirs_def client_cfg_decision_def share_file_def
  by (auto intro!: frames split: option.split)

lemma artifact_dirs [dir_frames]:
  "keeps_dir q (resolve_share D g)"
  "q \<noteq> daemonDir (d_cfg D) \<Longrightarrow> keeps_dir q (lock_daemon_dir D sh)"
  "q \<noteq> clientDir (d_cfg D) \<Longrightarrow> q \<noteq> configDir (d_cfg D) \<or> sh = None \<Longrightarrow> keeps_dir q (widen_dirs D sh)"
  "keeps_dir q (client_cfg_decision D iid)"
  "q \<noteq> p \<Longrightarrow> keeps_dir q (share_file p sh)"
  unfolding resolve_share_def lock_daemon_dir_def widen_dirs_def client_cfg_decision_def share_file_def
  by (auto intro!: dir_frames split: option.split)

text \<open>The part after the decision.\<close>

definition artifacts_tail :: "daemon_env \<Rightarrow> string \<Rightarrow> string \<Rightarrow> string \<Rightarrow> transport_info list \<Rightarrow> transport_info list \<Rightarrow>
    int option \<Rightarrow> bool \<times> string \<Rightarrow> (exn + bool) io" where
  "artifacts_tail D instanceId autoTokenRaw issuedAt core cap share dec = (case dec of (writeCfg, tokenFile) \<Rightarrow>
       tbind (if writeCfg
              then write_client_cfg D (clientConfigPath (d_cfg D)) (client_document tokenFile instanceId core cap)
                     share (if share = None then mode_rw else mode_share_file)
              else pure True)
         (\<lambda>ok. if \<not> ok then pure False
           else tbind (atomicWriteJson D (clientTokenPath (d_cfg D) ''auto.json'') (auto_document autoTokenRaw issuedAt)
                         (if share = None then mode_rw else mode_share_file))
             (\<lambda>wrote. if \<not> wrote then pure False
               else do { _ \<leftarrow> share_file (clientTokenPath (d_cfg D) ''auto.json'') share; pure True })))"

text \<open>A run in its stages.\<close>

lemma artifacts_run:
  assumes "run_state (writeLocalClientArtifacts D iid tok at core cap g) w = (r, w')"
  obtains (no_dir) w1 where "run_state (mk_dirs (clientDir (d_cfg D))) (snd (run_state (resolve_share D g) w)) = (False, w1)"
      "w' = w1" "r = Inr False"
  | (stages) share0 w0 w1 share w2 w3 dec w4 where
      "run_state (resolve_share D g) w = (share0, w0)"
      "run_state (mk_dirs (clientDir (d_cfg D))) w0 = (True, w1)"
      "run_state (lock_daemon_dir D share0) w1 = (share, w2)"
      "run_state (widen_dirs D share) w2 = ((), w3)"
      "run_state (client_cfg_decision D iid) w3 = (dec, w4)"
      "run_state (artifacts_tail D iid tok at core cap share dec) w4 = (r, w')"
proof -
  obtain share0 w0 where 0: "run_state (resolve_share D g) w = (share0, w0)" by fastforce
  obtain made w1 where 1: "run_state (mk_dirs (clientDir (d_cfg D))) w0 = (made, w1)" by fastforce
  obtain share w2 where 2: "run_state (lock_daemon_dir D share0) w1 = (share, w2)" by fastforce
  obtain u w3 where 3: "run_state (widen_dirs D share) w2 = (u, w3)" by (metis surj_pair)
  obtain dec w4 where 4: "run_state (client_cfg_decision D iid) w3 = (dec, w4)" by fastforce
  show thesis
  proof (cases made)
    case False
    with assms 0 1 show thesis by (intro no_dir [of w1]) (auto simp: writeLocalClientArtifacts_def)
  next
    case True
    have "run_state (artifacts_tail D iid tok at core cap share dec) w4 = (r, w')"
      using assms 0 1 2 3 4 True
      by (cases dec) (simp add: writeLocalClientArtifacts_def artifacts_tail_def)
    with 0 1 2 3 4 True show thesis by (intro stages) auto
  qed
qed

lemma tail_frame:
  assumes "q \<noteq> clientTokenPath (d_cfg D) ''auto.json''" "\<forall>n. q \<noteq> clientTokenPath (d_cfg D) ''auto.json'' @ ''.tmp.'' @ n"
  shows "untouched q (artifacts_tail D iid tok at core cap share (False, tf))"
  unfolding artifacts_tail_def using assms by (auto intro!: frames atomic_json_frame)

lemma tail_dirs:
  "q = configDir (d_cfg D) \<or> q = daemonDir (d_cfg D) \<Longrightarrow>
    keeps_dir q (artifacts_tail D iid tok at core cap share dec)"
proof -
  have ne: "configDir (d_cfg D) \<noteq> clientConfigPath (d_cfg D) @ x" "daemonDir (d_cfg D) \<noteq> clientConfigPath (d_cfg D) @ x"
    "configDir (d_cfg D) \<noteq> clientTokenPath (d_cfg D) ''auto.json'' @ x"
    "daemonDir (d_cfg D) \<noteq> clientTokenPath (d_cfg D) ''auto.json'' @ x" for x
    by (simp_all add: clientConfigPath_def clientDir_def daemonDir_def clientTokenPath_def unsafe_filename_def
        starts_with_def)
  show "q = configDir (d_cfg D) \<or> q = daemonDir (d_cfg D) \<Longrightarrow>
    keeps_dir q (artifacts_tail D iid tok at core cap share dec)"
    unfolding artifacts_tail_def write_client_cfg_def
    using ne ne [of "[]"] by (auto intro!: dir_frames split: prod.split)
qed

lemma auto_file:
  assumes "run_state (artifacts_tail D iid tok at core cap share dec) w = (Inr True, w')"
  shows "\<exists>s i. jl_dump (d_json D) 4 (auto_document tok at) = Some s
    \<and> w_files w' (clientTokenPath (d_cfg D) ''auto.json'') = Some i \<and> i_text i = s @ [CHR 10]
    \<and> i_mode i = (if share = None then mode_rw else mode_share_file)"
proof -
  let ?p = "clientTokenPath (d_cfg D) ''auto.json''"
  obtain wc tf where dec: "dec = (wc, tf)" by fastforce
  from assms obtain v w2 where 2: "run_state (atomicWriteJson D ?p (auto_document tok at)
      (if share = None then mode_rw else mode_share_file)) v = (Inr True, w2)"
    "snd (run_state (share_file ?p share) w2) = w'"
    by (auto simp: artifacts_tail_def dec split: prod.splits sum.splits if_splits)
  from atomic_json_run(1) [OF 2(1) refl] obtain s i where si: "jl_dump (d_json D) 4 (auto_document tok at) = Some s"
    "w_files w2 ?p = Some i" "i_text i = s @ [CHR 10]" "i_mode i = (if share = None then mode_rw else mode_share_file)"
    by blast
  have "\<exists>j. w_files w' ?p = Some j \<and> i_text j = i_text i \<and> i_mode j = i_mode i"
    using 2(2) si(2) by (auto simp: share_file_def chown_def sys_def split: option.splits if_splits)
  with si show ?thesis by auto
qed

text \<open>Whether a client configuration on disk is the operator's own, or the current one.\<close>

definition not_stale :: "daemon_env \<Rightarrow> string \<Rightarrow> string \<Rightarrow> bool" where
  "not_stale D instanceId text =
     (let iid = fst (run_state (r_str (reader_of (case yaml_parse (d_yaml D) text of
            Inr j \<Rightarrow> if is_object j then j else JObj [] | Inl _ \<Rightarrow> JObj []) []) ''instance_id'' []) no_errors)
      in iid = [] \<or> iid = instanceId)"

lemma decision_run:
  assumes "w_files w (clientConfigPath (d_cfg D)) = Some f" "not_stale D iid (i_text f)"
    "run_state (client_cfg_decision D iid) w = (dec, w')"
  shows "fst dec = False"
  using assms
  by (auto simp: client_cfg_decision_def file_exists_def read_file_def not_stale_def Let_def split: if_splits)

section \<open>Properties\<close>

text \<open>
  C9: a machine-owned file is published atomically and at its final mode: at every moment the
  destination is the old file or the complete new text with exactly the requested mode, on
  success it is the new one, on any failure (a failed \<open>chmod\<close> included) the old one.
\<close>

theorem atomic_publish:
  assumes "run_state (atomicWriteText p s m) w = (b, w')"
  shows "hist_ext w w' (\<lambda>f. f p = w_files w p \<or> (\<exists>i. f p = Some i \<and> i_text i = s \<and> i_mode i = m))
    \<and> (if b then \<exists>i. w_files w' p = Some i \<and> i_text i = s \<and> i_mode i = m else w_files w' p = w_files w p)"
proof (cases b)
  case True
  have "hist_ext w w' (\<lambda>f. f p = w_files w p \<or> (\<exists>i. f p = Some i \<and> i_text i = s \<and> i_mode i = m))"
    using atomic_text_run(3) [OF assms] atomic_text_run(1) [OF assms True] by (auto elim: hist_ext_mono)
  with atomic_text_run(1) [OF assms True] True show ?thesis by simp
next
  case False
  have "hist_ext w w' (\<lambda>f. f p = w_files w p \<or> (\<exists>i. f p = Some i \<and> i_text i = s \<and> i_mode i = m))"
    using atomic_text_run(3) [OF assms] atomic_text_run(2) [OF assms False] by (auto elim: hist_ext_mono)
  with atomic_text_run(2) [OF assms False] False show ?thesis by simp
qed

text \<open>
  What the daemon publishes in \<open>state.json\<close> is what a reader gets: the instance, the process
  id, the stamps and the resolved configuration without the listeners' certificate and key paths.
\<close>

theorem state_roundtrip:
  assumes "json_lib_ok (d_json D)" "wf_config (rs_resolved st)" "int64_min \<le> rs_pid st" "rs_pid st \<le> int64_max"
    "run_state (state_write D st) w = (Inr True, w')"
    "w_sys w' (w_tick w') (ReadF (daemonStatePath (d_cfg D)))"
  shows "fst (run_state (state_read D) w') = st\<lparr>rs_fileOk := (rs_instanceId st \<noteq> []), rs_schemaVersion := 2,
           rs_resolved := strip_config False (rs_resolved st)\<rparr>"
proof -
  let ?p = "daemonStatePath (d_cfg D)" and ?o = "reparse (state_document st)"
  from assms(5) obtain s i where si: "jl_dump (d_json D) 4 (state_document st) = Some s"
    "w_files w' ?p = Some i" "i_text i = s @ [CHR 10]"
    unfolding state_write_def using atomic_json_run(1) by blast
  have parse: "jl_parse (d_json D) (s @ [CHR 10]) = Some ?o"
    by (rule json_lib_ok_parse [OF assms(1) si(1)])
  have obj: "is_object ?o" by (simp add: state_document_def mk_obj_def)
  have "jfind ?o ''version'' = map_option reparse (Some (JInt 2))"
    unfolding state_document_def jfind_obj_reparse using state_lookup(1) [of st] by simp
  then have v: "run_state (r_integer (reader_of ?o []) ''version'' 0 int64_min int64_max) no_errors = (2, no_errors)"
    by (simp add: int64_min_def int64_max_def)
  show ?thesis
    using assms(6) si obj v state_back [OF assms(2-4)]
    by (simp add: state_read_def read_file_def parse wrap_int_def kDaemonRuntimeStateSchemaVersion_def)
qed



section \<open>Witnesses\<close>

definition sample_daemon :: daemon_env where
  "sample_daemon = \<lparr>d_cfg = sample_cfg, d_json = sample_json, d_yaml = sample_yaml,
     d_getgrnam = (\<lambda>name k. if name = ''staff'' then Gr_Gid 50 else Gr_None)\<rparr>"

definition sample_state :: runtime_state where
  "sample_state = \<lparr>rs_fileOk = True, rs_schemaVersion = 2, rs_instanceId = ''i1'', rs_pid = 4711,
     rs_startedAt = ''2024-01-01T00:00:00Z'', rs_configSource = [], rs_resolved = sample_config\<rparr>"

lemma atomic_publish_witness:
  "\<exists>w'. run_state (atomicWriteText ''/d/f'' ''x'' 384) sample_world = (True, w')
     \<and> (\<exists>i. w_files w' ''/d/f'' = Some i \<and> i_text i = ''x'' \<and> i_mode i = 384)"
proof -
  have "fst (run_state (atomicWriteText ''/d/f'' ''x'' 384) sample_world) = True"
    by (simp add: atomicWriteText_def atomic_put_def tmp_name_def mk_dirs_def open_trunc_def write_out_def
        chmod_def rename_def sys_def Let_def set_text_def sample_world_def parent_path_def)
  then obtain w' where w': "run_state (atomicWriteText ''/d/f'' ''x'' 384) sample_world = (True, w')"
    by (metis prod.collapse)
  from atomic_publish [OF w'] w' show ?thesis by simp
qed

lemma sample_state_text: "jtext_ok (state_document sample_state)"
  by code_simp

lemma sample_state_paths:
  "daemonStatePath sample_cfg = ''/s/daemon/state.json''" "parent_path ''/s/daemon/state.json'' = ''/s/daemon''"
  by (simp_all add: daemonStatePath_def daemonDir_def configDir_def sample_cfg_def parent_path_def)

lemma state_roundtrip_witness:
  "\<exists>w'. run_state (state_write sample_daemon sample_state) sample_world = (Inr True, w')
     \<and> rs_fileOk (fst (run_state (state_read sample_daemon) w'))
     \<and> rs_resolved (fst (run_state (state_read sample_daemon) w')) = strip_config False sample_config"
proof -
  have d: "jl_dump sample_json 4 (state_document sample_state) = Some (enc_json (state_document sample_state))"
    by (rule sample_dump [OF sample_state_text])
  have "fst (run_state (state_write sample_daemon sample_state) sample_world) = Inr True"
    by (simp add: state_write_def atomicWriteJson_def sample_daemon_def d sample_state_paths split_beta
        atomicWriteText_def atomic_put_def tmp_name_def mk_dirs_def open_trunc_def write_out_def
        chmod_def rename_def sys_def Let_def set_text_def)
  then obtain w' where w': "run_state (state_write sample_daemon sample_state) sample_world = (Inr True, w')"
    by (metis prod.collapse)
  have "steady (state_write sample_daemon sample_state)"
    unfolding state_write_def atomicWriteJson_def
    by (auto intro!: steadys atomic_text_steady split: option.split)
  then have "w_sys w' = w_sys sample_world" using w' unfolding steady_def Let_def by (metis snd_conv)
  then have "w_sys w' (w_tick w') (ReadF (daemonStatePath (d_cfg sample_daemon)))" by simp
  from state_roundtrip [OF _ _ _ _ w' this] w' show ?thesis
    by (simp add: sample_daemon_def sample_json_ok sample_config_wf sample_state_def int64_min_def int64_max_def)
qed

definition operator_world :: world where
  "operator_world = sample_file (clientConfigPath sample_cfg) (enc_event BeginMap @ enc_event EndMap)"



end
