(* ===== verification/Call_Envelope.thy ===== *)
theory Call_Envelope
  imports Json
begin

text \<open>
  \<open>src/src/core_service/call_envelope.cpp\<close>: how a proxied module call becomes the envelope of
  \<open>logosctl call\<close>. The method lister is a state transformer over the caller's state; the code
  passes a callback that asks the module, and an empty \<open>std::function\<close> is \<open>None\<close>.
\<close>

section \<open>Data\<close>

record call_failure =
  cf_code :: string
  cf_message :: string
  cf_origin :: string

definition cf_ok :: "call_failure \<Rightarrow> bool" where
  "cf_ok f \<longleftrightarrow> cf_code f = []"

record method_info =
  mi_name :: string
  mi_paramTypes :: "string list"
  mi_paramsPublished :: bool

definition kRejectionCodes :: "string list" where
  "kRejectionCodes = [''dispatch_failed'', ''invalid_args'', ''unknown_method'']"

definition isRejectionCode :: "string \<Rightarrow> bool" where
  "isRejectionCode c \<longleftrightarrow> List.member kRejectionCodes c"

text \<open>The declared types with an unambiguous JSON counterpart: name, word, predicate.\<close>

definition kDeclaredTypes :: "(string \<times> string \<times> (json \<Rightarrow> bool)) list" where
  "kDeclaredTypes =
    [(''QString'', ''string'', \<lambda>v. is_string v),
     (''bool'', ''bool'', \<lambda>v. is_boolean v),
     (''int'', ''integer'', \<lambda>v. is_number v),
     (''uint'', ''integer'', \<lambda>v. is_number v),
     (''qlonglong'', ''integer'', \<lambda>v. is_number v),
     (''qulonglong'', ''integer'', \<lambda>v. is_number v),
     (''double'', ''number'', \<lambda>v. is_number v),
     (''float'', ''number'', \<lambda>v. is_number v),
     (''QVariantList'', ''array'', \<lambda>v. is_array v),
     (''QStringList'', ''array'', \<lambda>v. is_array v),
     (''QVariantMap'', ''object'', \<lambda>v. is_object v)]"

definition declaredType :: "string \<Rightarrow> (string \<times> (json \<Rightarrow> bool)) option" where
  "declaredType qtName = map_of kDeclaredTypes qtName"

section \<open>argumentMismatch\<close>

text \<open>The loop over the declared parameters, from position \<open>i\<close>: the reason of the first mismatch.\<close>

fun mismatch_from :: "nat \<Rightarrow> string list \<Rightarrow> json list \<Rightarrow> string option" where
  "mismatch_from i (t # ts) (v # vs) =
    (if is_null v then mismatch_from (Suc i) ts vs
     else case declaredType t of
         None \<Rightarrow> mismatch_from (Suc i) ts vs
       | Some (expected, accepts) \<Rightarrow>
           if accepts v then mismatch_from (Suc i) ts vs
           else Some (''expected '' @ expected @ '' at arg'' @ show_nat i @ '', got '' @ type_name v))"
| "mismatch_from i ts vs = None"

definition argumentMismatch :: "method_info \<Rightarrow> json \<Rightarrow> string option" where
  "argumentMismatch m args =
    (if \<not> mi_paramsPublished m then None
     else case args of
         JArr vs \<Rightarrow> if length vs \<noteq> length (mi_paramTypes m) then None else mismatch_from 0 (mi_paramTypes m) vs
       | _ \<Rightarrow> None)"

section \<open>dispatchRejection\<close>

definition dispatchRejection :: "json \<Rightarrow> call_failure option" where
  "dispatchRejection v = (case v of
      JObj kvs \<Rightarrow>
        if length kvs \<noteq> 3 then None
        else (case (map_of kvs ''code'', map_of kvs ''message'', map_of kvs ''origin'') of
            (Some (JStr code), Some (JStr message), Some (JStr origin)) \<Rightarrow>
              if \<not> isRejectionCode code then None
              else Some \<lparr>cf_code = code, cf_message = message, cf_origin = origin\<rparr>
          | _ \<Rightarrow> None)
    | _ \<Rightarrow> None)"

section \<open>callEnvelope\<close>

definition not_found_envelope :: "string \<Rightarrow> string \<Rightarrow> string list \<Rightarrow> json" where
  "not_found_envelope module_name method names = mk_obj
    [(''status'', JStr ''error''), (''code'', JStr ''METHOD_NOT_FOUND''),
     (''message'', JStr (''Method '' @ [CHR 39] @ method @ [CHR 39] @ '' not found on module '' @ [CHR 39] @ module_name @ [CHR 39] @ ''.'')),
     (''available_methods'', JArr (map JStr names))]"

definition failed_envelope :: "string \<Rightarrow> string \<Rightarrow> call_failure \<Rightarrow> json" where
  "failed_envelope module_name method f = mk_obj
    [(''status'', JStr ''error''), (''code'', JStr ''METHOD_FAILED''),
     (''message'', JStr (''Call to '' @ module_name @ ''.'' @ method @ '' failed ('' @ cf_code f @ '': '' @ cf_message f @ '').'')),
     (''error'', mk_obj [(''code'', JStr (cf_code f)), (''message'', JStr (cf_message f)), (''origin'', JStr (cf_origin f))])]"

definition ok_envelope :: "string \<Rightarrow> string \<Rightarrow> json \<Rightarrow> json" where
  "ok_envelope module_name method ret = mk_obj
    [(''status'', JStr ''ok''), (''module'', JStr module_name), (''method'', JStr method), (''result'', ret)]"

text \<open>Folding a provider's refusal into the failure.\<close>

definition fold_rejection :: "json \<Rightarrow> call_failure \<Rightarrow> call_failure" where
  "fold_rejection ret failure =
    (if cf_ok failure then (case dispatchRejection ret of Some f \<Rightarrow> f | None \<Rightarrow> failure) else failure)"

text \<open>What the module's own interface says about a null return: an envelope, or the failure to go on with.\<close>

definition explain_null ::
    "string \<Rightarrow> string \<Rightarrow> json \<Rightarrow> method_info list \<Rightarrow> call_failure \<Rightarrow> json + call_failure" where
  "explain_null module_name method args methods failure =
    (let found = List.find (\<lambda>m. mi_name m = method) methods
     in if methods \<noteq> [] \<and> found = None
        then Inl (not_found_envelope module_name method (map mi_name methods))
        else case (case found of None \<Rightarrow> None | Some m \<Rightarrow> argumentMismatch m args) of
            Some reason \<Rightarrow> Inr \<lparr>cf_code = ''argument_mismatch'', cf_message = reason, cf_origin = module_name\<rparr>
          | None \<Rightarrow> Inr failure)"

definition finish_envelope :: "string \<Rightarrow> string \<Rightarrow> json \<Rightarrow> call_failure \<Rightarrow> json" where
  "finish_envelope module_name method ret failure =
    (if \<not> cf_ok failure then failed_envelope module_name method failure
     else ok_envelope module_name method ret)"

definition callEnvelope ::
    "string \<Rightarrow> string \<Rightarrow> json \<Rightarrow> json \<Rightarrow> call_failure \<Rightarrow> ('s, method_info list) state option \<Rightarrow> ('s, json) state" where
  "callEnvelope module_name method ret args failure0 listMethods =
    (let failure = fold_rejection ret failure0
     in if cf_ok failure \<and> is_null ret \<and> listMethods \<noteq> None
        then do {
          methods \<leftarrow> the listMethods;
          case explain_null module_name method args methods failure of
            Inl envelope \<Rightarrow> State_Monad.return envelope
          | Inr failure \<Rightarrow> State_Monad.return (finish_envelope module_name method ret failure) }
        else State_Monad.return (finish_envelope module_name method ret failure))"

section \<open>The refusal object\<close>

text \<open>The canonical refusal: exactly the three fields, all strings, the code in the closed set.\<close>

definition refusal :: "json \<Rightarrow> call_failure \<Rightarrow> bool" where
  "refusal v f \<longleftrightarrow> v = JObj [(''code'', JStr (cf_code f)), (''message'', JStr (cf_message f)), (''origin'', JStr (cf_origin f))]
     \<and> (cf_code f = ''dispatch_failed'' \<or> cf_code f = ''invalid_args'' \<or> cf_code f = ''unknown_method'')"

definition sorted_json :: "json \<Rightarrow> bool" where
  "sorted_json v \<longleftrightarrow> (case v of JObj kvs \<Rightarrow> sorted_keys kvs | _ \<Rightarrow> True)"

lemma rejection_code_iff:
  "isRejectionCode c \<longleftrightarrow> c = ''dispatch_failed'' \<or> c = ''invalid_args'' \<or> c = ''unknown_method''"
  by (simp add: isRejectionCode_def kRejectionCodes_def)

lemma three_fields:
  assumes "sorted_keys kvs" "length kvs = 3"
    "map_of kvs ''code'' = Some a" "map_of kvs ''message'' = Some b" "map_of kvs ''origin'' = Some c"
  shows "kvs = [(''code'', a), (''message'', b), (''origin'', c)]"
proof (rule sorted_keys_unique)
  let ?spec = "[(''code'', a), (''message'', b), (''origin'', c)]"
  have "{''code'', ''message'', ''origin''} \<subseteq> fst ` set kvs"
    using assms(3-5) by (force dest: map_of_SomeD)
  moreover have "card (fst ` set kvs) = 3"
    using sorted_keys_distinct [OF assms(1)] assms(2) by (metis distinct_card length_map set_map)
  ultimately have keys: "fst ` set kvs = {''code'', ''message'', ''origin''}"
    by (intro card_seteq [symmetric]) simp_all
  show "map_of kvs = map_of ?spec"
  proof
    fix k
    show "map_of kvs k = map_of ?spec k"
    proof (cases "k \<in> fst ` set kvs")
      case True
      then show ?thesis using assms(3-5) keys by auto
    next
      case False
      then have "map_of kvs k = None" by (simp add: map_of_eq_None_iff)
      then show ?thesis using False keys by auto
    qed
  qed
qed (use assms in \<open>simp_all add: sorted_keys_def\<close>)

lemma dispatchRejection_iff:
  assumes "sorted_json v"
  shows "dispatchRejection v = Some f \<longleftrightarrow> refusal v f"
proof
  assume r: "dispatchRejection v = Some f"
  then obtain kvs where v: "v = JObj kvs" by (auto simp: dispatchRejection_def split: json.splits)
  from r v obtain a b c where abc: "map_of kvs ''code'' = Some (JStr a)" "map_of kvs ''message'' = Some (JStr b)"
      "map_of kvs ''origin'' = Some (JStr c)" "length kvs = 3" "isRejectionCode a"
      "f = \<lparr>cf_code = a, cf_message = b, cf_origin = c\<rparr>"
    by (auto simp: dispatchRejection_def split: if_splits option.splits json.splits)
  have "kvs = [(''code'', JStr a), (''message'', JStr b), (''origin'', JStr c)]"
    using assms v by (intro three_fields [OF _ abc(4,1,2,3)]) (simp add: sorted_json_def)
  then show "refusal v f" using v abc(5,6) by (simp add: refusal_def rejection_code_iff)
next
  assume "refusal v f"
  then show "dispatchRejection v = Some f" by (auto simp: refusal_def dispatchRejection_def rejection_code_iff)
qed

section \<open>The argument check\<close>

text \<open>Argument \<open>i\<close> cannot be taken by its declared type.\<close>

definition clash :: "string list \<Rightarrow> json list \<Rightarrow> nat \<Rightarrow> bool" where
  "clash ts vs i \<longleftrightarrow> vs ! i \<noteq> JNull \<and> (case declaredType (ts ! i) of None \<Rightarrow> False | Some (w, p) \<Rightarrow> \<not> p (vs ! i))"

lemma clash_Cons [simp]: "clash (t # ts) (v # vs) (Suc i) = clash ts vs i"
  by (simp add: clash_def split: option.split)

lemma mismatch_from_iff:
  assumes "length ts = length vs"
  shows "mismatch_from k ts vs = None \<longleftrightarrow> (\<forall>i < length ts. \<not> clash ts vs i)"
  using assms
proof (induction k ts vs rule: mismatch_from.induct)
  case (1 i t ts v vs)
  then show ?case
    by (auto simp: All_less_Suc2 clash_def [of _ _ 0] split: option.split)
qed auto

definition takes :: "method_info \<Rightarrow> json \<Rightarrow> bool" where
  "takes m args \<longleftrightarrow> \<not> (mi_paramsPublished m \<and> (\<exists>vs. args = JArr vs \<and> length vs = length (mi_paramTypes m)
     \<and> (\<exists>i < length vs. clash (mi_paramTypes m) vs i)))"

lemma argumentMismatch_None: "argumentMismatch m args = None \<longleftrightarrow> takes m args"
  by (auto simp: argumentMismatch_def takes_def mismatch_from_iff split: json.split)

section \<open>The verdict\<close>

definition status_ok :: "json \<Rightarrow> bool" where
  "status_ok env \<longleftrightarrow> jfind env ''status'' = Some (JStr ''ok'')"

definition env_code :: "json \<Rightarrow> string \<Rightarrow> bool" where
  "env_code env c \<longleftrightarrow> jfind env ''status'' = Some (JStr ''error'') \<and> jfind env ''code'' = Some (JStr c)"

lemma envelope_fields [simp]:
  "status_ok (ok_envelope m f r)" "\<not> status_ok (failed_envelope m f x)" "\<not> status_ok (not_found_envelope m f ns)"
  "jfind (ok_envelope m f r) ''result'' = Some r"
  "\<not> env_code (ok_envelope m f r) c" "env_code (failed_envelope m f x) c \<longleftrightarrow> c = ''METHOD_FAILED''"
  "env_code (not_found_envelope m f ns) c \<longleftrightarrow> c = ''METHOD_NOT_FOUND''"
  "jfind (not_found_envelope m f ns) ''available_methods'' = Some (JArr (map JStr ns))"
  by (auto simp: status_ok_def env_code_def ok_envelope_def failed_envelope_def not_found_envelope_def)

lemma fold_rejection_ok:
  assumes "sorted_json ret"
  shows "cf_ok (fold_rejection ret failure) \<longleftrightarrow> cf_ok failure \<and> \<not> (\<exists>f. refusal ret f)"
proof (cases "dispatchRejection ret")
  case None
  then show ?thesis using dispatchRejection_iff [OF assms] by (auto simp: fold_rejection_def)
next
  case (Some f)
  then have r: "refusal ret f" using dispatchRejection_iff [OF assms] by blast
  then have "\<not> cf_ok f" by (auto simp: refusal_def cf_ok_def)
  with Some r show ?thesis by (auto simp: fold_rejection_def)
qed

lemma find_named: "List.find (\<lambda>m. mi_name m = method) ms = None \<longleftrightarrow> method \<notin> mi_name ` set ms"
  by (auto simp: find_None_iff)

text \<open>
  The verdict on a proxied call. It reads ok exactly when the transport reported no failure, the
  answer is not the canonical refusal object, and a null answer is not explained away: the module's
  published interface is empty (unknown), or it has the method and no argument clashes with its
  declared type. An ok envelope carries the answer unchanged, null included. \<open>METHOD_NOT_FOUND\<close> is
  claimed only for a null answer of a module whose non-empty interface lacks the name, and lists that
  interface. The module is asked at most once and only on an unexplained null.
\<close>

theorem envelope_verdict:
  assumes "run_state (callEnvelope m f ret args failure (Some lister)) s = (env, s')" "sorted_json ret"
    and "run_state lister s = (ms, s1)"
  shows "(status_ok env \<longleftrightarrow> cf_ok failure \<and> \<not> (\<exists>r. refusal ret r)
            \<and> (ret = JNull \<longrightarrow> ms = [] \<or> (\<exists>i. List.find (\<lambda>i. mi_name i = f) ms = Some i \<and> takes i args)))
    \<and> (status_ok env \<longrightarrow> jfind env ''result'' = Some ret)
    \<and> (env_code env ''METHOD_NOT_FOUND'' \<longleftrightarrow> cf_ok failure \<and> ret = JNull \<and> ms \<noteq> [] \<and> f \<notin> mi_name ` set ms)
    \<and> (env_code env ''METHOD_NOT_FOUND'' \<longrightarrow> jfind env ''available_methods'' = Some (JArr (map (JStr \<circ> mi_name) ms)))
    \<and> (\<not> status_ok env \<and> \<not> env_code env ''METHOD_NOT_FOUND'' \<longrightarrow> env_code env ''METHOD_FAILED'')
    \<and> s' = (if cf_ok failure \<and> ret = JNull then s1 else s)"
proof (cases "ret = JNull \<and> cf_ok failure")
  case True
  have none: "dispatchRejection JNull = None" by (simp add: dispatchRejection_def)
  with True have fo: "fold_rejection ret failure = failure" by (simp add: fold_rejection_def)
  have nor: "\<not> refusal JNull r" for r by (simp add: refusal_def)
  have run: "(env, s') = (case explain_null m f args ms failure of Inl e \<Rightarrow> e | Inr fl \<Rightarrow> finish_envelope m f JNull fl, s1)"
    using assms True fo by (auto simp: callEnvelope_def split: sum.splits)
  show ?thesis
  proof (cases "List.find (\<lambda>i. mi_name i = f) ms")
    case None
    then have "f \<notin> mi_name ` set ms" by (simp add: find_named)
    then show ?thesis using run None True nor
      by (cases "ms = []") (simp_all add: explain_null_def finish_envelope_def)
  next
    case (Some i)
    then have "f \<in> mi_name ` set ms" "ms \<noteq> []" by (auto simp: find_Some_iff)
    moreover have "\<not> cf_ok \<lparr>cf_code = ''argument_mismatch'', cf_message = x, cf_origin = y\<rparr>" for x y
      by (simp add: cf_ok_def)
    ultimately show ?thesis using run Some True nor argumentMismatch_None [of i args]
      by (cases "argumentMismatch i args") (simp_all add: explain_null_def finish_envelope_def)
  qed
next
  case False
  then have "\<not> (cf_ok (fold_rejection ret failure) \<and> ret = JNull)"
    using fold_rejection_ok [OF assms(2)] by auto
  then have run: "env = finish_envelope m f ret (fold_rejection ret failure)" "s' = s"
    using assms(1) by (auto simp: callEnvelope_def)
  then show ?thesis using False fold_rejection_ok [OF assms(2)]
    by (cases "cf_ok (fold_rejection ret failure)") (auto simp: finish_envelope_def)
qed

text \<open>A module with one method taking a string, asked for another one and given a number.\<close>

definition sample_methods :: "method_info list" where
  "sample_methods = [\<lparr>mi_name = ''has_address'', mi_paramTypes = [''QString''], mi_paramsPublished = True\<rparr>]"

lemma envelope_verdict_witness:
  "env_code (fst (run_state (callEnvelope ''keystore'' ''nope'' JNull (JArr []) \<lparr>cf_code = [], cf_message = [], cf_origin = []\<rparr>
      (Some (State (\<lambda>n::nat. (sample_methods, Suc n))))) 0)) ''METHOD_NOT_FOUND''
   \<and> \<not> status_ok (fst (run_state (callEnvelope ''keystore'' ''has_address'' JNull (JArr [JInt 7]) \<lparr>cf_code = [], cf_message = [], cf_origin = []\<rparr>
      (Some (State (\<lambda>n::nat. (sample_methods, Suc n))))) 0))"
proof
  let ?no = "\<lparr>cf_code = [], cf_message = [], cf_origin = []\<rparr>"
  let ?l = "State (\<lambda>n::nat. (sample_methods, Suc n))"
  obtain env s' where r: "run_state (callEnvelope ''keystore'' ''nope'' JNull (JArr []) ?no (Some ?l)) 0 = (env, s')" by fastforce
  have l: "run_state ?l 0 = (sample_methods, 1)" by simp
  show "env_code (fst (run_state (callEnvelope ''keystore'' ''nope'' JNull (JArr []) ?no (Some ?l)) 0)) ''METHOD_NOT_FOUND''"
    using envelope_verdict [OF r _ l] r by (simp add: sorted_json_def cf_ok_def sample_methods_def)
  obtain env2 s2 where r2: "run_state (callEnvelope ''keystore'' ''has_address'' JNull (JArr [JInt 7]) ?no (Some ?l)) 0 = (env2, s2)" by fastforce
  show "\<not> status_ok (fst (run_state (callEnvelope ''keystore'' ''has_address'' JNull (JArr [JInt 7]) ?no (Some ?l)) 0))"
    using envelope_verdict [OF r2 _ l] r2
    by (simp add: sorted_json_def cf_ok_def sample_methods_def takes_def clash_def declaredType_def kDeclaredTypes_def)
qed

end
