(* ===== verification/Module_Host.thy ===== *)
theory Module_Host
  imports Call_Envelope World Config
begin

text \<open>
  The module runtime and the module clients the daemon drives. \<open>logos_core_*\<close> and
  \<open>LogosAPIClient\<close> are outside \<open>src/\<close>: a \<open>'c runtime\<close> is a parameter that answers every call and
  moves its own state \<open>'c\<close> (a module may crash or start between two calls). What the daemon asks of
  it is recorded, latest first, in \<open>hs_log\<close>, so a property of the log is a property of the order of
  the calls. The rules at the end are the calculus the proofs about these operations use.
\<close>

section \<open>The runtime\<close>

record 'c runtime =
  rt_known :: "'c \<Rightarrow> string list \<times> 'c"
  rt_loaded :: "'c \<Rightarrow> string list \<times> 'c"
  rt_info :: "'c \<Rightarrow> string option \<times> 'c"
  rt_stats :: "'c \<Rightarrow> string option \<times> 'c"
  rt_optional :: "string \<Rightarrow> 'c \<Rightarrow> string option \<times> 'c"
  rt_load :: "string \<Rightarrow> 'c \<Rightarrow> bool \<times> 'c"
  rt_unload :: "string \<Rightarrow> bool \<Rightarrow> 'c \<Rightarrow> 'c"
  rt_refresh :: "'c \<Rightarrow> 'c"
  rt_client :: "string \<Rightarrow> 'c \<Rightarrow> bool"       \<comment> \<open>\<open>getClient\<close> is not null\<close>
  rt_invoke :: "string \<Rightarrow> string \<Rightarrow> json \<Rightarrow> nat option \<Rightarrow> 'c \<Rightarrow> (call_failure \<times> json) \<times> 'c"
  rt_subscribe :: "string \<Rightarrow> string \<Rightarrow> 'c \<Rightarrow> nat \<times> 'c"
  rt_clock :: "'c \<Rightarrow> int"                   \<comment> \<open>seconds since the epoch\<close>
  rt_json :: json_lib
  rt_pid :: int
  rt_same_dir :: "string \<Rightarrow> string \<Rightarrow> bool"  \<comment> \<open>\<open>fs::equivalent\<close>\<close>
  rt_strerror :: "nat \<Rightarrow> string"            \<comment> \<open>\<open>ec.message()\<close> of the call at this tick\<close>
  rt_cfg :: config

datatype host_call =
    Load_Module string
  | Unload_Module string bool
  | Refresh_Modules
  | Invoke string string json "call_failure \<times> json"   \<comment> \<open>with the answer\<close>
  | Subscribe string string
  | Quit_After int

record 'c host =
  hs_ext :: 'c
  hs_log :: "host_call list"
  hs_api :: bool          \<comment> \<open>\<open>m_api\<close> is set\<close>
  hs_world :: world

type_synonym ('c, 'a) hosted = "('c host, 'a) state"

section \<open>Calls\<close>

definition ask :: "('c \<Rightarrow> 'a \<times> 'c) \<Rightarrow> ('c, 'a) hosted" where
  "ask q = State (\<lambda>h. case q (hs_ext h) of (a, c) \<Rightarrow> (a, h\<lparr>hs_ext := c\<rparr>))"

definition tell :: "('a \<Rightarrow> host_call) \<Rightarrow> ('c \<Rightarrow> 'a \<times> 'c) \<Rightarrow> ('c, 'a) hosted" where
  "tell e q = State (\<lambda>h. case q (hs_ext h) of (a, c) \<Rightarrow> (a, h\<lparr>hs_ext := c, hs_log := e a # hs_log h\<rparr>))"

definition has_api :: "('c, bool) hosted" where
  "has_api = State (\<lambda>h. (hs_api h, h))"

definition on_world :: "'a io \<Rightarrow> ('c, 'a) hosted" where
  "on_world m = State (\<lambda>h. case run_state m (hs_world h) of (a, w) \<Rightarrow> (a, h\<lparr>hs_world := w\<rparr>))"

definition load_module :: "'c runtime \<Rightarrow> string \<Rightarrow> ('c, bool) hosted" where
  "load_module R name = tell (\<lambda>_. Load_Module (c_str name)) (rt_load R (c_str name))"

definition unload_module :: "'c runtime \<Rightarrow> string \<Rightarrow> bool \<Rightarrow> ('c, unit) hosted" where
  "unload_module R name deps = tell (\<lambda>_. Unload_Module (c_str name) deps) (\<lambda>c. ((), rt_unload R (c_str name) deps c))"

definition refresh_modules :: "'c runtime \<Rightarrow> ('c, unit) hosted" where
  "refresh_modules R = tell (\<lambda>_. Refresh_Modules) (\<lambda>c. ((), rt_refresh R c))"

definition invoke :: "'c runtime \<Rightarrow> string \<Rightarrow> string \<Rightarrow> json \<Rightarrow> nat option \<Rightarrow> ('c, call_failure \<times> json) hosted" where
  "invoke R m f args deadline = tell (Invoke m f args) (rt_invoke R m f args deadline)"

definition client_of :: "'c runtime \<Rightarrow> string \<Rightarrow> ('c, bool) hosted" where
  "client_of R m = State (\<lambda>h. (rt_client R m (hs_ext h), h))"

text \<open>A sequence of operations that may throw, for each element.\<close>

fun each :: "('a \<Rightarrow> ('s, 'e + 'b) state) \<Rightarrow> 'a list \<Rightarrow> ('s, 'e + 'b list) state" where
  "each f [] = pure []"
| "each f (x # xs) = tbind (f x) (\<lambda>y. tbind (each f xs) (\<lambda>ys. pure (y # ys)))"

fun each_unit :: "('a \<Rightarrow> ('s, unit) state) \<Rightarrow> 'a list \<Rightarrow> ('s, unit) state" where
  "each_unit f [] = State_Monad.return ()"
| "each_unit f (x # xs) = do { _ \<leftarrow> f x; each_unit f xs }"

section \<open>A calculus for stateful operations\<close>

text \<open>From every state with \<open>P\<close> the operation ends with a result and state in \<open>Q\<close>.\<close>

definition valid :: "('s \<Rightarrow> bool) \<Rightarrow> ('s, 'a) state \<Rightarrow> ('a \<Rightarrow> 's \<Rightarrow> bool) \<Rightarrow> bool" where
  "valid P m Q \<longleftrightarrow> (\<forall>s. P s \<longrightarrow> (case run_state m s of (r, s') \<Rightarrow> Q r s'))"

named_theorems vcg \<open>rules of the calculus\<close>

lemma validD: "valid P m Q \<Longrightarrow> P s \<Longrightarrow> run_state m s = (r, s') \<Longrightarrow> Q r s'"
  by (auto simp: valid_def)

lemma validI: "(\<And>s r s'. P s \<Longrightarrow> run_state m s = (r, s') \<Longrightarrow> Q r s') \<Longrightarrow> valid P m Q"
  by (auto simp: valid_def)

lemma valid_weaken: "valid P m Q \<Longrightarrow> (\<And>s. P' s \<Longrightarrow> P s) \<Longrightarrow> (\<And>r s. Q r s \<Longrightarrow> Q' r s) \<Longrightarrow> valid P' m Q'"
  by (fastforce simp: valid_def)

lemma valid_return: "(\<And>s. P s \<Longrightarrow> Q a s) \<Longrightarrow> valid P (State_Monad.return a) Q"
  by (simp add: valid_def)

lemma valid_bind: "valid P m A \<Longrightarrow> (\<And>a. valid (A a) (f a) Q) \<Longrightarrow> valid P (State_Monad.bind m f) Q"
  by (fastforce simp: valid_def split: prod.splits)

lemma valid_tbind:
  "valid P m (\<lambda>r s. case r of Inl x \<Rightarrow> Q (Inl x) s | Inr a \<Rightarrow> A a s) \<Longrightarrow> (\<And>a. valid (A a) (f a) Q) \<Longrightarrow> valid P (tbind m f) Q"
  by (fastforce simp: valid_def split: prod.splits sum.splits)

lemma valid_plain: "valid P m (\<lambda>a. Q (Inr a)) \<Longrightarrow> valid P (plain m) Q"
  by (auto simp: valid_def split: prod.splits)

lemma valid_if: "(c \<Longrightarrow> valid P a Q) \<Longrightarrow> (\<not> c \<Longrightarrow> valid P b Q) \<Longrightarrow> valid P (if c then a else b) Q"
  by simp

subsection \<open>Invariants\<close>

text \<open>The operation keeps \<open>I\<close>, whatever it answers.\<close>

definition keeps :: "('s \<Rightarrow> bool) \<Rightarrow> ('s, 'a) state \<Rightarrow> bool" where
  "keeps I m \<longleftrightarrow> valid I m (\<lambda>_. I)"

lemma keepsI: "(\<And>s r s'. I s \<Longrightarrow> run_state m s = (r, s') \<Longrightarrow> I s') \<Longrightarrow> keeps I m"
  by (auto simp: keeps_def valid_def)

lemma keepsD: "keeps I m \<Longrightarrow> I s \<Longrightarrow> run_state m s = (r, s') \<Longrightarrow> I s'"
  by (auto simp: keeps_def valid_def)

lemma keeps_return [vcg, simp]: "keeps I (State_Monad.return a)"
  by (simp add: keeps_def valid_def)

lemma keeps_bind [vcg]: "keeps I m \<Longrightarrow> (\<And>a. keeps I (f a)) \<Longrightarrow> keeps I (State_Monad.bind m f)"
  unfolding keeps_def by (rule valid_bind)

lemma keeps_tbind [vcg]: "keeps I m \<Longrightarrow> (\<And>a. keeps I (f a)) \<Longrightarrow> keeps I (tbind m f)"
  unfolding tbind_def by (auto intro!: vcg split: sum.split)

lemma keeps_wraps [vcg]: "keeps I (pure a)" "keeps I (raise x)" "keeps I m \<Longrightarrow> keeps I (plain m)"
  unfolding pure_def raise_def plain_def by (auto intro!: vcg)

lemma keeps_if [vcg]: "keeps I a \<Longrightarrow> keeps I b \<Longrightarrow> keeps I (if c then a else b)"
  by simp

lemma keeps_each [vcg]: "(\<And>x. x \<in> set xs \<Longrightarrow> keeps I (f x)) \<Longrightarrow> keeps I (each f xs)"
  by (induction xs) (auto intro!: vcg)

lemma keeps_each_unit [vcg]: "(\<And>x. x \<in> set xs \<Longrightarrow> keeps I (f x)) \<Longrightarrow> keeps I (each_unit f xs)"
  by (induction xs) (auto intro!: vcg)

text \<open>What the calls leave alone.\<close>

lemma keeps_calls [vcg]:
  "(\<And>h c. I h \<Longrightarrow> I (h\<lparr>hs_ext := c\<rparr>)) \<Longrightarrow> keeps I (ask q)"
  "keeps I has_api" "keeps I (client_of R m)"
  "(\<And>h c a. I h \<Longrightarrow> I (h\<lparr>hs_ext := c, hs_log := e a # hs_log h\<rparr>)) \<Longrightarrow> keeps I (tell e q)"
  by (auto simp: keeps_def valid_def ask_def has_api_def client_of_def tell_def split: prod.split)

text \<open>The operation does not touch the file system.\<close>

definition no_files :: "('c, 'a) hosted \<Rightarrow> bool" where
  "no_files m \<longleftrightarrow> (\<forall>w. keeps (\<lambda>h. hs_world h = w) m)"

named_theorems file_free \<open>operations that do not touch the file system\<close>

lemma no_filesD: "no_files m \<Longrightarrow> run_state m h = (r, h') \<Longrightarrow> hs_world h' = hs_world h"
  unfolding no_files_def using keepsD [of "\<lambda>x. hs_world x = hs_world h" m h r h'] by simp

lemma no_files_monad [file_free]:
  "no_files (State_Monad.return a)"
  "no_files m \<Longrightarrow> (\<And>a. no_files (f a)) \<Longrightarrow> no_files (State_Monad.bind m f)"
  "no_files m1 \<Longrightarrow> (\<And>a. no_files (f1 a)) \<Longrightarrow> no_files (tbind m1 f1)"
  "no_files (pure b)" "no_files (raise x)" "no_files m2 \<Longrightarrow> no_files (plain m2)"
  "no_files a1 \<Longrightarrow> no_files b1 \<Longrightarrow> no_files (if c then a1 else b1)"
  "(\<And>x. x \<in> set xs \<Longrightarrow> no_files (g x)) \<Longrightarrow> no_files (each_unit g xs)"
  unfolding no_files_def by (auto intro!: vcg)

lemma no_files_calls [file_free]:
  "no_files (ask q)" "no_files has_api" "no_files (client_of R m)" "no_files (tell e q)"
  "no_files (load_module R n)" "no_files (unload_module R n d)" "no_files (refresh_modules R)" "no_files (invoke R m f args dl)"
  unfolding no_files_def load_module_def unload_module_def refresh_modules_def invoke_def
  by (auto intro!: vcg)

subsection \<open>The log\<close>

text \<open>The operation logs calls in \<open>P\<close> only.\<close>

definition logs :: "(host_call \<Rightarrow> bool) \<Rightarrow> ('c, 'a) hosted \<Rightarrow> bool" where
  "logs P m \<longleftrightarrow> (\<forall>h. \<exists>es. hs_log (snd (run_state m h)) = es @ hs_log h \<and> (\<forall>e \<in> set es. P e))"

named_theorems log_rules \<open>which calls an operation logs\<close>

lemma logsD: "logs P m \<Longrightarrow> run_state m h = (r, h') \<Longrightarrow> \<exists>es. hs_log h' = es @ hs_log h \<and> (\<forall>e \<in> set es. P e)"
  unfolding logs_def by (metis snd_conv)

lemma logs_return [log_rules, simp]: "logs P (State_Monad.return a)"
  by (simp add: logs_def)

lemma logs_bind [log_rules]:
  assumes "logs P m" "\<And>a. logs P (f a)"
  shows "logs P (State_Monad.bind m f)"
  unfolding logs_def
proof
  fix h
  obtain a h1 where m: "run_state m h = (a, h1)" by fastforce
  obtain b h2 where f: "run_state (f a) h1 = (b, h2)" by fastforce
  from logsD [OF assms(1) m] obtain es where es: "hs_log h1 = es @ hs_log h" "\<forall>e \<in> set es. P e" by blast
  from logsD [OF assms(2) f] obtain fs where "hs_log h2 = fs @ hs_log h1" "\<forall>e \<in> set fs. P e" by blast
  with es have "hs_log h2 = (fs @ es) @ hs_log h" "\<forall>e \<in> set (fs @ es). P e" by auto
  with m f show "\<exists>es. hs_log (snd (run_state (State_Monad.bind m f) h)) = es @ hs_log h \<and> (\<forall>e \<in> set es. P e)"
    by (intro exI [of _ "fs @ es"]) simp
qed

lemma logs_tbind [log_rules]: "logs P m \<Longrightarrow> (\<And>a. logs P (f a)) \<Longrightarrow> logs P (tbind m f)"
  unfolding tbind_def by (auto intro!: log_rules split: sum.split)

lemma logs_wraps [log_rules]: "logs P (pure a)" "logs P (raise x)" "logs P m \<Longrightarrow> logs P (plain m)"
  unfolding pure_def raise_def plain_def by (auto intro!: log_rules)

lemma logs_if [log_rules]: "logs P a \<Longrightarrow> logs P b \<Longrightarrow> logs P (if c then a else b)"
  by simp

lemma logs_ask [log_rules, simp]: "logs P (ask q)" "logs P has_api" "logs P (client_of R m)" "logs P (on_world w)"
  by (auto simp: logs_def ask_def has_api_def client_of_def on_world_def split: prod.split)

lemma logs_tell: "(\<And>a. P (e a)) \<Longrightarrow> logs P (tell e q)" for q :: "'c \<Rightarrow> 'a \<times> 'c"
  by (auto simp: logs_def tell_def split: prod.split)

lemma logs_calls [log_rules]:
  "P (Load_Module (c_str n)) \<Longrightarrow> logs P (load_module R n)"
  "P (Unload_Module (c_str n) d) \<Longrightarrow> logs P (unload_module R n d)"
  "P Refresh_Modules \<Longrightarrow> logs P (refresh_modules R)"
  "(\<And>a. P (Invoke m f args a)) \<Longrightarrow> logs P (invoke R m f args dl)"
  by (simp_all add: load_module_def unload_module_def refresh_modules_def invoke_def logs_tell)

lemma logs_each [log_rules]: "(\<And>x. x \<in> set xs \<Longrightarrow> logs P (f x)) \<Longrightarrow> logs P (each f xs)"
  by (induction xs) (auto intro!: log_rules)

lemma logs_each_unit [log_rules]: "(\<And>x. x \<in> set xs \<Longrightarrow> logs P (f x)) \<Longrightarrow> logs P (each_unit f xs)"
  by (induction xs) (auto intro!: log_rules)

lemma logs_mono: "logs P m \<Longrightarrow> (\<And>e. P e \<Longrightarrow> Q e) \<Longrightarrow> logs Q m"
  unfolding logs_def by meson

text \<open>
  \<open>guarded P Q log\<close>: every call in \<open>P\<close> comes after a call in \<open>Q\<close>.
\<close>

fun guarded :: "(host_call \<Rightarrow> bool) \<Rightarrow> (host_call \<Rightarrow> bool) \<Rightarrow> host_call list \<Rightarrow> bool" where
  "guarded P Q [] = True"
| "guarded P Q (e # es) = ((P e \<longrightarrow> (\<exists>q \<in> set es. Q q)) \<and> guarded P Q es)"

lemma guarded_split:
  "guarded P Q l \<longleftrightarrow> (\<forall>a e b. l = a @ e # b \<and> P e \<longrightarrow> (\<exists>q \<in> set b. Q q))"
proof (induction l)
  case (Cons x l)
  show ?case
  proof
    assume g: "guarded P Q (x # l)"
    show "\<forall>a e b. x # l = a @ e # b \<and> P e \<longrightarrow> (\<exists>q \<in> set b. Q q)"
    proof (intro allI impI)
      fix a e b
      assume "x # l = a @ e # b \<and> P e"
      with g Cons show "\<exists>q \<in> set b. Q q" by (cases a) auto
    qed
  next
    assume r: "\<forall>a e b. x # l = a @ e # b \<and> P e \<longrightarrow> (\<exists>q \<in> set b. Q q)"
    then have "P x \<longrightarrow> (\<exists>q \<in> set l. Q q)" by blast
    moreover have "\<forall>a e b. l = a @ e # b \<and> P e \<longrightarrow> (\<exists>q \<in> set b. Q q)"
      using r by (metis append_Cons)
    ultimately show "guarded P Q (x # l)" using Cons by simp
  qed
qed simp

lemma guarded_append: "(\<forall>e \<in> set es. \<not> P e) \<or> (\<exists>q \<in> set l. Q q) \<Longrightarrow> guarded P Q l \<Longrightarrow> guarded P Q (es @ l)"
  by (induction es) auto

end
