(* ===== verification/Package_Ops.thy ===== *)
theory Package_Ops
  imports Module_Host
begin

text \<open>
  \<open>src/src/core_service/package_ops.cpp\<close> and \<open>rpc_deadlines.h\<close>: planning, applying and downloading
  packages through the gate protocol of \<open>package_manager\<close>. The answers of the package modules are
  JSON of any shape; a read of a field of the wrong type throws, and the exception leaves the
  operation at that point.
\<close>

section \<open>Data\<close>

datatype op = Install | Upgrade | Remove

record options =
  op_withDeps :: bool
  op_withDependents :: bool
  op_version :: string
  op_rootHash :: string
  op_catalog :: string
  op_localFiles :: "string list"

definition kPm :: string where "kPm = ''package_manager''"
definition kPd :: string where "kPd = ''package_downloader''"

definition kCatalogMs :: nat where "kCatalogMs = 2 * 60 * 1000"
definition kTransferMs :: nat where "kTransferMs = 30 * 60 * 1000"

text \<open>\<open>None\<close> is the transport's default.\<close>

definition forPackageCall :: "string \<Rightarrow> nat option" where
  "forPackageCall method =
    (if method = ''downloadResolvedDependencies'' \<or> method = ''downloadPinned''
        \<or> method = ''inspectPackage'' \<or> method = ''installPlugin'' then Some kTransferMs
     else if method = ''resolveDependencies'' then Some kCatalogMs else None)"

definition err :: "string \<Rightarrow> string \<Rightarrow> json" where
  "err code message = mk_obj [(''status'', JStr ''error''), (''code'', JStr code), (''message'', JStr message)]"

text \<open>A call with its reason of failure (empty when there is none).\<close>

definition call :: "'c runtime \<Rightarrow> string \<Rightarrow> string \<Rightarrow> json list \<Rightarrow> ('c, json \<times> string) hosted" where
  "call R module_name method args = do {
     api \<leftarrow> has_api;
     if \<not> api then State_Monad.return (JNull, [])
     else do {
       client \<leftarrow> client_of R module_name;
       if \<not> client then State_Monad.return (JNull, module_name @ '' is not reachable'')
       else do {
         (e, ret) \<leftarrow> invoke R module_name method (JArr args) (forPackageCall method);
         State_Monad.return (if \<not> cf_ok e then (JNull, cf_message e) else (ret, [])) } } }"

definition withReason :: "string \<Rightarrow> string \<Rightarrow> string" where
  "withReason base why = (if why = [] then base else base @ '': '' @ why)"

text \<open>\<open>ok\<close>: \<open>Inr None\<close> is success, \<open>Inr (Some e)\<close> a failure with its text; it may throw.\<close>

definition ok_answer :: "json \<Rightarrow> exn + string option" where
  "ok_answer r =
    (if \<not> is_object r then Inr (Some ''module did not respond'')
     else ebind (jvalue get_bool r ''success'' False) (\<lambda>b.
       if b then Inr None
       else ebind (jvalue get_str r ''message'' ''unknown error'') (\<lambda>m.
         ebind (jvalue get_str r ''error'' m) (\<lambda>e. Inr (Some e)))))"

definition loadedModules :: "'c runtime \<Rightarrow> ('c, string list) hosted" where
  "loadedModules R = ask (rt_loaded R)"

definition installedPackages :: "'c runtime \<Rightarrow> ('c, json list) hosted" where
  "installedPackages R = do {
     (r, _) \<leftarrow> call R kPm ''getInstalledPackages'' [];
     State_Monad.return (case r of JArr es \<Rightarrow> es | _ \<Rightarrow> []) }"

text \<open>The root hash of an installed package.\<close>

definition root_of :: "json \<Rightarrow> exn + string" where
  "root_of p = (case jfind p ''hashes'' of
      Some (JObj kvs) \<Rightarrow> jvalue get_str (JObj kvs) ''root'' []
    | _ \<Rightarrow> Inr [])"

fun emap :: "('a \<Rightarrow> 'e + 'b) \<Rightarrow> 'a list \<Rightarrow> 'e + 'b list" where
  "emap f [] = Inr []"
| "emap f (x # xs) = ebind (f x) (\<lambda>y. ebind (emap f xs) (\<lambda>ys. Inr (y # ys)))"

definition dump_text :: "'c runtime \<Rightarrow> json \<Rightarrow> exn + string" where
  "dump_text R j = (case jl_dump (rt_json R) 0 j of None \<Rightarrow> Inl (Type_Error ''invalid UTF-8 byte'') | Some s \<Rightarrow> Inr s)"

definition installedPackagesJson :: "'c runtime \<Rightarrow> json list \<Rightarrow> exn + string" where
  "installedPackagesJson R installed = ebind
     (emap (\<lambda>p. ebind (jvalue get_str p ''name'' []) (\<lambda>n.
        ebind (jvalue get_str p ''version'' []) (\<lambda>v.
        ebind (root_of p) (\<lambda>h.
          Inr (mk_obj [(''name'', JStr n), (''version'', JStr v), (''rootHash'', JStr h)]))))) installed)
     (\<lambda>es. dump_text R (JArr es))"

definition dependenciesJson :: "'c runtime \<Rightarrow> string list \<Rightarrow> options \<Rightarrow> exn + string" where
  "dependenciesJson R names opts = dump_text R (JArr (map (\<lambda>n.
     if op_version opts = [] then JStr n
     else mk_obj [(''name'', JStr n), (''version'', JStr (op_version opts))]) names))"

definition depAction :: "string \<Rightarrow> string \<Rightarrow> string \<Rightarrow> string \<Rightarrow> string" where
  "depAction installedVersion resolvedVersion installedHash resolvedHash =
    (if installedVersion = [] then ''install''
     else if installedVersion \<noteq> resolvedVersion then ''upgrade''
     else if resolvedHash \<noteq> [] \<and> installedHash \<noteq> [] \<and> installedHash \<noteq> resolvedHash then ''reinstall''
     else ''installed'')"

text \<open>\<open>byName\<close>: version and root hash; a later entry of the same name replaces an earlier one.\<close>

fun byName :: "json list \<Rightarrow> (string \<rightharpoonup> string \<times> string) \<Rightarrow> exn + (string \<rightharpoonup> string \<times> string)" where
  "byName [] m = Inr m"
| "byName (p # ps) m =
    ebind (jvalue get_str p ''version'' []) (\<lambda>v.
    ebind (root_of p) (\<lambda>h.
    ebind (jvalue get_str p ''name'' []) (\<lambda>n. byName ps (m(n \<mapsto> (v, h))))))"

definition affectedLoaded :: "'c runtime \<Rightarrow> string list \<Rightarrow> ('c, string list) hosted" where
  "affectedLoaded R affected = do {
     loaded \<leftarrow> loadedModules R;
     State_Monad.return (filter (\<lambda>n. List.member loaded n) affected) }"

abbreviation lift :: "'e + 'a \<Rightarrow> ('s, 'e + 'a) state" where
  "lift r \<equiv> State_Monad.return r"

section \<open>Resolving\<close>

fun top_level :: "json list \<Rightarrow> exn + json list" where
  "top_level [] = Inr []"
| "top_level (e # es) = ebind (jvalue get_bool e ''topLevel'' False) (\<lambda>t.
     ebind (top_level es) (\<lambda>r. Inr (if t then e # r else r)))"

definition resolveClosure ::
    "'c runtime \<Rightarrow> string list \<Rightarrow> options \<Rightarrow> json list \<Rightarrow> ('c, exn + json \<times> string) hosted" where
  "resolveClosure R names opts installed =
    (if \<not> op_withDeps opts then
       tbind (lift (dependenciesJson R names opts)) (\<lambda>deps.
       tbind (plain (call R kPd ''resolveDependencies'' [JStr deps, JStr []])) (\<lambda>(r, why).
         case r of
           JArr es \<Rightarrow> tbind (lift (top_level es)) (\<lambda>filtered. pure (JArr filtered, why))
         | _ \<Rightarrow> pure (JNull, why)))
     else
       tbind (lift (dependenciesJson R names opts)) (\<lambda>deps.
       tbind (lift (installedPackagesJson R installed)) (\<lambda>inst.
         plain (call R kPd ''resolveDependencies'' [JStr deps, JStr inst]))))"

fun dependents_of :: "string \<Rightarrow> json list \<Rightarrow> exn + string list" where
  "dependents_of name [] = Inr []"
| "dependents_of name (d # ds) = ebind (jvalue get_str d ''name'' []) (\<lambda>dn.
     ebind (dependents_of name ds) (\<lambda>r. Inr (if dn \<noteq> [] \<and> dn \<noteq> name then dn # r else r)))"

definition removalSet :: "'c runtime \<Rightarrow> string \<Rightarrow> bool \<Rightarrow> ('c, exn + string list \<times> string) hosted" where
  "removalSet R name withDependents =
    (if \<not> withDependents then pure ([name], [])
     else tbind (plain (call R kPm ''resolveFlatDependents'' [JStr name, JBool True])) (\<lambda>(r, _).
       case r of
         JArr ds \<Rightarrow> tbind (lift (dependents_of name ds)) (\<lambda>out. pure (out @ [name], []))
       | _ \<Rightarrow> pure ([], ''could not resolve dependents of '' @ [CHR 39] @ name @ [CHR 39])))"

section \<open>plan\<close>

definition op_name :: "op \<Rightarrow> string" where
  "op_name k = (case k of Install \<Rightarrow> ''install'' | Upgrade \<Rightarrow> ''upgrade'' | Remove \<Rightarrow> ''remove'')"

type_synonym installed_map = "string \<rightharpoonup> string \<times> string"

definition remove_change :: "installed_map \<Rightarrow> string \<Rightarrow> json" where
  "remove_change m r = mk_obj [(''name'', JStr r), (''action'', JStr ''remove''),
     (''fromVersion'', JStr (case m r of Some (v, _) \<Rightarrow> v | None \<Rightarrow> [])), (''toVersion'', JStr [])]"

text \<open>A computation that may throw, or end early with an envelope (\<open>Inl\<close> of the inner sum).\<close>

definition xbind :: "('s, 'e + json + 'a) state \<Rightarrow> ('a \<Rightarrow> ('s, 'e + json + 'b) state) \<Rightarrow> ('s, 'e + json + 'b) state" where
  "xbind m f = tbind m (\<lambda>r. case r of Inl envelope \<Rightarrow> pure (Inl envelope) | Inr a \<Rightarrow> f a)"

fun add_removals :: "installed_map \<Rightarrow> string list \<Rightarrow> string list \<times> json list \<Rightarrow> string list \<times> json list" where
  "add_removals m [] acc = acc"
| "add_removals m (r # rs) (affected, changes) =
    (if List.member affected r then add_removals m rs (affected, changes)
     else add_removals m rs (affected @ [r], changes @ [remove_change m r]))"

fun plan_remove ::
    "'c runtime \<Rightarrow> options \<Rightarrow> installed_map \<Rightarrow> string list \<Rightarrow> string list \<times> json list
      \<Rightarrow> ('c, exn + json + string list \<times> json list) hosted" where
  "plan_remove R opts m [] acc = pure (Inr acc)"
| "plan_remove R opts m (n # ns) acc =
    (if m n = None then pure (Inl (err ''PACKAGE_NOT_INSTALLED'' (''Package '' @ [CHR 39] @ n @ [CHR 39] @ '' is not installed.'')))
     else tbind (removalSet R n (op_withDependents opts)) (\<lambda>(rs, e).
       if rs = [] then pure (Inl (err ''RESOLVE_FAILED'' e))
       else plan_remove R opts m ns (add_removals m rs acc)))"

definition plan_local_one :: "'c runtime \<Rightarrow> string \<Rightarrow> ('c, exn + json + string \<times> json) hosted" where
  "plan_local_one R f = tbind (plain (call R kPm ''inspectPackage'' [JStr f])) (\<lambda>(info, why).
     if \<not> is_object info
     then pure (Inl (err ''INSPECT_FAILED'' (withReason (''Could not inspect '' @ [CHR 39] @ f @ [CHR 39]) why)))
     else tbind (lift (if jcontains info ''error'' then jvalue get_str info ''error'' [] else Inr [])) (\<lambda>e.
       if e \<noteq> [] then pure (Inl (err ''INSPECT_FAILED'' e))
       else tbind (lift (jvalue get_str info ''name'' [])) (\<lambda>n.
            tbind (lift (jvalue get_str info ''version'' [])) (\<lambda>v.
            tbind (lift (jvalue get_str info ''installedVersion'' [])) (\<lambda>iv.
            tbind (lift (jvalue get_bool info ''isAlreadyInstalled'' False)) (\<lambda>already.
            tbind (lift (jvalue get_str info ''signatureStatus'' [])) (\<lambda>sig.
              pure (Inr (n, mk_obj [(''name'', JStr n),
                (''action'', JStr (if already then (if iv = v then ''reinstall'' else ''upgrade'') else ''install'')),
                (''fromVersion'', JStr iv), (''toVersion'', JStr v), (''file'', JStr f), (''signature'', JStr sig)])))))))))"

fun plan_local :: "'c runtime \<Rightarrow> string list \<Rightarrow> ('c, exn + json + string list \<times> json list) hosted" where
  "plan_local R [] = pure (Inr ([], []))"
| "plan_local R (f # fs) = xbind (plan_local_one R f) (\<lambda>(n, c).
     xbind (plan_local R fs) (\<lambda>(ns, cs). pure (Inr (n # ns, c # cs))))"

text \<open>One entry of the resolver: its name, its change, and whether it is touched.\<close>

definition plan_entry :: "installed_map \<Rightarrow> json \<Rightarrow> exn + json + string \<times> json \<times> bool" where
  "plan_entry m e =
    (if jcontains e ''error'' then
       ebind (jvalue get_str e ''name'' ''?'') (\<lambda>n. ebind (jvalue get_str e ''error'' []) (\<lambda>t.
         Inr (Inl (err ''RESOLVE_FAILED'' (''Cannot resolve '' @ [CHR 39] @ n @ [CHR 39] @ '': '' @ t)))))
     else
       ebind (jvalue get_str e ''name'' []) (\<lambda>n.
       ebind (jvalue get_str e ''version'' []) (\<lambda>rv.
       ebind (jvalue get_str e ''rootHash'' []) (\<lambda>rh.
         let iv = (case m n of Some (v, _) \<Rightarrow> v | None \<Rightarrow> []);
             ih = (case m n of Some (_, h) \<Rightarrow> h | None \<Rightarrow> []);
             action = depAction iv rv ih rh
         in ebind (jvalue get_str e ''repositoryUrl'' []) (\<lambda>repo.
            ebind (jvalue get_bool e ''topLevel'' False) (\<lambda>top.
              Inr (Inr (n, mk_obj [(''name'', JStr n), (''action'', JStr action), (''fromVersion'', JStr iv),
                (''toVersion'', JStr rv), (''repository'', JStr repo), (''topLevel'', JBool top)],
                action \<noteq> ''installed''))))))))"

fun plan_entries :: "installed_map \<Rightarrow> json list \<Rightarrow> exn + json + string list \<times> json list" where
  "plan_entries m [] = Inr (Inr ([], []))"
| "plan_entries m (e # es) = ebind (plan_entry m e) (\<lambda>r. case r of
      Inl envelope \<Rightarrow> Inr (Inl envelope)
    | Inr (n, c, touched) \<Rightarrow> ebind (plan_entries m es) (\<lambda>r2. case r2 of
        Inl envelope \<Rightarrow> Inr (Inl envelope)
      | Inr (ns, cs) \<Rightarrow> Inr (Inr (if touched then n # ns else ns, c # cs))))"

definition plan_catalog ::
    "'c runtime \<Rightarrow> string list \<Rightarrow> options \<Rightarrow> json list \<Rightarrow> installed_map \<Rightarrow> ('c, exn + json + string list \<times> json list) hosted" where
  "plan_catalog R names opts installed m = tbind (resolveClosure R names opts installed) (\<lambda>(resolved, why).
     case resolved of
       JArr es \<Rightarrow> lift (plan_entries m es)
     | _ \<Rightarrow> pure (Inl (err ''RESOLVE_FAILED'' (withReason
         ''Could not resolve packages from the catalog. Check that a catalog is configured and reachable (`catalog ls`, `catalog refresh`)'' why))))"

text \<open>The plan's document: the changes, and the loaded modules among the affected ones.\<close>

definition plan_document :: "op \<Rightarrow> json list \<Rightarrow> string list \<Rightarrow> json" where
  "plan_document k changes loaded = mk_obj [(''status'', JStr ''ok''), (''op'', JStr (op_name k)),
     (''changes'', JArr changes), (''affected_loaded'', JArr (map JStr loaded))]"

definition plan :: "'c runtime \<Rightarrow> op \<Rightarrow> string list \<Rightarrow> options \<Rightarrow> ('c, exn + json) hosted" where
  "plan R k names opts =
     tbind (plain (installedPackages R)) (\<lambda>installed.
     tbind (lift (byName installed Map.empty)) (\<lambda>m.
     tbind (if k = Remove then plan_remove R opts m names ([], [])
            else if op_localFiles opts \<noteq> [] then plan_local R (op_localFiles opts)
            else plan_catalog R names opts installed m) (\<lambda>r.
       case r of
         Inl envelope \<Rightarrow> pure envelope
       | Inr (affected, changes) \<Rightarrow>
           tbind (plain (affectedLoaded R affected)) (\<lambda>loaded. pure (plan_document k changes loaded)))))"

section \<open>apply\<close>

definition check :: "json \<times> string \<Rightarrow> exn + string option" where
  "check r = ok_answer (fst r)"

definition request_args :: "op \<Rightarrow> string \<Rightarrow> string \<Rightarrow> string \<times> json list" where
  "request_args k name depChanges = (case k of
      Install \<Rightarrow> (''requestInstall'', [JStr name, JStr [], JStr [], JStr depChanges])
    | Upgrade \<Rightarrow> (''requestUpgrade'', [JStr name, JStr [], JInt 0, JStr depChanges])
    | Remove \<Rightarrow> (''requestUninstall'', [JStr name]))"

text \<open>\<open>openGate\<close>: \<open>Inr None\<close> when the gate is open and acknowledged.\<close>

definition openGate :: "'c runtime \<Rightarrow> op \<Rightarrow> string \<Rightarrow> string \<Rightarrow> ('c, exn + string option) hosted" where
  "openGate R k name depChanges = (case request_args k name depChanges of (method, args) \<Rightarrow>
     tbind (plain (call R kPm method args)) (\<lambda>r.
     tbind (lift (check r)) (\<lambda>e.
       case e of Some _ \<Rightarrow> pure e
       | None \<Rightarrow> tbind (plain (call R kPm ''ackPendingAction'' [JStr name])) (\<lambda>r. lift (check r)))))"

definition closeGate :: "'c runtime \<Rightarrow> op \<Rightarrow> string \<Rightarrow> ('c, unit) hosted" where
  "closeGate R k name = do {
     _ \<leftarrow> (case k of
         Install \<Rightarrow> call R kPm ''cancelInstall'' [JStr name]
       | Upgrade \<Rightarrow> call R kPm ''cancelUpgrade'' [JStr name, JStr []]
       | Remove \<Rightarrow> call R kPm ''cancelUninstall'' [JStr name]);
     State_Monad.return () }"

text \<open>A failed step: the plan's document with the step and its reason.\<close>

definition fail_with :: "fields \<Rightarrow> string \<Rightarrow> string \<Rightarrow> json" where
  "fail_with result step message = JObj (put_all
     [(''status'', JStr ''error''), (''failed_step'', JStr step), (''error'', JStr message)] result)"

definition obj_fields :: "json \<Rightarrow> fields" where
  "obj_fields j = (case j of JObj kvs \<Rightarrow> kvs | _ \<Rightarrow> [])"

definition confirm :: "'c runtime \<Rightarrow> op \<Rightarrow> string \<Rightarrow> ('c, json \<times> string) hosted" where
  "confirm R k name = (if k = Upgrade then call R kPm ''confirmUpgrade'' [JStr name, JStr []]
     else call R kPm ''confirmInstall'' [JStr name])"

text \<open>The gated section of one package: open the gate, stop what it disturbs, confirm.\<close>

definition gated :: "'c runtime \<Rightarrow> op \<Rightarrow> fields \<Rightarrow> string list \<Rightarrow> string \<Rightarrow> string \<Rightarrow> ('c, exn + json + unit) hosted" where
  "gated R k result toRestore depChanges name =
     tbind (openGate R k name depChanges) (\<lambda>e. case e of
       Some t \<Rightarrow> pure (Inl (fail_with result ''request'' t))
     | None \<Rightarrow>
       tbind (plain (each_unit (\<lambda>m. unload_module R m True) toRestore)) (\<lambda>_.
       tbind (plain (confirm R k name)) (\<lambda>r.
       tbind (lift (check r)) (\<lambda>e. case e of
         Some t \<Rightarrow> tbind (plain (closeGate R k name)) (\<lambda>_. pure (Inl (fail_with result ''confirm'' t)))
       | None \<Rightarrow> pure (Inr ())))))"

text \<open>\<open>installPlugin\<close>: \<open>Inl\<close> is the text of the failure.\<close>

definition install_plugin :: "'c runtime \<Rightarrow> string \<Rightarrow> ('c, exn + string + unit) hosted" where
  "install_plugin R path = tbind (plain (call R kPm ''installPlugin'' [JStr path, JBool False])) (\<lambda>(ins, why).
     if \<not> is_object ins then pure (Inl (withReason ''package_manager did not respond'' why))
     else tbind (lift (jvalue get_str ins ''error'' [])) (\<lambda>e.
       if e \<noteq> [] then pure (Inl e) else pure (Inr ())))"

text \<open>Local files, one change at a time; the answer is the names installed.\<close>

fun apply_local ::
    "'c runtime \<Rightarrow> op \<Rightarrow> fields \<Rightarrow> string list \<Rightarrow> string \<Rightarrow> json list \<Rightarrow> ('c, exn + json + string list) hosted" where
  "apply_local R k result toRestore depChanges [] = pure (Inr [])"
| "apply_local R k result toRestore depChanges (c # cs) =
     tbind (lift (jvalue get_str c ''name'' [])) (\<lambda>name.
     tbind (lift (jvalue get_str c ''file'' [])) (\<lambda>f.
     xbind (gated R k result toRestore depChanges name) (\<lambda>_.
     tbind (install_plugin R f) (\<lambda>i. case i of
       Inl t \<Rightarrow> pure (Inl (fail_with result ''install'' t))
     | Inr _ \<Rightarrow> xbind (apply_local R k result toRestore depChanges cs) (\<lambda>ns. pure (Inr (name # ns)))))))"

fun gate_all ::
    "'c runtime \<Rightarrow> op \<Rightarrow> fields \<Rightarrow> string list \<Rightarrow> string \<Rightarrow> string list \<Rightarrow> ('c, exn + json + unit) hosted" where
  "gate_all R k result toRestore depChanges [] = pure (Inr ())"
| "gate_all R k result toRestore depChanges (n # ns) =
     xbind (gated R k result toRestore depChanges n) (\<lambda>_. gate_all R k result toRestore depChanges ns)"

text \<open>What the downloader fetched, installed one after the other.\<close>

fun install_downloaded :: "'c runtime \<Rightarrow> fields \<Rightarrow> json list \<Rightarrow> ('c, exn + json + string list) hosted" where
  "install_downloaded R result [] = pure (Inr [])"
| "install_downloaded R result (d # ds) =
     tbind (lift (if jcontains d ''error'' then jvalue get_str d ''error'' [] else Inr [])) (\<lambda>e.
     if e \<noteq> [] then
       tbind (lift (jvalue get_str d ''name'' ''?'')) (\<lambda>n. pure (Inl (fail_with result ''download'' (n @ '': '' @ e))))
     else tbind (lift (jvalue get_str d ''path'' [])) (\<lambda>path.
       if path = [] then install_downloaded R result ds
       else tbind (install_plugin R path) (\<lambda>i. case i of
         Inl t \<Rightarrow> tbind (lift (jvalue get_str d ''name'' ''?'')) (\<lambda>n. pure (Inl (fail_with result ''install'' (n @ '': '' @ t))))
       | Inr _ \<Rightarrow> tbind (lift (jvalue get_str d ''name'' [])) (\<lambda>n.
           xbind (install_downloaded R result ds) (\<lambda>ns. pure (Inr (n # ns)))))))"

definition apply_catalog ::
    "'c runtime \<Rightarrow> op \<Rightarrow> fields \<Rightarrow> string list \<Rightarrow> string \<Rightarrow> string list \<Rightarrow> options \<Rightarrow> ('c, exn + json + string list) hosted" where
  "apply_catalog R k result toRestore depChanges names opts =
     xbind (gate_all R k result toRestore depChanges names) (\<lambda>_.
     tbind (plain (installedPackages R)) (\<lambda>installed.
     tbind (lift (dependenciesJson R names opts)) (\<lambda>deps.
     tbind (lift (if op_withDeps opts then installedPackagesJson R installed else Inr [])) (\<lambda>inst.
     tbind (plain (call R kPd ''downloadResolvedDependencies'' [JStr deps, JStr inst])) (\<lambda>(downloaded, why).
       case downloaded of
         JArr ds \<Rightarrow> install_downloaded R result ds
       | _ \<Rightarrow> pure (Inl (fail_with result ''download''
           (withReason ''package_downloader did not return a download set'' why))))))))"

text \<open>Restarting what ran before.\<close>

fun restore :: "'c runtime \<Rightarrow> string list \<Rightarrow> ('c, string list) hosted" where
  "restore R [] = State_Monad.return []"
| "restore R (m # ms) = do {
     up \<leftarrow> load_module R m;
     rest \<leftarrow> restore R ms;
     State_Monad.return (if up then m # rest else rest) }"

definition remove_victims :: "'c runtime \<Rightarrow> fields \<Rightarrow> string list \<Rightarrow> json list \<Rightarrow> ('c, exn + json) hosted" where
  "remove_victims R result victims victimArgs =
     tbind (plain (call R kPm ''requestMultiUninstall'' victimArgs)) (\<lambda>r.
     tbind (lift (check r)) (\<lambda>e. case e of
       Some t \<Rightarrow> pure (fail_with result ''request'' t)
     | None \<Rightarrow>
       tbind (plain (call R kPm ''ackPendingAction'' [JStr (hd victims)])) (\<lambda>r.
       tbind (lift (check r)) (\<lambda>e. case e of
         Some t \<Rightarrow> tbind (plain (call R kPm ''cancelMultiUninstall'' victimArgs)) (\<lambda>_. pure (fail_with result ''ack'' t))
       | None \<Rightarrow>
         tbind (plain (each_unit (\<lambda>v. unload_module R v True) victims)) (\<lambda>_.
         tbind (plain (call R kPm ''confirmMultiUninstall'' victimArgs)) (\<lambda>r.
         tbind (lift (check r)) (\<lambda>e. case e of
           Some t \<Rightarrow> pure (fail_with result ''confirm'' t)
         | None \<Rightarrow> tbind (plain (refresh_modules R)) (\<lambda>_.
             pure (JObj (put_all [(''removed'', JArr (map JStr victims)), (''reloaded'', JArr [])] result))))))))))"

definition apply_remove :: "'c runtime \<Rightarrow> fields \<Rightarrow> json list \<Rightarrow> ('c, exn + json) hosted" where
  "apply_remove R result changes =
     tbind (lift (emap (\<lambda>c. jvalue get_str c ''name'' []) changes)) (\<lambda>victims.
     if victims = [] then pure (fail_with result ''plan'' ''nothing to remove'')
     else remove_victims R result victims [JArr (map JStr victims)])"

definition apply_install ::
    "'c runtime \<Rightarrow> op \<Rightarrow> fields \<Rightarrow> json list \<Rightarrow> string list \<Rightarrow> string \<Rightarrow> string list \<Rightarrow> options \<Rightarrow> ('c, exn + json) hosted" where
  "apply_install R k result changes toRestore depChanges names opts =
     tbind (if op_localFiles opts \<noteq> [] then apply_local R k result toRestore depChanges changes
            else apply_catalog R k result toRestore depChanges names opts) (\<lambda>r.
       case r of
         Inl envelope \<Rightarrow> pure envelope
       | Inr installedNow \<Rightarrow>
           tbind (plain (refresh_modules R)) (\<lambda>_.
           tbind (plain (restore R toRestore)) (\<lambda>reloaded.
             pure (JObj (put_all [(''installed'', JArr (map JStr installedNow)), (''reloaded'', JArr (map JStr reloaded))] result)))))"

definition arr_of :: "json option \<Rightarrow> json list" where
  "arr_of j = (case j of Some (JArr es) \<Rightarrow> es | _ \<Rightarrow> [])"

definition apply_op :: "'c runtime \<Rightarrow> op \<Rightarrow> string list \<Rightarrow> options \<Rightarrow> ('c, exn + json) hosted" where
  "apply_op R k names opts =
     tbind (plan R k names opts) (\<lambda>result.
     tbind (lift (jvalue get_str result ''status'' [])) (\<lambda>status.
     if status = ''error'' then pure result
     else
       tbind (lift (emap get_str (arr_of (jfind result ''affected_loaded'')))) (\<lambda>toRestore.
       tbind (lift (dump_text R (JArr (arr_of (jfind result ''changes''))))) (\<lambda>depChanges.
         if k = Remove then apply_remove R (obj_fields result) (arr_of (jfind result ''changes''))
         else apply_install R k (obj_fields result) (arr_of (jfind result ''changes'')) toRestore depChanges names opts))))"

section \<open>download\<close>

text \<open>Moving the file where it was asked for; \<open>Inl\<close> is the failure's text.\<close>

definition place_file :: "'c runtime \<Rightarrow> string \<Rightarrow> string \<Rightarrow> string \<Rightarrow> (string + string) io" where
  "place_file R name path dir = do {
     let to = path_append dir (filename path);
     if rt_same_dir R (parent_path path) dir then State_Monad.return (Inr path)
     else do {
       renamed \<leftarrow> rename path to;
       if renamed then State_Monad.return (Inr to)
       else do {
         w \<leftarrow> State_Monad.get;
         copied \<leftarrow> copy_file path to;
         if \<not> copied then State_Monad.return (Inl (''downloaded '' @ [CHR 39] @ name @ [CHR 39] @ '' to '' @ path
           @ '' but could not place it in '' @ dir @ '': '' @ rt_strerror R (w_tick w)))
         else do { _ \<leftarrow> remove_file path; State_Monad.return (Inr to) } } } }"

definition download :: "'c runtime \<Rightarrow> string \<Rightarrow> options \<Rightarrow> string \<Rightarrow> ('c, exn + json) hosted" where
  "download R name opts destDir =
     tbind (plain (call R kPd ''downloadPinned''
       [JStr (op_catalog opts), JStr name, JStr (op_version opts), JStr (op_rootHash opts)])) (\<lambda>(r, why).
     if \<not> is_object r then pure (err ''DOWNLOAD_FAILED'' (withReason ''package_downloader did not respond'' why))
     else
       tbind (lift (jvalue get_str r ''error'' [])) (\<lambda>e.
       tbind (lift (jvalue get_str r ''path'' [])) (\<lambda>path.
       if e \<noteq> [] \<or> path = []
       then pure (err ''DOWNLOAD_FAILED'' (if e = [] then ''could not download '' @ [CHR 39] @ name @ [CHR 39] else e))
       else (let dir = (if destDir = [] then downloadsDir (rt_cfg R) else destDir) in
         tbind (plain (on_world State_Monad.get)) (\<lambda>w.
         tbind (plain (on_world (mk_dirs dir))) (\<lambda>made.
         if \<not> made then pure (err ''DOWNLOAD_FAILED'' (''downloaded '' @ [CHR 39] @ name @ [CHR 39]
           @ '' but could not create '' @ dir @ '': '' @ rt_strerror R (w_tick w)))
         else tbind (plain (on_world (place_file R name path dir))) (\<lambda>p. case p of
           Inl t \<Rightarrow> pure (err ''DOWNLOAD_FAILED'' t)
         | Inr path \<Rightarrow> pure (mk_obj [(''status'', JStr ''ok''),
             (''result'', JObj (put_all (obj_fields r @ [(''path'', JStr path)]) []))]))))))))"

end
