(* ===== verification/Arg_Coerce.thy ===== *)
theory Arg_Coerce
  imports Json String_Utils Json_Schema
begin

text \<open>
  \<open>src/src/client/commands/arg_coerce.cpp\<close>: the type a command-line argument gets. The index
  \<open>i\<close> of the code is the unread rest of the text here. \<open>std::stoll\<close>, \<open>std::stoull\<close> and
  \<open>std::stod\<close> are written out (base ten, glibc): the value and the number of characters read,
  \<open>None\<close> when they throw.
\<close>

section \<open>isDecimalNumber\<close>

definition is_sign :: "char \<Rightarrow> bool" where
  "is_sign c \<longleftrightarrow> c = CHR ''+'' \<or> c = CHR ''-''"

definition skip_sign :: "string \<Rightarrow> string" where
  "skip_sign s = (if s \<noteq> [] \<and> is_sign (hd s) then tl s else s)"

text \<open>A digit loop: how many it passed and what is left.\<close>

fun skip_digits :: "string \<Rightarrow> nat \<times> string" where
  "skip_digits [] = (0, [])"
| "skip_digits (c # cs) = (if is_digit c then (case skip_digits cs of (n, r) \<Rightarrow> (Suc n, r)) else (0, c # cs))"

definition isDecimalNumber :: "string \<Rightarrow> bool" where
  "isDecimalNumber text =
    (case skip_digits (skip_sign text) of (intDigits, r) \<Rightarrow>
     case (if r \<noteq> [] \<and> hd r = CHR ''.'' then skip_digits (tl r) else (0, r)) of (fracDigits, r) \<Rightarrow>
       if intDigits = 0 \<and> fracDigits = 0 then False
       else if r \<noteq> [] \<and> (hd r = CHR ''e'' \<or> hd r = CHR ''E'')
       then (case skip_digits (skip_sign (tl r)) of (expDigits, r) \<Rightarrow>
               if expDigits = 0 then False else r = [])
       else r = [])"

section \<open>The number parsers of the standard library\<close>

definition stoll :: "string \<Rightarrow> (int \<times> nat) option" where
  "stoll s = (case skip_digits (skip_sign s) of (n, r) \<Rightarrow>
     let ds = take n (skip_sign s);
         v = (if s \<noteq> [] \<and> hd s = CHR ''-'' then - int (read_nat ds) else int (read_nat ds))
     in if n = 0 \<or> v < int64_min \<or> v > int64_max then None else Some (v, length s - length r))"

text \<open>\<open>strtoull\<close> negates modulo \<open>2^64\<close> after a minus sign.\<close>

definition uint64_max :: int where "uint64_max = 2 ^ 64 - 1"

definition stoull :: "string \<Rightarrow> (int \<times> nat) option" where
  "stoull s = (case skip_digits (skip_sign s) of (n, r) \<Rightarrow>
     let ds = take n (skip_sign s); v = int (read_nat ds)
     in if n = 0 \<or> v > uint64_max then None
        else Some (if s \<noteq> [] \<and> hd s = CHR ''-'' then (- v) mod 2 ^ 64 else v, length s - length r))"

text \<open>
  \<open>std::stod\<close> on a decimal literal: the value \<open>m * 10 ^ x\<close> rounded to the nearest double, ties to
  even. It throws when the result overflows, and when it is tiny and inexact (\<open>ERANGE\<close>).
\<close>

fun bitlen :: "nat \<Rightarrow> nat" where
  "bitlen n = (if n = 0 then 0 else Suc (bitlen (n div 2)))"

declare bitlen.simps [simp del]

definition scaled :: "nat \<Rightarrow> nat \<Rightarrow> int \<Rightarrow> nat \<times> nat" where
  "scaled n d k = (if 0 \<le> k then (n, d * 2 ^ nat k) else (n * 2 ^ nat (- k), d))"

definition round_even :: "nat \<Rightarrow> nat \<Rightarrow> nat" where
  "round_even a b = (let q = a div b; r = a mod b
     in if 2 * r < b then q else if 2 * r > b then Suc q else if even q then q else Suc q)"

text \<open>The exponent at which \<open>n / d\<close> has 53 bits.\<close>

definition expo53 :: "nat \<Rightarrow> nat \<Rightarrow> int" where
  "expo53 n d = (let g = int (bitlen n) - int (bitlen d) - 53
     in case scaled n d g of (a, b) \<Rightarrow> if a div b \<ge> 2 ^ 53 then g + 1 else if a div b < 2 ^ 52 then g - 1 else g)"

definition nearest_double :: "nat \<Rightarrow> nat \<Rightarrow> nat option" where
  "nearest_double n d =
    (if n = 0 then Some 0
     else let k = expo53 n d; kk = max k (- 1074);
              (a, b) = scaled n d kk; q = round_even a b;
              tiny = (k < - 1074 \<and> \<not> (k = - 1075 \<and> (case scaled n d k of (c, e) \<Rightarrow> round_even c e = 2 ^ 53)));
              (q, kk) = (if q = 2 ^ 53 then (2 ^ 52, kk + 1) else (q, kk))
          in if tiny \<and> a mod b \<noteq> 0 then None
             else if q < 2 ^ 52 then Some q
             else if kk + 1075 \<ge> 2047 then None
             else Some (nat (kk + 1075) * 2 ^ 52 + (q - 2 ^ 52)))"

definition stod :: "string \<Rightarrow> (64 word \<times> nat) option" where
  "stod s = (case skip_digits (skip_sign s) of (i, r) \<Rightarrow>
     let ip = take i (skip_sign s);
         (f, r1) = (if r \<noteq> [] \<and> hd r = CHR ''.'' then skip_digits (tl r) else (0, r));
         fp = (if r \<noteq> [] \<and> hd r = CHR ''.'' then take f (tl r) else []);
         (x, r2) = (if r1 \<noteq> [] \<and> (hd r1 = CHR ''e'' \<or> hd r1 = CHR ''E'')
           then (case skip_digits (skip_sign (tl r1)) of (e, r3) \<Rightarrow>
              if e = 0 then (0, r1)
              else let v = int (read_nat (take e (skip_sign (tl r1))))
                   in (if hd (tl r1) = CHR ''-'' then - v else v, r3))
           else (0, r1));
         p = x - int f; m = read_nat (ip @ fp)
     in if i = 0 \<and> f = 0 then None
        else (case (if 0 \<le> p then nearest_double (m * 10 ^ nat p) 1 else nearest_double m (10 ^ nat (- p))) of
            None \<Rightarrow> None
          | Some b \<Rightarrow> Some (of_nat (if s \<noteq> [] \<and> hd s = CHR ''-'' then 2 ^ 63 + b else b), length s - length r2)))"

section \<open>scalar\<close>

definition scalar :: "string \<Rightarrow> json" where
  "scalar text =
    (if text = ''true'' then JBool True
     else if text = ''false'' then JBool False
     else (let num = trim text
       in if \<not> isDecimalNumber num then JStr text
       else case (case stoll num of Some (v, pos) \<Rightarrow> if pos = length num then Some v else None | None \<Rightarrow> None) of
           Some v \<Rightarrow> JInt v
         | None \<Rightarrow>
         (case (if hd num \<noteq> CHR ''-''
                then (case stoull num of Some (v, pos) \<Rightarrow> if pos = length num then Some v else None | None \<Rightarrow> None)
                else None) of
             Some v \<Rightarrow> JUInt v
           | None \<Rightarrow>
           (case (case stod num of Some (v, pos) \<Rightarrow> if pos = length num then Some v else None | None \<Rightarrow> None) of
               Some v \<Rightarrow> JFloat v
             | None \<Rightarrow> JStr text))))"

section \<open>The grammar\<close>

lemma skip_digits_split:
  "skip_digits s = (n, r) \<longleftrightarrow> (\<exists>ds. s = ds @ r \<and> length ds = n \<and> (\<forall>c \<in> set ds. is_digit c) \<and> (r = [] \<or> \<not> is_digit (hd r)))"
proof (induction s arbitrary: n r)
  case (Cons c cs)
  show ?case
  proof (cases "is_digit c")
    case True
    obtain m q where mq: "skip_digits cs = (m, q)" by fastforce
    have "(\<exists>ds. c # cs = ds @ r \<and> length ds = n \<and> (\<forall>c \<in> set ds. is_digit c) \<and> (r = [] \<or> \<not> is_digit (hd r)))
      \<longleftrightarrow> (\<exists>k. n = Suc k \<and> skip_digits cs = (k, r))" (is "?L \<longleftrightarrow> ?R")
    proof
      assume ?L
      then obtain ds where ds: "c # cs = ds @ r" "length ds = n" "\<forall>c \<in> set ds. is_digit c" "r = [] \<or> \<not> is_digit (hd r)"
        by blast
      then obtain es where "ds = c # es" using True by (cases ds) auto
      with ds show ?R using Cons.IH [of "length es" r] by auto
    next
      assume ?R
      then obtain k ds where "n = Suc k" "cs = ds @ r" "length ds = k" "\<forall>c \<in> set ds. is_digit c" "r = [] \<or> \<not> is_digit (hd r)"
        using Cons.IH by auto
      then show ?L using True by (intro exI [of _ "c # ds"]) auto
    qed
    then show ?thesis using True mq by auto
  next
    case False
    have "(\<exists>ds. c # cs = ds @ r \<and> length ds = n \<and> (\<forall>c \<in> set ds. is_digit c) \<and> (r = [] \<or> \<not> is_digit (hd r)))
      \<longleftrightarrow> n = 0 \<and> r = c # cs"
    proof
      assume "\<exists>ds. c # cs = ds @ r \<and> length ds = n \<and> (\<forall>c \<in> set ds. is_digit c) \<and> (r = [] \<or> \<not> is_digit (hd r))"
      then obtain ds where ds: "c # cs = ds @ r" "length ds = n" "\<forall>c \<in> set ds. is_digit c" by blast
      then have "ds = []" using False by (cases ds) auto
      with ds show "n = 0 \<and> r = c # cs" by simp
    qed (use False in simp)
    then show ?thesis using False by auto
  qed
qed auto

lemma skip_digits_append:
  "\<forall>c \<in> set ds. is_digit c \<Longrightarrow> r = [] \<or> \<not> is_digit (hd r) \<Longrightarrow> skip_digits (ds @ r) = (length ds, r)"
  unfolding skip_digits_split by blast

text \<open>
  The documented grammar: an optional sign, digits with an optional fractional part (not both
  empty) and an optional exponent of at least one digit.
\<close>

definition opt_sign :: "string \<Rightarrow> bool" where
  "opt_sign s \<longleftrightarrow> s = [] \<or> s = ''+'' \<or> s = ''-''"

definition digits :: "string \<Rightarrow> bool" where
  "digits s \<longleftrightarrow> (\<forall>c \<in> set s. is_digit c)"

definition decimal_literal :: "string \<Rightarrow> bool" where
  "decimal_literal s \<longleftrightarrow> (\<exists>sg ip fp ex. s = sg @ ip @ fp @ ex \<and> opt_sign sg \<and> digits ip
     \<and> (fp = [] \<and> ip \<noteq> [] \<or> (\<exists>fs. fp = CHR ''.'' # fs \<and> digits fs \<and> (ip \<noteq> [] \<or> fs \<noteq> [])))
     \<and> (ex = [] \<or> (\<exists>e es ed. ex = e # es @ ed \<and> (e = CHR ''e'' \<or> e = CHR ''E'') \<and> opt_sign es \<and> digits ed \<and> ed \<noteq> [])))"

lemma not_digit [simp]: "\<not> is_digit (CHR ''.'')" "\<not> is_digit (CHR ''e'')" "\<not> is_digit (CHR ''E'')"
  "\<not> is_digit (CHR ''+'')" "\<not> is_digit (CHR ''-'')"
  by (simp_all add: is_digit_def)

lemma skip_sign_split: "\<exists>sg. s = sg @ skip_sign s \<and> opt_sign sg"
  by (cases s) (auto simp: skip_sign_def is_sign_def opt_sign_def)

lemma skip_sign_append: "opt_sign sg \<Longrightarrow> s = [] \<or> \<not> is_sign (hd s) \<Longrightarrow> skip_sign (sg @ s) = s"
  by (cases s) (auto simp: skip_sign_def opt_sign_def is_sign_def)

lemma digits_not_sign: "digits ds \<Longrightarrow> ds \<noteq> [] \<Longrightarrow> \<not> is_sign (hd ds)"
  by (cases ds) (auto simp: digits_def is_sign_def)

lemma skip_digits_iff:
  "skip_digits s = (n, r) \<longleftrightarrow> (\<exists>ds. s = ds @ r \<and> length ds = n \<and> digits ds \<and> (r = [] \<or> \<not> is_digit (hd r)))"
  by (simp add: skip_digits_split digits_def)

lemma skip_digits_of: "digits ds \<Longrightarrow> r = [] \<or> \<not> is_digit (hd r) \<Longrightarrow> skip_digits (ds @ r) = (length ds, r)"
  by (simp add: skip_digits_append digits_def)

lemma skip_digits_all: "digits ds \<Longrightarrow> skip_digits ds = (length ds, [])"
  using skip_digits_of [of ds "[]"] by simp

text \<open>The two tails of a literal: its exponent, and its fraction with the exponent.\<close>

definition exponent_text :: "string \<Rightarrow> bool" where
  "exponent_text r \<longleftrightarrow> r = [] \<or> (\<exists>e es ed. r = e # es @ ed \<and> (e = CHR ''e'' \<or> e = CHR ''E'') \<and> opt_sign es \<and> digits ed \<and> ed \<noteq> [])"

lemma exponent_scan:
  "(if r \<noteq> [] \<and> (hd r = CHR ''e'' \<or> hd r = CHR ''E'')
    then (case skip_digits (skip_sign (tl r)) of (n, q) \<Rightarrow> if n = 0 then False else q = []) else r = [])
   \<longleftrightarrow> exponent_text r" (is "?scan \<longleftrightarrow> _")
proof
  assume scan: ?scan
  show "exponent_text r"
  proof (cases r)
    case (Cons e t)
    obtain n q where sk: "skip_digits (skip_sign t) = (n, q)" by fastforce
    from scan Cons sk have e: "e = CHR ''e'' \<or> e = CHR ''E''" and n: "n \<noteq> 0" "q = []"
      by (auto split: if_splits)
    from sk n obtain ed where ed: "skip_sign t = ed" "digits ed" "ed \<noteq> []"
      by (auto simp: skip_digits_iff)
    obtain es where "t = es @ skip_sign t" "opt_sign es" using skip_sign_split by blast
    with ed e Cons show ?thesis unfolding exponent_text_def by blast
  qed (simp add: exponent_text_def)
next
  assume "exponent_text r"
  then consider "r = []" | e es ed where "r = e # es @ ed" "e = CHR ''e'' \<or> e = CHR ''E''" "opt_sign es" "digits ed" "ed \<noteq> []"
    unfolding exponent_text_def by blast
  then show ?scan
    by cases (simp_all add: skip_sign_append digits_not_sign skip_digits_all)
qed

lemma if_False_else: "(if P then False else Q) = (\<not> P \<and> Q)"
  by simp

lemma isDecimalNumber_alt:
  "isDecimalNumber text = (case skip_digits (skip_sign text) of (i, r) \<Rightarrow>
     case (if r \<noteq> [] \<and> hd r = CHR ''.'' then skip_digits (tl r) else (0, r)) of (f, q) \<Rightarrow>
       \<not> (i = 0 \<and> f = 0) \<and> exponent_text q)"
  by (simp only: isDecimalNumber_def exponent_scan [symmetric] if_False_else)

lemma exponent_text_head: "exponent_text r \<Longrightarrow> r = [] \<or> hd r \<noteq> CHR ''.'' \<and> \<not> is_digit (hd r) \<and> \<not> is_sign (hd r)"
  by (auto simp: exponent_text_def is_sign_def)

lemma decimal_literal_alt:
  "decimal_literal s \<longleftrightarrow> (\<exists>sg ip fp ex. s = sg @ ip @ fp @ ex \<and> opt_sign sg \<and> digits ip
     \<and> (fp = [] \<and> ip \<noteq> [] \<or> (\<exists>fs. fp = CHR ''.'' # fs \<and> digits fs \<and> (ip \<noteq> [] \<or> fs \<noteq> []))) \<and> exponent_text ex)"
  by (simp add: decimal_literal_def exponent_text_def)

lemma isDecimalNumber_sound:
  assumes "isDecimalNumber s"
  shows "decimal_literal s"
proof -
  obtain i r where ir: "skip_digits (skip_sign s) = (i, r)" by fastforce
  then obtain ip where ip: "skip_sign s = ip @ r" "length ip = i" "digits ip" by (auto simp: skip_digits_iff)
  obtain sg where sg: "s = sg @ skip_sign s" "opt_sign sg" using skip_sign_split by blast
  show ?thesis
  proof (cases "r \<noteq> [] \<and> hd r = CHR ''.''")
    case True
    then obtain t where r: "r = CHR ''.'' # t" by (cases r) auto
    obtain f q where fq: "skip_digits t = (f, q)" by fastforce
    then obtain fs where fs: "t = fs @ q" "length fs = f" "digits fs" by (auto simp: skip_digits_iff)
    from assms ir fq r have "\<not> (i = 0 \<and> f = 0)" "exponent_text q" by (simp_all add: isDecimalNumber_alt)
    then show ?thesis unfolding decimal_literal_alt using ip sg fs r
      by (intro exI [of _ sg] exI [of _ ip] exI [of _ "CHR ''.'' # fs"] exI [of _ q]) auto
  next
    case False
    with assms ir have "i \<noteq> 0" "exponent_text r" by (auto simp: isDecimalNumber_alt)
    then show ?thesis unfolding decimal_literal_alt using ip sg
      by (intro exI [of _ sg] exI [of _ ip] exI [of _ "[]"] exI [of _ r]) auto
  qed
qed

lemma isDecimalNumber_complete:
  assumes "decimal_literal s"
  shows "isDecimalNumber s"
proof -
  from assms obtain sg ip fp ex where s: "s = sg @ ip @ fp @ ex" "opt_sign sg" "digits ip" "exponent_text ex"
    and fp: "fp = [] \<and> ip \<noteq> [] \<or> (\<exists>fs. fp = CHR ''.'' # fs \<and> digits fs \<and> (ip \<noteq> [] \<or> fs \<noteq> []))"
    unfolding decimal_literal_alt by blast
  note ex = exponent_text_head [OF s(4)]
  have "ip @ fp @ ex = [] \<or> \<not> is_sign (hd (ip @ fp @ ex))"
    using s(3) fp by (cases ip) (auto simp: is_sign_def digits_def)
  then have sk: "skip_sign s = ip @ fp @ ex" using s by (simp add: skip_sign_append)
  have "skip_digits (ip @ fp @ ex) = (length ip, fp @ ex)"
    using s(3) ex fp by (intro skip_digits_of) auto
  moreover have "digits fs \<Longrightarrow> skip_digits (fs @ ex) = (length fs, ex)" for fs
    using ex by (intro skip_digits_of) auto
  ultimately show ?thesis using fp ex s(4) sk by (auto simp: isDecimalNumber_alt)
qed

lemma isDecimalNumber_iff: "isDecimalNumber s \<longleftrightarrow> decimal_literal s"
  using isDecimalNumber_sound isDecimalNumber_complete by blast

text \<open>
  C13: The hand-written scanner \<open>isDecimalNumber\<close> accepts exactly the documented grammar: an
  optional sign, digits with an optional fraction (at least one digit in all) and an optional
  exponent with at least one digit, and nothing else on either side.
\<close>

theorem isDecimalNumber_grammar: "isDecimalNumber s \<longleftrightarrow> decimal_literal s"
  by (rule isDecimalNumber_iff)

section \<open>What scalar answers\<close>

text \<open>A signed digit string and the integer it denotes.\<close>

definition int_literal :: "string \<Rightarrow> int \<Rightarrow> bool" where
  "int_literal s v \<longleftrightarrow> (\<exists>sg ds. s = sg @ ds \<and> opt_sign sg \<and> digits ds \<and> ds \<noteq> []
     \<and> v = (if sg = ''-'' then - int (read_nat ds) else int (read_nat ds)))"

lemma int_literal_decimal: "int_literal s v \<Longrightarrow> decimal_literal s"
  unfolding int_literal_def decimal_literal_def by force

lemma int_literal_iff:
  "int_literal s v \<longleftrightarrow> (\<exists>n. skip_digits (skip_sign s) = (n, []) \<and> n \<noteq> 0
     \<and> v = (if s \<noteq> [] \<and> hd s = CHR ''-'' then - int (read_nat (skip_sign s)) else int (read_nat (skip_sign s))))"
  (is "_ \<longleftrightarrow> ?R")
proof
  assume "int_literal s v"
  then obtain sg ds where s: "s = sg @ ds" "opt_sign sg" "digits ds" "ds \<noteq> []"
    and v: "v = (if sg = ''-'' then - int (read_nat ds) else int (read_nat ds))"
    unfolding int_literal_def by blast
  have "skip_sign s = ds" using s by (simp add: skip_sign_append digits_not_sign)
  moreover have "(s \<noteq> [] \<and> hd s = CHR ''-'') = (sg = ''-'')"
    using s(1,2,4) digits_not_sign [OF s(3,4)] by (auto simp: opt_sign_def is_sign_def)
  ultimately show ?R using v by (simp add: skip_digits_all [OF s(3)] s(4))
next
  assume ?R
  then obtain n where n: "skip_digits (skip_sign s) = (n, [])" "n \<noteq> 0"
    and v: "v = (if s \<noteq> [] \<and> hd s = CHR ''-'' then - int (read_nat (skip_sign s)) else int (read_nat (skip_sign s)))" by blast
  from n have ds: "digits (skip_sign s)" "skip_sign s \<noteq> []" by (auto simp: skip_digits_iff)
  obtain sg where sg: "s = sg @ skip_sign s" "opt_sign sg" using skip_sign_split by blast
  obtain ds' where ds': "skip_sign s = ds'" by blast
  have sg_cases: "sg = [] \<and> s = ds' \<or> sg = ''+'' \<and> s = CHR ''+'' # ds' \<or> sg = ''-'' \<and> s = CHR ''-'' # ds'"
    using sg unfolding ds' opt_sign_def by (elim disjE) auto
  have "(s \<noteq> [] \<and> hd s = CHR ''-'') = (sg = ''-'')"
    using sg_cases ds(2) digits_not_sign [OF ds] unfolding ds' by (elim disjE) (auto simp: is_sign_def)
  with ds sg v show "int_literal s v" unfolding int_literal_def by metis
qed

lemma skip_digits_length: "skip_digits s = (n, r) \<Longrightarrow> length s = n + length r"
  by (auto simp: skip_digits_iff)

lemma skip_sign_length: "length (skip_sign s) \<le> length s"
  by (simp add: skip_sign_def)

lemma whole_text:
  "skip_digits (skip_sign s) = (n, r) \<Longrightarrow> n \<noteq> 0 \<Longrightarrow> length s - length r = length s \<longleftrightarrow> r = []"
  using skip_digits_length [of "skip_sign s" n r] skip_sign_length [of s] by (cases r) auto

lemma stoll_whole:
  "stoll s = Some (v, length s) \<longleftrightarrow> int_literal s v \<and> int64_min \<le> v \<and> v \<le> int64_max"
proof -
  obtain n r where nr: "skip_digits (skip_sign s) = (n, r)" by fastforce
  show ?thesis
  proof (cases "n \<noteq> 0 \<and> r = []")
    case True
    then have "take n (skip_sign s) = skip_sign s" using nr by (simp add: skip_digits_length)
    with True nr show ?thesis by (auto simp: stoll_def int_literal_iff Let_def)
  next
    case False
    with nr whole_text [OF nr] show ?thesis by (auto simp: stoll_def int_literal_iff Let_def)
  qed
qed

lemma stoull_whole:
  "s = [] \<or> hd s \<noteq> CHR ''-'' \<Longrightarrow> stoull s = Some (v, length s) \<longleftrightarrow> int_literal s v \<and> v \<le> uint64_max"
proof -
  assume plain: "s = [] \<or> hd s \<noteq> CHR ''-''"
  obtain n r where nr: "skip_digits (skip_sign s) = (n, r)" by fastforce
  show ?thesis
  proof (cases "n \<noteq> 0 \<and> r = []")
    case True
    then have "take n (skip_sign s) = skip_sign s" using nr by (simp add: skip_digits_length)
    with True nr plain show ?thesis by (auto simp: stoull_def int_literal_iff Let_def)
  next
    case False
    with nr whole_text [OF nr] plain show ?thesis by (auto simp: stoull_def int_literal_iff Let_def)
  qed
qed

lemma int_literal_minus: "int_literal s v \<Longrightarrow> s \<noteq> [] \<Longrightarrow> hd s = CHR ''-'' \<Longrightarrow> v \<le> 0"
  by (auto simp: int_literal_iff)

text \<open>The guard the three parsers share: the whole text, or the next type.\<close>

lemma whole_case:
  "(case (case r of Some (v, pos) \<Rightarrow> if pos = n then Some v else None | None \<Rightarrow> None) of Some v \<Rightarrow> f v | None \<Rightarrow> g)
   = (if \<exists>v. r = Some (v, n) then f (fst (the r)) else g)"
  by (cases r) auto

lemma scalar_steps:
  assumes "text \<noteq> ''true''" "text \<noteq> ''false''" "decimal_literal (trim text)"
  shows "(\<exists>v. int_literal (trim text) v \<and> int64_min \<le> v \<and> v \<le> int64_max \<and> scalar text = JInt v)
    \<or> (\<exists>v. int_literal (trim text) v \<and> int64_max < v \<and> v \<le> uint64_max \<and> scalar text = JUInt v)
    \<or> (\<forall>v. int_literal (trim text) v \<longrightarrow> v < int64_min \<or> uint64_max < v) \<and> ((\<exists>d. scalar text = JFloat d) \<or> scalar text = JStr text)"
proof -
  let ?s = "trim text"
  have num: "isDecimalNumber ?s" using assms by (simp add: isDecimalNumber_iff)
  have ne: "?s \<noteq> []" using num by (auto simp: isDecimalNumber_def skip_sign_def)
  show ?thesis
  proof (cases "\<exists>v. stoll ?s = Some (v, length ?s)")
    case True
    then obtain v where v: "stoll ?s = Some (v, length ?s)" by blast
    then have "scalar text = JInt v" using assms num by (simp add: scalar_def whole_case)
    with v show ?thesis by (auto simp: stoll_whole)
  next
    case nos: False
    let ?last = "case (case stod ?s of Some (v, pos) \<Rightarrow> if pos = length ?s then Some v else None | None \<Rightarrow> None) of
               Some v \<Rightarrow> JFloat v | None \<Rightarrow> JStr text"
    have last: "(\<exists>d. ?last = JFloat d) \<or> ?last = JStr text" by (auto split: option.split)
    show ?thesis
    proof (cases "hd ?s \<noteq> CHR ''-'' \<and> (\<exists>v. stoull ?s = Some (v, length ?s))")
      case True
      then obtain v where v: "hd ?s \<noteq> CHR ''-''" "stoull ?s = Some (v, length ?s)" by blast
      then have sc: "scalar text = JUInt v" using assms num nos by (simp add: scalar_def whole_case Let_def)
      have lit: "int_literal ?s v" "v \<le> uint64_max" using v by (simp_all add: stoull_whole)
      moreover have "0 \<le> v" using lit v(1) by (auto simp: int_literal_iff)
      moreover have "\<not> (int64_min \<le> v \<and> v \<le> int64_max)" using lit nos stoll_whole by blast
      ultimately have "int64_max < v" by (auto simp: int64_min_def)
      with sc lit show ?thesis by blast
    next
      case False
      have sc: "scalar text = ?last" using assms num nos False
        by (cases "hd ?s = CHR ''-''") (simp_all add: scalar_def whole_case Let_def)
      have "v < int64_min \<or> uint64_max < v" if lit: "int_literal ?s v" for v
      proof (rule ccontr)
        assume "\<not> ?thesis"
        then have in_range: "int64_min \<le> v" "v \<le> uint64_max" by simp_all
        with nos lit have big: "int64_max < v" using stoll_whole by force
        then have "hd ?s \<noteq> CHR ''-''" using int_literal_minus [OF lit ne] by (auto simp: int64_max_def)
        with False lit in_range show False using stoull_whole by blast
      qed
      then show ?thesis using sc last by metis
    qed
  qed
qed

lemma int_literal_unique: "int_literal s v \<Longrightarrow> int_literal s w \<Longrightarrow> v = w"
  by (auto simp: int_literal_iff)

lemma scalar_word: "scalar ''true'' = JBool True" "scalar ''false'' = JBool False"
  by (simp_all add: scalar_def)

lemma words_not_decimal: "\<not> decimal_literal (trim ''true'')" "\<not> decimal_literal (trim ''false'')"
  unfolding isDecimalNumber_iff [symmetric] by (code_simp+)

lemma scalar_not_decimal: "text \<noteq> ''true'' \<Longrightarrow> text \<noteq> ''false'' \<Longrightarrow> \<not> decimal_literal (trim text) \<Longrightarrow> scalar text = JStr text"
  by (simp add: scalar_def isDecimalNumber_iff [symmetric])



end
