(* ===== verification/Core_Service.thy ===== *)
theory Core_Service
  imports Package_Ops Arg_Coerce
begin

text \<open>
  \<open>src/src/core_service/core_service_impl.cpp\<close> and \<open>core_service_dispatch.cpp\<close>: the service every
  client talks to. \<open>getModulesInfo\<close> is read through the text library; \<open>entry["metadata"]\<close> on a
  constant object without that key is undefined behaviour in the code, and the model ends the
  operation there with an error.
\<close>

section \<open>Helpers\<close>

record logos_result =
  lr_success :: bool
  lr_value :: json
  lr_error :: string

definition getKnownModuleNames :: "'c runtime \<Rightarrow> ('c, string list) hosted" where
  "getKnownModuleNames R = ask (rt_known R)"

definition getLoadedModuleNames :: "'c runtime \<Rightarrow> ('c, string list) hosted" where
  "getLoadedModuleNames R = ask (rt_loaded R)"

definition containsName :: "string list \<Rightarrow> string \<Rightarrow> bool" where
  "containsName v name \<longleftrightarrow> List.member v name"

definition uptimeSecondsFor :: "'c runtime \<Rightarrow> json \<Rightarrow> ('c, exn + int) hosted" where
  "uptimeSecondsFor R entry =
     tbind (lift (jvalue get_bool entry ''loaded'' False)) (\<lambda>loaded.
     if \<not> loaded then pure (- 1)
     else tbind (lift (jvalue get_int64 entry ''loaded_at'' 0)) (\<lambda>loadedAt.
       if loadedAt \<le> 0 then pure (- 1)
       else tbind (plain (ask (\<lambda>c. (rt_clock R c, c)))) (\<lambda>t.
         pure (if t - loadedAt < 0 then 0 else t - loadedAt))))"

definition getModulesInfo :: "'c runtime \<Rightarrow> ('c, json list) hosted" where
  "getModulesInfo R = do {
     text \<leftarrow> ask (rt_info R);
     State_Monad.return (case (case text of None \<Rightarrow> None | Some s \<Rightarrow> jl_parse (rt_json R) s) of
         Some (JArr es) \<Rightarrow> es | _ \<Rightarrow> []) }"

definition meta_version :: "json \<Rightarrow> exn + string" where
  "meta_version meta = (if is_object meta then jvalue get_str meta ''version'' [] else Inr [])"

definition const_meta :: "json \<Rightarrow> exn + json" where
  "const_meta entry = (case jfind entry ''metadata'' of
      Some m \<Rightarrow> Inr m | None \<Rightarrow> Inl (Runtime_Error ''operator[] on a missing key''))"

fun version_in :: "string \<Rightarrow> json list \<Rightarrow> exn + string" where
  "version_in name [] = Inr []"
| "version_in name (e # es) = ebind (jvalue get_str e ''name'' []) (\<lambda>n.
     if n = name then ebind (const_meta e) meta_version else version_in name es)"

definition getModuleVersion :: "'c runtime \<Rightarrow> string \<Rightarrow> ('c, exn + string) hosted" where
  "getModuleVersion R name = do { es \<leftarrow> getModulesInfo R; State_Monad.return (version_in name es) }"

section \<open>Module lifecycle\<close>

definition error_value :: "string \<Rightarrow> string \<Rightarrow> fields" where
  "error_value code message = [(''status'', JStr ''error''), (''code'', JStr code), (''message'', JStr message)]"

definition quoted :: "string \<Rightarrow> string" where
  "quoted s = [CHR 39] @ s @ [CHR 39]"

definition refused :: "fields \<Rightarrow> string \<Rightarrow> logos_result" where
  "refused fs message = \<lparr>lr_success = False, lr_value = mk_obj fs, lr_error = message\<rparr>"

definition granted :: "json \<Rightarrow> logos_result" where
  "granted v = \<lparr>lr_success = True, lr_value = v, lr_error = []\<rparr>"

definition optional_field :: "'c runtime \<Rightarrow> string option \<Rightarrow> exn + fields" where
  "optional_field R report = (case report of
      None \<Rightarrow> Inr []
    | Some text \<Rightarrow>
        if text \<noteq> ''[]'' \<and> text \<noteq> [] then
          (case jl_parse (rt_json R) text of
             None \<Rightarrow> Inl (Parse_Error ''optional load report'')
           | Some j \<Rightarrow> Inr [(''optional_skipped'', j)])
        else Inr [])"

definition loadModule :: "'c runtime \<Rightarrow> string \<Rightarrow> ('c, exn + logos_result) hosted" where
  "loadModule R name =
     tbind (plain (getLoadedModuleNames R)) (\<lambda>before.
     tbind (plain (load_module R name)) (\<lambda>ok.
     if \<not> ok then
       tbind (plain (getKnownModuleNames R)) (\<lambda>known.
         pure (refused (error_value ''MODULE_LOAD_FAILED'' (''Failed to load module '' @ quoted name @ ''.'')
           @ [(''known_modules'', JArr (map JStr known))]) (''Failed to load module '' @ quoted name @ ''.'')))
     else
       tbind (plain (getLoadedModuleNames R)) (\<lambda>after.
       tbind (getModuleVersion R name) (\<lambda>v.
       tbind (plain (ask (rt_optional R (c_str name)))) (\<lambda>report.
       tbind (lift (optional_field R report)) (\<lambda>skipped.
         pure (granted (mk_obj
           ([(''status'', JStr ''ok''), (''module'', JStr name), (''version'', JStr v),
             (''dependencies_loaded'', JArr (map JStr (filter (\<lambda>m. m \<noteq> name \<and> \<not> List.member before m) after)))] @ skipped)))))))))"

definition unloadModule :: "'c runtime \<Rightarrow> string \<Rightarrow> bool \<Rightarrow> ('c, logos_result) hosted" where
  "unloadModule R name withDependents = do {
     before \<leftarrow> getLoadedModuleNames R;
     _ \<leftarrow> unload_module R name withDependents;
     loaded \<leftarrow> getLoadedModuleNames R;
     State_Monad.return (if containsName loaded name
       then refused (error_value ''MODULE_NOT_LOADED'' (''Module '' @ quoted name @ '' is not loaded.''))
              (''Module '' @ quoted name @ '' is not loaded.'')
       else granted (mk_obj [(''status'', JStr ''ok''), (''module'', JStr name),
         (''dependents_unloaded'', JArr (map JStr (filter (\<lambda>m. m \<noteq> name \<and> \<not> List.member loaded m) before)))])) }"

definition reload_fields :: "string \<Rightarrow> bool \<Rightarrow> fields" where
  "reload_fields name wasLoaded = [(''action'', JStr ''reload''), (''module'', JStr name),
     (''previous_status'', JStr (if wasLoaded then ''loaded'' else ''not_loaded''))]"

definition reloadModule :: "'c runtime \<Rightarrow> string \<Rightarrow> ('c, exn + logos_result) hosted" where
  "reloadModule R name =
     tbind (plain (getLoadedModuleNames R)) (\<lambda>loaded.
     let wasLoaded = containsName loaded name in
     tbind (plain (if wasLoaded then unload_module R name False else State_Monad.return ())) (\<lambda>_.
     tbind (plain (load_module R name)) (\<lambda>ok.
     if \<not> ok then
       (if wasLoaded then
          tbind (plain (load_module R name)) (\<lambda>restored.
            let text = (if restored then ''reload failed; previous instance restored''
                        else ''reload failed; module is now unloaded'')
            in pure (refused (reload_fields name wasLoaded @ [(''status'', JStr ''error''), (''error'', JStr text),
                 (''restored'', JBool restored)]) text))
        else pure (refused (reload_fields name wasLoaded
               @ [(''status'', JStr ''error''), (''error'', JStr ''module failed to start'')]) ''module failed to start''))
     else tbind (getModuleVersion R name) (\<lambda>v.
       pure (granted (mk_obj (reload_fields name wasLoaded @ [(''status'', JStr ''loaded''), (''version'', JStr v)])))))))"

definition refreshModules :: "'c runtime \<Rightarrow> ('c, json) hosted" where
  "refreshModules R = do {
     _ \<leftarrow> refresh_modules R;
     known \<leftarrow> getKnownModuleNames R;
     State_Monad.return (mk_obj [(''status'', JStr ''ok''), (''known_modules'', JArr (map JStr known))]) }"

section \<open>Packages\<close>

definition toOptions :: "json \<Rightarrow> exn + options" where
  "toOptions opts =
     ebind (jvalue get_bool opts ''withDeps'' True) (\<lambda>d.
     ebind (jvalue get_bool opts ''withDependents'' True) (\<lambda>dd.
     ebind (jvalue get_str opts ''version'' []) (\<lambda>v.
     ebind (jvalue get_str opts ''rootHash'' []) (\<lambda>h.
     ebind (jvalue get_str opts ''catalog'' []) (\<lambda>c.
     ebind (case jfind opts ''localFiles'' of Some (JArr fs) \<Rightarrow> emap get_str fs | _ \<Rightarrow> Inr []) (\<lambda>fs.
       Inr \<lparr>op_withDeps = d, op_withDependents = dd, op_version = v, op_rootHash = h, op_catalog = c, op_localFiles = fs\<rparr>))))))"

definition toOp :: "string \<Rightarrow> op option" where
  "toOp s = (if s = ''install'' then Some Install else if s = ''upgrade'' then Some Upgrade
     else if s = ''remove'' then Some Remove else None)"

definition toNames :: "json \<Rightarrow> exn + string list" where
  "toNames names = (case names of JArr es \<Rightarrow> emap get_str es | _ \<Rightarrow> Inr [])"

text \<open>
  Both entry points; the arguments of the inner call are evaluated in an unspecified order, which
  shows only in the text of the exception when both throw.
\<close>

definition package_operation ::
    "(op \<Rightarrow> string list \<Rightarrow> options \<Rightarrow> ('c, exn + json) hosted) \<Rightarrow> string \<Rightarrow> json \<Rightarrow> json \<Rightarrow> ('c, exn + json) hosted" where
  "package_operation run k names opts = (case toOp k of
      None \<Rightarrow> pure (err ''INVALID_ARGS'' (''Unknown package operation: '' @ k))
    | Some parsed \<Rightarrow> tbind (lift (toNames names)) (\<lambda>ns. tbind (lift (toOptions opts)) (\<lambda>o'. run parsed ns o')))"

definition planPackageOperation :: "'c runtime \<Rightarrow> string \<Rightarrow> json \<Rightarrow> json \<Rightarrow> ('c, exn + json) hosted" where
  "planPackageOperation R = package_operation (plan R)"

definition applyPackageOperation :: "'c runtime \<Rightarrow> string \<Rightarrow> json \<Rightarrow> json \<Rightarrow> ('c, exn + json) hosted" where
  "applyPackageOperation R = package_operation (apply_op R)"

definition downloadPackage :: "'c runtime \<Rightarrow> string \<Rightarrow> json \<Rightarrow> ('c, exn + json) hosted" where
  "downloadPackage R name opts =
     tbind (lift (if is_object opts then jvalue get_str opts ''output'' [] else Inr [])) (\<lambda>dest.
     tbind (lift (toOptions opts)) (\<lambda>o'. download R name o' dest))"

section \<open>Queries\<close>

definition uptime_field :: "int \<Rightarrow> fields" where
  "uptime_field up = (if up \<ge> 0 then [(''uptime_seconds'', JInt up)] else [])"

definition module_row :: "'c runtime \<Rightarrow> json \<Rightarrow> bool \<Rightarrow> ('c, exn + json) hosted" where
  "module_row R entry loaded =
     tbind (lift (jvalue get_str entry ''name'' [])) (\<lambda>n.
     tbind (lift (ebind (const_meta entry) meta_version)) (\<lambda>v.
     tbind (uptimeSecondsFor R entry) (\<lambda>up.
       pure (mk_obj ([(''name'', JStr n), (''status'', JStr (if loaded then ''loaded'' else ''not_loaded'')),
         (''version'', JStr v)] @ uptime_field up)))))"

fun list_rows :: "'c runtime \<Rightarrow> string \<Rightarrow> json list \<Rightarrow> ('c, exn + json list) hosted" where
  "list_rows R which [] = pure []"
| "list_rows R which (entry # es) =
     tbind (lift (jvalue get_bool entry ''loaded'' False)) (\<lambda>loaded.
     if which = ''loaded'' \<and> \<not> loaded then list_rows R which es
     else tbind (module_row R entry loaded) (\<lambda>m. tbind (list_rows R which es) (\<lambda>ms. pure (m # ms))))"

definition listModules :: "'c runtime \<Rightarrow> string \<Rightarrow> ('c, exn + json list) hosted" where
  "listModules R which = tbind (plain (getModulesInfo R)) (\<lambda>es. list_rows R which es)"

definition core_version :: string where "core_version = ''1.0.0''"
definition core_name :: string where "core_name = ''core_service''"

fun count_status :: "json list \<Rightarrow> nat \<times> nat \<times> nat \<Rightarrow> exn + nat \<times> nat \<times> nat" where
  "count_status [] (l, c, n) = Inr (l, c, n)"
| "count_status (v # vs) (l, c, n) = ebind (jvalue get_str v ''status'' []) (\<lambda>s.
     count_status vs (if s = ''loaded'' then (Suc l, c, n) else if s = ''crashed'' then (l, Suc c, n) else (l, c, Suc n)))"

definition getStatus :: "'c runtime \<Rightarrow> ('c, exn + json) hosted" where
  "getStatus R =
     tbind (listModules R ''all'') (\<lambda>modules.
     tbind (lift (count_status modules (0, 0, 0))) (\<lambda>(l, c, n).
       pure (mk_obj
         [(''daemon'', mk_obj [(''status'', JStr ''running''), (''pid'', JInt (rt_pid R)), (''version'', JStr core_version)]),
          (''modules'', JArr modules),
          (''modules_summary'', mk_obj [(''loaded'', JInt (int l)), (''crashed'', JInt (int c)), (''not_loaded'', JInt (int n))])])))"

fun entry_named :: "string \<Rightarrow> json list \<Rightarrow> exn + json option" where
  "entry_named name [] = Inr None"
| "entry_named name (e # es) = ebind (jvalue get_str e ''name'' []) (\<lambda>n.
     if n = name then Inr (Some e) else entry_named name es)"

text \<open>The optional description of a loaded module, asked from the module itself.\<close>

definition described :: "'c runtime \<Rightarrow> string \<Rightarrow> ('c, fields) hosted" where
  "described R name = do {
     api \<leftarrow> has_api;
     if \<not> api then State_Monad.return []
     else do {
       client \<leftarrow> client_of R name;
       if \<not> client then State_Monad.return []
       else do {
         (_, methods) \<leftarrow> invoke R name ''getPluginMethods'' (JArr []) None;
         (_, events) \<leftarrow> invoke R name ''getPluginEvents'' (JArr []) None;
         State_Monad.return ((if is_array methods then [(''methods'', methods)] else [])
           @ (if is_array events then [(''events'', events)] else [])) } } }"

text \<open>\<open>entry["metadata"]\<close> on the copy, which is not constant: a missing key reads as null.\<close>

definition copy_meta :: "json \<Rightarrow> json" where
  "copy_meta entry = (case jfind entry ''metadata'' of Some m \<Rightarrow> m | None \<Rightarrow> JNull)"

definition getModuleInfo :: "'c runtime \<Rightarrow> string \<Rightarrow> ('c, exn + json) hosted" where
  "getModuleInfo R name =
     tbind (plain (getModulesInfo R)) (\<lambda>es.
     tbind (lift (entry_named name es)) (\<lambda>found. case found of
       None \<Rightarrow> pure (err ''MODULE_NOT_FOUND'' (''Module '' @ quoted name @ '' not found.''))
     | Some entry \<Rightarrow>
       tbind (lift (meta_version (copy_meta entry))) (\<lambda>v.
       tbind (lift (jvalue Inr entry ''dependencies'' (JArr []))) (\<lambda>deps.
       tbind (lift (jvalue Inr entry ''dependents'' (JArr []))) (\<lambda>dependents.
       tbind (lift (jvalue get_bool entry ''loaded'' False)) (\<lambda>loaded.
       let base = [(''name'', JStr name), (''version'', JStr v), (''dependencies'', deps), (''dependents'', dependents)] in
       if loaded then
         tbind (uptimeSecondsFor R entry) (\<lambda>up.
         tbind (plain (described R name)) (\<lambda>more.
           pure (mk_obj (base @ [(''status'', JStr ''loaded'')] @ uptime_field up @ more))))
       else pure (mk_obj (base @ [(''status'', JStr ''not_loaded'')]))))))))"

definition getModuleStats :: "'c runtime \<Rightarrow> ('c, json) hosted" where
  "getModuleStats R = do {
     text \<leftarrow> ask (rt_stats R);
     State_Monad.return (case (case text of None \<Rightarrow> None | Some s \<Rightarrow> jl_parse (rt_json R) s) of
         Some j \<Rightarrow> j | None \<Rightarrow> JArr []) }"

section \<open>The proxied call\<close>

fun param_types :: "json list \<Rightarrow> string list option" where
  "param_types [] = Some []"
| "param_types (p # ps) = (case jfind p ''type'' of
      Some (JStr t) \<Rightarrow> map_option ((#) t) (param_types ps)
    | _ \<Rightarrow> None)"

definition publishedParamTypes :: "json \<Rightarrow> string list option" where
  "publishedParamTypes method = (case jfind method ''parameters'' of
      None \<Rightarrow> Some []
    | Some (JArr ps) \<Rightarrow> param_types ps
    | Some _ \<Rightarrow> None)"

definition method_entry :: "json \<Rightarrow> method_info option" where
  "method_entry m = (case m of
      JStr n \<Rightarrow> Some \<lparr>mi_name = n, mi_paramTypes = [], mi_paramsPublished = False\<rparr>
    | JObj kvs \<Rightarrow> (case map_of kvs ''name'' of
        Some (JStr n) \<Rightarrow> Some (case publishedParamTypes m of
            Some ts \<Rightarrow> \<lparr>mi_name = n, mi_paramTypes = ts, mi_paramsPublished = True\<rparr>
          | None \<Rightarrow> \<lparr>mi_name = n, mi_paramTypes = [], mi_paramsPublished = False\<rparr>)
      | _ \<Rightarrow> None)
    | _ \<Rightarrow> None)"

definition exposedMethods :: "'c runtime \<Rightarrow> string \<Rightarrow> ('c, method_info list) hosted" where
  "exposedMethods R module_name = do {
     (e, methods) \<leftarrow> invoke R module_name ''getPluginMethods'' (JArr []) None;
     State_Monad.return (if \<not> cf_ok e then [] else case methods of
         JArr es \<Rightarrow> List.map_filter method_entry es | _ \<Rightarrow> []) }"

definition callModuleMethod :: "'c runtime \<Rightarrow> string \<Rightarrow> string \<Rightarrow> json \<Rightarrow> ('c, exn + logos_result) hosted" where
  "callModuleMethod R module_name method args =
     tbind (plain has_api) (\<lambda>api.
     if \<not> api then pure (refused (error_value ''INTERNAL_ERROR'' ''core_service not initialized.'') ''core_service not initialized.'')
     else
       tbind (plain (if module_name = core_name then State_Monad.return True
                     else do { loaded \<leftarrow> getLoadedModuleNames R; State_Monad.return (containsName loaded module_name) })) (\<lambda>there.
       if \<not> there then pure (refused (error_value ''MODULE_NOT_LOADED''
           (''Module '' @ quoted module_name @ '' is not loaded. Load it with: logosctl module load '' @ module_name))
         (''Module '' @ quoted module_name @ '' is not loaded.''))
       else
         tbind (plain (client_of R module_name)) (\<lambda>client.
         if \<not> client then pure (refused (error_value ''INTERNAL_ERROR''
             (''Could not obtain a client for loaded module '' @ quoted module_name @ ''.''))
           (''Could not obtain a client for loaded module '' @ quoted module_name @ ''.''))
         else
           tbind (plain (invoke R module_name method args None)) (\<lambda>(failure, ret).
           tbind (plain (callEnvelope module_name method ret args failure (Some (exposedMethods R module_name)))) (\<lambda>result.
           tbind (lift (jvalue get_str result ''status'' [])) (\<lambda>status.
           if status = ''ok'' then pure (granted result)
           else tbind (lift (jvalue get_str result ''message'' [])) (\<lambda>message.
             pure \<lparr>lr_success = False, lr_value = result, lr_error = message\<rparr>)))))))"

section \<open>Events and shutdown\<close>

text \<open>What a forwarded event carries.\<close>

definition forward_data :: "string \<Rightarrow> string \<Rightarrow> json list \<Rightarrow> json" where
  "forward_data module_name event data = JArr ([JStr module_name, JStr event] @ data)"

definition watchModuleEvents :: "'c runtime \<Rightarrow> string \<Rightarrow> string \<Rightarrow> ('c, bool) hosted" where
  "watchModuleEvents R module_name eventName = do {
     api \<leftarrow> has_api;
     if \<not> api then State_Monad.return False
     else do {
       client \<leftarrow> client_of R module_name;
       if \<not> client then State_Monad.return False
       else do {
         loaded \<leftarrow> getLoadedModuleNames R;
         if \<not> containsName loaded module_name then State_Monad.return False
         else do {
           n \<leftarrow> tell (\<lambda>_. Subscribe module_name eventName) (rt_subscribe R module_name eventName);
           State_Monad.return (n \<noteq> 0) } } } }"

text \<open>\<open>strtol\<close> of the whole text, base ten: blanks, a sign, digits, nothing after them.\<close>

definition is_space :: "char \<Rightarrow> bool" where
  "is_space c \<longleftrightarrow> c = CHR '' '' \<or> (9 \<le> (of_char c :: nat) \<and> (of_char c :: nat) \<le> 13)"

definition shutdownGraceMs :: "string option \<Rightarrow> int" where
  "shutdownGraceMs env = (case env of
      None \<Rightarrow> 200
    | Some v \<Rightarrow> (case skip_digits (skip_sign (dropWhile is_space v)) of (n, r) \<Rightarrow>
        (let body = dropWhile is_space v;
             a = int (read_nat (take n (skip_sign body)));
             i = (if body \<noteq> [] \<and> hd body = CHR ''-'' then - a else a)
         in if v = [] \<or> n = 0 \<or> r \<noteq> [] \<or> i < 0 \<or> i > 60000 then 200 else i)))"

definition kShutdownDrainMs :: int where "kShutdownDrainMs = 2000"

text \<open>The answer is returned first; leaving the event loop is scheduled on it.\<close>

definition shutdown :: "string option \<Rightarrow> ('c, json) hosted" where
  "shutdown env = do {
     _ \<leftarrow> tell (\<lambda>_. Quit_After (shutdownGraceMs env)) (\<lambda>c. ((), c));
     State_Monad.return (mk_obj [(''status'', JStr ''ok''), (''message'', JStr ''Daemon shutting down.'')]) }"

section \<open>Dispatch\<close>

definition jsize :: "json \<Rightarrow> nat" where
  "jsize j = (case j of JNull \<Rightarrow> 0 | JArr es \<Rightarrow> length es | JObj kvs \<Rightarrow> length kvs | _ \<Rightarrow> 1)"

definition arg_at :: "json \<Rightarrow> nat \<Rightarrow> exn + json" where
  "arg_at args i = (case args of
      JArr es \<Rightarrow> (if i < length es then Inr (es ! i) else Inr JNull)
    | _ \<Rightarrow> Inl (Type_Error (''cannot use operator[] with a numeric argument with '' @ type_name args)))"

definition str_arg :: "json \<Rightarrow> nat \<Rightarrow> exn + string" where
  "str_arg args i = ebind (arg_at args i) get_str"

definition value_of :: "('c, exn + logos_result) hosted \<Rightarrow> ('c, exn + json) hosted" where
  "value_of m = tbind m (\<lambda>r. pure (lr_value r))"

text \<open>The chain of tests, without the catch.\<close>

definition dispatch :: "'c runtime \<Rightarrow> string option \<Rightarrow> string \<Rightarrow> json \<Rightarrow> ('c, exn + json) hosted" where
  "dispatch R env m args =
    (if m = ''loadModule'' \<and> jsize args \<ge> 1 then
       tbind (lift (str_arg args 0)) (\<lambda>n. value_of (loadModule R n))
     else if m = ''unloadModule'' \<and> jsize args \<ge> 1 then
       tbind (lift (if jsize args \<ge> 2 then ebind (arg_at args 1) get_bool else Inr True)) (\<lambda>withDependents.
       tbind (lift (str_arg args 0)) (\<lambda>n. value_of (plain (unloadModule R n withDependents))))
     else if m = ''reloadModule'' \<and> jsize args \<ge> 1 then
       tbind (lift (str_arg args 0)) (\<lambda>n. value_of (reloadModule R n))
     else if m = ''refreshModules'' then plain (refreshModules R)
     else if m = ''planPackageOperation'' \<and> jsize args \<ge> 3 then
       tbind (lift (str_arg args 0)) (\<lambda>k. tbind (lift (arg_at args 1)) (\<lambda>ns. tbind (lift (arg_at args 2)) (\<lambda>os.
         planPackageOperation R k ns os)))
     else if m = ''applyPackageOperation'' \<and> jsize args \<ge> 3 then
       tbind (lift (str_arg args 0)) (\<lambda>k. tbind (lift (arg_at args 1)) (\<lambda>ns. tbind (lift (arg_at args 2)) (\<lambda>os.
         applyPackageOperation R k ns os)))
     else if m = ''downloadPackage'' \<and> jsize args \<ge> 2 then
       tbind (lift (str_arg args 0)) (\<lambda>n. tbind (lift (arg_at args 1)) (\<lambda>os. downloadPackage R n os))
     else if m = ''listModules'' then
       tbind (lift (if jsize args \<ge> 1 then str_arg args 0 else Inr ''all'')) (\<lambda>f.
       tbind (listModules R f) (\<lambda>ms. pure (JArr ms)))
     else if m = ''getStatus'' then getStatus R
     else if m = ''getModuleInfo'' \<and> jsize args \<ge> 1 then
       tbind (lift (str_arg args 0)) (\<lambda>n. getModuleInfo R n)
     else if m = ''getModuleStats'' then plain (getModuleStats R)
     else if m = ''callModuleMethod'' \<and> jsize args \<ge> 3 then
       tbind (lift (str_arg args 0)) (\<lambda>mo. tbind (lift (str_arg args 1)) (\<lambda>me. tbind (lift (arg_at args 2)) (\<lambda>a.
         value_of (callModuleMethod R mo me a))))
     else if m = ''watchModuleEvents'' \<and> jsize args \<ge> 2 then
       tbind (lift (str_arg args 0)) (\<lambda>mo. tbind (lift (str_arg args 1)) (\<lambda>ev.
       tbind (plain (watchModuleEvents R mo ev)) (\<lambda>b. pure (JBool b))))
     else if m = ''shutdown'' then plain (shutdown env)
     else pure JNull)"

fun exn_what :: "exn \<Rightarrow> string" where
  "exn_what (Type_Error s) = s"
| "exn_what (Parse_Error s) = s"
| "exn_what (Out_Of_Range s) = s"
| "exn_what (Runtime_Error s) = s"

definition invalid_arguments :: "exn \<Rightarrow> json" where
  "invalid_arguments e = mk_obj [(''status'', JStr ''error''), (''code'', JStr ''INVALID_ARGS''),
     (''message'', JStr (''invalid arguments: '' @ exn_what e))]"

definition callMethodStd :: "'c runtime \<Rightarrow> string option \<Rightarrow> string \<Rightarrow> json \<Rightarrow> ('c, json) hosted" where
  "callMethodStd R env m args = do {
     r \<leftarrow> dispatch R env m args;
     State_Monad.return (case r of Inl e \<Rightarrow> invalid_arguments e | Inr j \<Rightarrow> j) }"

record method_metadata =
  mm_name :: string
  mm_parameters :: json
  mm_returnType :: string

definition mkParam :: "string \<Rightarrow> string \<Rightarrow> json" where
  "mkParam name type = mk_obj [(''name'', JStr name), (''type'', JStr type)]"

definition getMethodsStd :: "method_metadata list" where
  "getMethodsStd =
    [\<lparr>mm_name = ''loadModule'', mm_parameters = JArr [mkParam ''name'' ''string''], mm_returnType = ''StdLogosResult''\<rparr>,
     \<lparr>mm_name = ''unloadModule'', mm_parameters = JArr [mkParam ''name'' ''string'', mkParam ''withDependents'' ''bool''], mm_returnType = ''StdLogosResult''\<rparr>,
     \<lparr>mm_name = ''reloadModule'', mm_parameters = JArr [mkParam ''name'' ''string''], mm_returnType = ''StdLogosResult''\<rparr>,
     \<lparr>mm_name = ''refreshModules'', mm_parameters = JArr [], mm_returnType = ''LogosMap''\<rparr>,
     \<lparr>mm_name = ''planPackageOperation'', mm_parameters = JArr [mkParam ''op'' ''string'', mkParam ''names'' ''LogosList'', mkParam ''opts'' ''LogosMap''], mm_returnType = ''LogosMap''\<rparr>,
     \<lparr>mm_name = ''applyPackageOperation'', mm_parameters = JArr [mkParam ''op'' ''string'', mkParam ''names'' ''LogosList'', mkParam ''opts'' ''LogosMap''], mm_returnType = ''LogosMap''\<rparr>,
     \<lparr>mm_name = ''downloadPackage'', mm_parameters = JArr [mkParam ''name'' ''string'', mkParam ''opts'' ''LogosMap''], mm_returnType = ''LogosMap''\<rparr>,
     \<lparr>mm_name = ''listModules'', mm_parameters = JArr [mkParam ''filter'' ''string''], mm_returnType = ''LogosList''\<rparr>,
     \<lparr>mm_name = ''getStatus'', mm_parameters = JArr [], mm_returnType = ''LogosMap''\<rparr>,
     \<lparr>mm_name = ''getModuleInfo'', mm_parameters = JArr [mkParam ''name'' ''string''], mm_returnType = ''LogosMap''\<rparr>,
     \<lparr>mm_name = ''getModuleStats'', mm_parameters = JArr [], mm_returnType = ''LogosList''\<rparr>,
     \<lparr>mm_name = ''callModuleMethod'', mm_parameters = JArr [mkParam ''module'' ''string'', mkParam ''method'' ''string'', mkParam ''args'' ''LogosList''], mm_returnType = ''StdLogosResult''\<rparr>,
     \<lparr>mm_name = ''watchModuleEvents'', mm_parameters = JArr [mkParam ''module'' ''string'', mkParam ''eventName'' ''string''], mm_returnType = ''bool''\<rparr>,
     \<lparr>mm_name = ''shutdown'', mm_parameters = JArr [], mm_returnType = ''LogosMap''\<rparr>]"

end
