(* ===== verification/Host_Samples.thy ===== *)
theory Host_Samples
  imports Module_Host Samples
begin

text \<open>
  A concrete module runtime for the witnesses: its state is the list of loaded modules, every load
  succeeds, and the package modules accept every request and offer one package \<open>p\<close>.
\<close>

definition sample_answer :: "string \<Rightarrow> json" where
  "sample_answer f =
    (if f = ''getInstalledPackages'' then JArr []
     else if f = ''resolveDependencies''
       then JArr [JObj [(''name'', JStr ''p''), (''topLevel'', JBool True), (''version'', JStr ''1'')]]
     else if f = ''downloadResolvedDependencies''
       then JArr [JObj [(''name'', JStr ''p''), (''path'', JStr ''/t/p.lgx'')]]
     else JObj [(''success'', JBool True)])"

definition sample_info :: json where
  "sample_info = JArr [JObj [(''loaded'', JBool True), (''loaded_at'', JInt 1000),
     (''metadata'', JObj [(''version'', JStr ''1.2'')]), (''name'', JStr ''p'')]]"

text \<open>A text library that knows the one document the runtime hands out.\<close>

definition sample_text :: json_lib where
  "sample_text = \<lparr>jl_dump = (\<lambda>_ _. Some ''[]''), jl_parse = (\<lambda>s. if s = ''info'' then Some sample_info else None)\<rparr>"

definition sample_runtime :: "string list runtime" where
  "sample_runtime = \<lparr>rt_known = (\<lambda>c. ([''p'', ''q''], c)), rt_loaded = (\<lambda>c. (c, c)),
     rt_info = (\<lambda>c. (Some ''info'', c)), rt_stats = (\<lambda>c. (None, c)), rt_optional = (\<lambda>_ c. (None, c)),
     rt_load = (\<lambda>n c. (True, c @ [n])), rt_unload = (\<lambda>n _ c. removeAll n c), rt_refresh = (\<lambda>c. c),
     rt_client = (\<lambda>_ _. True),
     rt_invoke = (\<lambda>m f args dl c. ((\<lparr>cf_code = [], cf_message = [], cf_origin = []\<rparr>, sample_answer f), c)),
     rt_subscribe = (\<lambda>_ _ c. (1, c)), rt_clock = (\<lambda>_. 5000), rt_json = sample_text, rt_pid = 7,
     rt_same_dir = (\<lambda>_ _. False), rt_strerror = (\<lambda>_. []), rt_cfg = sample_cfg\<rparr>"

definition sample_host :: "string list host" where
  "sample_host = \<lparr>hs_ext = [''p'', ''r''], hs_log = [], hs_api = True, hs_world = sample_world\<rparr>"

end
