(* ===== verification/Package_Ops_Props.thy ===== *)
theory Package_Ops_Props
  imports Package_Ops Host_Samples
begin

text \<open>
  What planning and applying promise: a plan changes nothing, every destructive step is behind an
  acknowledged gate and every installation behind a confirmation, and the modules loaded at the end
  are exactly those the operation stopped.
\<close>

section \<open>The calls of each operation\<close>

lemma logs_call [log_rules]:
  "(\<And>a. P (Invoke m f (JArr args) a)) \<Longrightarrow> logs P (call R m f args)"
  unfolding call_def by (auto intro!: log_rules split: prod.split)

lemma logs_case [log_rules]:
  "(\<And>x y. logs P (f x y)) \<Longrightarrow> logs P (case p of (x, y) \<Rightarrow> f x y)"
  "(\<And>a. logs P (g a)) \<Longrightarrow> (\<And>b. logs P (k b)) \<Longrightarrow> logs P (case s of Inl a \<Rightarrow> g a | Inr b \<Rightarrow> k b)"
  "logs P n \<Longrightarrow> (\<And>a. logs P (j a)) \<Longrightarrow> logs P (case t of None \<Rightarrow> n | Some a \<Rightarrow> j a)"
  "(\<And>es. logs P (arr es)) \<Longrightarrow> logs P oth \<Longrightarrow> logs P (case v of JArr es \<Rightarrow> arr es | _ \<Rightarrow> oth)"
  by (auto split: prod.split sum.split option.split json.split)

lemma logs_xbind [log_rules]: "logs P m \<Longrightarrow> (\<And>a. logs P (f a)) \<Longrightarrow> logs P (xbind m f)"
  unfolding xbind_def by (auto intro!: log_rules)

text \<open>The same rules for the file system.\<close>

lemma no_files_call [file_free]: "no_files (call R m f args)"
  unfolding call_def by (auto intro!: file_free split: prod.split)

lemma no_files_case [file_free]:
  "(\<And>x y. no_files (f x y)) \<Longrightarrow> no_files (case p of (x, y) \<Rightarrow> f x y)"
  "(\<And>a. no_files (g a)) \<Longrightarrow> (\<And>b. no_files (k b)) \<Longrightarrow> no_files (case s of Inl a \<Rightarrow> g a | Inr b \<Rightarrow> k b)"
  "no_files n \<Longrightarrow> (\<And>a. no_files (j a)) \<Longrightarrow> no_files (case t of None \<Rightarrow> n | Some a \<Rightarrow> j a)"
  "(\<And>es. no_files (arr es)) \<Longrightarrow> no_files oth \<Longrightarrow> no_files (case v of JArr es \<Rightarrow> arr es | _ \<Rightarrow> oth)"
  by (auto split: prod.split sum.split option.split json.split)

lemma no_files_xbind [file_free]: "no_files m \<Longrightarrow> (\<And>a. no_files (f a)) \<Longrightarrow> no_files (xbind m f)"
  unfolding xbind_def by (auto intro!: file_free)

section \<open>Planning\<close>

text \<open>The calls that only ask.\<close>

definition query :: "host_call \<Rightarrow> bool" where
  "query e \<longleftrightarrow> (\<exists>m f args a. e = Invoke m f args a
     \<and> (m = kPm \<and> (f = ''getInstalledPackages'' \<or> f = ''resolveFlatDependents'' \<or> f = ''inspectPackage'')
        \<or> m = kPd \<and> f = ''resolveDependencies''))"

lemma query_calls [simp]:
  "query (Invoke kPm ''getInstalledPackages'' args a)" "query (Invoke kPm ''resolveFlatDependents'' args a)"
  "query (Invoke kPm ''inspectPackage'' args a)" "query (Invoke kPd ''resolveDependencies'' args a)"
  by (auto simp: query_def)

lemma plan_queries [log_rules]:
  "logs query (installedPackages R)" "logs query (affectedLoaded R xs)"
  "logs query (resolveClosure R names opts inst)" "logs query (removalSet R n d)"
  "logs query (plan_local_one R f)"
  unfolding installedPackages_def affectedLoaded_def loadedModules_def resolveClosure_def removalSet_def plan_local_one_def
  by (auto intro!: log_rules)

lemma plan_loops [log_rules]:
  "logs query (plan_remove R opts m ns acc)" "logs query (plan_local R fs)"
  "logs query (plan_catalog R names opts inst m)"
proof -
  show "logs query (plan_remove R opts m ns acc)"
  proof (induction ns arbitrary: acc)
    case (Cons n ns)
    show ?case by (auto intro!: log_rules Cons.IH)
  qed (auto intro!: log_rules)
  show "logs query (plan_local R fs)"
    by (induction R fs rule: plan_local.induct) (auto intro!: log_rules)
  show "logs query (plan_catalog R names opts inst m)"
    unfolding plan_catalog_def by (auto intro!: log_rules)
qed

lemma plan_logs [log_rules]: "logs query (plan R k names opts)"
  unfolding plan_def by (auto intro!: log_rules)

lemma plan_free [file_free]:
  "no_files (installedPackages R)" "no_files (affectedLoaded R xs)"
  "no_files (resolveClosure R names opts inst)" "no_files (removalSet R n d)" "no_files (plan_local_one R f)"
  unfolding installedPackages_def affectedLoaded_def loadedModules_def resolveClosure_def removalSet_def plan_local_one_def
  by (auto intro!: file_free)

lemma plan_free_loops [file_free]:
  "no_files (plan_remove R opts m ns acc)" "no_files (plan_local R fs)" "no_files (plan_catalog R names opts inst m)"
proof -
  show "no_files (plan_remove R opts m ns acc)"
  proof (induction ns arbitrary: acc)
    case (Cons n ns)
    show ?case by (auto intro!: file_free Cons.IH)
  qed (auto intro!: file_free)
  show "no_files (plan_local R fs)"
    by (induction R fs rule: plan_local.induct) (auto intro!: file_free)
  show "no_files (plan_catalog R names opts inst m)"
    unfolding plan_catalog_def by (auto intro!: file_free)
qed

lemma plan_free_all: "no_files (plan R k names opts)"
  unfolding plan_def by (auto intro!: file_free)

section \<open>The gate\<close>

text \<open>The call answered with success.\<close>

definition accepted :: "call_failure \<times> json \<Rightarrow> bool" where
  "accepted a \<longleftrightarrow> cf_ok (fst a) \<and> ok_answer (snd a) = Inr None"

definition acked :: "host_call \<Rightarrow> bool" where
  "acked e \<longleftrightarrow> (\<exists>n a. e = Invoke kPm ''ackPendingAction'' (JArr [JStr n]) a \<and> accepted a)"

definition confirmed :: "host_call \<Rightarrow> bool" where
  "confirmed e \<longleftrightarrow> (\<exists>f args a. e = Invoke kPm f args a \<and> (f = ''confirmInstall'' \<or> f = ''confirmUpgrade'') \<and> accepted a)"

text \<open>Stopping a module, confirming, and what follows a confirmation.\<close>

definition confirming :: "host_call \<Rightarrow> bool" where
  "confirming e \<longleftrightarrow> (\<exists>n d. e = Unload_Module n d)
     \<or> (\<exists>f args a. e = Invoke kPm f args a \<and> (f = ''confirmInstall'' \<or> f = ''confirmUpgrade'' \<or> f = ''confirmMultiUninstall''))"

definition installing :: "host_call \<Rightarrow> bool" where
  "installing e \<longleftrightarrow> (\<exists>args a. e = Invoke kPm ''installPlugin'' args a \<or> e = Invoke kPd ''downloadResolvedDependencies'' args a)"

definition loading :: "host_call \<Rightarrow> bool" where
  "loading e \<longleftrightarrow> (\<exists>n. e = Load_Module n)"

text \<open>The discipline of a log: it is kept by every operation that only logs harmless calls.\<close>

definition gate_ok :: "host_call list \<Rightarrow> bool" where
  "gate_ok l \<longleftrightarrow> guarded confirming acked l \<and> guarded installing confirmed l"

definition has_ack :: "host_call list \<Rightarrow> bool" where
  "has_ack l \<longleftrightarrow> (\<exists>q \<in> set l. acked q)"

definition has_confirm :: "host_call list \<Rightarrow> bool" where
  "has_confirm l \<longleftrightarrow> (\<exists>q \<in> set l. confirmed q)"

lemma gate_extend:
  assumes "gate_ok l" "\<forall>e \<in> set es. (confirming e \<longrightarrow> has_ack l) \<and> (installing e \<longrightarrow> has_confirm l)"
  shows "gate_ok (es @ l)"
proof -
  have "(\<forall>e \<in> set es. \<not> confirming e) \<or> (\<exists>q \<in> set l. acked q)" "(\<forall>e \<in> set es. \<not> installing e) \<or> (\<exists>q \<in> set l. confirmed q)"
    using assms(2) by (auto simp: has_ack_def has_confirm_def)
  then show ?thesis using assms(1) by (simp add: gate_ok_def guarded_append)
qed

text \<open>The state of an operation that has an acknowledged gate, or a confirmation.\<close>

definition safe :: "bool \<Rightarrow> bool \<Rightarrow> 'c host \<Rightarrow> bool" where
  "safe a c h \<longleftrightarrow> gate_ok (hs_log h) \<and> (a \<longrightarrow> has_ack (hs_log h)) \<and> (c \<longrightarrow> has_confirm (hs_log h))"

lemma safe_weaken: "safe a c h \<Longrightarrow> (a' \<longrightarrow> a) \<Longrightarrow> (c' \<longrightarrow> c) \<Longrightarrow> safe a' c' h"
  by (auto simp: safe_def)

definition allowed :: "bool \<Rightarrow> bool \<Rightarrow> host_call \<Rightarrow> bool" where
  "allowed a c e \<longleftrightarrow> (confirming e \<longrightarrow> a) \<and> (installing e \<longrightarrow> c)"

lemma safe_logs: "logs (allowed a c) m \<Longrightarrow> valid (safe a c) m (\<lambda>_. safe a c)"
proof (rule validI)
  fix h :: "'a host" and r h'
  assume m: "logs (allowed a c) m" and s: "safe a c h" and r: "run_state m h = (r, h')"
  from logsD [OF m r] obtain es where es: "hs_log h' = es @ hs_log h" "\<forall>e \<in> set es. allowed a c e" by blast
  have "gate_ok (es @ hs_log h)"
    using s es by (intro gate_extend) (auto simp: safe_def allowed_def)
  then show "safe a c h'" using s es by (auto simp: safe_def has_ack_def has_confirm_def)
qed

lemma allowed_calls [simp]:
  "allowed True c (Unload_Module n d)" "allowed a c (Load_Module n)" "allowed a c Refresh_Modules"
  "query e \<Longrightarrow> allowed a c e"
  "allowed a c (Invoke kPm f args x) \<longleftrightarrow>
     (f = ''confirmInstall'' \<or> f = ''confirmUpgrade'' \<or> f = ''confirmMultiUninstall'' \<longrightarrow> a) \<and> (f = ''installPlugin'' \<longrightarrow> c)"
  "allowed a c (Invoke kPd f args x) \<longleftrightarrow> (f = ''downloadResolvedDependencies'' \<longrightarrow> c)"
  by (auto simp: allowed_def confirming_def installing_def query_def kPm_def kPd_def)

lemma ok_answer_null [simp]: "ok_answer JNull = Inr (Some ''module did not respond'')"
  by (simp add: ok_answer_def)

text \<open>A call that answered with success is in the log with that answer.\<close>

lemma call_check:
  assumes "run_state (call R m f args) h = (r, h')" "check r = Inr None"
  shows "\<exists>a. hs_log h' = Invoke m f (JArr args) a # hs_log h \<and> accepted a"
  using assms
  by (auto simp: call_def has_api_def client_of_def invoke_def tell_def check_def accepted_def
      split: if_splits prod.splits)

lemma openGate_safe:
  "valid (safe a c) (openGate R k name dep) (\<lambda>r. safe (a \<or> r = Inr None) c)"
proof (rule validI)
  fix h :: "'a host" and r h'
  assume s: "safe a c h" and r: "run_state (openGate R k name dep) h = (r, h')"
  have "logs (allowed a c) (openGate R k name dep)"
    unfolding openGate_def request_args_def by (cases k) (auto intro!: log_rules)
  from validD [OF safe_logs [OF this] s r] have h': "safe a c h'" .
  have "has_ack (hs_log h')" if "r = Inr None"
  proof -
    obtain f args where q: "request_args k name dep = (f, args)" by fastforce
    obtain r1 h1 where c1: "run_state (call R kPm f args) h = (r1, h1)" by fastforce
    obtain r2 h2 where c2: "run_state (call R kPm ''ackPendingAction'' [JStr name]) h1 = (r2, h2)" by fastforce
    have "h' = h2" "check r2 = Inr None"
      using r that c1 c2 q by (auto simp: openGate_def split: option.splits sum.splits)
    with call_check [OF c2] show ?thesis by (auto simp: has_ack_def acked_def)
  qed
  with h' show "safe (a \<or> r = Inr None) c h'" by (auto simp: safe_def)
qed

lemma valid_pure: "(\<And>s. P s \<Longrightarrow> Q (Inr a) s) \<Longrightarrow> valid P (pure a) Q"
  by (simp add: valid_def)

lemma valid_lift: "(\<And>s. P s \<Longrightarrow> Q r s) \<Longrightarrow> valid P (State_Monad.return r) Q"
  by (rule valid_return)

lemma confirm_safe: "valid (safe True c) (confirm R k name) (\<lambda>r. safe True (c \<or> check r = Inr None))"
proof (rule validI)
  fix h :: "'a host" and r h'
  assume s: "safe True c h" and r: "run_state (confirm R k name) h = (r, h')"
  have "logs (allowed True c) (confirm R k name)"
    unfolding confirm_def by (auto intro!: log_rules)
  from validD [OF safe_logs [OF this] s r] have h': "safe True c h'" .
  have "has_confirm (hs_log h')" if ok: "check r = Inr None"
  proof (cases "k = Upgrade")
    case True
    with r have "run_state (call R kPm ''confirmUpgrade'' [JStr name, JStr []]) h = (r, h')" by (simp add: confirm_def)
    from call_check [OF this ok] show ?thesis by (auto simp: has_confirm_def confirmed_def)
  next
    case False
    with r have "run_state (call R kPm ''confirmInstall'' [JStr name]) h = (r, h')" by (simp add: confirm_def)
    from call_check [OF this ok] show ?thesis by (auto simp: has_confirm_def confirmed_def)
  qed
  with h' show "safe True (c \<or> check r = Inr None) h'" by (auto simp: safe_def)
qed

lemma closeGate_logs [log_rules]: "logs (allowed a c) (closeGate R k name)"
  unfolding closeGate_def by (cases k) (auto intro!: log_rules)

lemma gated_safe:
  "valid (safe a c) (gated R k result rs dep name) (\<lambda>r. safe (a \<or> r = Inr (Inr ())) (c \<or> r = Inr (Inr ())))"
proof -
  let ?Q = "\<lambda>r. safe (a \<or> r = Inr (Inr ())) (c \<or> r = Inr (Inr ()))"
  have unload: "valid (safe True c) (each_unit (\<lambda>m. unload_module R m True) rs) (\<lambda>_. safe True c)"
    by (intro safe_logs log_rules) simp
  have close: "valid (safe True c) (tbind (plain (closeGate R k name)) (\<lambda>_. pure (Inl e))) ?Q" for e :: json
    by (rule valid_tbind [where A = "\<lambda>_. safe True c"])
      (auto intro!: valid_plain safe_logs log_rules valid_pure elim!: safe_weaken)
  have confirmed: "valid (safe True (c \<or> e = None))
     (case e of Some t \<Rightarrow> tbind (plain (closeGate R k name)) (\<lambda>_. pure (Inl (fail_with result ''confirm'' t))) | None \<Rightarrow> pure (Inr ())) ?Q" for e
    by (cases e) (auto intro!: valid_pure close elim!: safe_weaken)
  have checked: "valid (safe True (c \<or> check r = Inr None)) (lift (check r))
     (\<lambda>x s. case x of Inl y \<Rightarrow> ?Q (Inl y) s | Inr e \<Rightarrow> safe True (c \<or> e = None) s)" for r
    by (rule valid_return) (auto elim!: safe_weaken split: sum.split)
  show ?thesis
    unfolding gated_def
  proof (rule valid_tbind [where A = "\<lambda>e. safe (a \<or> e = None) c"])
    show "valid (safe a c) (openGate R k name dep) (\<lambda>r s. case r of Inl x \<Rightarrow> ?Q (Inl x) s | Inr e \<Rightarrow> safe (a \<or> e = None) c s)"
      by (rule valid_weaken [OF openGate_safe [of a c]]) (auto elim!: safe_weaken split: sum.split)
    show "valid (safe (a \<or> e = None) c)
      (case e of Some t \<Rightarrow> pure (Inl (fail_with result ''request'' t))
       | None \<Rightarrow> tbind (plain (each_unit (\<lambda>m. unload_module R m True) rs)) (\<lambda>_. tbind (plain (confirm R k name))
           (\<lambda>r. tbind (lift (check r)) (\<lambda>e. case e of Some t \<Rightarrow> tbind (plain (closeGate R k name)) (\<lambda>_. pure (Inl (fail_with result ''confirm'' t)))
              | None \<Rightarrow> pure (Inr ()))))) ?Q" for e
    proof (cases e)
      case None
      show ?thesis unfolding None option.case
      proof (rule valid_tbind [where A = "\<lambda>_. safe True c"])
        show "valid (safe (a \<or> None = None) c) (plain (each_unit (\<lambda>m. unload_module R m True) rs))
            (\<lambda>r s. case r of Inl x \<Rightarrow> ?Q (Inl x) s | Inr _ \<Rightarrow> safe True c s)"
          using unload by (intro valid_plain) simp
        show "valid (safe True c) (tbind (plain (confirm R k name)) (\<lambda>r. tbind (lift (check r))
            (\<lambda>e. case e of Some t \<Rightarrow> tbind (plain (closeGate R k name)) (\<lambda>_. pure (Inl (fail_with result ''confirm'' t))) | None \<Rightarrow> pure (Inr ())))) ?Q"
        proof (rule valid_tbind [where A = "\<lambda>r. safe True (c \<or> check r = Inr None)"])
          show "valid (safe True c) (plain (confirm R k name))
              (\<lambda>r s. case r of Inl x \<Rightarrow> ?Q (Inl x) s | Inr r \<Rightarrow> safe True (c \<or> check r = Inr None) s)"
            by (rule valid_plain) (simp add: confirm_safe)
        qed (rule valid_tbind [OF checked confirmed])
      qed
    qed (auto intro!: valid_pure elim!: safe_weaken)
  qed
qed

section \<open>The loops\<close>

lemma valid_xbind:
  assumes "valid P m (\<lambda>r s. case r of Inl x \<Rightarrow> Q (Inl x) s | Inr (Inl e) \<Rightarrow> Q (Inr (Inl e)) s | Inr (Inr a) \<Rightarrow> A a s)"
    and "\<And>a. valid (A a) (f a) Q"
  shows "valid P (xbind m f) Q"
  unfolding xbind_def
proof (rule valid_tbind [where A = "\<lambda>r s. case r of Inl e \<Rightarrow> Q (Inr (Inl e)) s | Inr a \<Rightarrow> A a s"])
  show "valid P m (\<lambda>r s. case r of Inl x \<Rightarrow> Q (Inl x) s | Inr r \<Rightarrow> (case r of Inl e \<Rightarrow> Q (Inr (Inl e)) s | Inr a \<Rightarrow> A a s))"
    using assms(1) .
  show "valid (\<lambda>s. case r of Inl e \<Rightarrow> Q (Inr (Inl e)) s | Inr a \<Rightarrow> A a s) (case r of Inl e \<Rightarrow> pure (Inl e) | Inr a \<Rightarrow> f a) Q" for r
    using assms(2) by (cases r) (auto intro!: valid_pure)
qed

lemma gated_step:
  assumes "\<And>u. valid (safe True True) (f u) (\<lambda>_. safe a c)"
  shows "valid (safe a c) (xbind (gated R k result rs dep name) f) (\<lambda>_. safe a c)"
proof (rule valid_xbind [where A = "\<lambda>_. safe True True"])
  show "valid (safe a c) (gated R k result rs dep name)
      (\<lambda>r s. case r of Inl x \<Rightarrow> safe a c s | Inr (Inl e) \<Rightarrow> safe a c s | Inr (Inr _) \<Rightarrow> safe True True s)"
    by (rule valid_weaken [OF gated_safe [of a c]]) (auto elim!: safe_weaken split: sum.split)
qed (rule assms)

lemma install_plugin_logs [log_rules]: "logs (allowed a True) (install_plugin R path)"
  unfolding install_plugin_def by (auto intro!: log_rules)

lemma valid_keep: "valid P m (\<lambda>_. P) \<Longrightarrow> (\<And>x. valid P (f x) (\<lambda>_. Q)) \<Longrightarrow> (\<And>s. P s \<Longrightarrow> Q s) \<Longrightarrow> valid P (tbind m f) (\<lambda>_. Q)"
  by (rule valid_tbind [where A = "\<lambda>_. P"]) (auto elim!: valid_weaken split: sum.split)

lemma valid_const: "(\<And>s. P s \<Longrightarrow> Q s) \<Longrightarrow> valid P (pure a) (\<lambda>_. Q)" "(\<And>s. P s \<Longrightarrow> Q s) \<Longrightarrow> valid P (State_Monad.return b) (\<lambda>_. Q)"
  by (simp_all add: valid_def)

lemma apply_local_safe: "valid (safe a c) (apply_local R k result rs dep cs) (\<lambda>_. safe a c)"
proof (induction cs arbitrary: a c)
  case Nil
  show ?case by (simp add: valid_pure)
next
  case (Cons j cs)
  have inner: "valid (safe True True) (tbind (install_plugin R f) (\<lambda>i. case i of
       Inl t \<Rightarrow> pure (Inl (fail_with result ''install'' t))
     | Inr _ \<Rightarrow> xbind (apply_local R k result rs dep cs) (\<lambda>ns. pure (Inr (name # ns))))) (\<lambda>_. safe a c)" for f name
  proof (rule valid_keep [OF safe_logs [OF install_plugin_logs]])
    have "valid (safe True True) (xbind (apply_local R k result rs dep cs) (\<lambda>ns. pure (Inr (name # ns)))) (\<lambda>_. safe a c)"
      by (rule valid_xbind [where A = "\<lambda>_. safe True True"])
        (auto intro!: valid_const valid_weaken [OF Cons.IH [of True True]] elim!: safe_weaken split: sum.split)
    then show "valid (safe True True) (case i of Inl t \<Rightarrow> pure (Inl (fail_with result ''install'' t))
      | Inr _ \<Rightarrow> xbind (apply_local R k result rs dep cs) (\<lambda>ns. pure (Inr (name # ns)))) (\<lambda>_. safe a c)" for i :: "string + unit"
      by (cases i) (auto intro!: valid_const elim!: safe_weaken)
  qed (auto elim!: safe_weaken)
  show ?case unfolding apply_local.simps
    by (intro valid_keep valid_const gated_step inner) auto
qed

lemma gate_all_safe:
  "valid (safe a c) (gate_all R k result rs dep ns) (\<lambda>r. safe (a \<or> r = Inr (Inr ()) \<and> ns \<noteq> []) (c \<or> r = Inr (Inr ()) \<and> ns \<noteq> []))"
proof (induction ns arbitrary: a c)
  case Nil
  show ?case by (simp add: valid_pure)
next
  case (Cons n ns)
  show ?case unfolding gate_all.simps
  proof (rule valid_xbind [where A = "\<lambda>_. safe True True"])
    show "valid (safe a c) (gated R k result rs dep n) (\<lambda>r s. case r of
        Inl x \<Rightarrow> safe (a \<or> Inl x = Inr (Inr ()) \<and> n # ns \<noteq> []) (c \<or> Inl x = Inr (Inr ()) \<and> n # ns \<noteq> []) s
      | Inr (Inl e) \<Rightarrow> safe (a \<or> Inr (Inl e) = Inr (Inr ()) \<and> n # ns \<noteq> []) (c \<or> Inr (Inl e) = Inr (Inr ()) \<and> n # ns \<noteq> []) s
      | Inr (Inr _) \<Rightarrow> safe True True s)"
      by (rule valid_weaken [OF gated_safe [of a c]]) (auto elim!: safe_weaken split: sum.split)
    show "valid (safe True True) (gate_all R k result rs dep ns)
      (\<lambda>r. safe (a \<or> r = Inr (Inr ()) \<and> n # ns \<noteq> []) (c \<or> r = Inr (Inr ()) \<and> n # ns \<noteq> []))"
      by (rule valid_weaken [OF Cons.IH [of True True]]) (auto elim!: safe_weaken)
  qed
qed

lemma install_downloaded_logs [log_rules]: "logs (allowed a True) (install_downloaded R result ds)"
proof (induction ds)
  case (Cons d ds)
  show ?case by (auto intro!: log_rules Cons.IH)
qed (auto intro!: log_rules)

lemma installed_allowed [log_rules]: "logs (allowed a c) (installedPackages R)" "logs (allowed a c) (plan R k names opts)"
  by (rule logs_mono [OF plan_queries(1)] logs_mono [OF plan_logs]; simp)+

lemma apply_catalog_safe:
  assumes "names \<noteq> []"
  shows "valid (safe a c) (apply_catalog R k result rs dep names opts) (\<lambda>_. safe a c)"
  unfolding apply_catalog_def
proof (rule valid_xbind [where A = "\<lambda>_. safe True True"])
  show "valid (safe a c) (gate_all R k result rs dep names)
      (\<lambda>r s. case r of Inl x \<Rightarrow> safe a c s | Inr (Inl e) \<Rightarrow> safe a c s | Inr (Inr _) \<Rightarrow> safe True True s)"
    by (rule valid_weaken [OF gate_all_safe [of a c]]) (use assms in \<open>auto elim!: safe_weaken split: sum.split\<close>)
qed (rule valid_weaken [OF safe_logs [of True True]]; auto intro!: log_rules elim!: safe_weaken)

lemma remove_victims_safe:
  "valid (safe a c) (remove_victims R result victims args) (\<lambda>_. safe a c)"
proof -
  let ?ack = "call R kPm ''ackPendingAction'' [JStr (hd victims)]"
  have ack: "valid (safe a c) ?ack (\<lambda>r. safe (a \<or> check r = Inr None) c)"
  proof (rule validI)
    fix h :: "'a host" and r h'
    assume s: "safe a c h" and r: "run_state ?ack h = (r, h')"
    have "logs (allowed a c) ?ack" by (auto intro!: log_rules)
    from validD [OF safe_logs [OF this] s r] have "safe a c h'" .
    moreover have "check r = Inr None \<Longrightarrow> has_ack (hs_log h')"
      using call_check [OF r] by (auto simp: has_ack_def acked_def)
    ultimately show "safe (a \<or> check r = Inr None) c h'" by (auto simp: safe_def)
  qed
  let ?after = "\<lambda>e. case e of
       Some t \<Rightarrow> tbind (plain (call R kPm ''cancelMultiUninstall'' args)) (\<lambda>_. pure (fail_with result ''ack'' t))
     | None \<Rightarrow> tbind (plain (each_unit (\<lambda>v. unload_module R v True) victims)) (\<lambda>_.
         tbind (plain (call R kPm ''confirmMultiUninstall'' args)) (\<lambda>r. tbind (lift (check r)) (\<lambda>e. case e of
           Some t \<Rightarrow> pure (fail_with result ''confirm'' t)
         | None \<Rightarrow> tbind (plain (refresh_modules R)) (\<lambda>_.
             pure (JObj (put_all [(''removed'', JArr (map JStr victims)), (''reloaded'', JArr [])] result))))))"
  have after: "valid (safe (a \<or> e = None) c) (?after e) (\<lambda>_. safe a c)" for e
  proof (rule valid_weaken [OF safe_logs [of "a \<or> e = None" c]])
    show "logs (allowed (a \<or> e = None) c) (?after e)" by (cases e) (auto intro!: log_rules)
  qed (auto elim!: safe_weaken)
  have check2: "valid (safe (a \<or> check r = Inr None) c) (lift (check r))
      (\<lambda>x s. case x of Inl y \<Rightarrow> safe a c s | Inr e \<Rightarrow> safe (a \<or> e = None) c s)" for r
    by (rule valid_return) (auto elim!: safe_weaken split: sum.split)
  have acking: "valid (safe a c) (tbind (plain ?ack) (\<lambda>r. tbind (lift (check r)) ?after)) (\<lambda>_. safe a c)"
  proof (rule valid_tbind [where A = "\<lambda>r. safe (a \<or> check r = Inr None) c"])
    show "valid (safe a c) (plain ?ack) (\<lambda>r s. case r of Inl x \<Rightarrow> safe a c s | Inr r \<Rightarrow> safe (a \<or> check r = Inr None) c s)"
      by (rule valid_plain) (simp add: ack)
  qed (rule valid_tbind [OF check2 after])
  have request: "valid (safe a c) (plain (call R kPm ''requestMultiUninstall'' args)) (\<lambda>_. safe a c)"
    by (intro safe_logs log_rules) simp
  show ?thesis unfolding remove_victims_def
  proof (intro valid_keep [OF request] valid_keep [OF valid_const(2)])
    show "valid (safe a c) (case e of Some t \<Rightarrow> pure (fail_with result ''request'' t)
       | None \<Rightarrow> tbind (plain ?ack) (\<lambda>r. tbind (lift (check r)) ?after)) (\<lambda>_. safe a c)" for e
      using acking by (cases e) (simp_all only: option.case valid_const)
  qed auto
qed

lemma apply_op_safe:
  assumes "names \<noteq> [] \<or> op_localFiles opts \<noteq> [] \<or> k = Remove"
  shows "valid (safe False False) (apply_op R k names opts) (\<lambda>_. safe False False)"
proof -
  have install: "valid (safe False False) (apply_install R k result changes rs dep names opts) (\<lambda>_. safe False False)"
    if "k \<noteq> Remove" for result changes rs dep
  proof -
    have rest: "logs (allowed a c) (restore R ms)" for ms a c
    proof (induction ms)
      case (Cons m ms)
      show ?case by (auto intro!: log_rules Cons.IH)
    qed simp
    show ?thesis unfolding apply_install_def
    proof (rule valid_keep)
      show "valid (safe False False) (if op_localFiles opts \<noteq> [] then apply_local R k result rs dep changes
          else apply_catalog R k result rs dep names opts) (\<lambda>_. safe False False)"
        using assms that by (auto intro!: apply_local_safe apply_catalog_safe)
    qed (auto intro!: safe_logs log_rules rest)
  qed
  show ?thesis unfolding apply_op_def apply_remove_def
    by (auto intro!: valid_keep valid_const safe_logs [OF installed_allowed(2)] install remove_victims_safe)
qed

section \<open>The modules loaded\<close>

lemma restore_run:
  "run_state (restore R ms) h = (ups, h') \<Longrightarrow>
    hs_log h' = rev (map (\<lambda>m. Load_Module (c_str m)) ms) @ hs_log h \<and> set ups \<subseteq> set ms"
proof (induction ms arbitrary: h h' ups)
  case (Cons m ms)
  obtain b h1 where l: "run_state (load_module R m) h = (b, h1)" by fastforce
  obtain us h2 where r: "run_state (restore R ms) h1 = (us, h2)" by fastforce
  have "hs_log h1 = Load_Module (c_str m) # hs_log h"
    using l by (auto simp: load_module_def tell_def split: prod.splits)
  with Cons.IH [OF r] Cons.prems l r show ?case by (auto split: if_splits)
qed simp

definition calm :: "host_call \<Rightarrow> bool" where
  "calm e \<longleftrightarrow> \<not> loading e"

lemma calm_calls [simp]: "calm (Unload_Module n d)" "calm Refresh_Modules" "calm (Invoke m f args x)" "query e \<Longrightarrow> calm e"
  by (auto simp: calm_def loading_def query_def)

lemma calm_ops [log_rules]:
  "logs calm (gated R k result rs dep name)" "logs calm (install_plugin R path)"
  "logs calm (remove_victims R result victims args)" "logs calm (installedPackages R)" "logs calm (plan R k names opts)"
proof -
  show "logs calm (gated R k result rs dep name)"
    unfolding gated_def openGate_def closeGate_def confirm_def request_args_def by (cases k) (auto intro!: log_rules)
  show "logs calm (install_plugin R path)" unfolding install_plugin_def by (auto intro!: log_rules)
  show "logs calm (remove_victims R result victims args)" unfolding remove_victims_def by (auto intro!: log_rules)
  show "logs calm (installedPackages R)" "logs calm (plan R k names opts)"
    by (rule logs_mono [OF plan_queries(1)] logs_mono [OF plan_logs]; simp)+
qed

lemma calm_loops [log_rules]:
  "logs calm (apply_local R k result rs dep cs)" "logs calm (gate_all R k result rs dep ns)"
  "logs calm (install_downloaded R result ds)" "logs calm (apply_catalog R k result rs dep names opts)"
proof -
  show "logs calm (apply_local R k result rs dep cs)"
  proof (induction cs)
    case (Cons c cs)
    show ?case by (auto intro!: log_rules Cons.IH)
  qed (auto intro!: log_rules)
  show g: "logs calm (gate_all R k result rs dep ns)" for ns
  proof (induction ns)
    case (Cons n ns)
    show ?case by (auto intro!: log_rules Cons.IH)
  qed (auto intro!: log_rules)
  show i: "logs calm (install_downloaded R result ds)" for ds
  proof (induction ds)
    case (Cons d ds)
    show ?case by (auto intro!: log_rules Cons.IH)
  qed (auto intro!: log_rules)
  show "logs calm (apply_catalog R k result rs dep names opts)"
    unfolding apply_catalog_def by (auto intro!: log_rules g i)
qed

text \<open>The modules loaded by a run, in order.\<close>

definition loads :: "host_call list \<Rightarrow> string list" where
  "loads l = List.map_filter (\<lambda>e. case e of Load_Module n \<Rightarrow> Some n | _ \<Rightarrow> None) (rev l)"

lemma loads_calm: "(\<forall>e \<in> set es. calm e) \<Longrightarrow> loads (es @ l) = loads l"
  by (induction es) (auto simp: loads_def List.map_filter_def calm_def loading_def split: host_call.splits)

lemma loads_restore: "loads (rev (map (\<lambda>m. Load_Module (c_str m)) ms) @ l) = loads l @ map c_str ms"
  by (simp add: loads_def List.map_filter_def comp_def)

lemma loads_logs: "logs calm m \<Longrightarrow> run_state m h = (r, h') \<Longrightarrow> loads (hs_log h') = loads (hs_log h)"
  using logsD [of calm m h r h'] loads_calm by fastforce

definition text_of :: "json \<Rightarrow> string" where
  "text_of j = (case j of JStr t \<Rightarrow> t | _ \<Rightarrow> [])"

definition affected_of :: "json \<Rightarrow> string list" where
  "affected_of res = map text_of (arr_of (jfind res ''affected_loaded''))"

definition failed :: "json \<Rightarrow> bool" where
  "failed res \<longleftrightarrow> jfind res ''status'' = Some (JStr ''error'')"

lemma get_str_Inr: "get_str e = Inr t \<longleftrightarrow> e = JStr t"
  by (cases e) (auto simp: get_str_def)

lemma emap_get_str: "emap get_str es = Inr xs \<Longrightarrow> xs = map text_of es"
  by (induction es arbitrary: xs) (auto simp: ebind_Inr get_str_Inr text_of_def)

lemma failed_with [simp]: "failed (fail_with result step msg)"
  by (simp add: failed_def fail_with_def)

lemma success_fields:
  "failed (JObj (put_all [(''installed'', a), (''reloaded'', b)] (obj_fields res))) \<longleftrightarrow> failed res"
  "affected_of (JObj (put_all [(''installed'', a), (''reloaded'', b)] (obj_fields res))) = affected_of res"
  "jfind (JObj (put_all [(''installed'', a), (''reloaded'', b)] (obj_fields res))) ''reloaded'' = Some b"
  by (auto simp: failed_def affected_of_def obj_fields_def jfind_def split: json.split)

text \<open>Every early end of the installing part is a failed step.\<close>

definition ends_failed :: "exn + json + 'a \<Rightarrow> bool" where
  "ends_failed r \<longleftrightarrow> (case r of Inr (Inl e) \<Rightarrow> failed e | _ \<Rightarrow> True)"

definition fails_well :: "('s, exn + json + 'a) state \<Rightarrow> bool" where
  "fails_well m \<longleftrightarrow> (\<forall>s. ends_failed (fst (run_state m s)))"

lemma fails_well_rules:
  "fails_well (pure (Inr a))" "failed e \<Longrightarrow> fails_well (pure (Inl e))"
  "(\<And>b. fails_well (f b)) \<Longrightarrow> fails_well (tbind m f)"
  "fails_well m1 \<Longrightarrow> (\<And>b. fails_well (f1 b)) \<Longrightarrow> fails_well (xbind m1 f1)"
  by (auto simp: fails_well_def ends_failed_def xbind_def split: prod.split sum.split)
    (metis Inl_Inr_False sum.inject fst_conv old.sum.simps)+

lemma fails_well_case:
  "(\<And>x y. fails_well (f x y)) \<Longrightarrow> fails_well (case p of (x, y) \<Rightarrow> f x y)"
  "(\<And>a. fails_well (g a)) \<Longrightarrow> (\<And>b. fails_well (k b)) \<Longrightarrow> fails_well (case s of Inl a \<Rightarrow> g a | Inr b \<Rightarrow> k b)"
  "fails_well n \<Longrightarrow> (\<And>a. fails_well (j a)) \<Longrightarrow> fails_well (case t of None \<Rightarrow> n | Some a \<Rightarrow> j a)"
  "(\<And>es. fails_well (arr es)) \<Longrightarrow> fails_well oth \<Longrightarrow> fails_well (case v of JArr es \<Rightarrow> arr es | _ \<Rightarrow> oth)"
  "fails_well a1 \<Longrightarrow> fails_well b1 \<Longrightarrow> fails_well (if c then a1 else b1)"
  by (auto split: prod.split sum.split option.split json.split)

lemmas fails_well_intros = fails_well_rules fails_well_case failed_with

lemma apply_loops_fail:
  "fails_well (apply_local R k result rs dep cs)" "fails_well (apply_catalog R k result rs dep names opts)"
proof -
  have g: "fails_well (gated R k result rs dep name)" for name
    unfolding gated_def by (intro fails_well_intros)
  show "fails_well (apply_local R k result rs dep cs)"
  proof (induction cs)
    case (Cons c cs)
    show ?case unfolding apply_local.simps by (intro fails_well_intros g Cons.IH)
  qed (simp add: fails_well_rules)
  have ga: "fails_well (gate_all R k result rs dep ns)" for ns
  proof (induction ns)
    case (Cons n ns)
    show ?case unfolding gate_all.simps by (intro fails_well_intros g Cons.IH)
  qed (simp add: fails_well_rules)
  have i: "fails_well (install_downloaded R result ds)" for ds
  proof (induction ds)
    case (Cons d ds)
    show ?case unfolding install_downloaded.simps by (intro fails_well_intros Cons.IH)
  qed (simp add: fails_well_rules)
  show "fails_well (apply_catalog R k result rs dep names opts)"
    unfolding apply_catalog_def by (intro fails_well_intros ga i)
qed

lemma apply_install_loads:
  assumes "run_state (apply_install R k (obj_fields res) ch rs dep names opts) h = (r, h')" "rs = affected_of res" "\<not> failed res"
  shows "loads (hs_log h') = loads (hs_log h) @ (case r of Inl _ \<Rightarrow> []
      | Inr j \<Rightarrow> if failed j then [] else map c_str (affected_of j))
    \<and> (\<forall>j. r = Inr j \<and> \<not> failed j \<longrightarrow> (\<exists>up. jfind j ''reloaded'' = Some (JArr (map JStr up)) \<and> set up \<subseteq> set (affected_of j)))"
proof -
  let ?m = "if op_localFiles opts \<noteq> [] then apply_local R k (obj_fields res) rs dep ch
            else apply_catalog R k (obj_fields res) rs dep names opts"
  obtain q h1 where m: "run_state ?m h = (q, h1)" by fastforce
  have "logs calm ?m" by (auto intro!: log_rules)
  from loads_logs [OF this m] have l1: "loads (hs_log h1) = loads (hs_log h)" .
  have "fails_well ?m" by (simp add: apply_loops_fail)
  then have ef: "ends_failed q" using m by (metis fails_well_def fst_conv)
  show ?thesis
  proof (cases q)
    case (Inl x)
    then show ?thesis using assms(1) m l1 by (auto simp: apply_install_def simp del: put_all_Cons)
  next
    case (Inr q')
    show ?thesis
    proof (cases q')
      case (Inl e)
      then have "failed e" using ef Inr by (simp add: ends_failed_def)
      then show ?thesis using assms(1) m l1 Inl Inr by (auto simp: apply_install_def simp del: put_all_Cons)
    next
      case (Inr ns)
      obtain u h2 where rf: "run_state (refresh_modules R) h1 = (u, h2)" by (metis surj_pair)
      have "logs calm (refresh_modules R)" by (auto intro!: log_rules)
      from loads_logs [OF this rf] have l2: "loads (hs_log h2) = loads (hs_log h)" using l1 by simp
      obtain ups h3 where rs: "run_state (restore R rs) h2 = (ups, h3)" by fastforce
      let ?j = "JObj (put_all [(''installed'', JArr (map JStr ns)), (''reloaded'', JArr (map JStr ups))] (obj_fields res))"
      have "r = Inr ?j" "h' = h3"
        using assms(1) m rf rs Inr \<open>q = Inr q'\<close> by (auto simp: apply_install_def simp del: put_all_Cons)
      moreover from restore_run [OF rs] have "loads (hs_log h3) = loads (hs_log h) @ map c_str rs" "set ups \<subseteq> set rs"
        by (simp_all add: loads_restore l2)
      ultimately show ?thesis using assms(2,3)
        by (auto simp: success_fields simp del: put_all_Cons jfind_obj intro!: exI [of _ ups])
    qed
  qed
qed

section \<open>Properties\<close>

text \<open>
  Planning changes nothing. Whatever the package modules answer, a plan only sends the four
  read-only requests, touches no file, and neither loads nor unloads nor rescans modules.
\<close>

theorem plan_changes_nothing:
  assumes "run_state (plan R k names opts) h = (r, h')"
  shows "hs_world h' = hs_world h \<and> (\<exists>es. hs_log h' = es @ hs_log h \<and> (\<forall>e \<in> set es. query e))"
  using no_filesD [OF plan_free_all assms] logsD [OF plan_logs assms] by blast



definition sample_options :: options where
  "sample_options = \<lparr>op_withDeps = True, op_withDependents = True, op_version = [], op_rootHash = [],
     op_catalog = [], op_localFiles = []\<rparr>"

text \<open>An upgrade of the package \<open>p\<close>, which is running: who was called, latest first.\<close>

definition sketch :: "host_call \<Rightarrow> string \<times> string" where
  "sketch e = (case e of Invoke m f a x \<Rightarrow> (m, f) | Load_Module n \<Rightarrow> (''load'', n) | Unload_Module n d \<Rightarrow> (''unload'', n)
     | Refresh_Modules \<Rightarrow> (''refresh'', []) | Subscribe m e \<Rightarrow> (''subscribe'', m) | Quit_After n \<Rightarrow> (''quit'', []))"

definition sample_upgrade :: "(exn + json) \<times> string list host" where
  "sample_upgrade = run_state (apply_op sample_runtime Upgrade [''p''] sample_options) sample_host"

abbreviation no_failure :: call_failure where
  "no_failure \<equiv> \<lparr>cf_code = [], cf_message = [], cf_origin = []\<rparr>"

lemma sample_call [simp]:
  "hs_api h \<Longrightarrow> run_state (call sample_runtime m f args) h
    = ((sample_answer f, []), h\<lparr>hs_log := Invoke m f (JArr args) (no_failure, sample_answer f) # hs_log h\<rparr>)"
  by (simp add: call_def has_api_def client_of_def invoke_def tell_def sample_runtime_def cf_ok_def)

lemma sample_check [simp]:
  "check (sample_answer ''requestUpgrade'', w) = Inr None" "check (sample_answer ''ackPendingAction'', w) = Inr None"
  "check (sample_answer ''confirmUpgrade'', w) = Inr None"
  by (simp_all add: check_def ok_answer_def sample_answer_def jvalue_def get_bool_def)

lemma sample_dump_text [simp]: "dump_text sample_runtime j = Inr ''[]''"
  by (simp add: dump_text_def sample_runtime_def sample_text_def)

lemma sample_runs [simp]:
  "run_state (loadedModules sample_runtime) h = (hs_ext h, h)"
  "run_state (unload_module sample_runtime n d) h = ((), h\<lparr>hs_ext := removeAll (c_str n) (hs_ext h), hs_log := Unload_Module (c_str n) d # hs_log h\<rparr>)"
  "run_state (load_module sample_runtime n) h = (True, h\<lparr>hs_ext := hs_ext h @ [c_str n], hs_log := Load_Module (c_str n) # hs_log h\<rparr>)"
  "run_state (refresh_modules sample_runtime) h = ((), h\<lparr>hs_log := Refresh_Modules # hs_log h\<rparr>)"
  by (simp_all add: loadedModules_def unload_module_def load_module_def refresh_modules_def ask_def tell_def sample_runtime_def)

lemma sample_installed [simp]: "hs_api h \<Longrightarrow> run_state (installedPackages sample_runtime) h
    = ([], h\<lparr>hs_log := Invoke kPm ''getInstalledPackages'' (JArr []) (no_failure, JArr []) # hs_log h\<rparr>)"
  by (simp add: installedPackages_def sample_answer_def)

definition sample_entry :: json where
  "sample_entry = JObj [(''name'', JStr ''p''), (''topLevel'', JBool True), (''version'', JStr ''1'')]"

definition sample_change :: json where
  "sample_change = mk_obj [(''name'', JStr ''p''), (''action'', JStr ''install''), (''fromVersion'', JStr []),
     (''toVersion'', JStr ''1''), (''repository'', JStr []), (''topLevel'', JBool True)]"

lemma sample_entries: "plan_entry Map.empty sample_entry = Inr (Inr (''p'', sample_change, True))"
  by (simp add: plan_entry_def sample_entry_def jcontains_def jvalue_def get_str_def get_bool_def depAction_def sample_change_def)

definition sample_planned :: "host_call list" where
  "sample_planned = hs_log (snd (run_state (plan sample_runtime Upgrade [''p''] sample_options) sample_host))"

lemma sample_plan:
  "run_state (plan sample_runtime Upgrade [''p''] sample_options) sample_host
     = (Inr (plan_document Upgrade [sample_change] [''p'']), sample_host\<lparr>hs_log := sample_planned\<rparr>)"
  unfolding sample_planned_def
  by (simp add: plan_def plan_catalog_def resolveClosure_def sample_host_def sample_options_def sample_entries
      installedPackagesJson_def dependenciesJson_def affectedLoaded_def sample_answer_def sample_entry_def [symmetric])

lemma sample_plan_fields:
  "jvalue get_str (plan_document k ch ld) ''status'' [] = Inr ''ok''"
  "arr_of (jfind (plan_document k ch ld) ''changes'') = ch" "arr_of (jfind (plan_document k ch ld) ''affected_loaded'') = map JStr ld"
  by (simp_all add: plan_document_def mk_obj_def jvalue_def map_of_mk get_str_def arr_of_def del: put_all_Cons)

lemma sample_download:
  "install_downloaded sample_runtime result [JObj [(''name'', JStr ''p''), (''path'', JStr ''/t/p.lgx'')]]
    = tbind (install_plugin sample_runtime ''/t/p.lgx'') (\<lambda>i. case i of
         Inl t \<Rightarrow> pure (Inl (fail_with result ''install'' (''p: '' @ t)))
       | Inr _ \<Rightarrow> pure (Inr [''p'']))"
  by (rule state.expand) (auto simp: fun_eq_iff jcontains_def jvalue_def get_str_def xbind_def split: sum.split prod.split)

lemma sample_host_fields [simp]:
  "hs_api sample_host" "hs_ext sample_host = [''p'', ''r'']" "hs_log sample_host = []" "op_localFiles sample_options = []"
  "op_withDeps sample_options" "c_str ''p'' = ''p''"
  by (simp_all add: sample_host_def sample_options_def c_str_def)

lemma sample_install [simp]:
  "hs_api h \<Longrightarrow> run_state (install_plugin sample_runtime path) h
    = (Inr (Inr ()), h\<lparr>hs_log := Invoke kPm ''installPlugin'' (JArr [JStr path, JBool False]) (no_failure, JObj [(''success'', JBool True)]) # hs_log h\<rparr>)"
  by (simp add: install_plugin_def sample_answer_def jvalue_def)

lemma sample_gated:
  "hs_api h \<Longrightarrow> \<exists>a b c. run_state (gated sample_runtime Upgrade result [''p''] dep n) h
    = (Inr (Inr ()), h\<lparr>hs_ext := removeAll ''p'' (hs_ext h), hs_log := a # Unload_Module ''p'' True # b # c # hs_log h\<rparr>)"
  by (simp add: gated_def openGate_def request_args_def confirm_def) (intro exI, rule refl)

lemma sample_deps: "\<exists>x. dependenciesJson sample_runtime ns o' = Inr x" "\<exists>x. installedPackagesJson sample_runtime [] = Inr x"
  by (simp_all add: dependenciesJson_def installedPackagesJson_def)

lemma sample_catalog:
  "hs_api h \<Longrightarrow> \<exists>a b c d e f. run_state (apply_catalog sample_runtime Upgrade result [''p''] dep [''p''] sample_options) h
    = (Inr (Inr [''p'']), h\<lparr>hs_ext := removeAll ''p'' (hs_ext h),
        hs_log := a # b # c # d # Unload_Module ''p'' True # e # f # hs_log h\<rparr>) \<and> sketch a = (kPm, ''installPlugin'')"
proof -
  assume h: "hs_api h"
  obtain a b c where g: "run_state (gated sample_runtime Upgrade result [''p''] dep ''p'') h
    = (Inr (Inr ()), h\<lparr>hs_ext := removeAll ''p'' (hs_ext h), hs_log := a # Unload_Module ''p'' True # b # c # hs_log h\<rparr>)"
    using sample_gated [OF h] by blast
  obtain x y where xy: "dependenciesJson sample_runtime [''p''] sample_options = Inr x" "installedPackagesJson sample_runtime [] = Inr y"
    using sample_deps by blast
  have dl: "sample_answer ''downloadResolvedDependencies'' = JArr [JObj [(''name'', JStr ''p''), (''path'', JStr ''/t/p.lgx'')]]"
    by (simp add: sample_answer_def)
  show ?thesis
    using g h xy
    by (simp add: apply_catalog_def xbind_def dl sample_download del: install_downloaded.simps)
      (intro exI conjI, rule refl, simp add: sketch_def)
qed

lemma sample_upgrade_run:
  "(\<exists>a b c d e f. hs_log (snd sample_upgrade) =
      [Load_Module ''p'', Refresh_Modules, a, b, c, d, Unload_Module ''p'' True, e, f] @ sample_planned \<and> sketch a = (kPm, ''installPlugin''))
   \<and> (\<exists>res. fst sample_upgrade = Inr res \<and> \<not> failed res \<and> affected_of res = [''p''])"
proof -
  let ?h = "sample_host\<lparr>hs_log := sample_planned\<rparr>"
  let ?doc = "plan_document Upgrade [sample_change] [''p'']"
  obtain a b c d e f where cat: "run_state (apply_catalog sample_runtime Upgrade (obj_fields ?doc) [''p''] ''[]'' [''p''] sample_options) ?h
    = (Inr (Inr [''p'']), ?h\<lparr>hs_ext := removeAll ''p'' (hs_ext ?h),
        hs_log := a # b # c # d # Unload_Module ''p'' True # e # f # hs_log ?h\<rparr>)" "sketch a = (kPm, ''installPlugin'')"
    using sample_catalog [of ?h "obj_fields ?doc" "''[]''"] by auto
  have doc: "\<not> failed ?doc" "affected_of ?doc = [''p'']"
    by (simp_all add: failed_def affected_of_def plan_document_def arr_of_def text_of_def)
  show ?thesis unfolding sample_upgrade_def
    using cat doc by (simp add: apply_op_def sample_plan sample_plan_fields get_str_def apply_install_def success_fields del: put_all_Cons)
qed



lemma plan_changes_nothing_witness:
  "list_all query (hs_log (snd (run_state (plan sample_runtime Upgrade [''p''] sample_options) sample_host)))"
  using plan_changes_nothing [OF prod.collapse [symmetric], where R = sample_runtime and k = Upgrade and names = "[''p'']" and opts = sample_options and h = sample_host]
  by (auto simp: sample_host_def list_all_iff)

end
