(* ===== verification/Core_Service_Props.thy ===== *)
theory Core_Service_Props
  imports Core_Service Package_Ops_Props
begin

text \<open>
  What the core service promises its clients: malformed requests have no effect, a proxied call talks
  to its target only, reload brings the old instance back, and the summaries add up.
\<close>

section \<open>Dispatch\<close>

text \<open>The least number of arguments the dispatcher asks of each method.\<close>

definition arity_table :: "(string \<times> nat) list" where
  "arity_table = [(''loadModule'', 1), (''unloadModule'', 1), (''reloadModule'', 1), (''refreshModules'', 0),
     (''planPackageOperation'', 3), (''applyPackageOperation'', 3), (''downloadPackage'', 2), (''listModules'', 0),
     (''getStatus'', 0), (''getModuleInfo'', 1), (''getModuleStats'', 0), (''callModuleMethod'', 3),
     (''watchModuleEvents'', 2), (''shutdown'', 0)]"

lemma dispatch_unknown: "m \<notin> fst ` set arity_table \<Longrightarrow> run_state (dispatch R env m args) h = (Inr JNull, h)"
  by (simp add: arity_table_def dispatch_def)

lemma dispatch_short: "(m, k) \<in> set arity_table \<Longrightarrow> jsize args < k \<Longrightarrow> run_state (dispatch R env m args) h = (Inr JNull, h)"
  unfolding arity_table_def list.set insert_iff empty_iff prod.inject
  by (elim disjE conjE FalseE) (simp_all add: dispatch_def)

lemma dispatch_bad_first:
  assumes "(m, k) \<in> set arity_table" "0 < k" "k \<le> jsize args" "str_arg args 0 = Inl x"
  shows "\<exists>e. run_state (dispatch R env m args) h = (Inl e, h)"
  using assms unfolding arity_table_def list.set insert_iff empty_iff prod.inject
  by (elim disjE conjE FalseE) (simp_all add: dispatch_def split: sum.split)

lemma published_names: "map mm_name getMethodsStd = map fst arity_table"
  by (simp add: getMethodsStd_def arity_table_def)



section \<open>Unloading and reloading\<close>

lemma tell_run: "run_state (tell e q) h = (a, h') \<longleftrightarrow> (\<exists>c. q (hs_ext h) = (a, c) \<and> h' = h\<lparr>hs_ext := c, hs_log := e a # hs_log h\<rparr>)"
  by (auto simp: tell_def split: prod.split)

lemma ask_run: "run_state (ask q) h = (a, h') \<longleftrightarrow> (\<exists>c. q (hs_ext h) = (a, c) \<and> h' = h\<lparr>hs_ext := c\<rparr>)"
  by (auto simp: ask_def split: prod.split)

lemma version_calm: "logs (\<lambda>_. False) (getModuleVersion R name)"
  unfolding getModuleVersion_def getModulesInfo_def by (auto intro!: log_rules)

lemma logs_none: "logs (\<lambda>_. False) m \<Longrightarrow> run_state m h = (r, h') \<Longrightarrow> hs_log h' = hs_log h"
  using logsD [of "\<lambda>_. False" m h r h'] by auto

definition lifecycle :: "host_call list \<Rightarrow> (string \<times> bool) list" where
  "lifecycle l = List.map_filter (\<lambda>e. case e of Load_Module n \<Rightarrow> Some (n, True) | Unload_Module n _ \<Rightarrow> Some (n, False) | _ \<Rightarrow> None) (rev l)"

text \<open>
  C18: A failed reload of a running module is not destructive. The module is unloaded (alone, without
  its dependents) only if it was loaded, then loaded; when that fails it is loaded once more, and
  \<open>restored\<close> tells the outcome of that second load. A module that was not loaded is loaded once and
  nothing is unloaded. The answer is a success exactly when the first load succeeded.
\<close>

theorem reload_restores:
  assumes "run_state (reloadModule R name) h = (Inr res, h')" "hs_log h = []" "rt_loaded R (hs_ext h) = (loaded, c)"
  defines "n \<equiv> c_str name"
  shows "(if \<not> List.member loaded name then hs_log h' = [Load_Module n]
      else if lr_success res then hs_log h' = [Load_Module n, Unload_Module n False]
      else hs_log h' = [Load_Module n, Load_Module n, Unload_Module n False]
        \<and> (\<exists>restored. jfind (lr_value res) ''restored'' = Some (JBool restored)
             \<and> (\<exists>c1. rt_load R n c1 = (restored, hs_ext h'))))
    \<and> (lr_success res \<longleftrightarrow> jfind (lr_value res) ''status'' = Some (JStr ''loaded''))
    \<and> (\<not> lr_success res \<longrightarrow> jfind (lr_value res) ''status'' = Some (JStr ''error''))"
proof -
  let ?h0 = "h\<lparr>hs_ext := c\<rparr>"
  have l: "run_state (getLoadedModuleNames R) h = (loaded, ?h0)"
    using assms(3) by (simp add: getLoadedModuleNames_def ask_def)
  let ?was = "containsName loaded name"
  obtain u h1 where u: "run_state (if ?was then unload_module R name False else State_Monad.return ()) ?h0 = (u, h1)"
    by (metis surj_pair)
  have log1: "hs_log h1 = (if ?was then [Unload_Module n False] else [])"
    using u assms(2) by (cases ?was) (auto simp: unload_module_def tell_run n_def)
  obtain b h2 where b: "run_state (load_module R name) h1 = (b, h2)" by fastforce
  have log2: "hs_log h2 = Load_Module n # hs_log h1" using b by (auto simp: load_module_def tell_run n_def)
  show ?thesis
  proof (cases b)
    case True
    then obtain v where v: "run_state (getModuleVersion R name) h2 = (Inr v, h')"
      "res = granted (mk_obj (reload_fields name ?was @ [(''status'', JStr ''loaded''), (''version'', JStr v)]))"
      using assms(1) l u b by (auto simp: reloadModule_def Let_def split: sum.splits prod.splits)
    have "hs_log h' = hs_log h2" by (rule logs_none [OF version_calm v(1)])
    with log1 log2 v(2) show ?thesis by (simp add: containsName_def granted_def)
  next
    case False
    obtain b2 h3 where b2: "run_state (load_module R name) h2 = (b2, h3)" by fastforce
    have log3: "hs_log h3 = Load_Module n # hs_log h2" and ld: "\<exists>c1. rt_load R n c1 = (b2, hs_ext h3)"
      using b2 by (auto simp: load_module_def tell_run n_def)
    show ?thesis
    proof (cases ?was)
      case True
      then have "h' = h3" and r: "\<exists>t. res = refused (reload_fields name True @ [(''status'', JStr ''error''), (''error'', JStr t), (''restored'', JBool b2)]) t"
        using assms(1) l u b b2 False by (auto simp: reloadModule_def Let_def)
      then show ?thesis using True log1 log2 log3 ld by (auto simp: containsName_def refused_def)
    next
      case was: False
      then have "h' = h2" "res = refused (reload_fields name False @ [(''status'', JStr ''error''), (''error'', JStr ''module failed to start'')]) ''module failed to start''"
        using assms(1) l u b False by (auto simp: reloadModule_def Let_def)
      then show ?thesis using was log1 log2 by (simp add: containsName_def refused_def)
    qed
  qed
qed

text \<open>A runtime whose loads fail, on the host where \<open>p\<close> runs.\<close>

definition stuck_runtime :: "string list runtime" where
  "stuck_runtime = sample_runtime\<lparr>rt_load := (\<lambda>_ c. (False, c))\<rparr>"

lemma reload_restores_witness:
  "\<exists>res h'. run_state (reloadModule stuck_runtime ''p'') sample_host = (Inr res, h')
     \<and> hs_log h' = [Load_Module ''p'', Load_Module ''p'', Unload_Module ''p'' False] \<and> \<not> lr_success res"
proof -
  have l: "rt_loaded stuck_runtime (hs_ext sample_host) = ([''p'', ''r''], [''p'', ''r''])"
    by (simp add: stuck_runtime_def sample_runtime_def)
  have "\<exists>res h'. run_state (reloadModule stuck_runtime ''p'') sample_host = (Inr res, h') \<and> \<not> lr_success res"
    by (simp add: reloadModule_def getLoadedModuleNames_def ask_def l containsName_def Let_def load_module_def unload_module_def
        tell_def stuck_runtime_def refused_def split_beta)
  then obtain res h' where r: "run_state (reloadModule stuck_runtime ''p'') sample_host = (Inr res, h')" "\<not> lr_success res" by blast
  from reload_restores [OF r(1) _ l] r show ?thesis by simp
qed

text \<open>
  What \<open>unload\<close> answers is the state it leaves behind: it asks for exactly one unload, and the
  answer is \<open>ok\<close> exactly when the module is not loaded afterwards. The error \<open>MODULE_NOT_LOADED\<close>
  means the opposite of its name: the module is still loaded. An \<open>ok\<close> answer lists the modules that
  came down with it, in their order, and never the module itself.
\<close>

theorem unload_answer:
  assumes "run_state (unloadModule R name deps) h = (res, h')"
  shows "\<exists>before after c. hs_log h' = Unload_Module (c_str name) deps # hs_log h
     \<and> rt_loaded R (hs_ext h) = (before, c) \<and> rt_loaded R (rt_unload R (c_str name) deps c) = (after, hs_ext h')
     \<and> (lr_success res \<longleftrightarrow> name \<notin> set after)
     \<and> (lr_success res \<longrightarrow> jfind (lr_value res) ''dependents_unloaded''
          = Some (JArr (map JStr (filter (\<lambda>m. m \<noteq> name \<and> m \<notin> set after) before))))
     \<and> (\<not> lr_success res \<longrightarrow> env_code (lr_value res) ''MODULE_NOT_LOADED'' \<and> name \<in> set after)"
proof -
  obtain before c where b: "rt_loaded R (hs_ext h) = (before, c)" by fastforce
  obtain after c2 where a: "rt_loaded R (rt_unload R (c_str name) deps c) = (after, c2)" by fastforce
  show ?thesis using assms b a
    by (cases "name \<in> set after")
      (simp_all add: unloadModule_def getLoadedModuleNames_def ask_def unload_module_def tell_def containsName_def
        refused_def granted_def error_value_def env_code_def, auto)
qed

section \<open>The proxied call\<close>

text \<open>
  C19: A proxied call talks to its target only. It sends the named method with the given arguments at
  most once, asks the module for its interface at most once and only after an answer that is null, and
  touches no other module. A module that is not loaded (and is not the service itself) is refused
  without sending anything.
\<close>

theorem call_reaches_target_only:
  assumes "run_state (callModuleMethod R m f args) h = (r, h')" "rt_loaded R (hs_ext h) = (loaded, c)"
  shows "(\<exists>es. hs_log h' = es @ hs_log h \<and> (es = [] \<or> (\<exists>a. es = [Invoke m f args a])
       \<or> (\<exists>a b. es = [Invoke m ''getPluginMethods'' (JArr []) b, Invoke m f args a] \<and> snd a = JNull)))
    \<and> (m \<noteq> ''core_service'' \<and> m \<notin> set loaded \<longrightarrow> hs_log h' = hs_log h
         \<and> (\<exists>res. r = Inr res \<and> \<not> lr_success res \<and> (hs_api h \<longrightarrow> env_code (lr_value res) ''MODULE_NOT_LOADED'')))"
proof (cases "hs_api h \<and> (m = ''core_service'' \<or> m \<in> set loaded)")
  case False
  show ?thesis
  proof (cases "hs_api h")
    case True
    then have out: "m \<noteq> core_name" "m \<notin> set loaded" using False by (simp_all add: core_name_def)
    have l: "run_state (getLoadedModuleNames R) h = (loaded, h\<lparr>hs_ext := c\<rparr>)"
      using assms(2) by (simp add: getLoadedModuleNames_def ask_def)
    have "\<exists>t. r = Inr (refused (error_value ''MODULE_NOT_LOADED'' (''Module '' @ quoted m @ '' is not loaded. Load it with: logosctl module load '' @ m)) t)"
      and "hs_log h' = hs_log h"
      using assms(1) True out by (auto simp: callModuleMethod_def has_api_def l containsName_def)
    then show ?thesis by (auto simp: refused_def error_value_def env_code_def)
  next
    case off: False
    then have "run_state (callModuleMethod R m f args) h
        = (Inr (refused (error_value ''INTERNAL_ERROR'' ''core_service not initialized.'') ''core_service not initialized.''), h)"
      by (simp add: callModuleMethod_def has_api_def)
    with off assms(1) show ?thesis by (auto simp: refused_def)
  qed
next
  case True
  obtain h1 where gate: "run_state (if m = core_name then State_Monad.return True
      else do { loaded \<leftarrow> getLoadedModuleNames R; State_Monad.return (containsName loaded m) }) h = (True, h1)"
    "hs_log h1 = hs_log h"
    using True assms(2) by (cases "m = core_name") (auto simp: getLoadedModuleNames_def ask_def containsName_def core_name_def)
  show ?thesis
  proof (cases "rt_client R m (hs_ext h1)")
    case no_client: False
    then have "hs_log h' = hs_log h"
      using assms(1) gate True by (auto simp: callModuleMethod_def has_api_def client_of_def)
    then show ?thesis using True by auto
  next
    case client: True
    obtain fl ret h2 where i: "run_state (invoke R m f args None) h1 = ((fl, ret), h2)" by (metis surj_pair)
    have l2: "hs_log h2 = Invoke m f args (fl, ret) # hs_log h"
      using i gate(2) by (auto simp: invoke_def tell_run)
    obtain env h3 where e: "run_state (callEnvelope m f ret args fl (Some (exposedMethods R m))) h2 = (env, h3)" by fastforce
    have h3: "h' = h3"
      using assms(1) gate i e client True
      by (auto simp: callModuleMethod_def has_api_def client_of_def split: sum.splits if_splits)
    have "hs_log h3 = hs_log h2 \<or> (ret = JNull \<and> (\<exists>b. hs_log h3 = Invoke m ''getPluginMethods'' (JArr []) b # hs_log h2))"
    proof (cases "cf_ok (fold_rejection ret fl) \<and> ret = JNull")
      case False
      then show ?thesis using e by (auto simp: callEnvelope_def)
    next
      case True
      obtain ms h4 where x: "run_state (exposedMethods R m) h2 = (ms, h4)" by fastforce
      then have "\<exists>b. hs_log h4 = Invoke m ''getPluginMethods'' (JArr []) b # hs_log h2"
        by (auto simp: exposedMethods_def invoke_def tell_def split: prod.splits)
      moreover have "h3 = h4" using e x True by (auto simp: callEnvelope_def split: sum.splits)
      ultimately show ?thesis using True by auto
    qed
    then show ?thesis using l2 h3 True by auto
  qed
qed

lemma call_reaches_target_only_witness:
  "hs_log (snd (run_state (callModuleMethod sample_runtime ''zz'' ''f'' (JArr [])) sample_host)) = []"
proof -
  have "rt_loaded sample_runtime (hs_ext sample_host) = ([''p'', ''r''], [''p'', ''r''])" by (simp add: sample_runtime_def)
  from call_reaches_target_only [OF prod.collapse [symmetric] this, of "''zz''" "''f''" "JArr []"]
  show ?thesis by simp
qed

section \<open>The status\<close>

definition status_of :: "json \<Rightarrow> string \<Rightarrow> bool" where
  "status_of m t \<longleftrightarrow> (\<exists>kvs. m = JObj kvs \<and> map_of kvs ''status'' = Some (JStr t))"

definition row_ok :: "json \<Rightarrow> bool" where
  "row_ok m \<longleftrightarrow> status_of m ''loaded'' \<or> status_of m ''not_loaded''"

lemma row_shape: "run_state (module_row R e b) h = (Inr m, h') \<Longrightarrow> row_ok m"
  by (auto simp: module_row_def uptime_field_def row_ok_def status_of_def mk_obj_def map_of_mk simp del: put_all_Cons
      split: sum.splits prod.splits if_splits)

lemma rows_ok: "run_state (list_rows R which es) h = (Inr ms, h') \<Longrightarrow> \<forall>m \<in> set ms. row_ok m"
proof (induction es arbitrary: h ms)
  case (Cons e es)
  then show ?case by (auto split: sum.splits if_splits prod.splits dest: row_shape)
qed simp

lemma rows_log: "logs (\<lambda>_. False) (list_rows R which es)"
proof (induction es)
  case (Cons e es)
  have up: "logs (\<lambda>_. False) (uptimeSecondsFor R e)"
    unfolding uptimeSecondsFor_def by (auto intro!: log_rules)
  show ?case unfolding list_rows.simps module_row_def by (auto intro!: log_rules up Cons.IH)
qed (auto intro!: log_rules)

lemma count_rows:
  "\<forall>m \<in> set ms. row_ok m \<Longrightarrow> count_status ms (l, c, n)
    = Inr (l + length (filter (\<lambda>m. status_of m ''loaded'') ms), c, n + length (filter (\<lambda>m. \<not> status_of m ''loaded'') ms))"
proof (induction ms arbitrary: l c n)
  case (Cons m ms)
  have lookup: "status_of m t \<Longrightarrow> jvalue get_str m ''status'' [] = Inr t" for t
    by (auto simp: status_of_def jvalue_def get_str_def)
  have "status_of m ''loaded'' \<or> status_of m ''not_loaded'' \<and> \<not> status_of m ''loaded''"
    using Cons.prems by (auto simp: row_ok_def)
  then show ?case using Cons lookup by auto
qed simp

text \<open>
  The status adds up. Whatever the runtime reports, when \<open>getStatus\<close> answers, every module row is
  \<open>loaded\<close> or \<open>not_loaded\<close>, the summary counts exactly those rows, and \<open>crashed\<close> is always zero:
  the service never reports a crashed module. Asking changes nothing.
\<close>

theorem status_adds_up:
  assumes "run_state (getStatus R) h = (Inr j, h')"
  shows "\<exists>ms. jfind j ''modules'' = Some (JArr ms) \<and> (\<forall>m \<in> set ms. status_of m ''loaded'' \<or> status_of m ''not_loaded'')
    \<and> jfind j ''modules_summary'' = Some (mk_obj [(''loaded'', JInt (int (length (filter (\<lambda>m. status_of m ''loaded'') ms)))),
         (''crashed'', JInt 0), (''not_loaded'', JInt (int (length (filter (\<lambda>m. \<not> status_of m ''loaded'') ms))))])
    \<and> hs_log h' = hs_log h"
proof -
  obtain es h1 where i: "run_state (getModulesInfo R) h = (es, h1)" by fastforce
  obtain q h2 where r: "run_state (list_rows R ''all'' es) h1 = (q, h2)" by fastforce
  obtain ms where q: "q = Inr ms" using assms i r by (cases q) (auto simp: getStatus_def listModules_def)
  note ok = rows_ok [OF r [unfolded q]]
  have "hs_log h1 = hs_log h" using i by (auto simp: getModulesInfo_def ask_def split: prod.splits)
  moreover have "hs_log h2 = hs_log h1" using logs_none [OF rows_log r] .
  moreover have "h' = h2" "jfind j ''modules'' = Some (JArr ms)"
    "jfind j ''modules_summary'' = Some (mk_obj [(''loaded'', JInt (int (length (filter (\<lambda>m. status_of m ''loaded'') ms)))),
         (''crashed'', JInt 0), (''not_loaded'', JInt (int (length (filter (\<lambda>m. \<not> status_of m ''loaded'') ms))))])"
    using assms i r q by (auto simp: getStatus_def listModules_def count_rows [OF ok])
  ultimately show ?thesis using ok by (auto simp: row_ok_def)
qed

lemma status_adds_up_witness:
  "\<exists>j h'. run_state (getStatus sample_runtime) sample_host = (Inr j, h') \<and> hs_log h' = hs_log sample_host"
proof -
  have "\<exists>j h'. run_state (getStatus sample_runtime) sample_host = (Inr j, h')"
    by (simp add: getStatus_def listModules_def getModulesInfo_def ask_def sample_runtime_def sample_text_def sample_info_def
        module_row_def uptimeSecondsFor_def jvalue_def get_str_def get_bool_def get_int64_def const_meta_def meta_version_def
        wrap_int_def uptime_field_def mk_obj_def map_of_mk del: put_all_Cons)
  then obtain j h' where r: "run_state (getStatus sample_runtime) sample_host = (Inr j, h')" by blast
  from status_adds_up [OF r] r show ?thesis by blast
qed

lemma unload_answer_witness:
  "lr_success (fst (run_state (unloadModule sample_runtime ''p'' True) sample_host))"
  using unload_answer [OF prod.collapse [symmetric], of sample_runtime "''p''" True sample_host]
  by (simp add: sample_runtime_def)

end
