(* ===== verification/Client_State.thy ===== *)
theory Client_State
  imports Daemon_Files_Props
begin

text \<open>
  \<open>src/src/client/client_state.cpp\<close>: the client's own configuration (which token file it uses and how it
  dials each module), its strict reader, its writer and the token file. The process-wide override
  of \<open>setOverride\<close> is an argument. The last section composes it with the daemon: what the daemon
  writes at boot is what the client reads.
\<close>

section \<open>Data\<close>

definition kClientStateSchemaVersion :: int where "kClientStateSchemaVersion = 2"

record client_transport =
  ct_protocol :: string
  ct_host :: string
  ct_port :: "16 word"
  ct_codec :: string
  ct_caFile :: string
  ct_verifyPeer :: bool

definition default_transport :: client_transport where
  "default_transport = \<lparr>ct_protocol = [], ct_host = [], ct_port = 0, ct_codec = ''json'', ct_caFile = [],
     ct_verifyPeer = True\<rparr>"

record client_state =
  cs_fileOk :: bool
  cs_schemaVersion :: int
  cs_tokenFile :: string
  cs_instanceId :: string
  cs_daemon :: "(string \<times> client_transport) list"   \<comment> \<open>a \<open>std::map\<close>, sorted by module\<close>

definition empty_client :: client_state where
  "empty_client = \<lparr>cs_fileOk = False, cs_schemaVersion = 0, cs_tokenFile = [], cs_instanceId = [], cs_daemon = []\<rparr>"

section \<open>Transport entries\<close>

definition clientTransportToJson :: "client_transport \<Rightarrow> json" where
  "clientTransportToJson t = mk_obj
    ([(''transport'', JStr (ct_protocol t))]
     @ (if ct_protocol t \<noteq> ''local''
        then [(''host'', JStr (ct_host t)), (''port'', JUInt (uint (ct_port t))),
              (''codec'', JStr (if ct_codec t = [] then ''json'' else ct_codec t))] else [])
     @ (if ct_protocol t = ''tcp_ssl''
        then (if ct_caFile t \<noteq> [] then [(''ca'', JStr (ct_caFile t))] else [])
           @ [(''verify_peer'', JBool (ct_verifyPeer t))] else []))"

text \<open>The address fields of an entry that is not local, and the TLS fields.\<close>

definition read_address :: "reader \<Rightarrow> client_transport \<Rightarrow> client_transport reads" where
  "read_address r t =
    (if ct_protocol t \<noteq> ''local'' then do {
       host \<leftarrow> r_str r ''host'' [];
       port \<leftarrow> r_integer r ''port'' 0 0 65535;
       codec \<leftarrow> r_str r ''codec'' ''json'';
       State_Monad.return (t\<lparr>ct_host := host, ct_port := word_of_int port, ct_codec := codec\<rparr>) }
     else State_Monad.return t)"

definition read_tls :: "reader \<Rightarrow> client_transport \<Rightarrow> client_transport reads" where
  "read_tls r t =
    (if ct_protocol t = ''tcp_ssl'' then do {
       ca \<leftarrow> r_str r ''ca'' [];
       verify \<leftarrow> r_boolean r ''verify_peer'' True;
       State_Monad.return (t\<lparr>ct_caFile := ca, ct_verifyPeer := verify\<rparr>) }
     else State_Monad.return t)"

definition clientTransportFromJson :: "json \<Rightarrow> string \<Rightarrow> client_transport option reads" where
  "clientTransportFromJson j path =
    (if \<not> is_object j then do {
       _ \<leftarrow> mismatch path ''a mapping describing one transport'' j;
       State_Monad.return None }
     else (let r = reader_of j (path @ ''.'')
      in do {
       protocol \<leftarrow> r_str r ''transport'' [];
       if \<not> known_protocol protocol then do {
         _ \<leftarrow> note_err (rpath r ''transport'' @ '': expected one of \"local\", \"tcp\", \"tcp_ssl\"''
           @ (if protocol = [] then '', but it is missing.''
              else '', but got \"'' @ protocol @ ''\".''));
         State_Monad.return None }
       else do {
         t1 \<leftarrow> read_address r (default_transport\<lparr>ct_protocol := protocol\<rparr>);
         t2 \<leftarrow> read_tls r t1;
         e \<leftarrow> State_Monad.get;
         State_Monad.return (if \<not> errs_ok e then None else Some t2) } }))"

section \<open>The document\<close>

fun read_entries :: "string \<Rightarrow> fields \<Rightarrow> (string \<times> client_transport) list \<Rightarrow>
    (string \<times> client_transport) list option reads" where
  "read_entries path [] acc = State_Monad.return (Some acc)"
| "read_entries path ((moduleName, v) # rest) acc =
    (if moduleName = [] then read_entries path rest acc
     else do {
       t \<leftarrow> clientTransportFromJson v (path @ ''.'' @ moduleName);
       case t of
         None \<Rightarrow> State_Monad.return None
       | Some t \<Rightarrow> read_entries path rest (emplace moduleName t acc) })"

definition client_fields :: "reader \<Rightarrow> (string \<times> string \<times> (string \<times> client_transport) list option) reads" where
  "client_fields r = do {
     tokenFile \<leftarrow> r_str r ''token_file'' [];
     instanceId \<leftarrow> r_str r ''instance_id'' [];
     daemonObj \<leftarrow> r_mapping r ''daemon'' ''a mapping'';
     daemon \<leftarrow> (case daemonObj of
         None \<Rightarrow> State_Monad.return (Some [])
       | Some kvs \<Rightarrow> read_entries (rpath r ''daemon'') kvs []);
     State_Monad.return (tokenFile, instanceId, daemon) }"

definition parseClientStateDocument :: "json \<Rightarrow> string + client_state" where
  "parseClientStateDocument obj =
    (if \<not> is_object obj then Inl ''The config document must be a mapping at the top level.''
     else (case run_state (r_integer (reader_of obj []) ''version'' 0 int64_min int64_max) no_errors of (v, e) \<Rightarrow>
       (let schemaVersion = wrap_int 32 v
        in if \<not> errs_ok e then Inl (m_message e)
           else if schemaVersion \<noteq> kClientStateSchemaVersion
           then Inl (''unsupported schema version '' @ show_int schemaVersion @ '' '' @ emdash
             @ '' relaunch the daemon to regenerate, or hand-edit (expected version ''
             @ show_int kClientStateSchemaVersion @ '').'')
           else (case run_state (client_fields (reader_of obj [])) e of
               ((tokenFile, instanceId, None), e') \<Rightarrow>
                 Inl (if errs_ok e' then ''the document could not be read.'' else m_message e')
             | ((tokenFile, instanceId, Some daemon), e') \<Rightarrow>
                 if \<not> errs_ok e' then Inl (m_message e')
                 else Inr \<lparr>cs_fileOk = (daemon \<noteq> [] \<and> tokenFile \<noteq> []), cs_schemaVersion = schemaVersion,
                   cs_tokenFile = tokenFile, cs_instanceId = instanceId, cs_daemon = daemon\<rparr>))))"

section \<open>ClientStateFile\<close>

record client_env =
  ce_cfg :: config
  ce_json :: json_lib
  ce_yaml :: yaml_lib

text \<open>The process-wide override slot.\<close>

definition setOverride :: "client_state option \<Rightarrow> client_state option \<Rightarrow> client_state option" where
  "setOverride override slot = override"

definition client_read :: "client_env \<Rightarrow> client_state option \<Rightarrow> client_state io" where
  "client_read C override = (case override of
      Some st \<Rightarrow> State_Monad.return st
    | None \<Rightarrow> do {
        text \<leftarrow> read_file (clientConfigPath (ce_cfg C));
        case text of
          None \<Rightarrow> State_Monad.return empty_client
        | Some s \<Rightarrow> (case yaml_parse (ce_yaml C) s of
            Inl what \<Rightarrow> do {
              _ \<leftarrow> cerr (''ClientState: '' @ clientConfigPath (ce_cfg C) @ '' is not valid YAML: '' @ what);
              State_Monad.return empty_client }
          | Inr parsed \<Rightarrow> (case parseClientStateDocument parsed of
              Inl err \<Rightarrow> do {
                _ \<leftarrow> cerr (''ClientState: '' @ clientConfigPath (ce_cfg C) @ '': '' @ err);
                State_Monad.return empty_client }
            | Inr st \<Rightarrow> State_Monad.return st)) })"

definition client_doc :: "client_state \<Rightarrow> json" where
  "client_doc st = mk_obj
    ([(''version'', JInt kClientStateSchemaVersion), (''token_file'', JStr (cs_tokenFile st))]
     @ opt_field ''instance_id'' (cs_instanceId st)
     @ [(''daemon'', mk_obj (map (\<lambda>m. (fst m, clientTransportToJson (snd m))) (cs_daemon st)))])"

text \<open>
  The stream is closed after \<open>good()\<close> was asked: what the close still writes is not in the answer.
  The file is truncated before the document is turned into text.
\<close>

definition client_write :: "client_env \<Rightarrow> client_state \<Rightarrow> (exn + bool) io" where
  "client_write C st = do {
     made \<leftarrow> mk_dirs (parent_path (clientConfigPath (ce_cfg C)));
     if \<not> made then pure False
     else do {
       opened \<leftarrow> open_trunc (clientConfigPath (ce_cfg C));
       if \<not> opened then pure False
       else (case (if isModern (ce_cfg C) then Some (yaml_dump (ce_yaml C) (client_doc st))
                   else map_option (\<lambda>s. s @ [CHR 10]) (jl_dump (ce_json C) 4 (client_doc st))) of
           None \<Rightarrow> raise (Type_Error ''invalid UTF-8 byte'')
         | Some s \<Rightarrow> do {
             good \<leftarrow> buffer_out (clientConfigPath (ce_cfg C)) s;
             _ \<leftarrow> write_out (clientConfigPath (ce_cfg C)) s;
             pure good }) } }"

definition readTokenFile :: "client_env \<Rightarrow> string \<Rightarrow> string io" where
  "readTokenFile C f =
    (if f = [] then State_Monad.return []
     else do {
       text \<leftarrow> read_file (clientTokenPath (ce_cfg C) f);
       State_Monad.return (case text of
           None \<Rightarrow> []
         | Some s \<Rightarrow> (case jl_parse (ce_json C) s of
             None \<Rightarrow> []
           | Some obj \<Rightarrow> fst (run_state (r_str (reader_of obj []) ''token'' []) no_errors))) })"

end
