(* ===== verification/Client_State_Props.thy ===== *)
theory Client_State_Props
  imports Client_State
begin

text \<open>
  What the client configuration guarantees: only well-formed dial entries are accepted, what is
  written is read back through JSON text as through YAML text, and the documents the daemon writes
  at boot are read back as the dial choice of \<open>pickClientDialTransport\<close>.
\<close>

section \<open>Well-formed entries\<close>

definition wf_entry :: "client_transport \<Rightarrow> bool" where
  "wf_entry t \<longleftrightarrow> known_protocol (ct_protocol t)
     \<and> (ct_protocol t = ''local'' \<longrightarrow> t = default_transport\<lparr>ct_protocol := ''local''\<rparr>)
     \<and> (ct_protocol t \<noteq> ''tcp_ssl'' \<longrightarrow> ct_caFile t = [] \<and> ct_verifyPeer t)"

definition wf_client :: "client_state \<Rightarrow> bool" where
  "wf_client st \<longleftrightarrow> cs_schemaVersion st = 2 \<and> sorted_wrt (<) (map fst (cs_daemon st))
     \<and> list_all (\<lambda>m. fst m \<noteq> [] \<and> wf_entry (snd m)) (cs_daemon st)
     \<and> cs_fileOk st = (cs_daemon st \<noteq> [] \<and> cs_tokenFile st \<noteq> [])"

text \<open>Codecs that the writer spells out: an empty one is written as the default.\<close>

definition codecs_named :: "client_state \<Rightarrow> bool" where
  "codecs_named st \<longleftrightarrow> list_all (\<lambda>m. ct_codec (snd m) \<noteq> []) (cs_daemon st)"

lemma address_clean:
  assumes "run_state (read_address r t) e = (t', e')"
  shows "ct_protocol t' = ct_protocol t \<and> ct_caFile t' = ct_caFile t \<and> ct_verifyPeer t' = ct_verifyPeer t
    \<and> (ct_protocol t = ''local'' \<longrightarrow> t' = t)"
  using assms by (auto simp: read_address_def split: if_splits prod.splits)

lemma tls_clean:
  assumes "run_state (read_tls r t) e = (t', e')"
  shows "ct_protocol t' = ct_protocol t \<and> (ct_protocol t \<noteq> ''tcp_ssl'' \<longrightarrow> t' = t)"
  using assms by (auto simp: read_tls_def split: if_splits prod.splits)

lemma entry_clean:
  assumes "run_state (clientTransportFromJson j path) e = (Some t, e')"
  shows "wf_entry t"
proof -
  let ?r = "reader_of j (path @ ''.'')"
  obtain p e1 where p: "run_state (r_str ?r ''transport'' []) e = (p, e1)" by fastforce
  obtain t1 e2 where 1: "run_state (read_address ?r (default_transport\<lparr>ct_protocol := p\<rparr>)) e1 = (t1, e2)" by fastforce
  obtain t2 e3 where 2: "run_state (read_tls ?r t1) e2 = (t2, e3)" by fastforce
  have "known_protocol p" "t = t2"
    using assms p 1 2 by (auto simp: clientTransportFromJson_def Let_def split: if_splits prod.splits)
  with address_clean [OF 1] tls_clean [OF 2] show ?thesis
    by (auto simp: wf_entry_def default_transport_def)
qed

lemma emplace_names: "fst ` set (emplace k v acc) = insert k (fst ` set acc)"
  by (induction k v acc rule: emplace.induct) auto

lemma emplace_sorted: "sorted_wrt (<) (map fst acc) \<Longrightarrow> sorted_wrt (<) (map fst (emplace k v acc))"
proof (induction k v acc rule: emplace.induct)
  case (2 k v a b r)
  show ?case
  proof (cases "k = a \<or> k < a")
    case True
    with 2 show ?thesis by (auto intro: less_trans)
  next
    case False
    then have "a < k" by (metis linorder_neqE)
    moreover have "set (map fst (emplace k v r)) = insert k (set (map fst r))" by (simp add: emplace_names)
    ultimately show ?thesis using 2 False by (simp del: set_map)
  qed
qed simp

lemma entries_clean:
  "run_state (read_entries path kvs acc) e = (Some ms, e') \<Longrightarrow>
    sorted_wrt (<) (map fst acc) \<Longrightarrow> list_all (\<lambda>m. fst m \<noteq> [] \<and> wf_entry (snd m)) acc \<Longrightarrow>
    sorted_wrt (<) (map fst ms) \<and> list_all (\<lambda>m. fst m \<noteq> [] \<and> wf_entry (snd m)) ms
    \<and> fst ` set ms = fst ` set acc \<union> (fst ` set kvs - {[]})"
proof (induction path kvs acc arbitrary: e rule: read_entries.induct)
  case (2 path name v rest acc)
  show ?case
  proof (cases "name = []")
    case True
    with 2 show ?thesis by simp
  next
    case False
    obtain t e1 where t: "run_state (clientTransportFromJson v (path @ ''.'' @ name)) e = (t, e1)" by fastforce
    with 2(3) False obtain x where x: "t = Some x" by (cases t) auto
    have r: "run_state (read_entries path rest (emplace name x acc)) e1 = (Some ms, e')"
      using 2(3) t x False by simp
    have "list_all (\<lambda>m. fst m \<noteq> [] \<and> wf_entry (snd m)) (emplace name x acc)"
      using 2(5) set_emplace(1) [of name x acc] entry_clean [OF t [unfolded x]] False by (auto simp: list_all_iff)
    from 2(2) [OF False r emplace_sorted [OF 2(4)] this] False show ?thesis
      by (auto simp: emplace_names)
  qed
qed simp

section \<open>The trip through text\<close>

text \<open>
  Both text formats keep objects, strings and booleans, and give a whole number back as a whole
  number. That is all the client's reader needs.
\<close>

locale text_trip =
  fixes trip :: "json \<Rightarrow> json"
  assumes trip_obj: "trip (JObj kvs) = JObj (map (\<lambda>kv. (fst kv, trip (snd kv))) kvs)"
    and trip_str: "trip (JStr s) = JStr s"
    and trip_bool: "trip (JBool b) = JBool b"
    and trip_int: "trip (JInt i) = JInt i \<or> trip (JInt i) = JUInt i"
    and trip_uint: "trip (JUInt i) = JInt i \<or> trip (JUInt i) = JUInt i"
begin

lemma map_of_trip: "map_of (map (\<lambda>kv. (fst kv, trip (snd kv))) kvs) k = map_option trip (map_of kvs k)"
  by (induction kvs) auto

lemma trip_mk: "trip (mk_obj xs) = JObj (map (\<lambda>kv. (fst kv, trip (snd kv))) (put_all xs []))"
  by (simp add: mk_obj_def trip_obj)

lemma jfind_trip: "jfind (trip (mk_obj xs)) k = map_option trip (map_of (rev xs) k)"
  by (simp add: trip_mk map_of_trip map_of_mk)

lemma object_trip: "is_object (trip (mk_obj xs))"
  by (simp add: trip_mk)

lemma r_str_trip: "jfind j k = map_option trip (Some (JStr s)) \<Longrightarrow> r_str (reader_of j p) k d = State_Monad.return s"
  by (simp add: trip_str)

lemma r_bool_trip: "jfind j k = map_option trip (Some (JBool b)) \<Longrightarrow> r_boolean (reader_of j p) k d = State_Monad.return b"
  by (simp add: trip_bool)

lemma r_port_trip:
  "jfind j k = map_option trip (Some (JUInt (uint (n :: 16 word)))) \<Longrightarrow>
    r_integer (reader_of j p) k d 0 65535 = State_Monad.return (uint n)"
  using trip_uint [of "uint n"] word16_range [of n] by auto

lemma r_version_trip:
  "jfind j k = map_option trip (Some (JInt 2)) \<Longrightarrow>
    r_integer (reader_of j p) k d int64_min int64_max = State_Monad.return 2"
  using trip_int [of 2] by (auto simp: int64_min_def int64_max_def)

lemma entry_back:
  assumes "wf_entry t" "ct_codec t \<noteq> []"
  shows "run_state (clientTransportFromJson (trip (clientTransportToJson t)) path) no_errors = (Some t, no_errors)"
proof -
  let ?j = "trip (clientTransportToJson t)"
  let ?r = "reader_of ?j (path @ ''.'')"
  note f = jfind_trip [of "[(''transport'', JStr (ct_protocol t))]
     @ (if ct_protocol t \<noteq> ''local''
        then [(''host'', JStr (ct_host t)), (''port'', JUInt (uint (ct_port t))),
              (''codec'', JStr (if ct_codec t = [] then ''json'' else ct_codec t))] else [])
     @ (if ct_protocol t = ''tcp_ssl''
        then (if ct_caFile t \<noteq> [] then [(''ca'', JStr (ct_caFile t))] else [])
           @ [(''verify_peer'', JBool (ct_verifyPeer t))] else [])", folded clientTransportToJson_def]
  have o: "is_object ?j" unfolding clientTransportToJson_def by (rule object_trip)
  have tr: "r_str ?r ''transport'' [] = State_Monad.return (ct_protocol t)"
    by (rule r_str_trip) (auto simp: f)
  have ad: "run_state (read_address ?r (default_transport\<lparr>ct_protocol := ct_protocol t\<rparr>)) no_errors
      = (default_transport\<lparr>ct_protocol := ct_protocol t, ct_host := ct_host t, ct_port := ct_port t, ct_codec := ct_codec t\<rparr>, no_errors)"
  proof (cases "ct_protocol t = ''local''")
    case True
    with assms(1) have "t = default_transport\<lparr>ct_protocol := ''local''\<rparr>" by (simp add: wf_entry_def)
    then show ?thesis by (simp add: read_address_def default_transport_def)
  next
    case False
    have "r_str ?r ''host'' [] = State_Monad.return (ct_host t)" by (rule r_str_trip) (use False in \<open>auto simp: f\<close>)
    moreover have "r_integer ?r ''port'' 0 0 65535 = State_Monad.return (uint (ct_port t))"
      by (rule r_port_trip) (use False in \<open>auto simp: f\<close>)
    moreover have "r_str ?r ''codec'' ''json'' = State_Monad.return (ct_codec t)"
      by (rule r_str_trip) (use False assms(2) in \<open>auto simp: f\<close>)
    ultimately show ?thesis using False by (simp add: read_address_def)
  qed
  have tl: "run_state (read_tls ?r (default_transport\<lparr>ct_protocol := ct_protocol t, ct_host := ct_host t,
      ct_port := ct_port t, ct_codec := ct_codec t\<rparr>)) no_errors = (t, no_errors)"
  proof (cases "ct_protocol t = ''tcp_ssl''")
    case False
    with assms(1) show ?thesis by (simp add: read_tls_def wf_entry_def default_transport_def)
  next
    case True
    have "r_str ?r ''ca'' [] = State_Monad.return (ct_caFile t)"
    proof (cases "ct_caFile t = []")
      case c: True
      then have "jfind ?j ''ca'' = None" using True by (simp add: f)
      then show ?thesis using c by simp
    next
      case False
      then show ?thesis by (intro r_str_trip) (use True in \<open>auto simp: f\<close>)
    qed
    moreover have "r_boolean ?r ''verify_peer'' True = State_Monad.return (ct_verifyPeer t)"
      by (rule r_bool_trip) (use True in \<open>auto simp: f\<close>)
    ultimately show ?thesis using True by (simp add: read_tls_def default_transport_def)
  qed
  show ?thesis
    using assms(1) o by (simp add: clientTransportFromJson_def Let_def tr ad tl wf_entry_def del: present_reader_of)
qed

lemma entries_back:
  "sorted_wrt (<) (map fst acc @ map fst ms) \<Longrightarrow>
    list_all (\<lambda>m. fst m \<noteq> [] \<and> wf_entry (snd m)) ms \<Longrightarrow> list_all (\<lambda>m. ct_codec (snd m) \<noteq> []) ms \<Longrightarrow>
    run_state (read_entries path (map (\<lambda>m. (fst m, trip (clientTransportToJson (snd m)))) ms) acc) no_errors
      = (Some (acc @ ms), no_errors)"
proof (induction ms arbitrary: acc)
  case (Cons m ms)
  obtain k t where m: "m = (k, t)" by fastforce
  have lt: "\<forall>x \<in> fst ` set acc. x < k" using Cons.prems(1) by (auto simp: m sorted_wrt_append)
  have "run_state (read_entries path (map (\<lambda>m. (fst m, trip (clientTransportToJson (snd m)))) ms) (acc @ [(k, t)])) no_errors
      = (Some ((acc @ [(k, t)]) @ ms), no_errors)"
    using Cons.prems by (intro Cons.IH) (auto simp: m)
  then show ?case using Cons.prems(2,3) lt by (simp add: m entry_back emplace_last)
qed simp

lemma document_back:
  assumes "wf_client st" "codecs_named st"
  shows "parseClientStateDocument (trip (client_doc st)) = Inr st"
proof -
  let ?ms = "map (\<lambda>m. (fst m, clientTransportToJson (snd m))) (cs_daemon st)"
  let ?j = "trip (client_doc st)"
  note f = jfind_trip [of "[(''version'', JInt kClientStateSchemaVersion), (''token_file'', JStr (cs_tokenFile st))]
     @ opt_field ''instance_id'' (cs_instanceId st) @ [(''daemon'', mk_obj ?ms)]", folded client_doc_def]
  have srt: "sorted_wrt (<) (map fst (cs_daemon st))" using assms(1) by (simp add: wf_client_def)
  then have "sorted_keys ([] @ ?ms)" by (simp add: sorted_keys_def comp_def)
  from put_all_sorted [OF this]
  have d: "trip (mk_obj ?ms) = JObj (map (\<lambda>m. (fst m, trip (clientTransportToJson (snd m)))) (cs_daemon st))"
    by (simp add: trip_mk comp_def)
  have v: "r_integer (reader_of ?j []) ''version'' 0 int64_min int64_max = State_Monad.return 2"
    by (rule r_version_trip) (simp add: f kClientStateSchemaVersion_def map_add_def)
  have tf: "r_str (reader_of ?j []) ''token_file'' [] = State_Monad.return (cs_tokenFile st)"
    by (rule r_str_trip) (simp add: f map_add_def)
  have ii: "r_str (reader_of ?j []) ''instance_id'' [] = State_Monad.return (cs_instanceId st)"
  proof (cases "cs_instanceId st = []")
    case True
    then have "jfind ?j ''instance_id'' = None" by (simp add: f)
    then show ?thesis using True by simp
  next
    case False
    then show ?thesis by (intro r_str_trip) (simp add: f)
  qed
  have dm: "r_mapping (reader_of ?j []) ''daemon'' ''a mapping''
      = State_Monad.return (Some (map (\<lambda>m. (fst m, trip (clientTransportToJson (snd m)))) (cs_daemon st)))"
    by (rule r_mapping_present) (simp add: f d)
  have es: "run_state (read_entries (rpath (reader_of ?j []) ''daemon'')
      (map (\<lambda>m. (fst m, trip (clientTransportToJson (snd m)))) (cs_daemon st)) []) no_errors = (Some (cs_daemon st), no_errors)"
    using entries_back [of "[]" "cs_daemon st"] assms srt by (simp add: wf_client_def codecs_named_def del: rpath_reader_of)
  have o: "is_object ?j" unfolding client_doc_def by (rule object_trip)
  have fs: "run_state (client_fields (reader_of ?j [])) no_errors = ((cs_tokenFile st, cs_instanceId st, Some (cs_daemon st)), no_errors)"
    unfolding client_fields_def by (simp add: tf ii dm es del: rpath_reader_of)
  have w: "wrap_int 32 2 = 2" by (simp add: wrap_int_def)
  show ?thesis
    unfolding parseClientStateDocument_def
    using o assms(1) by (simp add: v fs w kClientStateSchemaVersion_def wf_client_def)
qed

end

interpretation json_text: text_trip reparse
  by unfold_locales auto

interpretation yaml_text: text_trip yaml_norm
  by unfold_locales auto

interpretation client_entry: json_codec clientTransportToJson
  "\<lambda>j. run_state (clientTransportFromJson j []) no_errors" "\<lambda>t. (Some t, no_errors)" "\<lambda>t. wf_entry t \<and> ct_codec t \<noteq> []"
  by unfold_locales (simp_all add: json_text.entry_back)

section \<open>The daemon's documents are the client's\<close>

text \<open>What a client is told about one listener list: the dial choice, wildcard addresses replaced.\<close>

definition dial_view :: "transport_info list \<Rightarrow> client_transport" where
  "dial_view ts = (case pickClientDialTransport ts of
      None \<Rightarrow> default_transport\<lparr>ct_protocol := ''local''\<rparr>
    | Some t \<Rightarrow>
        if ti_protocol t = ''local'' then default_transport\<lparr>ct_protocol := ''local''\<rparr>
        else \<lparr>ct_protocol = ti_protocol t, ct_host = toClientDialHost (ti_host t), ct_port = ti_port t,
              ct_codec = ti_codec t, ct_caFile = ti_caFile t, ct_verifyPeer = ti_verifyPeer t\<rparr>)"

definition boot_view :: "string \<Rightarrow> string \<Rightarrow> transport_info list \<Rightarrow> transport_info list \<Rightarrow> client_state" where
  "boot_view tokenFile instanceId core cap = \<lparr>cs_fileOk = (tokenFile \<noteq> []), cs_schemaVersion = 2,
     cs_tokenFile = tokenFile, cs_instanceId = instanceId,
     cs_daemon = [(''capability_module'', dial_view cap), (''core_service'', dial_view core)]\<rparr>"

lemma picked_wf: "list_all wf_transport ts \<Longrightarrow> pickClientDialTransport ts = Some t \<Longrightarrow> wf_transport t"
  by (cases ts) (auto simp: pickClientDialTransport_def list_all_iff split: option.splits if_splits dest!: find_SomeD)

lemma dial_view_wf:
  assumes "list_all wf_transport ts"
  shows "wf_entry (dial_view ts) \<and> ct_codec (dial_view ts) \<noteq> []"
proof (cases "pickClientDialTransport ts")
  case None
  then show ?thesis by (simp add: dial_view_def wf_entry_def known_protocol_def default_transport_def)
next
  case (Some t)
  with picked_wf [OF assms Some] show ?thesis
    by (auto simp: dial_view_def wf_entry_def wf_transport_def known_protocol_def default_transport_def)
qed

lemma dial_entry_view:
  assumes "list_all wf_transport ts"
  shows "dial_entry ts = clientTransportToJson (dial_view ts)"
proof (cases "pickClientDialTransport ts")
  case None
  then show ?thesis by (simp add: dial_view_def dial_entry_def clientTransportToJson_def default_transport_def mk_obj_def)
next
  case (Some t)
  with picked_wf [OF assms Some] show ?thesis
    by (auto simp: dial_view_def dial_entry_def clientTransportToJson_def default_transport_def toClientEntry_def
        wf_transport_def known_protocol_def)
qed

lemma client_document_view:
  assumes "list_all wf_transport core" "list_all wf_transport cap" "iid \<noteq> []"
  shows "client_document tokenFile iid core cap = client_doc (boot_view tokenFile iid core cap)"
  using assms
  by (simp add: client_document_def client_doc_def boot_view_def dial_entry_view kClientStateSchemaVersion_def
      opt_field_def mk_obj_def)

lemma boot_view_wf:
  assumes "list_all wf_transport core" "list_all wf_transport cap"
  shows "wf_client (boot_view tokenFile iid core cap) \<and> codecs_named (boot_view tokenFile iid core cap)"
  using dial_view_wf [OF assms(1)] dial_view_wf [OF assms(2)]
  by (simp add: boot_view_def wf_client_def codecs_named_def)

lemma share_file_run: "run_state (share_file p sh) w = (u, w') \<Longrightarrow> w_files w p = Some i \<Longrightarrow>
    \<exists>j. w_files w' p = Some j \<and> i_text j = i_text i"
  by (auto simp: share_file_def chown_def sys_def split: option.splits if_splits)

text \<open>A boot that found no client configuration leaves the new one and the new token on disk.\<close>

lemma boot_files:
  assumes "run_state (writeLocalClientArtifacts D iid tok at core cap g) w = (Inr True, w')" "isModern (d_cfg D)"
    and "w_files w (clientConfigPath (d_cfg D)) = None" "w_dirs w (clientConfigPath (d_cfg D)) = None"
  shows "\<exists>i. w_files w' (clientConfigPath (d_cfg D)) = Some i
    \<and> i_text i = yaml_dump (d_yaml D) (client_document ''auto.json'' iid core cap)"
  using assms(1)
proof (cases rule: artifacts_run)
  case (stages share0 w0 w1 share w2 w3 dec w4)
  let ?q = "clientConfigPath (d_cfg D)" and ?doc = "client_document ''auto.json'' iid core cap"
  define before where "before = (do {
     s0 \<leftarrow> resolve_share D g; _ \<leftarrow> mk_dirs (clientDir (d_cfg D)); s \<leftarrow> lock_daemon_dir D s0; widen_dirs D s })"
  have b: "run_state before w = ((), w3)" using stages(1-4) by (simp add: before_def)
  have "untouched ?q before" unfolding before_def by (auto intro!: frames)
  then have f3: "w_files w3 ?q = None" using untouchedD(1) [OF _ b] assms(3) by simp
  have "keeps_dir ?q before" unfolding before_def by (auto intro!: dir_frames)
  then have "w_dirs w3 ?q = None" using keeps_dirD [OF _ b] assms(4) by simp
  with f3 have dec: "dec = (True, ''auto.json'')"
    using stages(5) by (simp add: client_cfg_decision_def file_exists_def)
  from stages(6) obtain v w5 w6 where
    cfg: "run_state (atomicWriteText ?q (yaml_dump (d_yaml D) ?doc) (if share = None then mode_rw else mode_share_file)) w4 = (True, v)"
    and sh: "run_state (share_file ?q share) v = ((), w5)"
    and rest: "run_state (tbind (atomicWriteJson D (clientTokenPath (d_cfg D) ''auto.json'') (auto_document tok at)
          (if share = None then mode_rw else mode_share_file))
        (\<lambda>wrote. if \<not> wrote then pure False
          else do { _ \<leftarrow> share_file (clientTokenPath (d_cfg D) ''auto.json'') share; pure True })) w5 = (Inr True, w')"
    using assms(2) by (auto simp: artifacts_tail_def dec write_client_cfg_def split: prod.splits if_splits)
  from atomic_text_run(1) [OF cfg] share_file_run [OF sh] obtain i where
    i: "w_files w5 ?q = Some i" "i_text i = yaml_dump (d_yaml D) ?doc" by fastforce
  have "untouched ?q (tbind (atomicWriteJson D (clientTokenPath (d_cfg D) ''auto.json'') (auto_document tok at)
          (if share = None then mode_rw else mode_share_file))
        (\<lambda>wrote. if \<not> wrote then pure False
          else do { _ \<leftarrow> share_file (clientTokenPath (d_cfg D) ''auto.json'') share; pure True }))"
    by (intro frames atomic_json_frame allI)
      (simp_all add: clientConfigPath_def clientTokenPath_def unsafe_filename_def starts_with_def)
  from untouchedD(1) [OF this rest] i show ?thesis by simp
qed simp

text \<open>The client of a daemon: the same session and libraries.\<close>

definition client_of_daemon :: "daemon_env \<Rightarrow> client_env" where
  "client_of_daemon D = \<lparr>ce_cfg = d_cfg D, ce_json = d_json D, ce_yaml = d_yaml D\<rparr>"

section \<open>Properties\<close>


text \<open>
  The client configuration survives the trip through either text format: what the writer
  wrote is what the strict reader answers, for every well-formed configuration.
\<close>

theorem client_roundtrip:
  assumes "wf_client st" "codecs_named st"
  shows "parseClientStateDocument (reparse (client_doc st)) = Inr st
    \<and> parseClientStateDocument (yaml_norm (client_doc st)) = Inr st"
  using json_text.document_back [OF assms] yaml_text.document_back [OF assms] by simp

text \<open>
  The daemon's boot and the client's reader agree through the files: the reader answers the dial
  choice for both modules, and the token file holds the token the daemon made.
\<close>

lemma boot_client_read:
  assumes "run_state (writeLocalClientArtifacts D iid tok at core cap g) w = (Inr True, w')" "isModern (d_cfg D)"
    and "w_files w (clientConfigPath (d_cfg D)) = None" "w_dirs w (clientConfigPath (d_cfg D)) = None"
    and "yaml_lib_ok (d_yaml D)"
    and "list_all wf_transport core" "list_all wf_transport cap" "iid \<noteq> []"
    and "yaml_ok (client_document ''auto.json'' iid core cap)"
    and "w_sys w' (w_tick w') (ReadF (clientConfigPath (d_cfg D)))"
  shows "run_state (client_read (client_of_daemon D) None) w' = (boot_view ''auto.json'' iid core cap, tick w')"
proof -
  let ?doc = "client_document ''auto.json'' iid core cap"
  obtain i where i: "w_files w' (clientConfigPath (d_cfg D)) = Some i" "i_text i = yaml_dump (d_yaml D) ?doc"
    using boot_files [OF assms(1-4)] by blast
  obtain n where "y_load (d_yaml D) (yaml_dump (d_yaml D) ?doc) = Inr n" "n \<noteq> YNull"
    "nodeToJson (d_yaml D) n = Some (yaml_norm ?doc)"
    by (rule load_back [OF assms(5,9)]) (simp_all add: client_document_def mk_obj_def)
  then have "yaml_parse (d_yaml D) (i_text i) = Inr (yaml_norm ?doc)" by (simp add: yaml_parse_def i(2))
  moreover have "parseClientStateDocument (yaml_norm ?doc) = Inr (boot_view ''auto.json'' iid core cap)"
    using yaml_text.document_back boot_view_wf [OF assms(6,7)] by (simp add: client_document_view [OF assms(6-8)])
  ultimately show ?thesis
    using i(1) assms(10) by (simp add: client_read_def client_of_daemon_def read_file_def)
qed

lemma boot_token_read:
  assumes "run_state (writeLocalClientArtifacts D iid tok at core cap g) w = (Inr True, w')" "json_lib_ok (d_json D)"
    and "w_files v = w_files w'" "w_sys v (w_tick v) (ReadF (clientTokenPath (d_cfg D) ''auto.json''))"
  shows "run_state (readTokenFile (client_of_daemon D) ''auto.json'') v = (tok, tick v)"
proof -
  from assms(1) obtain s j where s: "jl_dump (d_json D) 4 (auto_document tok at) = Some s"
    "w_files w' (clientTokenPath (d_cfg D) ''auto.json'') = Some j" "i_text j = s @ [CHR 10]"
  proof (cases rule: artifacts_run)
    case (stages share0 w0 w1 share w2 w3 dec w4)
    from auto_file [OF stages(6)] that show thesis by blast
  qed simp
  have "jfind (reparse (auto_document tok at)) ''token'' = Some (JStr tok)"
    unfolding auto_document_def jfind_obj_reparse by simp
  then have "r_str (reader_of (reparse (auto_document tok at)) []) ''token'' [] = State_Monad.return tok"
    by (rule r_str_written)
  with s assms(3,4) json_lib_ok_parse [OF assms(2) s(1)]
  show ?thesis by (simp add: readTokenFile_def client_of_daemon_def read_file_def)
qed

section \<open>Witnesses\<close>

definition sample_client :: client_state where
  "sample_client = boot_view ''auto.json'' ''i1'' [sample_transport] []"

lemma sample_transport_wf: "wf_transport sample_transport"
  by (simp add: sample_transport_def wf_transport_def known_protocol_def)

lemma sample_client_wf: "wf_client sample_client" "codecs_named sample_client"
  using boot_view_wf [of "[sample_transport]" "[]"] sample_transport_wf by (simp_all add: sample_client_def)

lemma client_roundtrip_witness:
  "parseClientStateDocument (reparse (client_doc sample_client)) = Inr sample_client"
  using client_roundtrip [OF sample_client_wf] by blast


lemma sample_boot:
  "fst (run_state (writeLocalClientArtifacts sample_daemon ''i1'' ''t'' ''2024'' [sample_transport] [] []) sample_world) = Inr True"
proof -
  have d: "jl_dump sample_json 4 (auto_document ''t'' ''2024'') = Some (enc_json (auto_document ''t'' ''2024''))"
    by (rule sample_dump) code_simp
  show ?thesis
    by (simp add: writeLocalClientArtifacts_def resolve_share_def lock_daemon_dir_def widen_dirs_def
        client_cfg_decision_def file_exists_def write_client_cfg_def atomicWriteJson_def sample_daemon_def d
        share_file_def atomicWriteText_def atomic_put_def tmp_name_def mk_dirs_def open_trunc_def write_out_def
        chmod_def rename_def sys_def Let_def set_text_def sample_world_def isModern_def sample_cfg_def
        clientConfigPath_def clientDir_def configDir_def clientTokenPath_def parent_path_def unsafe_filename_def)
qed

lemma sample_boot_run:
  obtains w' where
    "run_state (writeLocalClientArtifacts sample_daemon ''i1'' ''t'' ''2024'' [sample_transport] [] []) sample_world = (Inr True, w')"
    "w_sys w' = w_sys sample_world"
proof -
  let ?boot = "writeLocalClientArtifacts sample_daemon ''i1'' ''t'' ''2024'' [sample_transport] [] []"
  obtain w' where w': "run_state ?boot sample_world = (Inr True, w')" using sample_boot by (metis prod.collapse)
  have "steady (stat_mode p)" for p by (simp add: steady_def stat_mode_def Let_def)
  then have "steady ?boot"
    unfolding writeLocalClientArtifacts_def resolve_share_def lock_daemon_dir_def widen_dirs_def
      client_cfg_decision_def write_client_cfg_def atomicWriteJson_def share_file_def
    by (auto intro!: steadys atomic_text_steady split: option.split)
  then have "w_sys w' = w_sys sample_world" using w' unfolding steady_def Let_def by (metis snd_conv)
  with w' show thesis by (rule that)
qed

lemma sample_boot_ok:
  "isModern (d_cfg sample_daemon)" "yaml_lib_ok (d_yaml sample_daemon)" "json_lib_ok (d_json sample_daemon)"
  "yaml_ok (client_document ''auto.json'' ''i1'' [sample_transport] [])"
proof -
  show "yaml_ok (client_document ''auto.json'' ''i1'' [sample_transport] [])" by code_simp
qed (simp_all add: sample_daemon_def sample_yaml_ok sample_json_ok isModern_def sample_cfg_def)

end
