(* ===== verification/Process_Util.thy ===== *)
theory Process_Util
  imports Json
begin

text \<open>
  \<open>src/src/process_util.h\<close> (POSIX branches): is a process of the state file alive, and waiting for
  it to go. The kernel (\<open>kill\<close>, the steady clock, \<open>sleep_for\<close>) is outside \<open>src/\<close>: it is a record of
  functions over an abstract machine state \<open>'r\<close>, so whatever else runs between two calls is in it.
\<close>

section \<open>The kernel\<close>

datatype kill_answer = Kill_Ok | Kill_ESRCH | Kill_Other

record 'r os =
  os_kill :: "int \<Rightarrow> 'r \<Rightarrow> kill_answer \<times> 'r"   \<comment> \<open>\<open>kill(pid, 0)\<close>\<close>
  os_now :: "'r \<Rightarrow> int"                       \<comment> \<open>steady clock, in milliseconds\<close>
  os_sleep :: "nat \<Rightarrow> 'r \<Rightarrow> 'r"                \<comment> \<open>\<open>sleep_for\<close>, in milliseconds\<close>

section \<open>processAlive and waitForProcessExit\<close>

text \<open>The guard is on the \<open>long long\<close>, the call on its conversion to the 32 bits of \<open>pid_t\<close>.\<close>

definition processAlive :: "('r, 'z) os_scheme \<Rightarrow> int \<Rightarrow> 'r \<Rightarrow> bool \<times> 'r" where
  "processAlive S pid r =
    (if pid \<le> 0 then (False, r)
     else (case os_kill S (wrap_int 32 pid) r of (a, r') \<Rightarrow>
       (if a = Kill_Ok then True else a \<noteq> Kill_ESRCH, r')))"

text \<open>The loop; it may run forever when the clock stands still.\<close>

partial_function (option) exit_loop ::
    "('r, 'z) os_scheme \<Rightarrow> int \<Rightarrow> int \<Rightarrow> nat \<Rightarrow> 'r \<Rightarrow> (bool \<times> 'r) option" where
  "exit_loop S pid deadline pollMs r =
    (if \<not> fst (processAlive S pid r) then Some (True, snd (processAlive S pid r))
     else if os_now S (snd (processAlive S pid r)) \<ge> deadline then Some (False, snd (processAlive S pid r))
     else exit_loop S pid deadline pollMs (os_sleep S pollMs (snd (processAlive S pid r))))"

definition waitForProcessExit ::
    "('r, 'z) os_scheme \<Rightarrow> int \<Rightarrow> int \<Rightarrow> int \<Rightarrow> 'r \<Rightarrow> (bool \<times> 'r) option" where
  "waitForProcessExit S pid timeoutMs pollMs r =
    (if pid \<le> 0 then Some (False, r)
     else exit_loop S pid (os_now S r + timeoutMs) (if pollMs \<le> 0 then 1 else nat pollMs) r)"

section \<open>The wait ends\<close>

text \<open>The documented behaviour of the clock: it is monotonic, and a sleep lasts at least as long as asked.\<close>

definition clock_ok :: "('r, 'z) os_scheme \<Rightarrow> bool" where
  "clock_ok S \<longleftrightarrow> (\<forall>r pid. os_now S r \<le> os_now S (snd (os_kill S pid r)))
     \<and> (\<forall>r ms. os_now S r + int ms \<le> os_now S (os_sleep S ms r))"

lemma alive_later: "clock_ok S \<Longrightarrow> os_now S r \<le> os_now S (snd (processAlive S pid r))"
  by (simp add: processAlive_def clock_ok_def split_beta)

text \<open>The machine at the \<open>k\<close>-th poll.\<close>

primrec polled :: "('r, 'z) os_scheme \<Rightarrow> int \<Rightarrow> nat \<Rightarrow> nat \<Rightarrow> 'r \<Rightarrow> 'r" where
  "polled S pid pollMs 0 r = r"
| "polled S pid pollMs (Suc k) r = polled S pid pollMs k (os_sleep S pollMs (snd (processAlive S pid r)))"

lemma exit_loop_ends:
  assumes "clock_ok S" "0 < pollMs"
  shows "\<exists>k b. exit_loop S pid deadline pollMs r = Some (b, snd (processAlive S pid (polled S pid pollMs k r)))
    \<and> (\<forall>j < k. fst (processAlive S pid (polled S pid pollMs j r)))
    \<and> b = (\<not> fst (processAlive S pid (polled S pid pollMs k r)))
    \<and> (\<not> b \<longrightarrow> deadline \<le> os_now S (snd (processAlive S pid (polled S pid pollMs k r))))
    \<and> (0 < k \<longrightarrow> int k * int pollMs < deadline - os_now S r + int pollMs)"
  using assms
proof (induction "nat (deadline - os_now S r)" arbitrary: r rule: less_induct)
  case less
  let ?p = "processAlive S pid r"
  show ?case
  proof (cases "fst ?p \<and> os_now S (snd ?p) < deadline")
    case False
    then show ?thesis
      by (intro exI [of _ 0] exI [of _ "\<not> fst ?p"]) (auto simp: exit_loop.simps [of S pid deadline pollMs r])
  next
    case True
    let ?q = "os_sleep S pollMs (snd ?p)"
    have t: "os_now S r + int pollMs \<le> os_now S ?q"
      using alive_later [OF less.prems(1), of r pid] less.prems(1) unfolding clock_ok_def
      by (meson add_le_cancel_right order_trans)
    have "os_now S r < deadline" using True alive_later [OF less.prems(1), of r pid] by linarith
    with t less.prems(2) have "nat (deadline - os_now S ?q) < nat (deadline - os_now S r)" by linarith
    from less.hyps [OF this less.prems] obtain k b where
      k: "exit_loop S pid deadline pollMs ?q = Some (b, snd (processAlive S pid (polled S pid pollMs k ?q)))"
      "\<forall>j < k. fst (processAlive S pid (polled S pid pollMs j ?q))"
      "b = (\<not> fst (processAlive S pid (polled S pid pollMs k ?q)))"
      "\<not> b \<longrightarrow> deadline \<le> os_now S (snd (processAlive S pid (polled S pid pollMs k ?q)))"
      "0 < k \<longrightarrow> int k * int pollMs < deadline - os_now S ?q + int pollMs" by blast
    have "exit_loop S pid deadline pollMs r = exit_loop S pid deadline pollMs ?q"
      using True by (subst exit_loop.simps) simp
    moreover have "\<forall>j < Suc k. fst (processAlive S pid (polled S pid pollMs j r))"
      using True k(2) by (auto simp: less_Suc_eq_0_disj)
    moreover have "int (Suc k) * int pollMs < deadline - os_now S r + int pollMs"
      using k(5) t \<open>os_now S r < deadline\<close> by (cases "k = 0") (auto simp: algebra_simps)
    ultimately show ?thesis using k(1,3,4) by (intro exI [of _ "Suc k"] exI [of _ b]) simp
  qed
qed

text \<open>
  C23: waiting for a process always ends, after at most \<open>timeout / poll + 1\<close> sleeps, and its answer
  is exact: true when a poll found the process gone (the polls before found it alive), false only
  once the whole time has passed.
\<close>

theorem wait_exact:
  assumes "clock_ok S" "0 < pid"
  shows "\<exists>k b. waitForProcessExit S pid timeoutMs pollMs r
      = Some (b, snd (processAlive S pid (polled S pid (nat (max 1 pollMs)) k r)))
    \<and> (\<forall>j < k. fst (processAlive S pid (polled S pid (nat (max 1 pollMs)) j r)))
    \<and> b = (\<not> fst (processAlive S pid (polled S pid (nat (max 1 pollMs)) k r)))
    \<and> (\<not> b \<longrightarrow> os_now S r + timeoutMs \<le> os_now S (snd (processAlive S pid (polled S pid (nat (max 1 pollMs)) k r))))
    \<and> (0 < k \<longrightarrow> int k * max 1 pollMs < timeoutMs + max 1 pollMs)"
proof -
  have "(if pollMs \<le> 0 then 1 else nat pollMs) = nat (max 1 pollMs)" by (auto simp: max_def)
  with exit_loop_ends [OF assms(1), of "nat (max 1 pollMs)" pid "os_now S r + timeoutMs" r] assms(2)
  show ?thesis by (simp add: waitForProcessExit_def)
qed

text \<open>A pid past \<open>pid_t\<close>: the guard passes and the call asks about another process (here the own group).\<close>

lemma pid_wraps: "processAlive S (2 ^ 32) r = (case os_kill S 0 r of (a, r') \<Rightarrow> (a \<noteq> Kill_ESRCH, r'))"
  by (auto simp: processAlive_def wrap_int_def split: prod.split)

section \<open>A kernel\<close>

text \<open>A clock in milliseconds and the moment one process ends; asking costs a millisecond.\<close>

definition sample_os :: "int \<Rightarrow> int os" where
  "sample_os ends = \<lparr>os_kill = (\<lambda>pid t. (if pid = 42 \<and> t < ends then Kill_Ok else Kill_ESRCH, t + 1)),
     os_now = (\<lambda>t. t), os_sleep = (\<lambda>ms t. t + int ms)\<rparr>"

lemma sample_clock: "clock_ok (sample_os ends)"
  by (simp add: clock_ok_def sample_os_def)

lemma sample_polls: "polled (sample_os 120) 42 50 k t = t + 51 * int k"
  by (induction k arbitrary: t) (simp_all add: processAlive_def sample_os_def wrap_int_def)

lemma wait_exact_witness: "\<exists>t. waitForProcessExit (sample_os 120) 42 1000 50 0 = Some (True, t)"
proof -
  let ?S = "sample_os 120"
  have alive: "fst (processAlive ?S 42 t) \<longleftrightarrow> t < 120" "snd (processAlive ?S 42 t) = t + 1" for t
    by (simp_all add: processAlive_def sample_os_def wrap_int_def)
  have sixty: "polled ?S 42 50 k 0 = 51 * int k" for k using sample_polls [of k 0] by simp
  have n: "os_now ?S t = t" for t by (simp add: sample_os_def)
  obtain k b where w: "waitForProcessExit ?S 42 1000 50 0 = Some (b, 51 * int k + 1)"
    "\<forall>j < k. 51 * int j < 120" "b = (120 \<le> 51 * int k)" "\<not> b \<longrightarrow> 1000 \<le> 51 * int k + 1"
    using wait_exact [OF sample_clock, of 42 120 1000 50 0] by (auto simp: sixty alive n max_def not_less)
  have "k \<le> 3" using w(2) spec [OF w(2), of 3] by (cases "k \<le> 3") auto
  with w(4) have "b = True" by auto
  with w(1) show ?thesis by blast
qed

end
