(* ===== verification/Rpc_Client.thy ===== *)
theory Rpc_Client
  imports Client_State Process_Util Package_Ops
begin

text \<open>
  \<open>src/src/client/client.cpp\<close> and \<open>src/src/local_endpoint.h\<close>: the client that dials the daemon and
  proxies every command. The transport library, the kernel and the other end are outside \<open>src/\<close>:
  they are the parameter \<open>link\<close>, functions over an abstract network state \<open>'r\<close>. What the client does
  to the library is logged in program order (latest first).
\<close>

section \<open>The other side\<close>

datatype wire_protocol = LocalSocket | Tcp | TcpSsl
datatype wire_codec = WireJson | WireCbor

record transport_cfg =
  tc_protocol :: wire_protocol
  tc_host :: string
  tc_port :: "16 word"
  tc_caFile :: string
  tc_verifyPeer :: bool
  tc_codec :: wire_codec

datatype stat_answer = Stat_ENOENT | Stat_Fails | Stat_Socket | Stat_Other
datatype connect_answer = Connected | Refused | Connect_ENOENT | Connect_Fails

record 'r link = "'r os" +
  ln_invoke :: "string \<Rightarrow> json \<Rightarrow> nat option \<Rightarrow> 'r \<Rightarrow> json \<times> 'r"  \<comment> \<open>\<open>None\<close>: the default deadline\<close>
  ln_client :: "transport_cfg \<Rightarrow> 'r \<Rightarrow> bool"    \<comment> \<open>\<open>getClient\<close> answers a handle\<close>
  ln_object :: "'r \<Rightarrow> bool"                     \<comment> \<open>\<open>requestObject\<close> answers an object\<close>
  ln_temp :: string                            \<comment> \<open>\<open>QDir::tempPath()\<close>\<close>
  ln_stat :: "string \<Rightarrow> 'r \<Rightarrow> stat_answer"
  ln_socket :: "'r \<Rightarrow> bool"
  ln_connect :: "string \<Rightarrow> 'r \<Rightarrow> connect_answer"
  ln_sun_path :: nat                           \<comment> \<open>\<open>sizeof(addr.sun_path)\<close>\<close>
  ln_version :: string

datatype sdk_call =
    Set_Env string string
  | Save_Token string string
  | Capability_Transport transport_cfg
  | Get_Client string transport_cfg
  | Invoked string json "nat option"
  | On_Event string string

record 'r rpc =
  rc_world :: world
  rc_net :: 'r
  rc_log :: "sdk_call list"
  rc_clientState :: client_state
  rc_instanceId :: string
  rc_token :: string
  rc_connected :: bool
  rc_lastError :: string

type_synonym ('r, 'a) client_op = "('r rpc, 'a) state"

definition on_disk :: "'a io \<Rightarrow> ('r, 'a) client_op" where
  "on_disk m = State (\<lambda>s. case run_state m (rc_world s) of (a, w) \<Rightarrow> (a, s\<lparr>rc_world := w\<rparr>))"

definition sdk :: "sdk_call \<Rightarrow> ('r, unit) client_op" where
  "sdk c = State_Monad.update (\<lambda>s. s\<lparr>rc_log := c # rc_log s\<rparr>)"

definition invoke_rpc :: "'r link \<Rightarrow> string \<Rightarrow> json list \<Rightarrow> nat \<Rightarrow> ('r, json) client_op" where
  "invoke_rpc L method args timeoutMs = State (\<lambda>s.
    (let deadline = (if timeoutMs > 0 then Some timeoutMs else None)
     in case ln_invoke L method (JArr args) deadline (rc_net s) of (ret, r) \<Rightarrow>
          (ret, s\<lparr>rc_net := r, rc_log := Invoked method (JArr args) deadline # rc_log s\<rparr>)))"

section \<open>localEndpointProvablyAbsent\<close>

definition endpoint_path :: "'r link \<Rightarrow> string \<Rightarrow> string \<Rightarrow> string" where
  "endpoint_path L moduleName instanceId = ln_temp L @ ''/logos_'' @ moduleName @ ''_'' @ instanceId"

definition localEndpointProvablyAbsent :: "'r link \<Rightarrow> string \<Rightarrow> string \<Rightarrow> 'r \<Rightarrow> bool \<times> string" where
  "localEndpointProvablyAbsent L moduleName instanceId r =
    (if moduleName = [] \<or> instanceId = [] then (False, [])
     else (let path = endpoint_path L moduleName instanceId
       in case ln_stat L path r of
            Stat_ENOENT \<Rightarrow> (True, path)
          | Stat_Fails \<Rightarrow> (False, path)
          | Stat_Other \<Rightarrow> (False, path)
          | Stat_Socket \<Rightarrow>
              if length path \<ge> ln_sun_path L then (False, path)
              else if \<not> ln_socket L r then (False, path)
              else (ln_connect L path r = Refused \<or> ln_connect L path r = Connect_ENOENT, path)))"

section \<open>connect\<close>

definition toCfg :: "client_transport \<Rightarrow> transport_cfg" where
  "toCfg t = \<lparr>
     tc_protocol = (if ct_protocol t = ''tcp'' then Tcp
                    else if ct_protocol t = ''tcp_ssl'' then TcpSsl else LocalSocket),
     tc_host = ct_host t, tc_port = ct_port t, tc_caFile = ct_caFile t, tc_verifyPeer = ct_verifyPeer t,
     tc_codec = (if ct_codec t = ''cbor'' then WireCbor else WireJson)\<rparr>"

definition fails_with :: "string \<Rightarrow> ('r, bool) client_op" where
  "fails_with msg = do {
     _ \<leftarrow> State_Monad.update (\<lambda>s. s\<lparr>rc_lastError := msg\<rparr>);
     State_Monad.return False }"

text \<open>From the transports on: the token is known, the library has it.\<close>

definition dial :: "'r link \<Rightarrow> client_env \<Rightarrow> client_state \<Rightarrow> ('r, bool) client_op" where
  "dial L C st = (case map_of (cs_daemon st) ''core_service'' of
      None \<Rightarrow> fails_with (clientConfigPath (ce_cfg C) @ '': '' @ [CHR 39] @ ''daemon.core_service'' @ [CHR 39] @ '' is required.'')
    | Some t \<Rightarrow> do {
        s \<leftarrow> State_Monad.get;
        let probe = localEndpointProvablyAbsent L ''core_service'' (rc_instanceId s) (rc_net s);
        if tc_protocol (toCfg t) = LocalSocket \<and> fst probe
        then fails_with (''No daemon running (no local endpoint at '' @ snd probe
               @ ''). A daemon that stopped removes it; start one in this session to get it back.'')
        else do {
          _ \<leftarrow> (case map_of (cs_daemon st) ''capability_module'' of
               None \<Rightarrow> State_Monad.return ()
             | Some c \<Rightarrow> sdk (Capability_Transport (toCfg c)));
          _ \<leftarrow> sdk (Get_Client ''core_service'' (toCfg t));
          s \<leftarrow> State_Monad.get;
          if \<not> ln_client L (toCfg t) (rc_net s) then fails_with ''Failed to get core_service client handle.''
          else do {
            _ \<leftarrow> State_Monad.update (\<lambda>s. s\<lparr>rc_connected := True\<rparr>);
            State_Monad.return True } } })"

definition connect :: "'r link \<Rightarrow> client_env \<Rightarrow> client_state option \<Rightarrow> ('r, bool) client_op" where
  "connect L C override = do {
     st \<leftarrow> on_disk (client_read C override);
     _ \<leftarrow> State_Monad.update (\<lambda>s. s\<lparr>rc_clientState := st\<rparr>);
     if \<not> cs_fileOk st then fails_with (''No client config at '' @ clientConfigPath (ce_cfg C)
       @ ''. Start a daemon in this session (it writes one on boot), or install a dial spec with ''
       @ ''`logosctl client config set FILE` alongside the matching token file.'')
     else do {
       token \<leftarrow> (if getToken (ce_cfg C) \<noteq> [] then State_Monad.return (getToken (ce_cfg C))
                else on_disk (readTokenFile C (cs_tokenFile st)));
       _ \<leftarrow> State_Monad.update (\<lambda>s. s\<lparr>rc_token := token\<rparr>);
       if token = [] then fails_with (''No authentication token. Expected at ''
         @ clientTokenPath (ce_cfg C) (cs_tokenFile st) @ '' or in $LOGOSCTL_TOKEN.'')
       else do {
         _ \<leftarrow> (if cs_instanceId st \<noteq> [] then do {
                _ \<leftarrow> State_Monad.update (\<lambda>s. s\<lparr>rc_instanceId := cs_instanceId st\<rparr>);
                sdk (Set_Env ''LOGOS_INSTANCE_ID'' (cs_instanceId st)) }
              else State_Monad.return ());
         _ \<leftarrow> sdk (Save_Token ''cli_client'' token);
         _ \<leftarrow> sdk (Save_Token ''core_service'' token);
         dial L C st } } }"

section \<open>The proxied requests\<close>

definition rpc_failed :: "string \<Rightarrow> json" where
  "rpc_failed msg = mk_obj [(''status'', JStr ''error''), (''code'', JStr ''RPC_FAILED''), (''message'', JStr msg)]"

definition quoted :: "string \<Rightarrow> string" where
  "quoted s = [CHR 39] @ s @ [CHR 39]"

text \<open>An answer that is no object is a request that failed.\<close>

definition object_or :: "string \<Rightarrow> json \<Rightarrow> json" where
  "object_or msg ret = (if is_object ret then ret else rpc_failed msg)"

definition request :: "'r link \<Rightarrow> string \<Rightarrow> json list \<Rightarrow> nat \<Rightarrow> string \<Rightarrow> ('r, json) client_op" where
  "request L method args timeoutMs msg = do {
     ret \<leftarrow> invoke_rpc L method args timeoutMs;
     State_Monad.return (object_or msg ret) }"

definition rpc_loadModule :: "'r link \<Rightarrow> string \<Rightarrow> ('r, json) client_op" where
  "rpc_loadModule L name = request L ''loadModule'' [JStr name] 0 (''loadModule('' @ quoted name @ '') RPC call failed.'')"

definition rpc_unloadModule :: "'r link \<Rightarrow> string \<Rightarrow> bool \<Rightarrow> ('r, json) client_op" where
  "rpc_unloadModule L name withDependents = request L ''unloadModule'' [JStr name, JBool withDependents] 0
     (''unloadModule('' @ quoted name @ '') RPC call failed.'')"

definition rpc_refreshModules :: "'r link \<Rightarrow> ('r, json) client_op" where
  "rpc_refreshModules L = request L ''refreshModules'' [] 0 ''refreshModules() RPC call failed.''"

definition rpc_planPackageOperation :: "'r link \<Rightarrow> string \<Rightarrow> json \<Rightarrow> json \<Rightarrow> ('r, json) client_op" where
  "rpc_planPackageOperation L k names opts = request L ''planPackageOperation'' [JStr k, names, opts] kCatalogMs
     (''planPackageOperation('' @ quoted k @ '') RPC call failed.'')"

definition rpc_applyPackageOperation :: "'r link \<Rightarrow> string \<Rightarrow> json \<Rightarrow> json \<Rightarrow> ('r, json) client_op" where
  "rpc_applyPackageOperation L k names opts = request L ''applyPackageOperation'' [JStr k, names, opts] kTransferMs
     (''applyPackageOperation('' @ quoted k @ '') RPC call failed.'')"

definition rpc_downloadPackage :: "'r link \<Rightarrow> string \<Rightarrow> json \<Rightarrow> ('r, json) client_op" where
  "rpc_downloadPackage L name opts = request L ''downloadPackage'' [JStr name, opts] kTransferMs
     (''downloadPackage('' @ quoted name @ '') RPC call failed.'')"

definition rpc_reloadModule :: "'r link \<Rightarrow> string \<Rightarrow> ('r, json) client_op" where
  "rpc_reloadModule L name = request L ''reloadModule'' [JStr name] 0 (''reloadModule('' @ quoted name @ '') RPC call failed.'')"

definition rpc_listModules :: "'r link \<Rightarrow> string \<Rightarrow> ('r, json option) client_op" where
  "rpc_listModules L f = do {
     ret \<leftarrow> invoke_rpc L ''listModules'' [JStr f] 0;
     State_Monad.return (if is_array ret then Some ret else None) }"

definition rpc_getStatus :: "'r link \<Rightarrow> ('r, json) client_op" where
  "rpc_getStatus L = do {
     ret \<leftarrow> invoke_rpc L ''getStatus'' [] 0;
     s \<leftarrow> State_Monad.get;
     State_Monad.return (if is_object ret then ret
       else mk_obj [(''daemon'', mk_obj ([(''status'', JStr ''not_running''), (''version'', JStr (ln_version L))]
               @ (if rc_instanceId s \<noteq> [] then [(''instance_id'', JStr (rc_instanceId s))] else []))),
             (''modules'', JArr []), (''rpc_error'', JStr ''core_service not reachable'')]) }"

definition rpc_getModuleInfo :: "'r link \<Rightarrow> string \<Rightarrow> ('r, json) client_op" where
  "rpc_getModuleInfo L name = request L ''getModuleInfo'' [JStr name] 0 (''getModuleInfo('' @ quoted name @ '') RPC call failed.'')"

definition rpc_getModuleStats :: "'r link \<Rightarrow> ('r, json option) client_op" where
  "rpc_getModuleStats L = do {
     ret \<leftarrow> invoke_rpc L ''getModuleStats'' [] 0;
     State_Monad.return (if is_array ret then Some ret else None) }"

definition rpc_callModuleMethod :: "'r link \<Rightarrow> string \<Rightarrow> string \<Rightarrow> json \<Rightarrow> ('r, json) client_op" where
  "rpc_callModuleMethod L module method args = request L ''callModuleMethod'' [JStr module, JStr method, args] 0
     (''callModuleMethod('' @ quoted module @ '','' @ quoted method @ '') RPC call failed.'')"

text \<open>What the event handler hands to the callback, at the time \<open>stamp\<close>.\<close>

definition arg_fields :: "json list \<Rightarrow> fields" where
  "arg_fields vs = map (\<lambda>(i, v). (''arg'' @ show_nat i, v)) (enumerate 0 vs)"

definition module_event :: "string \<Rightarrow> string \<Rightarrow> json \<Rightarrow> json option" where
  "module_event module stamp data = (case data of
      JArr (JStr m # e # rest) \<Rightarrow>
        if m \<noteq> module then None
        else Some (mk_obj [(''timestamp'', JStr stamp), (''module'', JStr m), (''event'', e),
               (''data'', if rest = [] then JNull else mk_obj (arg_fields rest))])
    | _ \<Rightarrow> None)"

definition rpc_watchModuleEvents :: "'r link \<Rightarrow> string \<Rightarrow> string \<Rightarrow> ('r, bool) client_op" where
  "rpc_watchModuleEvents L module eventName = do {
     s \<leftarrow> State_Monad.get;
     if \<not> rc_connected s then State_Monad.return False
     else do {
       subscribed \<leftarrow> invoke_rpc L ''watchModuleEvents'' [JStr module, JStr eventName] 0;
       s \<leftarrow> State_Monad.get;
       if subscribed \<noteq> JBool True then State_Monad.return False
       else if \<not> ln_object L (rc_net s) then State_Monad.return False
       else do {
         _ \<leftarrow> sdk (On_Event ''core_service'' ''module_event'');
         State_Monad.return True } } }"

section \<open>shutdown\<close>

definition kShutdownTimeoutMs :: nat where "kShutdownTimeoutMs = 5000"
definition kShutdownConfirmMs :: nat where "kShutdownConfirmMs = 15000"
definition kShutdownProbeMs :: nat where "kShutdownProbeMs = 1500"
definition kShutdownProbeGapMs :: nat where "kShutdownProbeGapMs = 200"

definition probe :: "'r link \<Rightarrow> 'r rpc \<Rightarrow> json \<times> 'r rpc" where
  "probe L s = run_state (invoke_rpc L ''getStatus'' [] kShutdownProbeMs) s"

partial_function (option) probe_loop :: "'r link \<Rightarrow> int \<Rightarrow> 'r rpc \<Rightarrow> (bool \<times> 'r rpc) option" where
  "probe_loop L deadline s =
    (if \<not> is_object (fst (probe L s)) then Some (True, snd (probe L s))
     else if os_now L (rc_net (snd (probe L s))) \<ge> deadline then Some (False, snd (probe L s))
     else probe_loop L deadline
       ((snd (probe L s))\<lparr>rc_net := os_sleep L kShutdownProbeGapMs (rc_net (snd (probe L s)))\<rparr>))"

text \<open>\<open>Some how\<close>: stopped, with the evidence; the outer \<open>None\<close> is not returning.\<close>

definition confirmDaemonStopped :: "'r link \<Rightarrow> int \<Rightarrow> 'r rpc \<Rightarrow> (string option \<times> 'r rpc) option" where
  "confirmDaemonStopped L pid s =
    (if pid > 0
     then (case waitForProcessExit L pid (int kShutdownConfirmMs) 50 (rc_net s) of
         None \<Rightarrow> None
       | Some (gone, r) \<Rightarrow> Some (if gone then Some ''process-exit'' else None, s\<lparr>rc_net := r\<rparr>))
     else (case probe_loop L (os_now L (rc_net s) + int kShutdownConfirmMs) s of
         None \<Rightarrow> None
       | Some (gone, s') \<Rightarrow> Some (if gone then Some ''endpoint-unreachable'' else None, s')))"

definition daemon_side :: "client_env \<Rightarrow> daemon_env" where
  "daemon_side C = \<lparr>d_cfg = ce_cfg C, d_json = ce_json C, d_yaml = ce_yaml C, d_getgrnam = (\<lambda>_ _. Gr_None)\<rparr>"

text \<open>The pid of this very daemon, when it is alive before the request; \<open>-1\<close> otherwise.\<close>

definition watched_pid :: "'r link \<Rightarrow> client_env \<Rightarrow> ('r, int) client_op" where
  "watched_pid L C = do {
     before \<leftarrow> on_disk (state_read (daemon_side C));
     s \<leftarrow> State_Monad.get;
     if rs_fileOk before \<and> rs_pid before > 0 \<and> rs_instanceId before \<noteq> []
        \<and> rs_instanceId before = rc_instanceId s
     then (case processAlive L (rs_pid before) (rc_net s) of (alive, r) \<Rightarrow> do {
         _ \<leftarrow> State_Monad.set (s\<lparr>rc_net := r\<rparr>);
         State_Monad.return (if alive then rs_pid before else - 1) })
     else State_Monad.return (- 1) }"

definition stopped_ok :: "string \<Rightarrow> json" where
  "stopped_ok how = mk_obj [(''status'', JStr ''ok''), (''message'', JStr ''Daemon shutting down.''),
     (''confirmed_by'', JStr how)]"

definition rpc_shutdown :: "'r link \<Rightarrow> client_env \<Rightarrow> 'r rpc \<Rightarrow> (json \<times> 'r rpc) option" where
  "rpc_shutdown L C s0 =
    (case run_state (watched_pid L C) s0 of (pid, s1) \<Rightarrow>
       case run_state (invoke_rpc L ''shutdown'' [] kShutdownTimeoutMs) s1 of (ret, s2) \<Rightarrow>
         if is_object ret then Some (ret, s2)
         else (case confirmDaemonStopped L pid s2 of
             None \<Rightarrow> None
           | Some (Some how, s3) \<Rightarrow> Some (stopped_ok how, s3)
           | Some (None, s3) \<Rightarrow> Some (rpc_failed
               (if pid > 0
                then ''shutdown RPC returned no reply and the daemon (pid '' @ show_int pid @ '') is still running ''
                  @ show_nat (kShutdownConfirmMs div 1000) @ ''s later.''
                else ''shutdown RPC returned no reply and the daemon is still answering ''
                  @ show_nat (kShutdownConfirmMs div 1000) @ ''s later.''), s3)))"

end
