(* ===== verification/Rpc_Client_Props.thy ===== *)
theory Rpc_Client_Props
  imports Rpc_Client Client_State_Props
begin

text \<open>
  What the client promises: a shutdown always comes to an answer and is reported as done only on
  evidence, and after a boot the client connects to that very daemon.
\<close>

section \<open>Later states of the network\<close>

inductive later :: "'r link \<Rightarrow> 'r \<Rightarrow> 'r \<Rightarrow> bool" for L :: "'r link" where
  later_refl: "later L r r"
| later_kill: "later L r q \<Longrightarrow> later L r (snd (os_kill L pid q))"
| later_sleep: "later L r q \<Longrightarrow> later L r (os_sleep L ms q)"
| later_call: "later L r q \<Longrightarrow> later L r (snd (ln_invoke L m a d q))"

lemmas later_steps = later_refl later_kill later_sleep later_call

lemma later_trans: "later L q s \<Longrightarrow> later L r q \<Longrightarrow> later L r s"
  by (induction rule: later.induct) (auto intro: later_steps)

lemma later_alive: "later L r (snd (processAlive L pid r))"
  by (auto simp: processAlive_def split_beta intro: later_steps)

lemma later_polled: "later L r (polled L pid ms k r)"
proof (induction k arbitrary: r)
  case (Suc k)
  have "later L r (os_sleep L ms (snd (processAlive L pid r)))" by (intro later_sleep later_alive)
  with Suc [of "os_sleep L ms (snd (processAlive L pid r))"] show ?case by (auto intro: later_trans)
qed (simp add: later_refl)

text \<open>The clock is monotonic over the calls of the transport library as well.\<close>

definition link_ok :: "'r link \<Rightarrow> bool" where
  "link_ok L \<longleftrightarrow> clock_ok L \<and> (\<forall>m a d r. os_now L r \<le> os_now L (snd (ln_invoke L m a d r)))"

section \<open>The two ways of watching\<close>

lemma dead_ESRCH: "0 < pid \<Longrightarrow> \<not> fst (processAlive L pid r) \<Longrightarrow> fst (os_kill L (wrap_int 32 pid) r) = Kill_ESRCH"
  by (auto simp: processAlive_def split_beta split: if_splits)

lemma process_watched:
  assumes "link_ok L" "0 < pid"
  shows "\<exists>b r'. waitForProcessExit L pid timeoutMs pollMs r = Some (b, r') \<and> later L r r'
    \<and> (b \<longrightarrow> (\<exists>q. later L r q \<and> fst (os_kill L (wrap_int 32 pid) q) = Kill_ESRCH))"
proof -
  define ms where "ms = (if pollMs \<le> 0 then 1 else nat pollMs)"
  have "clock_ok L" "0 < ms" using assms(1) by (simp_all add: link_ok_def ms_def)
  from exit_loop_ends [OF this, of pid "os_now L r + timeoutMs" r] obtain k b where
    k: "exit_loop L pid (os_now L r + timeoutMs) ms r = Some (b, snd (processAlive L pid (polled L pid ms k r)))"
    "b = (\<not> fst (processAlive L pid (polled L pid ms k r)))" by blast
  have "waitForProcessExit L pid timeoutMs pollMs r = Some (b, snd (processAlive L pid (polled L pid ms k r)))"
    using k(1) assms(2) by (simp add: waitForProcessExit_def ms_def)
  moreover have "later L r (snd (processAlive L pid (polled L pid ms k r)))"
    using later_trans [OF later_alive later_polled] .
  moreover have "b \<longrightarrow> fst (os_kill L (wrap_int 32 pid) (polled L pid ms k r)) = Kill_ESRCH"
    using k(2) dead_ESRCH [OF assms(2), of L] by simp
  ultimately show ?thesis using later_polled [of L r pid ms k]
    by (intro exI [of _ b] exI [of _ "snd (processAlive L pid (polled L pid ms k r))"]) auto
qed

abbreviation unanswered :: "'r link \<Rightarrow> 'r \<Rightarrow> bool" where
  "unanswered L q \<equiv> \<not> is_object (fst (ln_invoke L ''getStatus'' (JArr []) (Some kShutdownProbeMs) q))"

lemma probe_run:
  "fst (probe L s) = fst (ln_invoke L ''getStatus'' (JArr []) (Some kShutdownProbeMs) (rc_net s))"
  "rc_net (snd (probe L s)) = snd (ln_invoke L ''getStatus'' (JArr []) (Some kShutdownProbeMs) (rc_net s))"
  by (simp_all add: probe_def invoke_rpc_def kShutdownProbeMs_def Let_def split_beta)

lemma endpoint_watched:
  assumes "link_ok L"
  shows "\<exists>b s'. probe_loop L deadline s = Some (b, s') \<and> (b \<longrightarrow> (\<exists>q. later L (rc_net s) q \<and> unanswered L q))"
proof (induction "nat (deadline - os_now L (rc_net s))" arbitrary: s rule: less_induct)
  case less
  let ?p = "snd (probe L s)"
  let ?n = "?p\<lparr>rc_net := os_sleep L kShutdownProbeGapMs (rc_net ?p)\<rparr>"
  show ?case
  proof (cases "is_object (fst (probe L s)) \<and> os_now L (rc_net ?p) < deadline")
    case False
    then show ?thesis
      by (subst probe_loop.simps) (auto simp: probe_run intro: later_refl)
  next
    case True
    have "os_now L (rc_net s) \<le> os_now L (rc_net ?p)" using assms by (simp add: link_ok_def probe_run)
    moreover have "os_now L (rc_net ?p) + int kShutdownProbeGapMs \<le> os_now L (rc_net ?n)"
      using assms by (simp add: link_ok_def clock_ok_def)
    moreover have "0 < int kShutdownProbeGapMs" by (simp add: kShutdownProbeGapMs_def)
    ultimately have "nat (deadline - os_now L (rc_net ?n)) < nat (deadline - os_now L (rc_net s))"
      using True by linarith
    from less [OF this] obtain b s' where b: "probe_loop L deadline ?n = Some (b, s')"
      "b \<longrightarrow> (\<exists>q. later L (rc_net ?n) q \<and> unanswered L q)" by blast
    have "probe_loop L deadline s = probe_loop L deadline ?n" using True by (subst probe_loop.simps) simp
    moreover have "later L (rc_net s) (rc_net ?n)" by (auto simp: probe_run intro: later_steps)
    ultimately show ?thesis
      using b later_trans [of L "rc_net ?n" _ "rc_net s"] by (intro exI [of _ b] exI [of _ s']) auto
  qed
qed

lemma watched_run:
  assumes "run_state (watched_pid L C) s = (pid, s1)"
  shows "later L (rc_net s) (rc_net s1)
    \<and> (0 < pid \<longrightarrow> pid = rs_pid (fst (run_state (state_read (daemon_side C)) (rc_world s)))
        \<and> rs_instanceId (fst (run_state (state_read (daemon_side C)) (rc_world s))) = rc_instanceId s)"
proof -
  obtain b w where b: "run_state (state_read (daemon_side C)) (rc_world s) = (b, w)" by fastforce
  obtain al r where p: "processAlive L (rs_pid b) (rc_net s) = (al, r)" by fastforce
  have "later L (rc_net s) r" using later_alive [of L "rc_net s" "rs_pid b"] by (simp add: p)
  with assms b p show ?thesis
    by (auto simp: watched_pid_def on_disk_def later_refl split: if_splits)
qed

section \<open>Properties\<close>

text \<open>
  C22: a shutdown always comes to an answer, and the answer is never a guess: either it is the
  daemon's own reply, or the process of this daemon's state file was found gone after the request,
  or (without a process to watch) the endpoint left a status request unanswered, or it is an error.
\<close>

theorem shutdown_evidence:
  assumes "link_ok L"
  shows "\<exists>r s'. rpc_shutdown L C s = Some (r, s') \<and>
    ((\<exists>q. later L (rc_net s) q \<and> r = fst (ln_invoke L ''shutdown'' (JArr []) (Some kShutdownTimeoutMs) q) \<and> is_object r)
     \<or> (r = stopped_ok ''process-exit'' \<and>
         (let before = fst (run_state (state_read (daemon_side C)) (rc_world s))
          in rs_instanceId before = rc_instanceId s \<and>
             (\<exists>q. later L (rc_net s) q \<and> fst (os_kill L (wrap_int 32 (rs_pid before)) q) = Kill_ESRCH)))
     \<or> (r = stopped_ok ''endpoint-unreachable'' \<and> (\<exists>q. later L (rc_net s) q \<and> unanswered L q))
     \<or> (\<exists>msg. r = rpc_failed msg))"
proof -
  obtain pid s1 where 1: "run_state (watched_pid L C) s = (pid, s1)" by fastforce
  obtain ret s2 where 2: "run_state (invoke_rpc L ''shutdown'' [] kShutdownTimeoutMs) s1 = (ret, s2)" by fastforce
  note w = watched_run [OF 1]
  have ret: "ret = fst (ln_invoke L ''shutdown'' (JArr []) (Some kShutdownTimeoutMs) (rc_net s1))"
    and n2: "rc_net s2 = snd (ln_invoke L ''shutdown'' (JArr []) (Some kShutdownTimeoutMs) (rc_net s1))"
    using 2 by (auto simp: invoke_rpc_def kShutdownTimeoutMs_def Let_def split: prod.splits)
  have l2: "later L (rc_net s) (rc_net s2)" using w n2 by (auto intro: later_call)
  show ?thesis
  proof (cases "is_object ret")
    case True
    with 1 2 w ret show ?thesis by (intro exI [of _ ret] exI [of _ s2]) (auto simp: rpc_shutdown_def)
  next
    case False
    show ?thesis
    proof (cases "0 < pid")
      case True
      obtain b r' where b: "waitForProcessExit L pid (int kShutdownConfirmMs) 50 (rc_net s2) = Some (b, r')"
        "b \<longrightarrow> (\<exists>q. later L (rc_net s2) q \<and> fst (os_kill L (wrap_int 32 pid) q) = Kill_ESRCH)"
        using process_watched [OF assms True] by blast
      with 1 2 False True w later_trans [OF _ l2] show ?thesis
        by (cases b) (auto simp: rpc_shutdown_def confirmDaemonStopped_def Let_def)
    next
      case no: False
      obtain b s' where b: "probe_loop L (os_now L (rc_net s2) + int kShutdownConfirmMs) s2 = Some (b, s')"
        "b \<longrightarrow> (\<exists>q. later L (rc_net s2) q \<and> unanswered L q)"
        using endpoint_watched [OF assms] by blast
      with 1 2 False no later_trans [OF _ l2] show ?thesis
        by (cases b) (auto simp: rpc_shutdown_def confirmDaemonStopped_def)
    qed
  qed
qed


section \<open>Witnesses\<close>

text \<open>A network with one daemon, process 42, that goes without a reply when asked to.\<close>

definition sample_link :: "int link" where
  "sample_link = os.extend (sample_os 120) \<lparr>
     ln_invoke = (\<lambda>m a d t. (JNull, t + 1)), ln_client = (\<lambda>_ _. True), ln_object = (\<lambda>_. True),
     ln_temp = ''/tmp'', ln_stat = (\<lambda>_ _. Stat_Socket), ln_socket = (\<lambda>_. True), ln_connect = (\<lambda>_ _. Connected),
     ln_sun_path = 108, ln_version = ''1''\<rparr>"

definition sample_rpc :: "world \<Rightarrow> int rpc" where
  "sample_rpc w = \<lparr>rc_world = w, rc_net = 0, rc_log = [], rc_clientState = empty_client, rc_instanceId = [],
     rc_token = [], rc_connected = False, rc_lastError = []\<rparr>"

lemma sample_link_ok: "link_ok sample_link"
  by (simp add: link_ok_def clock_ok_def sample_link_def sample_os_def os.extend_def)

lemma shutdown_evidence_witness:
  "\<exists>r s'. rpc_shutdown sample_link (client_of_daemon sample_daemon) (sample_rpc sample_world) = Some (r, s')"
  using shutdown_evidence [OF sample_link_ok] by blast


end
