(* ===== verification/Output.thy ===== *)
theory Output
  imports Json World String_Utils
begin

text \<open>
  \<open>src/src/client/output.cpp\<close>: what a command prints, as JSON or for a person. \<open>std::cout\<close> and
  \<open>std::cerr\<close> are the screen, in the order the text is sent; an accessor that throws ends the
  printing where it stands. The JSON printer and \<open>fmt\<close>'s rendering of doubles and of text width are
  parameters.
\<close>

section \<open>Doubles\<close>

text \<open>
  The conversion of a whole number to a double rounds to 53 significant bits, ties to even; casting
  back truncates.
\<close>

fun bit_len :: "nat \<Rightarrow> nat" where
  "bit_len n = (if n = 0 then 0 else Suc (bit_len (n div 2)))"

declare bit_len.simps [simp del]

definition round53 :: "nat \<Rightarrow> nat" where
  "round53 n = (let k = bit_len n in
     if k \<le> 53 then n
     else (let s = k - 53; q = n div 2 ^ s; r = n mod 2 ^ s; h = 2 ^ (s - 1)
           in (if r > h \<or> (r = h \<and> odd q) then q + 1 else q) * 2 ^ s))"

definition dbl_of_int :: "int \<Rightarrow> 64 word" where
  "dbl_of_int i =
    (if i = 0 then 0
     else (let r = round53 (nat \<bar>i\<bar>); k = bit_len r;
               frac = (if k \<ge> 53 then r div 2 ^ (k - 53) else r * 2 ^ (53 - k)) - 2 ^ 52
           in word_of_int ((if i < 0 then 2 ^ 63 else 0) + int (k + 1022) * 2 ^ 52 + int frac)))"

text \<open>\<open>get<double>()\<close> takes every number kind; \<open>static_cast<int64_t>\<close> of it.\<close>

definition get_double :: "json \<Rightarrow> exn + 64 word" where
  "get_double j = (case j of
      JInt i \<Rightarrow> Inr (dbl_of_int i)
    | JUInt i \<Rightarrow> Inr (dbl_of_int i)
    | JFloat d \<Rightarrow> Inr d
    | _ \<Rightarrow> Inl (bad_type ''number'' j))"

definition int64_of_dbl :: "64 word \<Rightarrow> int" where
  "int64_of_dbl d = wrap_int 64 (dbl_trunc d)"

section \<open>The terminal\<close>

record fmt_lib =
  fl_json :: json_lib
  fl_double :: "64 word \<Rightarrow> string"   \<comment> \<open>\<open>{}\<close>\<close>
  fl_fixed1 :: "64 word \<Rightarrow> string"   \<comment> \<open>\<open>{:.1f}\<close>\<close>
  fl_width :: "string \<Rightarrow> nat"        \<comment> \<open>columns, as \<open>{:<{}}\<close> counts them\<close>

record printer =
  o_forceJson :: bool
  o_forceHuman :: bool
  o_isTTY :: bool
  o_fmt :: fmt_lib

record screen =
  sc_out :: "string list"   \<comment> \<open>latest first\<close>
  sc_err :: "string list"

type_synonym 'a printed = "(screen, exn + 'a) state"

definition newOutput :: "fmt_lib \<Rightarrow> bool \<Rightarrow> bool \<Rightarrow> printer" where
  "newOutput F tty forceJson = \<lparr>o_forceJson = forceJson, o_forceHuman = False, o_isTTY = tty, o_fmt = F\<rparr>"

definition isJsonMode :: "printer \<Rightarrow> bool" where
  "isJsonMode P = (if o_forceHuman P then False else if o_forceJson P then True else \<not> o_isTTY P)"

definition setJsonMode :: "bool \<Rightarrow> printer \<Rightarrow> printer" where
  "setJsonMode b P = (let Q = P\<lparr>o_forceJson := b\<rparr> in if b then Q\<lparr>o_forceHuman := False\<rparr> else Q)"

definition setHumanMode :: "bool \<Rightarrow> printer \<Rightarrow> printer" where
  "setHumanMode b P = (let Q = P\<lparr>o_forceHuman := b\<rparr> in if b then Q\<lparr>o_forceJson := False\<rparr> else Q)"

definition cout :: "string \<Rightarrow> unit printed" where
  "cout s = plain (State_Monad.update (\<lambda>c. c\<lparr>sc_out := s # sc_out c\<rparr>))"

definition cout_line :: "string list \<Rightarrow> unit printed" where
  "cout_line ss = cout (concat ss @ [CHR 10])"

definition cerr_line :: "string list \<Rightarrow> unit printed" where
  "cerr_line ss = plain (State_Monad.update (\<lambda>c. c\<lparr>sc_err := (concat ss @ [CHR 10]) # sc_err c\<rparr>))"

text \<open>A value that may throw, and a sequence of prints.\<close>

definition val_of :: "exn + 'a \<Rightarrow> 'a printed" where
  "val_of r = (case r of Inl x \<Rightarrow> raise x | Inr a \<Rightarrow> pure a)"

fun each_print :: "('a \<Rightarrow> unit printed) \<Rightarrow> 'a list \<Rightarrow> unit printed" where
  "each_print f [] = pure ()"
| "each_print f (x # xs) = tbind (f x) (\<lambda>_. each_print f xs)"

definition then_print :: "unit printed \<Rightarrow> unit printed \<Rightarrow> unit printed" where
  "then_print a b = tbind a (\<lambda>_. b)"

definition prints :: "unit printed list \<Rightarrow> unit printed" where
  "prints ps = foldr then_print ps (pure ())"

definition compact :: "printer \<Rightarrow> json \<Rightarrow> exn + string" where
  "compact P j = (case jl_dump (fl_json (o_fmt P)) 0 j of
      None \<Rightarrow> Inl (Type_Error ''invalid UTF-8 byte'') | Some s \<Rightarrow> Inr s)"

definition print_json :: "printer \<Rightarrow> json \<Rightarrow> unit printed" where
  "print_json P j = tbind (val_of (compact P j)) (\<lambda>s. cout_line [s])"

text \<open>Iterating a JSON value: the elements of an array, the values of an object, a scalar once.\<close>

definition elements :: "json \<Rightarrow> json list" where
  "elements j = (case j of JNull \<Rightarrow> [] | JArr es \<Rightarrow> es | JObj kvs \<Rightarrow> map snd kvs | _ \<Rightarrow> [j])"

definition str_at :: "json \<Rightarrow> string \<Rightarrow> exn + string" where
  "str_at j k = jvalue get_str j k []"

definition int64_at :: "json \<Rightarrow> string \<Rightarrow> exn + int" where
  "int64_at j k = ebind (jvalue get_double j k 0) (\<lambda>d. Inr (int64_of_dbl d))"

section \<open>Formatting\<close>

definition formatVersion :: "string \<Rightarrow> string" where
  "formatVersion version = (if version = [] then ''-'' else ''v'' @ version)"

text \<open>The quotients are of non-negative numbers.\<close>

definition formatUptime :: "int \<Rightarrow> string" where
  "formatUptime seconds =
    (if seconds < 0 then ''-''
     else if seconds < 60 then show_int seconds @ ''s''
     else if seconds < 3600 then show_int (seconds div 60) @ ''m''
     else show_int (seconds div 3600) @ ''h '' @ show_int ((seconds mod 3600) div 60) @ ''m'')"

definition padRight :: "printer \<Rightarrow> string \<Rightarrow> nat \<Rightarrow> string" where
  "padRight P s width = s @ replicate (width - fl_width (o_fmt P) s) CHR '' ''"

section \<open>The printers\<close>

definition shown_value :: "printer \<Rightarrow> json \<Rightarrow> exn + string" where
  "shown_value P v = (case v of
      JStr s \<Rightarrow> Inr s
    | JInt i \<Rightarrow> Inr (fl_double (o_fmt P) (dbl_of_int i))
    | JUInt i \<Rightarrow> Inr (fl_double (o_fmt P) (dbl_of_int i))
    | JFloat d \<Rightarrow> Inr (fl_double (o_fmt P) d)
    | JBool b \<Rightarrow> Inr (if b then ''true'' else ''false'')
    | _ \<Rightarrow> compact P v)"

definition printSuccess :: "printer \<Rightarrow> json \<Rightarrow> unit printed" where
  "printSuccess P data =
    (if isJsonMode P then print_json P data
     else (case data of
         JObj kvs \<Rightarrow> each_print (\<lambda>kv. tbind (val_of (shown_value P (snd kv)))
           (\<lambda>value. cout_line [fst kv, '': '', value])) kvs
       | _ \<Rightarrow> print_json P data))"

definition printSuccess_text :: "printer \<Rightarrow> string \<Rightarrow> unit printed" where
  "printSuccess_text P message =
    (if isJsonMode P then print_json P (mk_obj [(''status'', JStr ''ok''), (''message'', JStr message)])
     else cout_line [message])"

text \<open>The envelope: the extra fields, laid over status, code and message (\<open>{}\<close> has none).\<close>

definition error_envelope :: "string \<Rightarrow> string \<Rightarrow> fields \<Rightarrow> json" where
  "error_envelope code message extra = JObj (put_all extra
     (put_all [(''status'', JStr ''error''), (''code'', JStr code), (''message'', JStr message)] []))"

definition printError :: "printer \<Rightarrow> string \<Rightarrow> string \<Rightarrow> fields \<Rightarrow> unit printed" where
  "printError P code message extra =
    (if isJsonMode P then print_json P (error_envelope code message extra)
     else cerr_line [''Error: '', message])"

text \<open>The widest cell of a column.\<close>

fun widest :: "(json \<Rightarrow> exn + string) \<Rightarrow> nat \<Rightarrow> json list \<Rightarrow> exn + nat" where
  "widest f n [] = Inr n"
| "widest f n (v # vs) = ebind (f v) (\<lambda>s. widest f (max n (length s)) vs)"

definition version_cell :: "json \<Rightarrow> exn + string" where
  "version_cell v = ebind (str_at v ''version'') (\<lambda>s. Inr (formatVersion s))"

text \<open>Name and version columns, measured in one pass over the rows.\<close>

fun columns :: "nat \<times> nat \<Rightarrow> json list \<Rightarrow> exn + (nat \<times> nat)" where
  "columns (a, b) [] = Inr (a, b)"
| "columns (a, b) (v # vs) = ebind (str_at v ''name'') (\<lambda>n.
     ebind (version_cell v) (\<lambda>s. columns (max a (length n), max b (length s)) vs))"

definition uptime_cell :: "json \<Rightarrow> exn + string" where
  "uptime_cell v = (case jfind v ''uptime_seconds'' of
      None \<Rightarrow> Inr ''-''
    | Some u \<Rightarrow> ebind (get_double u) (\<lambda>d. Inr (formatUptime (int64_of_dbl d))))"

definition module_line :: "printer \<Rightarrow> string \<Rightarrow> nat \<times> nat \<Rightarrow> json \<Rightarrow> unit printed" where
  "module_line P indent w v =
     tbind (val_of (str_at v ''name'')) (\<lambda>name.
     tbind (val_of (version_cell v)) (\<lambda>version.
     tbind (val_of (str_at v ''status'')) (\<lambda>status.
     tbind (val_of (uptime_cell v)) (\<lambda>uptime.
       cout_line [indent, padRight P name (fst w), padRight P version (snd w), padRight P status 12, uptime]))))"

definition printModuleList :: "printer \<Rightarrow> json \<Rightarrow> unit printed" where
  "printModuleList P modules =
    (if isJsonMode P then print_json P modules
     else tbind (val_of (columns (length ''NAME'', length ''VERSION'') (elements modules))) (\<lambda>(a, b).
       tbind (cout_line [padRight P ''NAME'' (a + 2), padRight P ''VERSION'' (b + 2), padRight P ''STATUS'' 12, ''UPTIME'']) (\<lambda>_.
         each_print (module_line P [] (a + 2, b + 2)) (elements modules))))"

text \<open>Each cell of a row is sent as it is computed.\<close>

definition stats_line :: "printer \<Rightarrow> nat \<Rightarrow> json \<Rightarrow> unit printed" where
  "stats_line P nameWidth s = prints
    [tbind (val_of (str_at s ''name'')) (\<lambda>n. cout (padRight P n nameWidth)),
     tbind (val_of (int64_at s ''pid'')) (\<lambda>p. cout (padRight P (show_int p) 8)),
     tbind (val_of (jvalue get_double s ''cpu_percent'' 0)) (\<lambda>d. cout (padRight P (fl_fixed1 (o_fmt P) d @ ''%'') 8)),
     tbind (val_of (jvalue get_double s ''memory_mb'' 0)) (\<lambda>d. cout_line [fl_fixed1 (o_fmt P) d, '' MB''])]"

definition printStats :: "printer \<Rightarrow> json \<Rightarrow> unit printed" where
  "printStats P stats =
    (if isJsonMode P then print_json P stats
     else tbind (val_of (widest (\<lambda>s. str_at s ''name'') (length ''MODULE'') (elements stats))) (\<lambda>w.
       tbind (cout_line [padRight P ''MODULE'' (w + 2), padRight P ''PID'' 8, padRight P ''CPU%'' 8, ''MEMORY'']) (\<lambda>_.
         each_print (stats_line P (w + 2)) (elements stats))))"

definition counts_line :: "json \<Rightarrow> unit printed" where
  "counts_line summary =
     tbind (val_of (jvalue get_int summary ''loaded'' 0)) (\<lambda>loaded.
     tbind (val_of (jvalue get_int summary ''crashed'' 0)) (\<lambda>crashed.
     tbind (val_of (jvalue get_int summary ''not_loaded'' 0)) (\<lambda>notLoaded.
     tbind (cout_line []) (\<lambda>_.
       cout_line [''Modules: '', show_int loaded, '' loaded, '', show_int crashed, '' crashed, '',
         show_int notLoaded, '' not loaded'']))))"

definition running_daemon :: "printer \<Rightarrow> json \<Rightarrow> json \<Rightarrow> unit printed" where
  "running_daemon P daemon status =
     tbind (val_of (int64_at daemon ''pid'')) (\<lambda>pid.
     tbind (val_of (int64_at daemon ''uptime_seconds'')) (\<lambda>uptime.
     tbind (val_of (str_at daemon ''version'')) (\<lambda>version.
     tbind (val_of (str_at daemon ''instance_id'')) (\<lambda>instanceId.
     tbind (val_of (str_at daemon ''socket'')) (\<lambda>socket. prints
      ([cout_line [''  PID:          '', show_int pid],
        cout_line [''  Uptime:       '', formatUptime uptime],
        cout_line [''  Version:      v'', version]]
       @ (if instanceId \<noteq> [] then [cout_line [''  Instance ID:  '', instanceId]] else [])
       @ (if socket \<noteq> [] then [cout_line [''  Socket:       '', socket]] else [])
       @ [tbind (val_of (jvalue Inr status ''modules_summary'' (JObj []))) counts_line,
          tbind (val_of (jvalue Inr status ''modules'' (JArr []))) (\<lambda>modules.
            tbind (val_of (columns (0, 0) (elements modules))) (\<lambda>(a, b).
              each_print (module_line P ''  '' (a + 2, b + 2)) (elements modules)))]))))))"

definition printStatus :: "printer \<Rightarrow> json \<Rightarrow> unit printed" where
  "printStatus P status =
    (if isJsonMode P then print_json P status
     else
       tbind (val_of (jvalue Inr status ''daemon'' (JObj []))) (\<lambda>daemon.
       tbind (val_of (str_at daemon ''status'')) (\<lambda>daemonStatus.
       tbind (cout_line [''Logosctl Daemon'']) (\<lambda>_.
       tbind (cout_line [''  Status:       '', daemonStatus]) (\<lambda>_.
         if daemonStatus = ''not_running'' then prints
           [cout_line [], cout_line [''No daemon found.''],
            cout_line [''Run \"logosctl -D\" to start the daemon.'']]
         else running_daemon P daemon status)))))"

function text_lines :: "string \<Rightarrow> string list" where
  "text_lines [] = []"
| "text_lines (c # cs) =
    (if CHR 10 \<in> set (c # cs)
     then takeWhile (\<lambda>x. x \<noteq> CHR 10) (c # cs) # text_lines (drop 1 (dropWhile (\<lambda>x. x \<noteq> CHR 10) (c # cs)))
     else [c # cs])"
  by pat_completeness auto
termination
proof (relation "measure length")
  fix c :: char and cs
  have "length (dropWhile (\<lambda>x. x \<noteq> CHR 10) (c # cs)) \<le> length (c # cs)" by (rule length_dropWhile_le)
  then show "(drop 1 (dropWhile (\<lambda>x. x \<noteq> CHR 10) (c # cs)), c # cs) \<in> measure length"
    by (auto simp del: dropWhile.simps)
qed simp

declare text_lines.simps(2) [simp del]

definition param_cell :: "json \<Rightarrow> exn + string" where
  "param_cell p = ebind (str_at p ''name'') (\<lambda>n. ebind (str_at p ''type'') (\<lambda>t. Inr (n @ '': '' @ t)))"

fun collect :: "(json \<Rightarrow> exn + 'a) \<Rightarrow> json list \<Rightarrow> exn + 'a list" where
  "collect f [] = Inr []"
| "collect f (j # js) = ebind (f j) (\<lambda>a. ebind (collect f js) (\<lambda>as. Inr (a # as)))"

definition description_lines :: "string \<Rightarrow> unit printed" where
  "description_lines d = each_print (\<lambda>l. cout_line [''      '', l]) (text_lines d)"

definition method_lines :: "json \<Rightarrow> unit printed" where
  "method_lines v =
     tbind (val_of (str_at v ''name'')) (\<lambda>methodName.
     tbind (val_of (str_at v ''returnType'')) (\<lambda>returnType.
     tbind (val_of (str_at v ''description'')) (\<lambda>description.
     tbind (val_of (ebind (jvalue Inr v ''parameters'' (JArr [])) (\<lambda>ps. collect param_cell (elements ps)))) (\<lambda>params. prints
       [cout_line [''  '', methodName, ''('', join params '', '', '')'', '' -> '', returnType],
        description_lines description]))))"

definition event_lines :: "json \<Rightarrow> unit printed" where
  "event_lines v =
     tbind (val_of (str_at v ''name'')) (\<lambda>eventName.
     tbind (val_of (str_at v ''description'')) (\<lambda>description.
     tbind (val_of (ebind (jvalue Inr v ''parameters'' (JArr [])) (\<lambda>ps. collect param_cell (elements ps)))) (\<lambda>params. prints
       [cout_line [''  '', eventName, ''('', join params '', '', '')''], description_lines description])))"

definition loaded_lines :: "json \<Rightarrow> unit printed" where
  "loaded_lines info =
     tbind (val_of (int64_at info ''pid'')) (\<lambda>pid.
     tbind (val_of (int64_at info ''uptime_seconds'')) (\<lambda>uptime. prints
       [cout_line [''PID:           '', show_int pid], cout_line [''Uptime:        '', formatUptime uptime]]))"

definition crashed_lines :: "json \<Rightarrow> unit printed" where
  "crashed_lines info = prints
    [if jcontains info ''exit_code'' then
       tbind (val_of (jvalue get_int info ''exit_code'' 0)) (\<lambda>exitCode.
       tbind (val_of (str_at info ''crash_signal'')) (\<lambda>signal.
         cout_line [''Exit Code:     '', show_int exitCode, if signal \<noteq> [] then '' ('' @ signal @ '')'' else []]))
     else pure (),
     if jcontains info ''crashed_at'' then
       tbind (cout ''Crashed At:    '') (\<lambda>_. tbind (val_of (str_at info ''crashed_at'')) (\<lambda>s. cout_line [s]))
     else pure (),
     if jcontains info ''restart_count'' then
       tbind (cout ''Restart Count: '') (\<lambda>_. tbind (val_of (jvalue get_int info ''restart_count'' 0)) (\<lambda>n. cout_line [show_int n]))
     else pure (),
     if jcontains info ''last_log_line'' then
       tbind (cout ''Last Log:      \"'') (\<lambda>_. tbind (val_of (str_at info ''last_log_line'')) (\<lambda>s. cout_line [s, ''\"'']))
     else pure ()]"

text \<open>A titled block, when there is anything to list.\<close>

definition listing :: "json \<Rightarrow> string \<Rightarrow> string \<Rightarrow> (json \<Rightarrow> unit printed) \<Rightarrow> unit printed" where
  "listing info key title f =
     tbind (val_of (jvalue Inr info key (JArr []))) (\<lambda>vs.
       if elements vs = [] then pure ()
       else prints [cout_line [], cout_line [title], each_print f (elements vs)])"

definition printModuleInfo :: "printer \<Rightarrow> json \<Rightarrow> unit printed" where
  "printModuleInfo P info =
    (if isJsonMode P then print_json P info
     else
       tbind (val_of (str_at info ''name'')) (\<lambda>name.
       tbind (val_of (str_at info ''version'')) (\<lambda>version.
       tbind (val_of (str_at info ''status'')) (\<lambda>status. prints
        [cout_line [''Name:          '', name],
         cout_line [''Version:       '', formatVersion version],
         cout_line [''Status:        '', status],
         if status = ''loaded'' then loaded_lines info
         else if status = ''crashed'' then crashed_lines info else pure (),
         tbind (val_of (jvalue Inr info ''dependencies'' (JArr []))) (\<lambda>deps.
           if elements deps = [] then pure ()
           else tbind (val_of (collect get_str (elements deps))) (\<lambda>ds. cout_line [''Dependencies:  '', join ds '', ''])),
         listing info ''methods'' ''Methods:'' method_lines,
         listing info ''events'' ''Events:'' event_lines]))))"

text \<open>The time of day of a stamp: after the \<open>T\<close>, without a final \<open>Z\<close>.\<close>

definition time_part :: "string \<Rightarrow> string" where
  "time_part timestamp =
    (if CHR ''T'' \<in> set timestamp
     then (let t = drop 1 (dropWhile (\<lambda>c. c \<noteq> CHR ''T'') timestamp)
           in if ends_with_char t CHR ''Z'' then butlast t else t)
     else timestamp)"

definition event_field :: "printer \<Rightarrow> string \<times> json \<Rightarrow> unit printed" where
  "event_field P kv =
     tbind (val_of (case snd kv of JStr s \<Rightarrow> Inr s | v \<Rightarrow> compact P v)) (\<lambda>value.
       cout_line [''  '', fst kv, '': '', value])"

text \<open>\<open>it.key()\<close> throws on the first entry of anything but an object, with the indent already sent.\<close>

definition event_fields :: "printer \<Rightarrow> json \<Rightarrow> unit printed" where
  "event_fields P data = (case data of
      JObj kvs \<Rightarrow> each_print (event_field P) kvs
    | _ \<Rightarrow> (case elements data of
        [] \<Rightarrow> pure ()
      | v # _ \<Rightarrow> tbind (val_of (case v of JStr s \<Rightarrow> Inr s | v \<Rightarrow> compact P v)) (\<lambda>_.
          tbind (cout ''  '') (\<lambda>_. raise (Runtime_Error ''cannot use key() for non-object iterators'')))))"

definition printEvent :: "printer \<Rightarrow> json \<Rightarrow> unit printed" where
  "printEvent P event =
    (if isJsonMode P then print_json P event
     else
       tbind (val_of (str_at event ''timestamp'')) (\<lambda>timestamp.
       tbind (val_of (str_at event ''module'')) (\<lambda>module.
       tbind (val_of (str_at event ''event'')) (\<lambda>eventName.
       tbind (val_of (jvalue Inr event ''data'' (JObj []))) (\<lambda>data. prints
        [cout_line [''['', time_part timestamp, ''] '', module, '' :: '', eventName],
         event_fields P data, cout_line []])))))"

definition printReload :: "printer \<Rightarrow> json \<Rightarrow> unit printed" where
  "printReload P result =
    (if isJsonMode P then print_json P result
     else
       tbind (val_of (str_at result ''status'')) (\<lambda>status.
       tbind (val_of (str_at result ''module'')) (\<lambda>module.
         if status = ''loaded'' \<or> status = ''ok'' then
           tbind (val_of (version_cell result)) (\<lambda>version.
           tbind (val_of (int64_at result ''pid'')) (\<lambda>pid.
             cout_line [''Module \"'', module, ''\" reloaded successfully ('', version, '', pid '', show_int pid, '')'']))
         else if status = ''error'' then
           tbind (plain (State_Monad.update (\<lambda>c. c\<lparr>sc_err := ''Error: '' # sc_err c\<rparr>))) (\<lambda>_.
           tbind (val_of (str_at result ''error'')) (\<lambda>e.
           tbind (cerr_line [e]) (\<lambda>_.
             if jcontains result ''last_log_line'' then
               tbind (plain (State_Monad.update (\<lambda>c. c\<lparr>sc_err := ''  Last log: \"'' # sc_err c\<rparr>))) (\<lambda>_.
               tbind (val_of (str_at result ''last_log_line'')) (\<lambda>s. cerr_line [s, ''\"'']))
             else pure ())))
         else pure ())))"

definition printKeyValue :: "string \<Rightarrow> string \<Rightarrow> unit printed" where
  "printKeyValue key value = cout_line [key, '': '', value]"

definition printRaw :: "string \<Rightarrow> unit printed" where
  "printRaw text = cout_line [text]"

end
