(* ===== verification/Client_Commands.thy ===== *)
theory Client_Commands
  imports Rpc_Client Output Arg_Coerce
begin

text \<open>
  The commands of \<open>src/src/client/commands\<close> that talk to the daemon: \<open>command.cpp\<close> (the guard every
  one of them passes) and the module, call, status, stop, stats and watch commands, over the client of
  \<open>Rpc_Client\<close> and the printers of \<open>Output\<close>. CLI11 is outside \<open>src/\<close>: \<open>ap_parse\<close> answers the options of a
  command line, \<open>None\<close> for a parse error. A command answers its exit code.
\<close>

section \<open>The running program\<close>

record 'r app =
  ap_link :: "'r link"
  ap_client :: client_env
  ap_override :: "client_state option"
  ap_out :: printer
  ap_parse :: "string \<Rightarrow> string list \<Rightarrow> (string \<rightharpoonup> string) option"  \<comment> \<open>a flag that is given maps to some text\<close>
  ap_what :: "string \<Rightarrow> string"   \<comment> \<open>\<open>what()\<close> of the parse error of a text\<close>

record 'r cli =
  cl_rpc :: "'r rpc"
  cl_screen :: screen

type_synonym ('r, 'a) command_op = "('r cli, exn + 'a) state"

definition on_rpc :: "('r, 'a) client_op \<Rightarrow> ('r, 'a) command_op" where
  "on_rpc m = State (\<lambda>s. case run_state m (cl_rpc s) of (a, r) \<Rightarrow> (Inr a, s\<lparr>cl_rpc := r\<rparr>))"

definition on_screen :: "'a printed \<Rightarrow> ('r, 'a) command_op" where
  "on_screen m = State (\<lambda>s. case run_state m (cl_screen s) of (a, c) \<Rightarrow> (a, s\<lparr>cl_screen := c\<rparr>))"

definition on_files :: "(exn + 'a) io \<Rightarrow> ('r, 'a) command_op" where
  "on_files m = State (\<lambda>s. case run_state m (rc_world (cl_rpc s)) of (a, w) \<Rightarrow>
     (a, s\<lparr>cl_rpc := (cl_rpc s)\<lparr>rc_world := w\<rparr>\<rparr>))"

definition value_or_throw :: "exn + 'a \<Rightarrow> ('r, 'a) command_op" where
  "value_or_throw r = (case r of Inl x \<Rightarrow> raise x | Inr a \<Rightarrow> pure a)"

text \<open>Printing, then an exit code.\<close>

definition print_exit :: "unit printed \<Rightarrow> int \<Rightarrow> ('r, int) command_op" where
  "print_exit p code = tbind (on_screen p) (\<lambda>_. pure code)"

definition err_exit :: "'r app \<Rightarrow> string \<Rightarrow> string \<Rightarrow> fields \<Rightarrow> int \<Rightarrow> ('r, int) command_op" where
  "err_exit A code message extra = print_exit (printError (ap_out A) code message extra)"

abbreviation json_mode :: "'r app \<Rightarrow> bool" where
  "json_mode A \<equiv> isJsonMode (ap_out A)"

definition fields_of :: "json \<Rightarrow> fields" where
  "fields_of j = (case j of JObj kvs \<Rightarrow> kvs | _ \<Rightarrow> [])"

section \<open>detectStaleSession and ensureConnected\<close>

definition stale_reason :: "int \<Rightarrow> string" where
  "stale_reason pid = ''stale state file: pid '' @ show_int pid @ '' is gone''"

definition detectStaleSession :: "'r app \<Rightarrow> ('r, (int \<times> string) option) client_op" where
  "detectStaleSession A = do {
     rs \<leftarrow> on_disk (state_read (daemon_side (ap_client A)));
     if \<not> rs_fileOk rs \<or> rs_pid rs \<le> 0 then State_Monad.return None
     else do {
       s \<leftarrow> State_Monad.get;
       (case processAlive (ap_link A) (rs_pid rs) (rc_net s) of (alive, r) \<Rightarrow> do {
         _ \<leftarrow> State_Monad.set (s\<lparr>rc_net := r\<rparr>);
         if alive then State_Monad.return None
         else do {
           cs \<leftarrow> on_disk (client_read (ap_client A) (ap_override A));
           State_Monad.return
             (if cs_instanceId cs = [] \<or> cs_instanceId cs \<noteq> rs_instanceId rs then None
              else Some (rs_pid rs, stale_reason (rs_pid rs))) } }) } }"

definition is_connected :: "('r, bool) client_op" where
  "is_connected = State (\<lambda>s. (rc_connected s, s))"

definition last_error :: "('r, string) client_op" where
  "last_error = State (\<lambda>s. (rc_lastError s, s))"

definition connect_app :: "'r app \<Rightarrow> ('r, bool) client_op" where
  "connect_app A = connect (ap_link A) (ap_client A) (ap_override A)"

definition ensureConnected :: "'r app \<Rightarrow> ('r, int) command_op" where
  "ensureConnected A = tbind (on_rpc is_connected) (\<lambda>c.
     if c then pure 0
     else tbind (on_rpc (detectStaleSession A)) (\<lambda>stale. case stale of
         Some (pid, reason) \<Rightarrow> err_exit A ''NO_DAEMON'' (''No daemon running ('' @ reason @ '').'') [] 2
       | None \<Rightarrow> tbind (on_rpc (connect_app A)) (\<lambda>ok.
           if ok then pure 0
           else tbind (on_rpc last_error) (\<lambda>e. err_exit A ''NO_DAEMON'' e [] 2))))"

text \<open>What the commands that open with a request do once they are connected.\<close>

definition connected_then :: "'r app \<Rightarrow> ('r, int) command_op \<Rightarrow> ('r, int) command_op" where
  "connected_then A m = tbind (ensureConnected A) (\<lambda>code. if code \<noteq> 0 then pure code else m)"

text \<open>A command line, or the usage line and exit code 1.\<close>

definition with_options :: "'r app \<Rightarrow> string \<Rightarrow> string list \<Rightarrow> string \<Rightarrow>
    ((string \<rightharpoonup> string) \<Rightarrow> ('r, int) command_op) \<Rightarrow> ('r, int) command_op" where
  "with_options A app args usage f = (case ap_parse A app args of
      None \<Rightarrow> err_exit A ''INVALID_ARGS'' usage [] 1
    | Some opts \<Rightarrow> f opts)"

definition text_option :: "(string \<rightharpoonup> string) \<Rightarrow> string \<Rightarrow> string" where
  "text_option opts k = (case opts k of None \<Rightarrow> [] | Some s \<Rightarrow> s)"

text \<open>An error envelope is printed and ends the command; anything else goes on.\<close>

definition unless_error :: "'r app \<Rightarrow> json \<Rightarrow> int \<Rightarrow> ('r, int) command_op \<Rightarrow> ('r, int) command_op" where
  "unless_error A result code m =
     tbind (value_or_throw (str_at result ''status'')) (\<lambda>status.
       if status = ''error'' then
         tbind (value_or_throw (str_at result ''code'')) (\<lambda>c.
         tbind (value_or_throw (str_at result ''message'')) (\<lambda>msg.
           err_exit A c msg (fields_of result) code))
       else m)"

section \<open>load-module, unload-module, reload-module\<close>

definition load_lines :: "string \<Rightarrow> json \<Rightarrow> unit printed" where
  "load_lines name result =
     tbind (val_of (str_at result ''version'')) (\<lambda>version.
     tbind (val_of (jvalue Inr result ''dependencies_loaded'' (JArr []))) (\<lambda>deps.
     tbind (printRaw (''Loaded module: '' @ name @ '' (v'' @ version @ '')'')) (\<lambda>_.
       if elements deps = [] then pure ()
       else tbind (val_of (collect get_str (elements deps))) (\<lambda>ds.
         printRaw (''  Dependencies loaded: '' @ join ds '', '')))))"

definition load_module_command :: "'r app \<Rightarrow> string list \<Rightarrow> ('r, int) command_op" where
  "load_module_command A args = with_options A ''load-module'' args ''Usage: logosctl module load <name>'' (\<lambda>opts.
     let name = text_option opts ''name'' in
     connected_then A (
       tbind (on_rpc (rpc_loadModule (ap_link A) name)) (\<lambda>result.
       unless_error A result 3 (
         if json_mode A then print_exit (printSuccess (ap_out A) result) 0
         else print_exit (load_lines name result) 0))))"

definition unload_lines :: "string \<Rightarrow> json \<Rightarrow> unit printed" where
  "unload_lines name result =
     tbind (printRaw (''Unloaded module: '' @ name)) (\<lambda>_.
     tbind (val_of (jvalue Inr result ''dependents_unloaded'' (JArr []))) (\<lambda>dependents. case dependents of
         JArr (d # ds) \<Rightarrow> tbind (val_of (collect get_str (d # ds))) (\<lambda>names.
           printRaw (''Also unloaded '' @ show_nat (length names) @ '' dependent(s): '' @ join names '', ''))
       | _ \<Rightarrow> pure ()))"

definition unload_module_command :: "'r app \<Rightarrow> string list \<Rightarrow> ('r, int) command_op" where
  "unload_module_command A args = with_options A ''unload-module'' args
     ''Usage: logosctl module unload <name> [--no-dependents]'' (\<lambda>opts.
     let name = text_option opts ''name'' in
     connected_then A (
       tbind (on_rpc (rpc_unloadModule (ap_link A) name (opts ''--no-dependents'' = None))) (\<lambda>result.
       unless_error A result 3 (
         if json_mode A then print_exit (printSuccess (ap_out A) result) 0
         else print_exit (unload_lines name result) 0))))"

definition reload_module_command :: "'r app \<Rightarrow> string list \<Rightarrow> ('r, int) command_op" where
  "reload_module_command A args = with_options A ''reload-module'' args ''Usage: logosctl module reload <name>'' (\<lambda>opts.
     let name = text_option opts ''name'' in
     connected_then A (
       tbind (if json_mode A then pure () else on_screen (cerr_line [''Reloading '', c_str name, ''...''])) (\<lambda>_.
       tbind (on_rpc (rpc_reloadModule (ap_link A) name)) (\<lambda>result.
       unless_error A result 3 (print_exit (printReload (ap_out A) result) 0)))))"

section \<open>list-modules, module-info, stats\<close>

definition unreachable :: "'r app \<Rightarrow> string \<Rightarrow> ('r, int) command_op" where
  "unreachable A what = err_exit A ''DAEMON_UNREACHABLE'' what [] 2"

definition list_modules_command :: "'r app \<Rightarrow> string list \<Rightarrow> ('r, int) command_op" where
  "list_modules_command A args = with_options A ''list-modules'' args ''Usage: logosctl module ls [--loaded]'' (\<lambda>opts.
     connected_then A (
       tbind (on_rpc (rpc_listModules (ap_link A) (if opts ''--loaded'' \<noteq> None then ''loaded'' else ''all''))) (\<lambda>modules.
         case modules of
           None \<Rightarrow> unreachable A (''The daemon did not answer, so the module list is unknown ''
             @ ''(this is not an empty list).'')
         | Some ms \<Rightarrow> print_exit (printModuleList (ap_out A) ms) 0)))"

definition module_info_command :: "'r app \<Rightarrow> string list \<Rightarrow> ('r, int) command_op" where
  "module_info_command A args = with_options A ''module-info'' args ''Usage: logosctl module show <name>'' (\<lambda>opts.
     connected_then A (
       tbind (on_rpc (rpc_getModuleInfo (ap_link A) (text_option opts ''name''))) (\<lambda>info.
       unless_error A info 3 (print_exit (printModuleInfo (ap_out A) info) 0))))"

definition stats_command :: "'r app \<Rightarrow> string list \<Rightarrow> ('r, int) command_op" where
  "stats_command A args = with_options A ''stats'' args ''Usage: logosctl stats'' (\<lambda>opts.
     connected_then A (
       tbind (on_rpc (rpc_getModuleStats (ap_link A))) (\<lambda>stats. case stats of
           None \<Rightarrow> unreachable A (''The daemon did not answer, so module stats are unknown ''
             @ ''(this is not an empty list).'')
         | Some ss \<Rightarrow> print_exit (printStats (ap_out A) ss) 0)))"

section \<open>status\<close>

definition daemon_report :: "fields \<Rightarrow> json" where
  "daemon_report fs = mk_obj [(''daemon'', mk_obj fs)]"

definition report_exit :: "'r app \<Rightarrow> json \<Rightarrow> int \<Rightarrow> ('r, int) command_op" where
  "report_exit A report = print_exit (printStatus (ap_out A) report)"

definition ask_status :: "'r app \<Rightarrow> ('r, int) command_op" where
  "ask_status A =
     tbind (on_rpc (rpc_getStatus (ap_link A))) (\<lambda>status.
     tbind (value_or_throw (str_at status ''status'')) (\<lambda>st.
       if st = ''error'' then
         tbind (value_or_throw (str_at status ''code'')) (\<lambda>c.
         tbind (value_or_throw (str_at status ''message'')) (\<lambda>msg. err_exit A c msg [] 1))
       else if \<not> jcontains status ''daemon'' then report_exit A (daemon_report [(''status'', JStr ''not_running'')]) 1
       else report_exit A status (if jcontains status ''rpc_error'' then 1 else 0)))"

definition status_command :: "'r app \<Rightarrow> string list \<Rightarrow> ('r, int) command_op" where
  "status_command A args =
     tbind (on_rpc (on_disk (client_read (ap_client A) (ap_override A)))) (\<lambda>cs.
       if \<not> cs_fileOk cs then report_exit A (daemon_report [(''status'', JStr ''not_configured'')]) 1
       else tbind (on_rpc (detectStaleSession A)) (\<lambda>stale. case stale of
           Some (pid, reason) \<Rightarrow> report_exit A (daemon_report
             [(''status'', JStr ''not_running''), (''reason'', JStr reason), (''pid'', JInt pid)]) 1
         | None \<Rightarrow>
             tbind (on_rpc is_connected) (\<lambda>c.
             tbind (if c then pure True else on_rpc (connect_app A)) (\<lambda>ok.
               if \<not> ok then tbind (on_rpc last_error) (\<lambda>e. report_exit A (daemon_report
                 [(''status'', JStr ''not_running''), (''reason'', JStr e)]) 1)
               else ask_status A))))"

section \<open>stop\<close>

definition stop_answer :: "'r app \<Rightarrow> json \<Rightarrow> ('r, int) command_op" where
  "stop_answer A result = unless_error A result 3 (
     if json_mode A then print_exit (printSuccess (ap_out A) result) 0
     else print_exit (tbind (val_of (jvalue get_str result ''message'' ''ok'')) (\<lambda>m.
       printRaw (''Daemon shutdown initiated: '' @ m))) 0)"

text \<open>\<open>None\<close>: the command does not return.\<close>

definition stop_command :: "'r app \<Rightarrow> string list \<Rightarrow> 'r cli \<Rightarrow> ((exn + int) \<times> 'r cli) option" where
  "stop_command A args s = (case run_state (ensureConnected A) s of
      (Inl x, s1) \<Rightarrow> Some (Inl x, s1)
    | (Inr code, s1) \<Rightarrow>
        if code \<noteq> 0 then Some (Inr code, s1)
        else (case rpc_shutdown (ap_link A) (ap_client A) (cl_rpc s1) of
            None \<Rightarrow> None
          | Some (result, r) \<Rightarrow> Some (run_state (stop_answer A result) (s1\<lparr>cl_rpc := r\<rparr>))))"

section \<open>watch\<close>

text \<open>The events that arrive while the loop runs, with the stamps they get.\<close>

definition watch_event :: "'r app \<Rightarrow> string \<Rightarrow> string \<times> json \<Rightarrow> unit printed" where
  "watch_event A module arrival = (case module_event module (fst arrival) (snd arrival) of
      None \<Rightarrow> pure ()
    | Some ev \<Rightarrow> printEvent (ap_out A) ev)"

definition watch_command :: "'r app \<Rightarrow> (string \<times> json) list \<Rightarrow> string list \<Rightarrow> ('r, int) command_op" where
  "watch_command A arrivals args = with_options A ''watch'' args ''Usage: logosctl watch <module> [--event <event>]'' (\<lambda>opts.
     let module = text_option opts ''module'' in
     connected_then A (
       tbind (on_rpc (rpc_watchModuleEvents (ap_link A) module (text_option opts ''--event''))) (\<lambda>ok.
         if \<not> ok then err_exit A ''WATCH_FAILED'' (''Failed to watch events for module '' @ quoted module @ ''.'') [] 3
         else
           tbind (if json_mode A then pure ()
                  else on_screen (cerr_line [''Watching events from '', quoted module, ''... (Ctrl+C to stop)''])) (\<lambda>_.
             print_exit (each_print (watch_event A module) arrivals) 0))))"

section \<open>call\<close>

text \<open>\<open>resolveFileParam\<close>: \<open>None\<close> when the file of an \<open>@\<close> reference cannot be opened.\<close>

definition resolveFileParam :: "string \<Rightarrow> ('r, string option) command_op" where
  "resolveFileParam param =
    (if \<not> starts_with_char param CHR ''@'' then pure (Some param)
     else on_rpc (on_disk (read_file (drop 1 param))))"

definition read_failed :: "'r app \<Rightarrow> string \<Rightarrow> ('r, json list + int) command_op" where
  "read_failed A path = tbind (on_screen (printError (ap_out A) ''INVALID_ARGS'' (''Failed to read file: '' @ path) []))
     (\<lambda>_. pure (Inr 1))"

text \<open>The arguments as JSON values (\<open>Inl\<close>), or the exit code of a refused one.\<close>

fun resolve_args :: "'r app \<Rightarrow> string list \<Rightarrow> json list \<Rightarrow> ('r, json list + int) command_op" where
  "resolve_args A [] acc = pure (Inl (rev acc))"
| "resolve_args A (arg # args) acc =
    (if starts_with arg ''json:'' then
       tbind (resolveFileParam (drop 5 arg)) (\<lambda>text. case text of
           None \<Rightarrow> read_failed A (drop 1 (drop 5 arg))
         | Some t \<Rightarrow> (case jl_parse (ce_json (ap_client A)) t of
             None \<Rightarrow> tbind (on_screen (printError (ap_out A) ''INVALID_ARGS''
                 (''Invalid JSON in argument '' @ quoted arg @ '': '' @ ap_what A t) [])) (\<lambda>_. pure (Inr 1))
           | Some j \<Rightarrow> resolve_args A args (j # acc)))
     else if starts_with arg ''str:'' then resolve_args A args (JStr (drop 4 arg) # acc)
     else tbind (resolveFileParam arg) (\<lambda>text. case text of
         None \<Rightarrow> read_failed A (drop 1 arg)
       | Some t \<Rightarrow> resolve_args A args (scalar t # acc)))"

text \<open>The names of a method list, with the separator only after a non-empty prefix.\<close>

fun joined_names :: "string \<Rightarrow> json list \<Rightarrow> string" where
  "joined_names acc [] = acc"
| "joined_names acc (JStr m # ms) = joined_names ((if acc \<noteq> [] then acc @ '', '' else acc) @ m) ms"
| "joined_names acc (_ # ms) = joined_names acc ms"

definition with_methods :: "'r app \<Rightarrow> json \<Rightarrow> string \<Rightarrow> string" where
  "with_methods A result message =
    (if json_mode A then message
     else (case jfind result ''available_methods'' of
         Some (JArr ms) \<Rightarrow> (let joined = joined_names [] ms
           in if joined \<noteq> [] then message @ [CHR 10] @ ''  Available methods: '' @ joined else message)
       | _ \<Rightarrow> message))"

definition dbl_nan :: "64 word \<Rightarrow> bool" where
  "dbl_nan d \<longleftrightarrow> dbl_exp d = 2047 \<and> dbl_frac d \<noteq> 0"

definition dbl_zero :: "64 word \<Rightarrow> bool" where
  "dbl_zero d \<longleftrightarrow> dbl_exp d = 0 \<and> dbl_frac d = 0"

definition dbl_eq :: "64 word \<Rightarrow> 64 word \<Rightarrow> bool" where
  "dbl_eq a b \<longleftrightarrow> \<not> dbl_nan a \<and> \<not> dbl_nan b \<and> (a = b \<or> dbl_zero a \<and> dbl_zero b)"

definition call_result :: "'r app \<Rightarrow> json \<Rightarrow> unit printed" where
  "call_result A v = (case v of
      JStr s \<Rightarrow> printRaw s
    | JFloat d \<Rightarrow> printRaw (if dbl_eq d (dbl_of_int (int64_of_dbl d)) then show_int (int64_of_dbl d)
                          else fl_double (o_fmt (ap_out A)) d)
    | JUInt i \<Rightarrow> printRaw (show_int i)
    | JInt i \<Rightarrow> printRaw (show_int i)
    | JBool b \<Rightarrow> printRaw (if b then ''true'' else ''false'')
    | JNull \<Rightarrow> pure ()
    | _ \<Rightarrow> (case jl_dump (ce_json (ap_client A)) 2 v of
        None \<Rightarrow> raise (Type_Error ''invalid UTF-8 byte'')
      | Some s \<Rightarrow> printRaw s))"

definition call_answer :: "'r app \<Rightarrow> json \<Rightarrow> ('r, int) command_op" where
  "call_answer A result =
     tbind (value_or_throw (str_at result ''status'')) (\<lambda>status.
       if status = ''error'' then
         tbind (value_or_throw (str_at result ''code'')) (\<lambda>code.
         tbind (value_or_throw (str_at result ''message'')) (\<lambda>message.
           err_exit A code (with_methods A result message) (fields_of result)
             (if code = ''MODULE_NOT_LOADED'' \<or> code = ''MODULE_NOT_FOUND'' then 3 else 4)))
       else if json_mode A then print_exit (printSuccess (ap_out A) result) 0
       else print_exit (call_result A (case jfind result ''result'' of None \<Rightarrow> JNull | Some v \<Rightarrow> v)) 0)"

definition call_usage :: string where
  "call_usage = ''Usage: logosctl call <module> <method> [args...]''"

text \<open>Module, method and arguments: \<open>m f a...\<close> or \<open>m method f a...\<close>.\<close>

definition call_target :: "string list \<Rightarrow> (string \<times> string \<times> string list) option" where
  "call_target args =
    (if args = [] then None
     else if length args \<ge> 3 \<and> args ! 1 = ''method'' then Some (args ! 0, args ! 2, drop 3 args)
     else if length args < 2 then None
     else Some (args ! 0, args ! 1, drop 2 args))"

definition call_command :: "'r app \<Rightarrow> string list \<Rightarrow> ('r, int) command_op" where
  "call_command A args = (case call_target args of
      None \<Rightarrow> err_exit A ''INVALID_ARGS'' call_usage [] 1
    | Some (moduleName, methodName, methodArgs) \<Rightarrow>
        if moduleName = [] \<or> methodName = [] then err_exit A ''INVALID_ARGS'' call_usage [] 1
        else connected_then A (
          tbind (resolve_args A methodArgs []) (\<lambda>resolved. case resolved of
              Inr code \<Rightarrow> pure code
            | Inl js \<Rightarrow>
                tbind (on_rpc (rpc_callModuleMethod (ap_link A) moduleName methodName (JArr js))) (call_answer A))))"

end
