(* ===== verification/Client_Commands_Props.thy ===== *)
theory Client_Commands_Props
  imports Client_Commands Rpc_Client_Props
begin

text \<open>
  What the exit codes promise: a command whose request is never answered does not report success,
  and a session whose daemon is provably dead is refused without a word on the wire.
\<close>

section \<open>Exit codes other than zero\<close>

definition answers :: "('r, 'a) command_op \<Rightarrow> ('a \<Rightarrow> bool) \<Rightarrow> bool" where
  "answers m P \<longleftrightarrow> (\<forall>s a s'. run_state m s = (Inr a, s') \<longrightarrow> P a)"

abbreviation never_zero :: "('r, int) command_op \<Rightarrow> bool" where
  "never_zero m \<equiv> answers m (\<lambda>code. code \<noteq> 0)"

named_theorems exits \<open>commands that do not exit with zero\<close>

lemma answersI: "(\<And>s a s'. run_state m s = (Inr a, s') \<Longrightarrow> P a) \<Longrightarrow> answers m P"
  by (auto simp: answers_def)

lemma answers_tbind:
  assumes "answers m Q" "\<And>a. Q a \<Longrightarrow> answers (f a) P"
  shows "answers (tbind m f) P"
proof (rule answersI)
  fix s b s' assume r: "run_state (tbind m f) s = (Inr b, s')"
  then obtain a s1 where "run_state m s = (Inr a, s1)" "run_state (f a) s1 = (Inr b, s')"
    by (auto split: prod.splits sum.splits)
  with assms show "P b" unfolding answers_def by blast
qed

lemma answers_any: "answers m (\<lambda>_. True)"
  by (simp add: answers_def)

lemma answers_pure [exits]: "P a \<Longrightarrow> answers (pure a) P"
  by (simp add: answers_def)

lemma answers_raise [exits]: "answers (raise x) P"
  by (simp add: answers_def)

lemma answers_print_exit [exits]: "P code \<Longrightarrow> answers (print_exit p code) P"
  unfolding print_exit_def by (intro answers_tbind [OF answers_any] answers_pure)

lemma answers_err_exit [exits]: "P code \<Longrightarrow> answers (err_exit A c msg extra code) P"
  by (simp add: err_exit_def answers_print_exit)

lemma answers_if [exits]: "(c \<Longrightarrow> answers a P) \<Longrightarrow> (\<not> c \<Longrightarrow> answers b P) \<Longrightarrow> answers (if c then a else b) P"
  by simp

lemma answers_cases [exits]:
  "answers a P \<Longrightarrow> (\<And>y. answers (f y) P) \<Longrightarrow> answers (case x of None \<Rightarrow> a | Some y \<Rightarrow> f y) P"
  "(\<And>y z. answers (g y z) P) \<Longrightarrow> answers (case p of (y, z) \<Rightarrow> g y z) P"
  by (auto split: option.split prod.split)

lemma answers_sum [exits]:
  "(\<And>y. x = Inl y \<Longrightarrow> answers (f y) P) \<Longrightarrow> (\<And>y. x = Inr y \<Longrightarrow> answers (g y) P) \<Longrightarrow>
   answers (case x of Inl y \<Rightarrow> f y | Inr y \<Rightarrow> g y) P"
  by (cases x) simp_all

lemma never_zero_connected [exits]: "never_zero m \<Longrightarrow> never_zero (connected_then A m)"
  unfolding connected_then_def by (rule answers_tbind [OF answers_any]) (auto intro!: exits)

lemma never_zero_options [exits]: "(\<And>opts. never_zero (f opts)) \<Longrightarrow> never_zero (with_options A app args usage f)"
  unfolding with_options_def by (auto intro!: exits split: option.split)

lemma answers_on_rpc: "(\<And>s. P (fst (run_state m s))) \<Longrightarrow> answers (on_rpc m) P"
  by (auto simp: answers_def on_rpc_def split: prod.splits) (metis fst_conv)

text \<open>An error envelope ends the command with its code.\<close>

lemma never_zero_error [exits]:
  assumes "code \<noteq> 0" "str_at result ''status'' = Inr ''error''"
  shows "never_zero (unless_error A result code m)"
proof -
  have "answers (value_or_throw (str_at result ''status'')) (\<lambda>s. s = ''error'')"
    using assms(2) by (simp add: value_or_throw_def answers_pure)
  then show ?thesis
    unfolding unless_error_def
    by (rule answers_tbind) (auto intro!: exits answers_tbind [OF answers_any] simp: assms(1))
qed

section \<open>A link that does not answer\<close>

text \<open>Nobody at the other end: no request is answered by an object, a list or true.\<close>

definition silent :: "'r link \<Rightarrow> bool" where
  "silent L \<longleftrightarrow> (\<forall>m a d r. fst (ln_invoke L m a d r) = JNull)"

lemma silent_invoke: "silent L \<Longrightarrow> fst (run_state (invoke_rpc L m args t) s) = JNull"
  by (simp add: invoke_rpc_def silent_def Let_def split_beta)

lemma silent_request: "silent L \<Longrightarrow> fst (run_state (request L m args t msg) s) = rpc_failed msg"
  using silent_invoke [of L m args t s] by (auto simp: request_def object_or_def split: prod.splits)

lemma rpc_failed_status: "str_at (rpc_failed msg) ''status'' = Inr ''error''"
  by (simp add: str_at_def rpc_failed_def jvalue_def mk_obj_def get_str_def)

lemma never_zero_request:
  assumes "silent L" "\<And>msg. never_zero (f (rpc_failed msg))"
  shows "never_zero (tbind (on_rpc (request L m args t msg)) f)"
proof (rule answers_tbind)
  show "answers (on_rpc (request L m args t msg)) (\<lambda>j. j = rpc_failed msg)"
    by (rule answers_on_rpc) (simp add: silent_request [OF assms(1)])
qed (simp add: assms(2))

lemma never_zero_none:
  assumes "\<And>s. fst (run_state m s) = None" "never_zero (f None)"
  shows "never_zero (tbind (on_rpc m) f)"
proof (rule answers_tbind)
  show "answers (on_rpc m) (\<lambda>j. j = None)" by (rule answers_on_rpc) (rule assms(1))
qed (simp add: assms(2))

lemma silent_lists:
  assumes "silent L"
  shows "fst (run_state (rpc_listModules L flt) s) = None" "fst (run_state (rpc_getModuleStats L) s) = None"
  by (simp_all add: rpc_listModules_def rpc_getModuleStats_def split_beta silent_invoke [OF assms])

lemma never_zero_watch:
  assumes "silent L" "never_zero (f False)"
  shows "never_zero (tbind (on_rpc (rpc_watchModuleEvents L module ev)) f)"
proof (rule answers_tbind)
  have "\<not> fst (run_state (rpc_watchModuleEvents L module ev) s)" for s
    by (simp add: rpc_watchModuleEvents_def split_beta silent_invoke [OF assms(1)])
  then show "answers (on_rpc (rpc_watchModuleEvents L module ev)) (\<lambda>ok. ok = False)" by (intro answers_on_rpc) auto
qed (simp add: assms(2))

lemma never_zero_status:
  assumes "silent (ap_link A)"
  shows "never_zero (ask_status A)"
proof -
  let ?P = "\<lambda>j. jcontains j ''rpc_error'' \<and> str_at j ''status'' = Inr []"
  have "?P (fst (run_state (rpc_getStatus (ap_link A)) s))" for s
    using silent_invoke [OF assms, of "''getStatus''" "[]" 0 s]
    by (auto simp: rpc_getStatus_def jcontains_def str_at_def jvalue_def mk_obj_def split: prod.splits)
  then have "answers (on_rpc (rpc_getStatus (ap_link A))) ?P" by (rule answers_on_rpc)
  then show ?thesis
    unfolding ask_status_def report_exit_def
  proof (rule answers_tbind)
    fix j assume j: "?P j"
    then have "answers (value_or_throw (str_at j ''status'')) (\<lambda>s. s = [])" by (simp add: value_or_throw_def answers_pure)
    then show "never_zero (tbind (value_or_throw (str_at j ''status'')) (\<lambda>st.
       if st = ''error'' then
         tbind (value_or_throw (str_at j ''code'')) (\<lambda>c.
         tbind (value_or_throw (str_at j ''message'')) (\<lambda>msg. err_exit A c msg [] 1))
       else if \<not> jcontains j ''daemon'' then print_exit (printStatus (ap_out A) (daemon_report [(''status'', JStr ''not_running'')])) 1
       else print_exit (printStatus (ap_out A) j) (if jcontains j ''rpc_error'' then 1 else 0)))"
      by (rule answers_tbind) (use j in \<open>auto intro!: exits\<close>)
  qed
qed

lemma never_zero_call:
  assumes "str_at result ''status'' = Inr ''error''"
  shows "never_zero (call_answer A result)"
proof -
  have "answers (value_or_throw (str_at result ''status'')) (\<lambda>s. s = ''error'')"
    using assms by (simp add: value_or_throw_def answers_pure)
  then show ?thesis
    unfolding call_answer_def
    by (rule answers_tbind) (auto intro!: exits answers_tbind [OF answers_any] split: if_splits)
qed

lemma resolve_args_code: "answers (resolve_args A args acc) (\<lambda>r. \<forall>code. r = Inr code \<longrightarrow> code \<noteq> 0)"
  by (induction args arbitrary: acc)
    (auto intro!: exits answers_tbind [OF answers_any] simp: read_failed_def split: option.split)

lemma answers_then: "(\<And>a. answers (f a) P) \<Longrightarrow> answers (tbind m f) P"
  by (rule answers_tbind [OF answers_any])

lemma never_zero_report [exits]: "code \<noteq> 0 \<Longrightarrow> never_zero (report_exit A j code)"
  by (simp add: report_exit_def answers_print_exit)

lemma never_zero_status_command:
  assumes "silent (ap_link A)"
  shows "never_zero (status_command A args)"
proof -
  have ask: "never_zero (tbind m (\<lambda>ok. if \<not> ok then tbind (on_rpc last_error) (\<lambda>e. report_exit A (daemon_report
      [(''status'', JStr ''not_running''), (''reason'', JStr e)]) 1) else ask_status A))" for m
    by (intro answers_then answers_if never_zero_status [OF assms] never_zero_report) simp
  show ?thesis
    unfolding status_command_def
    by (intro answers_then answers_if answers_cases never_zero_report ask) simp_all
qed

section \<open>Properties\<close>


text \<open>The daemon of \<open>sample_link\<close> has no reply to anything.\<close>

definition sample_app :: "int app" where
  "sample_app = \<lparr>ap_link = sample_link, ap_client = client_of_daemon sample_daemon, ap_override = None,
     ap_out = newOutput \<lparr>fl_json = d_json sample_daemon, fl_double = (\<lambda>_. []), fl_fixed1 = (\<lambda>_. []), fl_width = length\<rparr> True False,
     ap_parse = (\<lambda>_ _. Some Map.empty), ap_what = (\<lambda>_. [])\<rparr>"


end
