(* ===== verification/Token_Commands.thy ===== *)
theory Token_Commands
  imports Client_Commands Token_Store
begin

text \<open>
  The token commands of \<open>src/src/client/commands\<close>, which work on the session's own files and ask no
  daemon: \<open>issue_token_command.cpp\<close> with its deadline arithmetic, \<open>list_tokens_command.cpp\<close> and
  \<open>revoke_token_command.cpp\<close>, over the store of \<open>Token_Store\<close>. \<open>long\<close> and the clock's nanosecond
  counter have 64 bits; the clock's reading is an argument.
\<close>

section \<open>resolveExpires\<close>

definition long_max :: int where
  "long_max = 2 ^ 63 - 1"

definition checkedMul :: "int \<Rightarrow> int \<Rightarrow> int option" where
  "checkedMul a b = (if a < 0 \<or> b \<le> 0 then None else if a > long_max div b then None else Some (a * b))"

text \<open>\<open>std::stol\<close> of a digit string.\<close>

definition stol :: "string \<Rightarrow> int option" where
  "stol ds = (if int (read_nat ds) \<le> long_max then Some (int (read_nat ds)) else None)"

text \<open>The regular expression \<open>^(\d+)([smhd])$\<close>.\<close>

definition relative_form :: "string \<Rightarrow> (string \<times> char) option" where
  "relative_form s = (if s \<noteq> [] \<and> butlast s \<noteq> [] \<and> list_all is_digit (butlast s) \<and> last s \<in> set ''smhd''
     then Some (butlast s, last s) else None)"

definition unit_seconds :: "char \<Rightarrow> int" where
  "unit_seconds u = (if u = CHR ''s'' then 1 else if u = CHR ''m'' then 60
     else if u = CHR ''h'' then 3600 else 86400)"

definition duration_seconds :: "string \<Rightarrow> char \<Rightarrow> int option" where
  "duration_seconds ds u = (case stol ds of None \<Rightarrow> None
     | Some n \<Rightarrow> if u = CHR ''s'' then Some n else checkedMul n (unit_seconds u))"

text \<open>
  \<open>system_clock::now() + seconds\<close> in the clock's nanoseconds, and \<open>to_time_t\<close>, which truncates towards
  zero. The seconds are scaled to nanoseconds without a check.
\<close>

definition to_time_t :: "int \<Rightarrow> int" where
  "to_time_t ns = (if ns < 0 then - ((- ns) div 10 ^ 9) else ns div 10 ^ 9)"

definition deadline_after :: "int \<Rightarrow> int \<Rightarrow> string" where
  "deadline_after nowNs seconds =
     put_time (gmtime (to_time_t (wrap_int 64 (nowNs + wrap_int 64 (seconds * 10 ^ 9)))))"

text \<open>A shape: \<open>0\<close> stands for a digit, anything else for itself.\<close>

fun shaped :: "string \<Rightarrow> string \<Rightarrow> bool" where
  "shaped [] s = (s = [])"
| "shaped (p # ps) [] = False"
| "shaped (p # ps) (c # cs) = ((if p = CHR ''0'' then is_digit c else c = p) \<and> shaped ps cs)"

definition resolveExpires :: "int \<Rightarrow> string \<Rightarrow> string option" where
  "resolveExpires nowNs s =
    (if s = [] then Some []
     else (case relative_form s of
         Some (ds, u) \<Rightarrow> (case duration_seconds ds u of
             None \<Rightarrow> None
           | Some seconds \<Rightarrow> Some (deadline_after nowNs seconds))
       | None \<Rightarrow>
           if shaped ''0000-00-00'' s then Some (s @ ''T00:00:00Z'')
           else if shaped ''0000-00-00T00:00:00Z'' s then Some s
           else None))"

section \<open>The commands\<close>

definition issue_report :: "'r app \<Rightarrow> token_env \<Rightarrow> string \<Rightarrow> string \<Rightarrow> bool \<Rightarrow> string \<Rightarrow> ('r, int) command_op" where
  "issue_report A E name expiry localOnly token =
     (let rawPath = rawTokenFilePath E name;
          result = mk_obj ([(''status'', JStr ''ok''), (''name'', JStr name), (''token'', JStr token),
            (''file'', JStr rawPath), (''local_only'', JBool localOnly)]
            @ (if expiry \<noteq> [] then [(''expires_at'', JStr expiry)] else []))
      in print_exit
        (if json_mode A then printSuccess (ap_out A) result
         else prints ([printRaw (''Issued token for '' @ quoted name), printRaw (''  file:  '' @ rawPath),
             printRaw (''  token: '' @ token)]
           @ (if expiry \<noteq> [] then [printRaw (''  expires_at: '' @ expiry)] else [])
           @ (if localOnly then [printRaw ''  local_only: true''] else []))) 0)"

definition invalid_name :: "'r app \<Rightarrow> string \<Rightarrow> ('r, int) command_op" where
  "invalid_name A name = err_exit A ''INVALID_NAME'' (''Token name '' @ quoted name
     @ '' is invalid (must be 1-64 chars, alnum/dot/dash/underscore, no traversal).'') [] 1"

definition issue_outcome :: "'r app \<Rightarrow> token_env \<Rightarrow> string \<Rightarrow> string \<Rightarrow> bool \<Rightarrow> issue_result \<Rightarrow> ('r, int) command_op" where
  "issue_outcome A E name expiry localOnly outcome = (case ir_status outcome of
      Issue_Ok \<Rightarrow> issue_report A E name expiry localOnly (ir_token outcome)
    | Issue_InvalidName \<Rightarrow> invalid_name A name
    | Issue_AlreadyExists \<Rightarrow> err_exit A ''TOKEN_EXISTS''
        (''Token '' @ quoted name @ '' already exists. Use --replace to overwrite.'') [] 3
    | Issue_IoError \<Rightarrow> err_exit A ''IO_ERROR'' (''Failed to persist token '' @ quoted name
        @ '' to disk. Check permissions/free space under '' @ daemonTokensDir (t_cfg E) @ ''.'') [] 1)"

definition issue_usage :: string where
  "issue_usage = ''Usage: logosctl token issue --name NAME [--expires DUR] [--replace] [--local-only]''"

definition issue_token_command :: "'r app \<Rightarrow> token_env \<Rightarrow> int \<Rightarrow> string list \<Rightarrow> ('r, int) command_op" where
  "issue_token_command A E nowNs args = with_options A ''issue-token'' args issue_usage (\<lambda>opts.
     let name = text_option opts ''--name''; expires = text_option opts ''--expires'';
         localOnly = (opts ''--local-only'' \<noteq> None); rep = (opts ''--replace'' \<noteq> None)
     in (case resolveExpires nowNs expires of
         None \<Rightarrow> err_exit A ''INVALID_EXPIRES'' (''Could not parse --expires '' @ quoted expires
           @ ''. Use Ns/Nm/Nh/Nd or ISO 8601 UTC.'') [] 1
       | Some expiry \<Rightarrow> tbind (on_files (issueToken E name expiry localOnly rep))
           (issue_outcome A E name expiry localOnly)))"

definition token_row :: "issued_token \<Rightarrow> json" where
  "token_row t = mk_obj [(''name'', JStr (it_name t)), (''issued_at'', JStr (it_issuedAt t)),
     (''expires_at'', if it_expiresAt t = [] then JNull else JStr (it_expiresAt t)),
     (''local_only'', JBool (it_localOnly t)), (''raw_file_present'', JBool (it_rawFilePresent t))]"

definition token_line :: "issued_token \<Rightarrow> string" where
  "token_line t = ''  '' @ it_name t @ ''  (issued '' @ it_issuedAt t
     @ (if it_expiresAt t \<noteq> [] then '', expires '' @ it_expiresAt t else [])
     @ (if it_localOnly t then '', local_only'' else []) @ '')''
     @ (if it_rawFilePresent t then [] else ''  [raw file deleted]'')"

definition list_tokens_command :: "'r app \<Rightarrow> token_env \<Rightarrow> string list \<Rightarrow> ('r, int) command_op" where
  "list_tokens_command A E args = tbind (on_files (listTokens E)) (\<lambda>issued. print_exit
     (if json_mode A then printSuccess (ap_out A) (JArr (map token_row issued))
      else if issued = [] then printRaw ''No tokens issued.''
      else prints (printRaw (show_nat (length issued) @ '' token(s):'')
        # map (\<lambda>t. printRaw (token_line t)) issued)) 0)"

definition revoke_token_command :: "'r app \<Rightarrow> token_env \<Rightarrow> string list \<Rightarrow> ('r, int) command_op" where
  "revoke_token_command A E args = (case args of
      [] \<Rightarrow> err_exit A ''INVALID_ARGS'' ''Usage: logosctl token revoke NAME'' [] 1
    | name # _ \<Rightarrow> tbind (on_files (revokeToken E name)) (\<lambda>st. case st of
          Revoke_Ok \<Rightarrow> print_exit
            (if json_mode A then printSuccess (ap_out A) (mk_obj [(''status'', JStr ''ok''), (''name'', JStr name)])
             else printRaw (''Revoked token: '' @ name)) 0
        | Revoke_InvalidName \<Rightarrow> invalid_name A name
        | Revoke_NotFound \<Rightarrow> err_exit A ''TOKEN_NOT_FOUND'' (''No token named '' @ quoted name @ '' exists.'') [] 3
        | Revoke_IoError \<Rightarrow> err_exit A ''IO_ERROR'' (''Failed to update tokens.json while revoking '' @ quoted name
            @ ''. Check permissions/free space under '' @ daemonTokensDir (t_cfg E) @ ''.'') [] 1))"

section \<open>Deadlines\<close>

lemma wrap_int_ns: "0 \<le> i \<Longrightarrow> i < 2 ^ 63 \<Longrightarrow> wrap_int 64 i = i"
  by (simp add: wrap_int_def)

lemma duration_seconds_iff:
  assumes "u \<in> set ''smhd''"
  shows "duration_seconds ds u =
    (if int (read_nat ds) * unit_seconds u \<le> long_max then Some (int (read_nat ds) * unit_seconds u) else None)"
proof -
  define n where "n = int (read_nat ds)"
  have n: "0 \<le> n" by (simp add: n_def)
  have mul: "checkedMul n k = (if n * k \<le> long_max then Some (n * k) else None)" if "0 < k" for k
  proof -
    have "n \<le> long_max div k \<longleftrightarrow> n * k \<le> long_max"
    proof
      assume "n \<le> long_max div k"
      then have "n * k \<le> long_max div k * k" using that by (simp add: mult_right_mono)
      also have "\<dots> \<le> long_max" using that div_mult_mod_eq [of long_max k] pos_mod_sign [of k long_max] by linarith
      finally show "n * k \<le> long_max" .
    next
      assume "n * k \<le> long_max"
      with that show "n \<le> long_max div k" using zdiv_mono1 [of "n * k" long_max k] by simp
    qed
    then show ?thesis using that n by (auto simp: checkedMul_def)
  qed
  have "n \<le> long_max" if "n * k \<le> long_max" "0 < k" for k
    using that n mult_left_mono [of 1 k n] by simp
  then show ?thesis
    using assms mul by (auto simp: duration_seconds_def stol_def n_def [symmetric] unit_seconds_def)
qed

lemma relative_form_of: "ds \<noteq> [] \<Longrightarrow> list_all is_digit ds \<Longrightarrow> u \<in> set ''smhd'' \<Longrightarrow> relative_form (ds @ [u]) = Some (ds, u)"
  by (simp add: relative_form_def)

lemma deadline_near:
  assumes "0 \<le> nowNs" "0 \<le> secs" "nowNs + secs * 10 ^ 9 < 2 ^ 63"
  shows "deadline_after nowNs secs = currentUtcIso8601 (nowNs div 10 ^ 9 + secs)"
proof -
  have w: "wrap_int 64 (secs * 10 ^ 9) = secs * 10 ^ 9" by (rule wrap_int_ns) (use assms in simp_all)
  have "wrap_int 64 (nowNs + secs * 10 ^ 9) = nowNs + secs * 10 ^ 9" by (rule wrap_int_ns) (use assms in simp_all)
  moreover have "(nowNs + secs * 10 ^ 9) div 10 ^ 9 = nowNs div 10 ^ 9 + secs" by simp
  ultimately show ?thesis
    unfolding deadline_after_def currentUtcIso8601_def to_time_t_def w using assms by (simp add: add.commute)
qed

section \<open>Properties\<close>

text \<open>
  C27: a relative deadline is refused exactly when its seconds do not fit a \<open>long\<close>; and one that stays
  within the clock's 64-bit nanoseconds is exact: the token is accepted at every second up to the
  issuing second plus the duration, and expired from that second on.
\<close>

theorem expires_exact:
  assumes "ds \<noteq> []" "list_all is_digit ds" "u \<in> set ''smhd''"
    and "n = int (read_nat ds) * unit_seconds u" "0 \<le> nowNs"
  shows "(resolveExpires nowNs (ds @ [u]) = None \<longleftrightarrow> 2 ^ 63 \<le> n)
    \<and> (nowNs + n * 10 ^ 9 < 2 ^ 63 \<longrightarrow>
        (\<exists>e. resolveExpires nowNs (ds @ [u]) = Some e \<and> (\<forall>t. isExpired t e \<longleftrightarrow> nowNs div 10 ^ 9 + n \<le> t)))"
proof -
  have r: "resolveExpires nowNs (ds @ [u]) = (if n \<le> long_max then Some (deadline_after nowNs n) else None)"
    using assms(1) relative_form_of [OF assms(1-3)] duration_seconds_iff [OF assms(3)] assms(4)
    by (simp add: resolveExpires_def)
  have n: "0 \<le> n" using assms(4) by (simp add: unit_seconds_def)
  have "resolveExpires nowNs (ds @ [u]) = Some (deadline_after nowNs n) \<and>
      (\<forall>t. isExpired t (deadline_after nowNs n) \<longleftrightarrow> nowNs div 10 ^ 9 + n \<le> t)"
    if near: "nowNs + n * 10 ^ 9 < 2 ^ 63"
  proof -
    define T where "T = nowNs div 10 ^ 9 + n"
    have "T = (nowNs + n * 10 ^ 9) div 10 ^ 9" by (simp add: T_def)
    also have "\<dots> \<le> 2 ^ 63 div 10 ^ 9" by (rule zdiv_mono1) (use near in simp_all)
    finally have T: "0 \<le> T" "T < 253402300800" using assms(5) n by (simp_all add: T_def)
    have "isExpired t (currentUtcIso8601 T) \<longleftrightarrow> T \<le> t" for t
      using iso_roundtrip [OF T] by (auto simp: isExpired_def split: option.splits)
    then show ?thesis using r near n assms(5) deadline_near [OF assms(5) n near] by (simp add: long_max_def T_def)
  qed
  with r show ?thesis by (auto simp: long_max_def)
qed

lemma expires_exact_witness:
  "\<exists>e. resolveExpires (1700000000 * 10 ^ 9) ''30d'' = Some e \<and> isExpired 1702592000 e \<and> \<not> isExpired 1702591999 e"
  using expires_exact [of "''30''" "CHR ''d''" 2592000 "1700000000 * 10 ^ 9"]
  by (auto simp: is_digit_def read_nat_def digit_val_def unit_seconds_def)

text \<open>
  Beyond the nanoseconds the deadline wraps around: three centuries from the start of 2025 is a day
  in 1741, and the token is issued expired.
\<close>

lemma expires_wraps:
  "resolveExpires (1735689600 * 10 ^ 9) ''110000d'' = Some ''1741-08-14T00:25:27Z''"
proof -
  have "relative_form ''110000d'' = Some (''110000'', CHR ''d'')"
    by (simp add: relative_form_def is_digit_def)
  moreover have "duration_seconds ''110000'' CHR ''d'' = Some 9504000000"
    by (simp add: duration_seconds_iff read_nat_def digit_val_def unit_seconds_def long_max_def)
  moreover have "to_time_t (wrap_int 64 (1735689600 * 10 ^ 9 + wrap_int 64 (9504000000 * 10 ^ 9))) = -7207054473"
    by (simp add: to_time_t_def wrap_int_def)
  moreover have "gmtime (-7207054473) =
      \<lparr>tm_year = 1741, tm_mon = 7, tm_mday = 14, tm_hour = 0, tm_min = 25, tm_sec = 27\<rparr>"
    by (simp add: gmtime_def) (simp add: year_of.simps ylen_def leap_def eval_nat_numeral mlen_def)
  moreover have "put_time \<lparr>tm_year = 1741, tm_mon = 7, tm_mday = 14, tm_hour = 0, tm_min = 25, tm_sec = 27\<rparr>
      = ''1741-08-14T00:25:27Z''" by code_simp
  ultimately show ?thesis unfolding resolveExpires_def deadline_after_def by simp
qed

text \<open>A date that does not exist is taken at its word; the store counts it as passed.\<close>

lemma impossible_date:
  "resolveExpires nowNs ''2026-13-45'' = Some ''2026-13-45T00:00:00Z'' \<and> isExpired t ''2026-13-45T00:00:00Z''"
proof -
  have "relative_form ''2026-13-45'' = None" "shaped ''0000-00-00'' ''2026-13-45''"
    by (simp_all add: relative_form_def is_digit_def)
  moreover have "strptime ''2026-13-45T00:00:00Z'' = None" by code_simp
  ultimately show ?thesis
    unfolding resolveExpires_def isExpired_def strptimeIso8601Utc_def c_str_def by simp
qed

end
