(* ===== verification/Package_Bootstrap.thy ===== *)
theory Package_Bootstrap
  imports World
begin

text \<open>
  \<open>src/src/daemon/package_bootstrap.cpp\<close>: bringing up the two bundled package modules and handing
  package_manager this session's directories and signature policy. The hooks are a parameter that
  answers each call from a state of its own; the calls and their answers are recorded, latest first.
\<close>

section \<open>Hooks\<close>

datatype hook_call =
    Load_Module string
  | Unload_Module string
  | Configure string "string list"
  | Warn string
  | Note string

record 'r hooks =
  hk_answer :: "hook_call \<Rightarrow> 'r \<Rightarrow> bool \<times> 'r"
  hk_unload :: bool   \<comment> \<open>the hook is set\<close>
  hk_note :: bool

record 'r boot =
  bt_net :: 'r
  bt_log :: "(hook_call \<times> bool) list"

type_synonym ('r, 'a) boot_op = "('r boot, 'a) state"

definition hook :: "'r hooks \<Rightarrow> hook_call \<Rightarrow> ('r, bool) boot_op" where
  "hook H c = State (\<lambda>s. case hk_answer H c (bt_net s) of
     (b, r) \<Rightarrow> (b, s\<lparr>bt_net := r, bt_log := (c, b) # bt_log s\<rparr>))"

definition say :: "'r hooks \<Rightarrow> hook_call \<Rightarrow> ('r, unit) boot_op" where
  "say H c = do { _ \<leftarrow> hook H c; State_Monad.return () }"

record boot_dirs =
  bd_embeddedModules :: string
  bd_embeddedUiPlugins :: string
  bd_userModules :: string
  bd_userUiPlugins :: string
  bd_keyring :: string

record outcome =
  oc_managerLoaded :: bool
  oc_downloaderLoaded :: bool
  oc_directoriesSet :: bool
  oc_policyArmed :: bool
  oc_managerDisabled :: bool

definition no_outcome :: outcome where
  "no_outcome = \<lparr>oc_managerLoaded = False, oc_downloaderLoaded = False, oc_directoriesSet = False,
     oc_policyArmed = False, oc_managerDisabled = False\<rparr>"

section \<open>run\<close>

definition kPackageManager :: string where "kPackageManager = ''package_manager''"
definition kPackageDownloader :: string where "kPackageDownloader = ''package_downloader''"

definition kBundled :: "(string \<times> string) list" where
  "kBundled =
    [(kPackageManager, ''`package install`, `package ls`, `package rm` and `package info` will be unavailable in this session; ''
        @ ''catalog commands are unaffected''),
     (kPackageDownloader, ''catalog commands (`package search`, `package download`) will be unavailable in this session; ''
        @ ''locally installed packages are unaffected'')]"

text \<open>Each module is loaded on its own; a failure skips nothing.\<close>

fun load_bundled :: "'r hooks \<Rightarrow> (string \<times> string) list \<Rightarrow> outcome \<Rightarrow> ('r, outcome) boot_op" where
  "load_bundled H [] out = State_Monad.return out"
| "load_bundled H ((name, lost) # ms) out = do {
     ok \<leftarrow> hook H (Load_Module name);
     if \<not> ok then do {
       _ \<leftarrow> say H (Warn (''Warning: failed to load bundled module '' @ [CHR 39] @ name @ [CHR 39] @ ''. '' @ lost @ ''.''));
       load_bundled H ms out }
     else do {
       _ \<leftarrow> (if hk_note H then say H (Note (''Loaded bundled module: '' @ name)) else State_Monad.return ());
       load_bundled H ms (if name = kPackageManager then out\<lparr>oc_managerLoaded := True\<rparr>
                          else out\<lparr>oc_downloaderLoaded := True\<rparr>) } }"

text \<open>Settings, one after the other; the answer is whether all were delivered.\<close>

fun set_each :: "'r hooks \<Rightarrow> (string \<times> string) list \<Rightarrow> ('r, bool) boot_op" where
  "set_each H [] = State_Monad.return True"
| "set_each H ((m, v) # ms) = do {
     ok \<leftarrow> hook H (Configure m [v]);
     rest \<leftarrow> set_each H ms;
     State_Monad.return (ok \<and> rest) }"

definition dir_settings :: "boot_dirs \<Rightarrow> (string \<times> string) list" where
  "dir_settings D =
    (if bd_embeddedModules D \<noteq> []
     then [(''setEmbeddedModulesDirectory'', bd_embeddedModules D),
           (''setEmbeddedUiPluginsDirectory'', bd_embeddedUiPlugins D)] else [])
    @ [(''setUserModulesDirectory'', bd_userModules D), (''setUserUiPluginsDirectory'', bd_userUiPlugins D),
       (''setKeyringDirectory'', bd_keyring D)]"

definition fail_closed_line :: "string \<Rightarrow> string" where
  "fail_closed_line policy = ''Warning: could not deliver signature_policy='' @ [CHR 39] @ policy @ [CHR 39]
     @ '' to package_manager. Unloading it: leaving it up would enforce the module default ('' @ [CHR 39] @ ''warn''
     @ [CHR 39] @ '') while this session'' @ [CHR 39] @ ''s config advertises '' @ [CHR 39] @ policy @ [CHR 39]
     @ ''. Package commands are unavailable until the next daemon start.''"

definition fail_closed :: "'r hooks \<Rightarrow> string \<Rightarrow> outcome \<Rightarrow> ('r, outcome) boot_op" where
  "fail_closed H policy out = do {
     _ \<leftarrow> say H (Warn (fail_closed_line policy));
     _ \<leftarrow> (if hk_unload H then say H (Unload_Module kPackageManager) else State_Monad.return ());
     State_Monad.return (out\<lparr>oc_managerLoaded := False, oc_managerDisabled := True\<rparr>) }"

definition settle :: "'r hooks \<Rightarrow> boot_dirs \<Rightarrow> string \<Rightarrow> outcome \<Rightarrow> ('r, outcome) boot_op" where
  "settle H D policy out = do {
     _ \<leftarrow> (if \<not> oc_directoriesSet out then say H (Warn
         (''Warning: one or more package_manager directory settings did not reach the module. ''
          @ ''`package ls` may report an empty session and installs will refuse until the daemon is restarted.''))
           else State_Monad.return ());
     _ \<leftarrow> hook H (Configure ''resetPendingAction'' []);
     _ \<leftarrow> (if hk_note H then say H (Note (''Configured package_manager: user='' @ bd_userModules D
          @ '' embedded='' @ bd_embeddedModules D @ '' keyring='' @ bd_keyring D @ '' signature_policy=''
          @ (if policy = [] then ''(module default)'' else policy))) else State_Monad.return ());
     State_Monad.return out }"

definition configure_manager :: "'r hooks \<Rightarrow> boot_dirs \<Rightarrow> string \<Rightarrow> outcome \<Rightarrow> ('r, outcome) boot_op" where
  "configure_manager H D policy out = do {
     dirsDelivered \<leftarrow> set_each H (dir_settings D);
     policyDelivered \<leftarrow> (if policy \<noteq> [] then hook H (Configure ''setSignaturePolicy'' [policy])
                         else State_Monad.return True);
     (if policy \<noteq> [] \<and> \<not> policyDelivered then fail_closed H policy else settle H D policy)
       (out\<lparr>oc_directoriesSet := dirsDelivered \<and> policyDelivered,
            oc_policyArmed := policy \<noteq> [] \<and> policyDelivered\<rparr>) }"

definition run_bootstrap :: "'r hooks \<Rightarrow> boot_dirs \<Rightarrow> string \<Rightarrow> ('r, outcome) boot_op" where
  "run_bootstrap H D policy = do {
     out \<leftarrow> load_bundled H kBundled no_outcome;
     if \<not> oc_managerLoaded out then State_Monad.return out
     else configure_manager H D policy out }"

section \<open>What package_manager enforces\<close>

text \<open>The module as its callers see it: down, or up with the policy it was last given, if any.\<close>

datatype manager = Down | Up "string option"

fun manager_step :: "hook_call \<times> bool \<Rightarrow> manager \<Rightarrow> manager" where
  "manager_step (Load_Module m, True) s = (if m = kPackageManager then Up None else s)"
| "manager_step (Unload_Module m, _) s = (if m = kPackageManager then Down else s)"
| "manager_step (Configure m [v], True) s =
    (case s of Up _ \<Rightarrow> (if m = ''setSignaturePolicy'' then Up (Some v) else s) | Down \<Rightarrow> Down)"
| "manager_step _ s = s"

definition manager_of :: "(hook_call \<times> bool) list \<Rightarrow> manager" where
  "manager_of log = foldr manager_step log Down"

text \<open>The calls that a step adds to the log.\<close>

definition adds :: "('r, 'a) boot_op \<Rightarrow> ('a \<Rightarrow> (hook_call \<times> bool) list \<Rightarrow> bool) \<Rightarrow> bool" where
  "adds m P \<longleftrightarrow> (\<forall>s a s'. run_state m s = (a, s') \<longrightarrow> (\<exists>new. bt_log s' = new @ bt_log s \<and> P a new))"

lemma addsD: "adds m P \<Longrightarrow> run_state m s = (a, s') \<Longrightarrow> \<exists>new. bt_log s' = new @ bt_log s \<and> P a new"
  by (simp add: adds_def)

lemma adds_hook: "adds (hook H c) (\<lambda>b new. new = [(c, b)])"
  by (auto simp: adds_def hook_def split: prod.splits)

lemma adds_say: "adds (say H c) (\<lambda>_ new. \<exists>b. new = [(c, b)])"
  by (auto simp: adds_def say_def hook_def split: prod.splits)

lemma adds_return: "adds (State_Monad.return a) (\<lambda>b new. b = a \<and> new = [])"
  by (simp add: adds_def)

lemma adds_bind:
  assumes "adds m P" "\<And>a new. P a new \<Longrightarrow> adds (f a) (\<lambda>b later. Q b (later @ new))"
  shows "adds (State_Monad.bind m f) Q"
  unfolding adds_def
proof (intro allI impI)
  fix s b s' assume r: "run_state (State_Monad.bind m f) s = (b, s')"
  obtain a s1 where a: "run_state m s = (a, s1)" by fastforce
  with r have b: "run_state (f a) s1 = (b, s')" by simp
  from addsD [OF assms(1) a] obtain new where n: "bt_log s1 = new @ bt_log s" "P a new" by blast
  from addsD [OF assms(2) [OF n(2)] b] n(1) show "\<exists>new. bt_log s' = new @ bt_log s \<and> Q b new" by auto
qed

lemma adds_weaken: "adds m P \<Longrightarrow> (\<And>a new. P a new \<Longrightarrow> Q a new) \<Longrightarrow> adds m Q"
  unfolding adds_def by blast

lemma adds_if: "(c \<Longrightarrow> adds a P) \<Longrightarrow> (\<not> c \<Longrightarrow> adds b P) \<Longrightarrow> adds (if c then a else b) P"
  by simp

text \<open>Log entries that leave the module as it is.\<close>

definition quiet :: "hook_call \<times> bool \<Rightarrow> bool" where
  "quiet e \<longleftrightarrow> (\<forall>s. manager_step e s = s)"

lemma quiet_log: "list_all quiet new \<Longrightarrow> foldr manager_step new s = s"
  by (induction new) (auto simp: quiet_def)

lemma quiet_calls [simp]:
  "quiet (Warn l, b)" "quiet (Note l, b)" "m \<noteq> kPackageManager \<Longrightarrow> quiet (Load_Module m, b)"
  "m \<noteq> ''setSignaturePolicy'' \<Longrightarrow> quiet (Configure m vs, b)" "quiet (c, False) \<or> (\<exists>m. c = Unload_Module m)"
proof -
  show "m \<noteq> kPackageManager \<Longrightarrow> quiet (Load_Module m, b)" by (cases b) (simp_all add: quiet_def)
  show "quiet (Configure m vs, b)" if "m \<noteq> ''setSignaturePolicy''"
  proof -
    have "manager_step (Configure m vs, b) s = s" for s
      using that by (cases "((Configure m vs, b), s)" rule: manager_step.cases) (auto split: manager.splits)
    then show ?thesis by (simp add: quiet_def)
  qed
  show "quiet (c, False) \<or> (\<exists>m. c = Unload_Module m)" by (cases c) (auto simp: quiet_def)
qed (simp_all add: quiet_def)

lemma adds_set_each:
  "list_all (\<lambda>(m, v). m \<noteq> ''setSignaturePolicy'') ms \<Longrightarrow> adds (set_each H ms) (\<lambda>ok new. list_all quiet new)"
proof (induction ms)
  case Nil
  then show ?case by (auto intro: adds_weaken [OF adds_return])
next
  case (Cons mv ms)
  obtain m v where mv: "mv = (m, v)" by fastforce
  show ?case
    unfolding mv set_each.simps
    by (rule adds_bind [OF adds_hook], rule adds_bind [OF Cons.IH]) (use Cons.prems mv in \<open>auto intro: adds_weaken [OF adds_return]\<close>)
qed

lemma names_differ [simp]: "kPackageDownloader \<noteq> kPackageManager" "kPackageManager \<noteq> kPackageDownloader"
  by (simp_all add: kPackageManager_def kPackageDownloader_def)

abbreviation attempted :: "(hook_call \<times> bool) list \<Rightarrow> string \<Rightarrow> bool" where
  "attempted log m \<equiv> Load_Module m \<in> fst ` set log"

definition after_load :: "outcome \<Rightarrow> (hook_call \<times> bool) list \<Rightarrow> bool" where
  "after_load out new \<longleftrightarrow> manager_of new = (if oc_managerLoaded out then Up None else Down)
     \<and> attempted new kPackageManager \<and> attempted new kPackageDownloader \<and> \<not> oc_policyArmed out"

lemma adds_opt_say: "adds (if c then say H x else State_Monad.return ()) (\<lambda>_ new. new = [] \<or> (\<exists>b. new = [(x, b)]))"
  by (cases c) (auto intro: adds_weaken [OF adds_say] adds_weaken [OF adds_return])

lemma adds_load: "adds (load_bundled H kBundled no_outcome) after_load"
  unfolding kBundled_def load_bundled.simps
  by (intro adds_bind [OF adds_hook] adds_if adds_bind [OF adds_say] adds_bind [OF adds_opt_say];
      rule adds_weaken [OF adds_return])
    (auto simp: after_load_def manager_of_def no_outcome_def)

definition final_ok :: "string \<Rightarrow> outcome \<Rightarrow> (hook_call \<times> bool) list \<Rightarrow> bool" where
  "final_ok policy out new \<longleftrightarrow>
     manager_of new = (if oc_managerLoaded out then Up (if policy = [] then None else Some policy) else Down)
     \<and> (oc_policyArmed out \<longleftrightarrow> policy \<noteq> [] \<and> oc_managerLoaded out)
     \<and> attempted new kPackageManager \<and> attempted new kPackageDownloader"

text \<open>The state of the module after a longer run.\<close>

lemma manager_of_append: "manager_of (later @ new) = foldr manager_step later (manager_of new)"
  by (simp add: manager_of_def)

lemma adds_policy: "adds (if policy \<noteq> [] then hook H (Configure ''setSignaturePolicy'' [policy]) else State_Monad.return True)
    (\<lambda>ok new. if policy \<noteq> [] then new = [(Configure ''setSignaturePolicy'' [policy], ok)] else ok \<and> new = [])"
  by (auto intro: adds_weaken [OF adds_hook] adds_weaken [OF adds_return])

lemma adds_fail_closed:
  "hk_unload H \<Longrightarrow> adds (fail_closed H policy out) (\<lambda>o' new. o' = out\<lparr>oc_managerLoaded := False, oc_managerDisabled := True\<rparr>
     \<and> (\<forall>s. foldr manager_step new s = Down))"
  unfolding fail_closed_def
  by (rule adds_bind [OF adds_say], simp, rule adds_bind [OF adds_say], rule adds_weaken [OF adds_return]) auto

lemma adds_settle: "adds (settle H D policy out) (\<lambda>o' new. o' = out \<and> list_all quiet new)"
  unfolding settle_def
  by (rule adds_bind [OF adds_opt_say], rule adds_bind [OF adds_hook], rule adds_bind [OF adds_opt_say],
      rule adds_weaken [OF adds_return]) auto

lemma policy_step: "manager_step (Configure ''setSignaturePolicy'' [policy], b) (Up None) = (if b then Up (Some policy) else Up None)"
  by (cases b) simp_all

lemma bootstrap_adds:
  assumes "hk_unload H"
  shows "adds (run_bootstrap H D policy) (final_ok policy)"
  unfolding run_bootstrap_def
proof (rule adds_bind [OF adds_load], rule adds_if)
  fix out new assume al: "after_load out new"
  show "\<not> oc_managerLoaded out \<Longrightarrow> adds (State_Monad.return out) (\<lambda>b later. final_ok policy b (later @ new))"
    using al by (auto simp: after_load_def final_ok_def intro: adds_weaken [OF adds_return])
  assume up: "\<not> \<not> oc_managerLoaded out"
  have dirs: "list_all (\<lambda>(m, v). m \<noteq> ''setSignaturePolicy'') (dir_settings D)" by (simp add: dir_settings_def)
  show "adds (configure_manager H D policy out) (\<lambda>b later. final_ok policy b (later @ new))"
    unfolding configure_manager_def
  proof (rule adds_bind [OF adds_set_each [OF dirs]], rule adds_bind [OF adds_policy])
    fix delivered ds ok ps
    assume ds: "list_all quiet ds"
      and ps: "if policy \<noteq> [] then ps = [(Configure ''setSignaturePolicy'' [policy], ok)] else ok \<and> ps = []"
    have m: "manager_of (ps @ ds @ new) = (if policy \<noteq> [] \<and> ok then Up (Some policy) else Up None)"
      using ds ps al up by (auto simp: manager_of_append quiet_log after_load_def policy_step
        simp del: manager_step.simps split: if_splits)
    show "adds ((if policy \<noteq> [] \<and> \<not> ok then fail_closed H policy else settle H D policy)
        (out\<lparr>oc_directoriesSet := delivered \<and> ok, oc_policyArmed := policy \<noteq> [] \<and> ok\<rparr>))
        (\<lambda>b later. final_ok policy b (((later @ ps) @ ds) @ new))"
    proof (cases "policy \<noteq> [] \<and> \<not> ok")
      case True
      then show ?thesis using al
        by (auto intro!: adds_weaken [OF adds_fail_closed [OF assms]] simp: final_ok_def manager_of_append after_load_def)
    next
      case False
      then show ?thesis using al up m ps
        by (auto intro!: adds_weaken [OF adds_settle] simp: final_ok_def manager_of_append quiet_log after_load_def)
    qed
  qed
qed

section \<open>Properties\<close>

text \<open>
  C28: however the calls turn out, package_manager never stays up with a policy other than the
  configured one: at the end it is down, or up with exactly that policy (its own default when none is
  configured). The reported outcome is the truth about the module, and a failure to load one
  of the two modules never keeps the other from being tried.
\<close>

theorem bootstrap_fails_closed:
  assumes "hk_unload H" "bt_log s = []" "run_state (run_bootstrap H D policy) s = (out, s')"
  shows "manager_of (bt_log s') = (if oc_managerLoaded out then Up (if policy = [] then None else Some policy) else Down)
    \<and> (oc_policyArmed out \<longleftrightarrow> policy \<noteq> [] \<and> oc_managerLoaded out)
    \<and> attempted (bt_log s') kPackageManager \<and> attempted (bt_log s') kPackageDownloader"
  using addsD [OF bootstrap_adds [OF assms(1)] assms(3)] assms(2) by (simp add: final_ok_def)

text \<open>A daemon whose package_manager loads but cannot be told the policy.\<close>

definition deaf_hooks :: "unit hooks" where
  "deaf_hooks = \<lparr>hk_answer = (\<lambda>c r. ((case c of Configure m vs \<Rightarrow> m \<noteq> ''setSignaturePolicy'' | _ \<Rightarrow> True), r)),
     hk_unload = True, hk_note = False\<rparr>"

definition sample_dirs :: boot_dirs where
  "sample_dirs = \<lparr>bd_embeddedModules = [], bd_embeddedUiPlugins = [], bd_userModules = ''/s/modules'',
     bd_userUiPlugins = ''/s/plugins'', bd_keyring = ''/s/keyring''\<rparr>"

lemma bootstrap_fails_closed_witness:
  "(case run_state (run_bootstrap deaf_hooks sample_dirs ''require'') \<lparr>bt_net = (), bt_log = []\<rparr> of
     (out, s') \<Rightarrow> manager_of (bt_log s') = Down \<and> \<not> oc_policyArmed out)"
proof -
  obtain out s' where r: "run_state (run_bootstrap deaf_hooks sample_dirs ''require'') \<lparr>bt_net = (), bt_log = []\<rparr> = (out, s')"
    by fastforce
  moreover have "\<not> oc_managerLoaded out"
    using r by (auto simp: run_bootstrap_def kBundled_def hook_def say_def deaf_hooks_def no_outcome_def
      configure_manager_def dir_settings_def sample_dirs_def fail_closed_def)
  ultimately show ?thesis using bootstrap_fails_closed [OF _ _ r] by (simp add: deaf_hooks_def)
qed

end
