(* ===== verification/Log_Sink.thy ===== *)
theory Log_Sink
  imports Config Samples
begin

text \<open>
  \<open>src/src/daemon/log_sink.cpp\<close>, POSIX branches: the reader that cuts the captured stream into log lines,
  the retention of old log files, and the descriptors that \<open>start\<close> redirects and \<open>stop\<close> restores.
  spdlog's rotating sink is a parameter.
\<close>

section \<open>The reader\<close>

datatype read_result = Got string | Eof | Interrupted | Read_Failed

record log_reader =
  rd_pending :: string
  rd_lines :: "string list"   \<comment> \<open>what the logger was given, latest first\<close>
  rd_mirror :: "string list"  \<comment> \<open>what was written to the terminal, latest first\<close>

definition kReadSize :: nat where "kReadSize = 4096"
definition kMaxPending :: nat where "kMaxPending = 64 * 1024"

text \<open>The complete lines of a text, and the tail after the last newline.\<close>

fun cut :: "string \<Rightarrow> string \<Rightarrow> string list \<times> string" where
  "cut cur [] = ([], cur)"
| "cut cur (c # cs) = (if c = CHR 10 then (case cut [] cs of (ls, tail) \<Rightarrow> (cur # ls, tail)) else cut (cur @ [c]) cs)"

definition on_read :: "bool \<Rightarrow> string \<Rightarrow> log_reader \<Rightarrow> log_reader" where
  "on_read mirror bytes s =
    (case cut [] (rd_pending s @ bytes) of (ls, tail) \<Rightarrow>
       let s = s\<lparr>rd_lines := rev ls @ rd_lines s, rd_pending := tail,
                 rd_mirror := (if mirror then bytes # rd_mirror s else rd_mirror s)\<rparr>
       in if length tail > kMaxPending then s\<lparr>rd_lines := tail # rd_lines s, rd_pending := []\<rparr> else s)"

definition last_line :: "log_reader \<Rightarrow> log_reader" where
  "last_line s = (if rd_pending s \<noteq> [] then s\<lparr>rd_lines := rd_pending s # rd_lines s\<rparr> else s)"

text \<open>The reads, in order; \<open>None\<close> when the loop still waits after the last of them.\<close>

fun reader_loop :: "bool \<Rightarrow> read_result list \<Rightarrow> log_reader \<Rightarrow> log_reader option" where
  "reader_loop m [] s = None"
| "reader_loop m (Got bytes # rs) s = reader_loop m rs (on_read m bytes s)"
| "reader_loop m (Interrupted # rs) s = reader_loop m rs s"
| "reader_loop m (Eof # rs) s = Some (last_line s)"
| "reader_loop m (Read_Failed # rs) s = Some (last_line s)"

definition new_reader :: log_reader where
  "new_reader = \<lparr>rd_pending = [], rd_lines = [], rd_mirror = []\<rparr>"

text \<open>What was read before the end.\<close>

fun stream_of :: "read_result list \<Rightarrow> string" where
  "stream_of [] = []"
| "stream_of (Got bytes # rs) = bytes @ stream_of rs"
| "stream_of (Interrupted # rs) = stream_of rs"
| "stream_of (_ # rs) = []"

fun sizes_ok :: "read_result list \<Rightarrow> bool" where
  "sizes_ok [] = True"
| "sizes_ok (Got bytes # rs) = (length bytes \<le> kReadSize \<and> sizes_ok rs)"
| "sizes_ok (_ # rs) = sizes_ok rs"

abbreviation nl :: char where "nl \<equiv> CHR 10"

text \<open>Lines, each with its newline.\<close>

definition unlines :: "string list \<Rightarrow> string" where
  "unlines ls = concat (map (\<lambda>l. l @ [nl]) ls)"

lemma unlines_simps [simp]: "unlines [] = []" "unlines (l # ls) = l @ nl # unlines ls" "unlines (xs @ ys) = unlines xs @ unlines ys"
  by (simp_all add: unlines_def)

lemma cut_text: "cut cur s = (ls, tail) \<Longrightarrow> unlines ls @ tail = cur @ s"
  by (induction cur s arbitrary: ls tail rule: cut.induct) (auto split: if_splits prod.splits)

lemma cut_lines:
  "cut cur s = (ls, tail) \<Longrightarrow> nl \<notin> set cur \<Longrightarrow> (\<forall>l \<in> set ls. nl \<notin> set l) \<and> nl \<notin> set tail"
  by (induction cur s arbitrary: ls tail rule: cut.induct) (auto split: if_splits prod.splits)

lemma cut_length: "cut cur s = (ls, tail) \<Longrightarrow> (\<forall>l \<in> set ls. length l \<le> length cur + length s) \<and> length tail \<le> length cur + length s"
proof (induction cur s arbitrary: ls tail rule: cut.induct)
  case (2 cur c cs)
  show ?case
  proof (cases "c = nl")
    case True
    then obtain ls' where l: "cut [] cs = (ls', tail)" "ls = cur # ls'" using 2 by (auto split: prod.splits)
    with 2(1) [OF True l(1)] show ?thesis by (auto intro: le_SucI trans_le_add2)
  next
    case False
    with 2(2) [OF False, of ls tail] 2(3) show ?thesis by auto
  qed
qed simp

section \<open>What the log holds\<close>

text \<open>Between reads: the pending text is short and has no newline; so is every logged line.\<close>

definition reader_ok :: "log_reader \<Rightarrow> bool" where
  "reader_ok s \<longleftrightarrow> nl \<notin> set (rd_pending s) \<and> length (rd_pending s) \<le> kMaxPending
     \<and> list_all (\<lambda>l. nl \<notin> set l \<and> length l \<le> kMaxPending + kReadSize) (rd_lines s)"

abbreviation bytes_of :: "string \<Rightarrow> string" where
  "bytes_of s \<equiv> filter (\<lambda>c. c \<noteq> nl) s"

lemma bytes_of_line: "nl \<notin> set l \<Longrightarrow> bytes_of l = l"
  by (simp add: filter_id_conv) metis

lemma bytes_of_unlines: "list_all (\<lambda>l. nl \<notin> set l) ls \<Longrightarrow> bytes_of (unlines ls) = concat ls"
  by (induction ls) (auto simp: bytes_of_line)

lemma on_read_ok:
  assumes "reader_ok s" "length bytes \<le> kReadSize"
  shows "reader_ok (on_read m bytes s)"
    and "concat (rev (rd_lines (on_read m bytes s))) @ rd_pending (on_read m bytes s)
           = concat (rev (rd_lines s)) @ rd_pending s @ bytes_of bytes"
proof -
  obtain ls tail where c: "cut [] (rd_pending s @ bytes) = (ls, tail)" by fastforce
  have len: "list_all (\<lambda>l. length l \<le> kMaxPending + kReadSize) ls" "length tail \<le> kMaxPending + kReadSize"
    using cut_length [OF c] assms by (force simp: reader_ok_def list_all_iff)+
  have lines: "list_all (\<lambda>l. nl \<notin> set l) ls" "nl \<notin> set tail"
    using cut_lines [OF c] by (auto simp: list_all_iff)
  show "reader_ok (on_read m bytes s)"
    using assms len lines by (auto simp: on_read_def c Let_def reader_ok_def list_all_iff)
  have "bytes_of (unlines ls @ tail) = bytes_of (rd_pending s @ bytes)" using cut_text [OF c] by simp
  then have "concat ls @ tail = rd_pending s @ bytes_of bytes"
    using lines assms(1) by (simp add: bytes_of_unlines bytes_of_line reader_ok_def)
  then show "concat (rev (rd_lines (on_read m bytes s))) @ rd_pending (on_read m bytes s)
           = concat (rev (rd_lines s)) @ rd_pending s @ bytes_of bytes"
    by (simp add: on_read_def c Let_def)
qed

lemma last_line_ok:
  assumes "reader_ok s"
  shows "list_all (\<lambda>l. nl \<notin> set l \<and> length l \<le> kMaxPending + kReadSize) (rd_lines (last_line s))"
    and "concat (rev (rd_lines (last_line s))) = concat (rev (rd_lines s)) @ rd_pending s"
  using assms by (auto simp: last_line_def reader_ok_def)

lemma loop_bytes:
  "reader_loop m rs s = Some s' \<Longrightarrow> reader_ok s \<Longrightarrow> sizes_ok rs \<Longrightarrow>
     concat (rev (rd_lines s')) = concat (rev (rd_lines s)) @ rd_pending s @ bytes_of (stream_of rs)
     \<and> list_all (\<lambda>l. nl \<notin> set l \<and> length l \<le> kMaxPending + kReadSize) (rd_lines s')"
proof (induction m rs s rule: reader_loop.induct)
  case (2 m bytes rs s)
  then show ?case using on_read_ok [of s bytes m] by simp
next
  case (4 m rs s)
  then show ?case using last_line_ok [of s] by auto
next
  case (5 m rs s)
  then show ?case using last_line_ok [of s] by auto
qed simp_all

text \<open>A text with its last newline, and the texts whose lines are all short.\<close>

definition closed :: "string \<Rightarrow> string" where
  "closed t = (if t = [] \<or> last t = nl then t else t @ [nl])"

definition short_lines :: "string \<Rightarrow> bool" where
  "short_lines t \<longleftrightarrow> (\<forall>a l b. t = a @ l @ b \<and> nl \<notin> set l \<longrightarrow> length l \<le> kMaxPending)"

lemma short_lines_suffix: "short_lines (p @ t) \<Longrightarrow> short_lines t"
  unfolding short_lines_def by (metis append.assoc)

lemma closed_unlines: "closed (unlines ls @ t) = unlines ls @ closed t"
proof (cases ls rule: rev_cases)
  case (snoc ks l)
  then show ?thesis by (simp add: closed_def)
qed (simp add: closed_def)

lemma closed_line: "nl \<notin> set t \<Longrightarrow> closed t = (if t = [] then [] else t @ [nl])"
  by (cases t rule: rev_cases) (auto simp: closed_def)

lemma loop_lines:
  "reader_loop m rs s = Some s' \<Longrightarrow> reader_ok s \<Longrightarrow> sizes_ok rs \<Longrightarrow> short_lines (rd_pending s @ stream_of rs) \<Longrightarrow>
     unlines (rev (rd_lines s')) = unlines (rev (rd_lines s)) @ closed (rd_pending s @ stream_of rs)"
proof (induction m rs s rule: reader_loop.induct)
  case (2 m bytes rs s)
  obtain ls tail where c: "cut [] (rd_pending s @ bytes) = (ls, tail)" by fastforce
  have t: "rd_pending s @ bytes @ stream_of rs = unlines ls @ tail @ stream_of rs" using cut_text [OF c] by simp
  have "nl \<notin> set tail" using cut_lines [OF c] by simp
  moreover have "short_lines (tail @ stream_of rs)"
    using "2.prems"(4) t short_lines_suffix [of "unlines ls" "tail @ stream_of rs"] by simp
  ultimately have tail: "length tail \<le> kMaxPending" unfolding short_lines_def by (metis append_Nil)
  then have s1: "rd_pending (on_read m bytes s) = tail" "rd_lines (on_read m bytes s) = rev ls @ rd_lines s"
    by (simp_all add: on_read_def c Let_def)
  have "unlines (rev (rd_lines s')) = unlines (rev (rd_lines s)) @ unlines ls @ closed (tail @ stream_of rs)"
    using 2 on_read_ok(1) [of s bytes m] s1 \<open>short_lines (tail @ stream_of rs)\<close> by simp
  then show ?case using t closed_unlines [of ls "tail @ stream_of rs"] by (simp only: stream_of.simps append_assoc)
next
  case (4 m rs s)
  then show ?case by (auto simp: last_line_def reader_ok_def closed_line)
next
  case (5 m rs s)
  then show ?case by (auto simp: last_line_def reader_ok_def closed_line)
qed simp_all

section \<open>Names and retention\<close>

text \<open>\<open>split\<close>: stem and extension of a file name.\<close>

definition split_name :: "string \<Rightarrow> string \<times> string" where
  "split_name file = (let f = filename file; ext = takeWhile (\<lambda>c. c \<noteq> CHR ''.'') (rev f)
     in if f = ''.'' \<or> f = ''..'' \<or> length ext + 1 \<ge> length f then (f, [])
        else (take (length f - length ext - 1) f, CHR ''.'' # rev ext))"

text \<open>A directory entry: the name, whether it is a regular file, its time of last writing if that can be read.\<close>

type_synonym log_entry = "string \<times> bool \<times> int option"

definition own_log :: "string \<times> string \<Rightarrow> log_entry \<Rightarrow> (string \<times> int) option" where
  "own_log parts e = (case e of (name, regular, stamp) \<Rightarrow>
     if \<not> regular then None
     else if \<not> starts_with name (fst parts @ ''_'') then None
     else if snd parts \<noteq> [] \<and> snd (split_name name) \<noteq> snd parts then None
     else map_option (\<lambda>t. (name, t)) stamp)"

fun remove_all :: "string \<Rightarrow> string list \<Rightarrow> unit io" where
  "remove_all dir [] = State_Monad.return ()"
| "remove_all dir (f # fs) = do { _ \<leftarrow> remove_file (path_append dir f); remove_all dir fs }"

text \<open>The entries to delete, oldest first.\<close>

definition outdated :: "string \<times> string \<Rightarrow> nat \<Rightarrow> log_entry list \<Rightarrow> string list" where
  "outdated parts keep entries = (let found = List.map_filter (own_log parts) entries
     in map fst (take (length found - keep) (sort_key snd found)))"

definition pruneOldLogs :: "string \<Rightarrow> string \<times> string \<Rightarrow> nat \<Rightarrow> log_entry list \<Rightarrow> unit io" where
  "pruneOldLogs dir parts keep entries = remove_all dir (outdated parts keep entries)"

definition stablePath :: "string \<Rightarrow> string \<Rightarrow> string" where
  "stablePath dir file = path_append dir file"

section \<open>Descriptors\<close>

datatype channel = Terminal nat | Pipe_Read nat | Pipe_Write nat

type_synonym fd_table = "channel option list"   \<comment> \<open>by descriptor number\<close>

definition fd_get :: "fd_table \<Rightarrow> nat \<Rightarrow> channel option" where
  "fd_get t n = (if n < length t then t ! n else None)"

definition fd_put :: "nat \<Rightarrow> channel option \<Rightarrow> fd_table \<Rightarrow> fd_table" where
  "fd_put n x t = (if n < length t then t[n := x] else t @ replicate (n - length t) None @ [x])"

definition lowest_free :: "fd_table \<Rightarrow> nat" where
  "lowest_free t = length (takeWhile (\<lambda>x. x \<noteq> None) t)"

datatype fd_call = Dup nat | Pipe | Dup2 nat nat

record log_options =
  lo_enabled :: bool
  lo_dir :: string
  lo_file :: string
  lo_maxSizeMb :: nat
  lo_maxFiles :: nat
  lo_console :: bool

record log_sink =
  ls_started :: bool
  ls_readFd :: "nat option"
  ls_originalStdout :: "nat option"
  ls_originalStderr :: "nat option"
  ls_console :: bool
  ls_path :: string
  ls_linkPath :: string
  ls_logger :: bool

record log_env =
  le_stamp :: string                          \<comment> \<open>\<open>sessionStamp()\<close>\<close>
  le_entries :: "log_entry list"              \<comment> \<open>the directory as it is listed\<close>
  le_symlink :: bool                         \<comment> \<open>symbolic links can be replaced\<close>
  le_sink :: "string \<Rightarrow> nat \<Rightarrow> nat \<Rightarrow> bool"    \<comment> \<open>spdlog opens the file\<close>
  le_calls :: "fd_call \<Rightarrow> bool"               \<comment> \<open>the call succeeds\<close>

record log_state =
  lg_world :: world
  lg_links :: "string \<rightharpoonup> string"
  lg_fds :: fd_table
  lg_sink :: log_sink

type_synonym 'a log_op = "(log_state, 'a) state"

definition on_world :: "'a io \<Rightarrow> 'a log_op" where
  "on_world m = State (\<lambda>s. case run_state m (lg_world s) of (a, w) \<Rightarrow> (a, s\<lparr>lg_world := w\<rparr>))"

definition put_sink :: "(log_sink \<Rightarrow> log_sink) \<Rightarrow> unit log_op" where
  "put_sink f = State_Monad.update (\<lambda>s. s\<lparr>lg_sink := f (lg_sink s)\<rparr>)"

definition dup :: "log_env \<Rightarrow> nat \<Rightarrow> nat option log_op" where
  "dup E fd = State (\<lambda>s. if le_calls E (Dup fd) \<and> fd_get (lg_fds s) fd \<noteq> None
     then (Some (lowest_free (lg_fds s)), s\<lparr>lg_fds := fd_put (lowest_free (lg_fds s)) (fd_get (lg_fds s) fd) (lg_fds s)\<rparr>)
     else (None, s))"

definition dup2 :: "log_env \<Rightarrow> nat \<Rightarrow> nat \<Rightarrow> bool log_op" where
  "dup2 E fd target = State (\<lambda>s. if le_calls E (Dup2 fd target) \<and> fd_get (lg_fds s) fd \<noteq> None
     then (True, s\<lparr>lg_fds := fd_put target (fd_get (lg_fds s) fd) (lg_fds s)\<rparr>)
     else (False, s))"

definition close_fd :: "nat \<Rightarrow> unit log_op" where
  "close_fd fd = State_Monad.update (\<lambda>s. s\<lparr>lg_fds := fd_put fd None (lg_fds s)\<rparr>)"

definition close_opt :: "nat option \<Rightarrow> unit log_op" where
  "close_opt fd = (case fd of None \<Rightarrow> State_Monad.return () | Some n \<Rightarrow> close_fd n)"

definition makePipe :: "log_env \<Rightarrow> (nat \<times> nat) option log_op" where
  "makePipe E = State (\<lambda>s. if le_calls E Pipe
     then (let r = lowest_free (lg_fds s); t = fd_put r (Some (Pipe_Read r)) (lg_fds s); w = lowest_free t
           in (Some (r, w), s\<lparr>lg_fds := fd_put w (Some (Pipe_Write r)) t\<rparr>))
     else (None, s))"

section \<open>start and stop\<close>

text \<open>The stable name: whatever file it was is gone by now, or it keeps the name.\<close>

definition link_name :: "log_env \<Rightarrow> string \<Rightarrow> string \<Rightarrow> unit log_op" where
  "link_name E link target = State_Monad.update (\<lambda>s.
     if le_symlink E \<and> w_files (lg_world s) link = None \<and> w_dirs (lg_world s) link = None
     then s\<lparr>lg_links := (lg_links s)(link \<mapsto> target)\<rparr> else s)"

definition log_cleanup :: "unit log_op" where
  "log_cleanup = do {
     s \<leftarrow> State_Monad.get;
     _ \<leftarrow> close_opt (ls_originalStdout (lg_sink s));
     _ \<leftarrow> close_opt (ls_originalStderr (lg_sink s));
     put_sink (\<lambda>k. k\<lparr>ls_originalStdout := None, ls_originalStderr := None, ls_logger := False, ls_path := []\<rparr>) }"

text \<open>The second half of \<open>start\<close>: the descriptors.\<close>

definition redirect :: "log_env \<Rightarrow> bool log_op" where
  "redirect E = do {
     out \<leftarrow> dup E 1;
     err \<leftarrow> dup E 2;
     _ \<leftarrow> put_sink (\<lambda>k. k\<lparr>ls_originalStdout := out, ls_originalStderr := err\<rparr>);
     if out = None \<or> err = None then do { _ \<leftarrow> log_cleanup; State_Monad.return False }
     else do {
       fds \<leftarrow> makePipe E;
       (case fds of
         None \<Rightarrow> do { _ \<leftarrow> log_cleanup; State_Monad.return False }
       | Some (r, w) \<Rightarrow> do {
           ok1 \<leftarrow> dup2 E w 1;
           ok \<leftarrow> (if ok1 then dup2 E w 2 else State_Monad.return False);
           if \<not> ok then do {
             _ \<leftarrow> close_fd r;
             _ \<leftarrow> close_fd w;
             _ \<leftarrow> log_cleanup;
             State_Monad.return False }
           else do {
             _ \<leftarrow> close_fd w;
             _ \<leftarrow> put_sink (\<lambda>k. k\<lparr>ls_readFd := Some r, ls_started := True\<rparr>);
             State_Monad.return True } }) } }"

definition log_start :: "log_env \<Rightarrow> log_options \<Rightarrow> bool log_op" where
  "log_start E opts = do {
     s \<leftarrow> State_Monad.get;
     if ls_started (lg_sink s) then State_Monad.return True
     else if \<not> lo_enabled opts then State_Monad.return True
     else do {
       made \<leftarrow> on_world (mk_dirs (lo_dir opts));
       if \<not> made then State_Monad.return False
       else do {
         _ \<leftarrow> (if lo_maxFiles opts > 0
               then on_world (pruneOldLogs (lo_dir opts) (split_name (lo_file opts)) (lo_maxFiles opts - 1) (le_entries E))
               else State_Monad.return ());
         let (stem, ext) = split_name (lo_file opts);
         let stamped = stem @ ''_'' @ le_stamp E @ ext;
         let path = path_append (lo_dir opts) stamped;
         let link = stablePath (lo_dir opts) (lo_file opts);
         _ \<leftarrow> put_sink (\<lambda>k. k\<lparr>ls_path := path, ls_linkPath := link, ls_console := lo_console opts\<rparr>);
         if \<not> le_sink E path (if lo_maxSizeMb opts = 0 then 2 ^ 40 else lo_maxSizeMb opts * 1024 * 1024)
               (if lo_maxFiles opts > 1 then lo_maxFiles opts - 1 else 0)
         then do { _ \<leftarrow> put_sink (\<lambda>k. k\<lparr>ls_path := [], ls_linkPath := []\<rparr>); State_Monad.return False }
         else do {
           _ \<leftarrow> put_sink (\<lambda>k. k\<lparr>ls_logger := True\<rparr>);
           _ \<leftarrow> on_world (remove_file link);
           _ \<leftarrow> link_name E link stamped;
           redirect E } } } }"

definition log_stop :: "log_env \<Rightarrow> unit log_op" where
  "log_stop E = do {
     s \<leftarrow> State_Monad.get;
     if \<not> ls_started (lg_sink s) then State_Monad.return ()
     else do {
       _ \<leftarrow> (case ls_originalStdout (lg_sink s) of None \<Rightarrow> State_Monad.return True | Some n \<Rightarrow> dup2 E n 1);
       _ \<leftarrow> (case ls_originalStderr (lg_sink s) of None \<Rightarrow> State_Monad.return True | Some n \<Rightarrow> dup2 E n 2);
       _ \<leftarrow> close_opt (ls_originalStdout (lg_sink s));
       _ \<leftarrow> close_opt (ls_originalStderr (lg_sink s));
       _ \<leftarrow> close_opt (ls_readFd (lg_sink s));
       put_sink (\<lambda>k. k\<lparr>ls_originalStdout := None, ls_originalStderr := None, ls_readFd := None,
         ls_logger := False, ls_path := [], ls_linkPath := [], ls_started := False\<rparr>) } }"

section \<open>Descriptor lemmas\<close>

lemma fd_get_put [simp]: "fd_get (fd_put n x t) m = (if m = n then x else fd_get t m)"
  by (auto simp: fd_get_def fd_put_def nth_append nth_list_update)

lemma fd_get_free [simp]: "fd_get t (lowest_free t) = None"
proof -
  have "t ! length (takeWhile P t) = None" if "length (takeWhile P t) < length t" "P = (\<lambda>x. x \<noteq> None)" for P
    using nth_length_takeWhile [OF that(1)] that(2) by simp
  then show ?thesis by (simp add: fd_get_def lowest_free_def)
qed

lemma free_not_used: "fd_get t n \<noteq> None \<Longrightarrow> lowest_free t \<noteq> n"
  using fd_get_free [of t] by metis

text \<open>The standard streams are open.\<close>

definition std_open :: "fd_table \<Rightarrow> bool" where
  "std_open t \<longleftrightarrow> fd_get t 1 \<noteq> None \<and> fd_get t 2 \<noteq> None"

definition same_fds :: "fd_table \<Rightarrow> fd_table \<Rightarrow> bool" where
  "same_fds t u \<longleftrightarrow> (\<forall>n. fd_get t n = fd_get u n)"

lemma close_opt_fds: "lg_fds (snd (run_state (close_opt x) s)) = (case x of None \<Rightarrow> lg_fds s | Some n \<Rightarrow> fd_put n None (lg_fds s))"
  "lg_sink (snd (run_state (close_opt x) s)) = lg_sink s"
  by (simp_all add: close_opt_def close_fd_def split: option.split)

text \<open>
  A redirection: the two saved descriptors, the read end, and the table; or a failure, after which
  only the first stream may have changed.
\<close>

lemma redirect_run:
  assumes "std_open (lg_fds s)" "run_state (redirect E) s = (ok, s')"
  shows "if ok then (\<exists>a b r w. ls_originalStdout (lg_sink s') = Some a \<and> ls_originalStderr (lg_sink s') = Some b
      \<and> ls_readFd (lg_sink s') = Some r \<and> ls_started (lg_sink s')
      \<and> distinct [a, b, r, 1, 2] \<and> list_all (\<lambda>n. fd_get (lg_fds s) n = None) [a, b, r]
      \<and> (\<forall>n. fd_get (lg_fds s') n = (if n = a then fd_get (lg_fds s) 1 else if n = b then fd_get (lg_fds s) 2
           else if n = r then Some (Pipe_Read r) else if n = 1 \<or> n = 2 then Some (Pipe_Write r) else fd_get (lg_fds s) n)))
    else ls_started (lg_sink s') = ls_started (lg_sink s)
      \<and> (\<forall>n. n \<noteq> 1 \<longrightarrow> fd_get (lg_fds s') n = fd_get (lg_fds s) n)
      \<and> (fd_get (lg_fds s') 1 = fd_get (lg_fds s) 1 \<or> (\<exists>r. fd_get (lg_fds s') 1 = Some (Pipe_Write r)))"
proof -
  define t0 where "t0 = lg_fds s"
  define a where "a = lowest_free t0"
  define t1 where "t1 = fd_put a (fd_get t0 1) t0"
  define b where "b = lowest_free t1"
  define t2 where "t2 = fd_put b (fd_get t0 2) t1"
  define r where "r = lowest_free t2"
  define t3 where "t3 = fd_put r (Some (Pipe_Read r)) t2"
  define w where "w = lowest_free t3"
  note [simp del] = One_nat_def
  have open0: "fd_get t0 1 \<noteq> None" "fd_get t0 2 \<noteq> None" using assms(1) by (simp_all add: std_open_def t0_def)
  have a: "a \<noteq> 1" "a \<noteq> 2" "fd_get t0 a = None" using open0 free_not_used by (auto simp: a_def)
  have t1: "fd_get t1 n = (if n = a then fd_get t0 1 else fd_get t0 n)" for n by (simp add: t1_def)
  have b: "b \<noteq> 1" "b \<noteq> 2" "b \<noteq> a" using open0 free_not_used [of t1] by (auto simp: b_def t1)
  have fb: "fd_get t0 b = None" using fd_get_free [of t1] b(3) by (simp add: b_def [symmetric] t1)
  have t2: "fd_get t2 n = (if n = b then fd_get t0 2 else if n = a then fd_get t0 1 else fd_get t0 n)" for n
    by (simp add: t2_def t1)
  have r: "r \<noteq> 1" "r \<noteq> 2" "r \<noteq> a" "r \<noteq> b" using open0 b a free_not_used [of t2] by (auto simp: r_def t2)
  have fr: "fd_get t0 r = None" using fd_get_free [of t2] r by (simp add: r_def [symmetric] t2)
  have t3: "fd_get t3 n = (if n = r then Some (Pipe_Read r) else fd_get t2 n)" for n by (simp add: t3_def)
  have w: "w \<noteq> 1" "w \<noteq> 2" "w \<noteq> a" "w \<noteq> b" "w \<noteq> r"
    using open0 b a r free_not_used [of t3] by (auto simp: w_def t3 t2)
  have fw: "fd_get t0 w = None" using fd_get_free [of t3] w by (simp add: w_def [symmetric] t3 t2)
  define k where "k = (\<lambda>x y. (lg_sink s)\<lparr>ls_originalStdout := x, ls_originalStderr := y\<rparr>)"
  have d1: "run_state (dup E 1) s = (if le_calls E (Dup 1) then (Some a, s\<lparr>lg_fds := t1\<rparr>) else (None, s))"
    using open0 by (simp add: dup_def a_def t1_def t0_def)
  have d2: "run_state (dup E 2) (s\<lparr>lg_fds := t1\<rparr>) = (if le_calls E (Dup 2) then (Some b, s\<lparr>lg_fds := t2\<rparr>) else (None, s\<lparr>lg_fds := t1\<rparr>))"
    using open0 a by (simp add: dup_def b_def [symmetric] t2_def t1)
  have d2': "run_state (dup E 2) s = (if le_calls E (Dup 2) then (Some a, s\<lparr>lg_fds := fd_put a (fd_get t0 2) t0\<rparr>) else (None, s))"
    using open0 by (simp add: dup_def a_def [symmetric] t0_def [symmetric])
  have pip: "run_state (makePipe E) (s\<lparr>lg_fds := t2, lg_sink := z\<rparr>) =
      (if le_calls E Pipe then (Some (r, w), s\<lparr>lg_fds := fd_put w (Some (Pipe_Write r)) t3, lg_sink := z\<rparr>)
       else (None, s\<lparr>lg_fds := t2, lg_sink := z\<rparr>))" for z
    by (simp add: makePipe_def Let_def r_def [symmetric] t3_def [symmetric] w_def [symmetric])
  note defs = redirect_def put_sink_def log_cleanup_def close_opt_def close_fd_def d1 d2 d2' pip dup2_def
  note gets = t1 t2 t3 a b r w fb fr fw t0_def [symmetric]
  show ?thesis
  proof (cases "le_calls E (Dup 1) \<and> le_calls E (Dup 2) \<and> le_calls E Pipe")
    case False
    then show ?thesis using assms(2) a b fb
      by (cases "le_calls E (Dup 1)"; cases "le_calls E (Dup 2)") (auto simp: defs gets)
  next
    case saved: True
    show ?thesis
    proof (cases "le_calls E (Dup2 w 1) \<and> le_calls E (Dup2 w 2)")
      case True
      with saved have "ok" "lg_sink s' = (lg_sink s)\<lparr>ls_originalStdout := Some a, ls_originalStderr := Some b, ls_readFd := Some r, ls_started := True\<rparr>"
        "lg_fds s' = fd_put w None (fd_put 2 (Some (Pipe_Write r)) (fd_put 1 (Some (Pipe_Write r)) (fd_put w (Some (Pipe_Write r)) t3)))"
        using assms(2) w by (auto simp: defs)
      moreover have "fd_get (lg_fds s') n = (if n = a then fd_get t0 1 else if n = b then fd_get t0 2
           else if n = r then Some (Pipe_Read r) else if n = 1 \<or> n = 2 then Some (Pipe_Write r) else fd_get t0 n)" for n
        using calculation a b r w fw by (simp add: t3 t2)
      ultimately show ?thesis using a b r fb fr
        unfolding t0_def [symmetric] by (intro iffD2 [OF if_P] exI [of _ a] exI [of _ b] exI [of _ r]) simp_all
    next
      case False
      with saved show ?thesis using assms(2) a b r w fb fr fw
        by (cases "le_calls E (Dup2 w 1)") (auto simp: defs gets)
    qed
  qed
qed

text \<open>Nothing before the redirection touches a descriptor.\<close>

definition no_fds :: "'a log_op \<Rightarrow> bool" where
  "no_fds m \<longleftrightarrow> (\<forall>s. lg_fds (snd (run_state m s)) = lg_fds s \<and> ls_started (lg_sink (snd (run_state m s))) = ls_started (lg_sink s))"

lemma no_fdsD: "no_fds m \<Longrightarrow> run_state m s = (a, s') \<Longrightarrow> lg_fds s' = lg_fds s \<and> ls_started (lg_sink s') = ls_started (lg_sink s)"
  unfolding no_fds_def by (metis snd_conv)

lemma no_fds_calls: "no_fds (on_world m)" "no_fds (State_Monad.return x)" "no_fds (link_name E l t)"
  "no_fds (put_sink (\<lambda>k. k\<lparr>ls_path := p, ls_linkPath := l, ls_console := c\<rparr>))"
  "no_fds (put_sink (\<lambda>k. k\<lparr>ls_path := p, ls_linkPath := l\<rparr>))" "no_fds (put_sink (\<lambda>k. k\<lparr>ls_logger := b\<rparr>))"
  by (simp_all add: no_fds_def on_world_def link_name_def put_sink_def split: prod.split)

text \<open>A start either stops before the redirection, or ends with it.\<close>

definition redirects :: "log_env \<Rightarrow> bool log_op \<Rightarrow> bool" where
  "redirects E m \<longleftrightarrow> (\<forall>s ok s'. run_state m s = (ok, s') \<and> \<not> ls_started (lg_sink s) \<longrightarrow>
     (lg_fds s' = lg_fds s \<and> \<not> ls_started (lg_sink s'))
     \<or> (\<exists>s1. lg_fds s1 = lg_fds s \<and> \<not> ls_started (lg_sink s1) \<and> run_state (redirect E) s1 = (ok, s')))"

lemma redirects_bind: "no_fds m \<Longrightarrow> (\<And>a. redirects E (f a)) \<Longrightarrow> redirects E (State_Monad.bind m f)"
  unfolding redirects_def by (auto split: prod.splits dest!: no_fdsD) metis+

lemma redirects_basic: "redirects E (State_Monad.return b)" "redirects E (redirect E)"
  "redirects E a \<Longrightarrow> redirects E b' \<Longrightarrow> redirects E (if c then a else b')"
  "(\<And>x y. redirects E (f x y)) \<Longrightarrow> redirects E (case p of (x, y) \<Rightarrow> f x y)"
proof -
  show "redirects E (case p of (x, y) \<Rightarrow> f x y)" if "\<And>x y. redirects E (f x y)"
    using that by (cases p) simp
qed (auto simp: redirects_def)

lemma no_fds_if: "no_fds a \<Longrightarrow> no_fds b \<Longrightarrow> no_fds (if c then a else b)"
  by simp

lemma no_fds_get: "no_fds State_Monad.get"
  by (simp add: no_fds_def)

lemma log_start_redirects: "redirects E (log_start E opts)"
  unfolding log_start_def Let_def
  by (intro redirects_bind redirects_basic no_fds_calls no_fds_if no_fds_get)

section \<open>Properties\<close>

text \<open>
  C29: nothing that is captured is lost: when the reader ends, the logged lines hold the bytes that were
  read, in order, and none of them is longer than the pending limit and one read; and when no line of
  the stream passes the limit the log is the stream line by line, however the reads cut it.
\<close>

theorem log_complete:
  assumes "reader_loop m rs new_reader = Some s" "sizes_ok rs"
  shows "concat (rev (rd_lines s)) = bytes_of (stream_of rs)
    \<and> list_all (\<lambda>l. nl \<notin> set l \<and> length l \<le> kMaxPending + kReadSize) (rd_lines s)
    \<and> (short_lines (stream_of rs) \<longrightarrow> unlines (rev (rd_lines s)) = closed (stream_of rs))"
proof -
  have ok: "reader_ok new_reader" "rd_pending new_reader = []" "rd_lines new_reader = []"
    by (simp_all add: reader_ok_def new_reader_def)
  from loop_bytes [OF assms(1) ok(1) assms(2)] loop_lines [OF assms(1) ok(1) assms(2)] show ?thesis
    by (simp add: ok)
qed

lemma log_complete_witness:
  "\<exists>s. reader_loop False [Got ''a'', Interrupted, Got (''b'' @ nl # ''c''), Eof] new_reader = Some s
    \<and> concat (rev (rd_lines s)) = ''abc''"
proof -
  obtain s where r: "reader_loop False [Got ''a'', Interrupted, Got (''b'' @ nl # ''c''), Eof] new_reader = Some s"
    by simp
  then show ?thesis using log_complete [OF r] by (simp add: kReadSize_def)
qed

text \<open>
  The standard streams are in good hands: after a successful start both are the write end of the pipe
  that is read, and the stop that follows puts every descriptor back where it was; a start that fails leaves
  every descriptor as it was except, when only the second stream could not be redirected, standard
  output, which stays behind on a pipe.
\<close>

theorem log_start_stop:
  assumes "std_open (lg_fds s)" "\<not> ls_started (lg_sink s)" "run_state (log_start E opts) s = (ok, s1)"
  shows "if ls_started (lg_sink s1)
    then ok
      \<and> (\<exists>r. ls_readFd (lg_sink s1) = Some r \<and> fd_get (lg_fds s1) r = Some (Pipe_Read r)
          \<and> fd_get (lg_fds s1) 1 = Some (Pipe_Write r) \<and> fd_get (lg_fds s1) 2 = Some (Pipe_Write r))
      \<and> (\<forall>E'. (\<forall>n m. le_calls E' (Dup2 n m)) \<longrightarrow> same_fds (lg_fds s) (lg_fds (snd (run_state (log_stop E') s1))))
    else (\<forall>n. n \<noteq> 1 \<longrightarrow> fd_get (lg_fds s1) n = fd_get (lg_fds s) n)
      \<and> (fd_get (lg_fds s1) 1 = fd_get (lg_fds s) 1 \<or> (\<exists>r. fd_get (lg_fds s1) 1 = Some (Pipe_Write r)))"
proof -
  note [simp del] = One_nat_def
  from log_start_redirects [of E opts] assms(2,3) consider
      (early) "lg_fds s1 = lg_fds s" "\<not> ls_started (lg_sink s1)"
    | (redirected) s0 where "lg_fds s0 = lg_fds s" "\<not> ls_started (lg_sink s0)" "run_state (redirect E) s0 = (ok, s1)"
    unfolding redirects_def by blast
  then show ?thesis
  proof cases
    case redirected
    have "std_open (lg_fds s0)" using assms(1) redirected(1) by simp
    from redirect_run [OF this redirected(3)] redirected(1,2) show ?thesis
    proof (cases ok)
      case True
      with redirect_run [OF \<open>std_open (lg_fds s0)\<close> redirected(3)] obtain a b r where
        k: "ls_originalStdout (lg_sink s1) = Some a" "ls_originalStderr (lg_sink s1) = Some b"
          "ls_readFd (lg_sink s1) = Some r" "ls_started (lg_sink s1)" "distinct [a, b, r, 1, 2]"
          "list_all (\<lambda>n. fd_get (lg_fds s) n = None) [a, b, r]"
        and g: "\<And>n. fd_get (lg_fds s1) n = (if n = a then fd_get (lg_fds s) 1 else if n = b then fd_get (lg_fds s) 2
             else if n = r then Some (Pipe_Read r) else if n = 1 \<or> n = 2 then Some (Pipe_Write r) else fd_get (lg_fds s) n)"
        unfolding redirected(1) by auto
      have std: "fd_get (lg_fds s) 1 \<noteq> None" "fd_get (lg_fds s) 2 \<noteq> None" using assms(1) by (simp_all add: std_open_def)
      have "same_fds (lg_fds s) (lg_fds (snd (run_state (log_stop E') s1)))"
        if "\<forall>n m. le_calls E' (Dup2 n m)" for E'
        using that k std unfolding same_fds_def log_stop_def
        by (auto simp: dup2_def close_opt_def close_fd_def put_sink_def g)
      with True k g show ?thesis by auto
    qed (use redirect_run [OF \<open>std_open (lg_fds s0)\<close> redirected(3)] redirected in auto)
  qed simp
qed

text \<open>A machine where every call succeeds but those that are refused, with descriptors 0 to 2 open.\<close>

definition sample_log :: "(fd_call \<Rightarrow> bool) \<Rightarrow> log_env" where
  "sample_log calls = \<lparr>le_stamp = ''20260729_163832'', le_entries = [], le_symlink = True, le_sink = (\<lambda>_ _ _. True), le_calls = calls\<rparr>"

definition sample_log_options :: log_options where
  "sample_log_options = \<lparr>lo_enabled = True, lo_dir = ''/s/logs'', lo_file = ''daemon.log'', lo_maxSizeMb = 10,
     lo_maxFiles = 5, lo_console = True\<rparr>"

definition sample_log_state :: "world \<Rightarrow> log_state" where
  "sample_log_state w = \<lparr>lg_world = w, lg_links = Map.empty, lg_fds = map (\<lambda>n. Some (Terminal n)) [0..<3],
     lg_sink = \<lparr>ls_started = False, ls_readFd = None, ls_originalStdout = None, ls_originalStderr = None,
       ls_console = False, ls_path = [], ls_linkPath = [], ls_logger = False\<rparr>\<rparr>"

lemma sample_std_open: "std_open (lg_fds (sample_log_state w)) \<and> \<not> ls_started (lg_sink (sample_log_state w))"
  by (simp add: std_open_def sample_log_state_def fd_get_def)

lemma log_start_stop_witness:
  "\<exists>ok s1. run_state (log_start (sample_log (\<lambda>_. False)) sample_log_options) (sample_log_state sample_world) = (ok, s1)
    \<and> fd_get (lg_fds s1) 2 = Some (Terminal 2)"
proof -
  obtain ok s1 where r: "run_state (log_start (sample_log (\<lambda>_. False)) sample_log_options) (sample_log_state sample_world) = (ok, s1)"
    by fastforce
  moreover have "run_state (redirect (sample_log (\<lambda>_. False))) s = (b, s') \<Longrightarrow> \<not> b" for s b s'
    by (auto simp: redirect_def dup_def put_sink_def sample_log_def split: prod.splits)
  then have "\<not> (ls_started (lg_sink s1) \<and> ok)"
    using log_start_redirects [of "sample_log (\<lambda>_. False)" sample_log_options] r sample_std_open
    unfolding redirects_def by blast
  ultimately show ?thesis
    using log_start_stop [OF sample_std_open [THEN conjunct1] sample_std_open [THEN conjunct2] r]
    by (auto simp: sample_log_state_def fd_get_def split: if_splits)
qed

text \<open>The stranded standard output.\<close>

lemma stranded_stdout:
  "run_state (redirect (sample_log (\<lambda>c. case c of Dup2 _ n \<Rightarrow> n = 1 | _ \<Rightarrow> True))) (sample_log_state w) = (ok, s1) \<Longrightarrow>
     \<not> ok \<and> fd_get (lg_fds s1) 1 = Some (Pipe_Write 5) \<and> fd_get (lg_fds s1) 5 = None"
  by (auto simp: redirect_def dup_def dup2_def makePipe_def put_sink_def log_cleanup_def close_opt_def close_fd_def
    sample_log_def sample_log_state_def Let_def lowest_free_def fd_put_def fd_get_def upt_rec)

section \<open>Retention\<close>

lemma own_logs_kept:
  assumes "found = List.map_filter (own_log parts) entries" "distinct (map fst found)"
  shows "length (outdated parts keep entries) = length found - keep
    \<and> (\<forall>x \<in> set found. fst x \<in> set (outdated parts keep entries) \<longrightarrow>
        (\<forall>y \<in> set found. fst y \<notin> set (outdated parts keep entries) \<longrightarrow> snd x \<le> snd y))"
proof -
  define sorted_found where "sorted_found = sort_key snd found"
  define k where "k = length found - keep"
  have o: "outdated parts keep entries = map fst (take k sorted_found)"
    by (simp add: outdated_def assms(1) [symmetric] Let_def sorted_found_def k_def)
  have len: "length sorted_found = length found" by (simp add: sorted_found_def)
  have le: "snd x \<le> snd y" if "x \<in> set (take k sorted_found)" "y \<in> set (drop k sorted_found)" for x y
  proof -
    have "sorted (map snd (take k sorted_found @ drop k sorted_found))" by (simp add: sorted_found_def)
    then show ?thesis using that by (auto simp only: map_append sorted_append set_map)
  qed
  have d: "distinct (map fst sorted_found)" using assms(2) by (simp add: sorted_found_def distinct_map)
  have ends: "set found = set (take k sorted_found) \<union> set (drop k sorted_found)"
    by (metis append_take_drop_id set_append set_sort sorted_found_def)
  have "x \<in> set (take k sorted_found)" if "x \<in> set found" "fst x \<in> set (outdated parts keep entries)" for x
    using that d by (auto simp: o distinct_map ends dest: in_set_takeD in_set_dropD inj_onD)
  moreover have "y \<in> set (drop k sorted_found)" if "y \<in> set found" "fst y \<notin> set (outdated parts keep entries)" for y
    using that by (auto simp: o ends)
  ultimately show ?thesis using le by (auto simp: o len k_def)
qed

end
