(* ===== verification/Paths.thy ===== *)
theory Paths
  imports Config
begin

text \<open>
  \<open>src/src/paths.cpp\<close>, Linux branches: where the program is, the module trees beside it, and the path to
  start it again. \<open>std::filesystem\<close>'s questions to the machine are a parameter; its lexical functions
  are defined here for POSIX paths.
\<close>

section \<open>Lexical paths\<close>

fun components_from :: "string \<Rightarrow> string \<Rightarrow> string list" where
  "components_from cur [] = [cur]"
| "components_from cur (c # cs) = (if c = CHR ''/'' then cur # components_from [] cs else components_from (cur @ [c]) cs)"

definition components :: "string \<Rightarrow> string list" where
  "components p = filter (\<lambda>c. c \<noteq> []) (components_from [] p)"

text \<open>The components kept so far, latest first; \<open>..\<close> at the root goes nowhere.\<close>

fun normal_from :: "bool \<Rightarrow> string list \<Rightarrow> string list \<Rightarrow> string list" where
  "normal_from rooted acc [] = acc"
| "normal_from rooted acc (c # cs) =
    (if c = ''.'' then normal_from rooted acc cs
     else if c = ''..'' then (case acc of
         [] \<Rightarrow> normal_from rooted (if rooted then [] else [''..'']) cs
       | a # as \<Rightarrow> if a = ''..'' then normal_from rooted (''..'' # acc) cs else normal_from rooted as cs)
     else normal_from rooted (c # acc) cs)"

definition lexically_normal :: "string \<Rightarrow> string" where
  "lexically_normal p =
    (if p = [] then []
     else (let rooted = is_absolute p; cs = components p; acc = normal_from rooted [] cs;
               slashed = (ends_with_char p CHR ''/'' \<or> (cs \<noteq> [] \<and> (last cs = ''.'' \<or> last cs = ''..'')));
               body = join (rev acc) ''/''
           in if acc = [] then (if rooted then ''/'' else ''.'')
              else (if rooted then ''/'' else []) @ body @ (if slashed \<and> hd acc \<noteq> ''..'' then ''/'' else [])))"

section \<open>The machine\<close>

record path_os =
  po_self :: "string option"                \<comment> \<open>\<open>readlink("/proc/self/exe")\<close>\<close>
  po_canonical :: "string \<Rightarrow> string option"
  po_is_directory :: "string \<Rightarrow> bool"
  po_absolute :: "string \<Rightarrow> string option"
  po_runnable :: "string \<Rightarrow> bool"           \<comment> \<open>a regular file with execute permission\<close>
  po_path :: "string option"                \<comment> \<open>\<open>PATH\<close>\<close>

definition parent_dir :: "string \<Rightarrow> string" where
  "parent_dir p = (if is_absolute p \<and> parent_path p = [] then ''/'' else parent_path p)"

definition executablePath :: "path_os \<Rightarrow> string" where
  "executablePath M = (case po_self M of None \<Rightarrow> [] | Some p \<Rightarrow> p)"

definition executableDir :: "path_os \<Rightarrow> string" where
  "executableDir M = (case po_self M of None \<Rightarrow> [] | Some p \<Rightarrow> parent_dir p)"

definition siblingDir :: "path_os \<Rightarrow> string \<Rightarrow> string" where
  "siblingDir M name =
    (if executableDir M = [] then []
     else (case po_canonical M (path_append (path_append (executableDir M) ''..'') name) of
         None \<Rightarrow> []
       | Some resolved \<Rightarrow> if po_is_directory M resolved then resolved else []))"

definition bundledPackageModulesDir :: "path_os \<Rightarrow> string" where
  "bundledPackageModulesDir M = siblingDir M ''modules-pkg''"

definition bundledModulesDir :: "path_os \<Rightarrow> string" where
  "bundledModulesDir M =
    (if executableDir M = [] then []
     else (case po_canonical M (path_append (path_append (executableDir M) ''..'') ''modules'') of
         None \<Rightarrow> []
       | Some resolved \<Rightarrow> if po_is_directory M resolved then resolved else []))"

section \<open>relaunchPath\<close>

definition usable :: "path_os \<Rightarrow> string \<Rightarrow> bool" where
  "usable M p \<longleftrightarrow> p \<noteq> [] \<and> po_runnable M p"

text \<open>The launcher a hidden program file is started through, in the same directory.\<close>

definition hidden_elf :: "string \<Rightarrow> bool" where
  "hidden_elf fn \<longleftrightarrow> length fn > 5 \<and> hd fn = CHR ''.'' \<and> drop (length fn - 4) fn = ''.elf''"

definition launcher_beside :: "string \<Rightarrow> string" where
  "launcher_beside p = path_append (parent_dir p) (take (length (filename p) - 5) (drop 1 (filename p)))"

definition launcherFor :: "path_os \<Rightarrow> string \<Rightarrow> string" where
  "launcherFor M p = (if hidden_elf (filename p) \<and> usable M (launcher_beside p) then launcher_beside p else p)"

fun search_path :: "path_os \<Rightarrow> string \<Rightarrow> string list \<Rightarrow> string option" where
  "search_path M a0 [] = None"
| "search_path M a0 (dir # dirs) =
    (if dir \<noteq> [] \<and> usable M (path_append dir a0) then Some (launcherFor M (lexically_normal (path_append dir a0)))
     else search_path M a0 dirs)"

fun split_at :: "char \<Rightarrow> string \<Rightarrow> string \<Rightarrow> string list" where
  "split_at sep cur [] = [cur]"
| "split_at sep cur (c # cs) = (if c = sep then cur # split_at sep [] cs else split_at sep (cur @ [c]) cs)"

definition found_by_name :: "path_os \<Rightarrow> string \<Rightarrow> string option" where
  "found_by_name M a0 =
    (if a0 = [] then None
     else if CHR ''/'' \<in> set a0 then (case po_absolute M a0 of
         None \<Rightarrow> None
       | Some p \<Rightarrow> if usable M p then Some (launcherFor M (lexically_normal p)) else None)
     else (case po_path M of
         None \<Rightarrow> None
       | Some dirs \<Rightarrow> search_path M a0 (split_at CHR '':'' [] dirs)))"

definition relaunchPath :: "path_os \<Rightarrow> string \<Rightarrow> string" where
  "relaunchPath M a0 = (case found_by_name M a0 of
      Some p \<Rightarrow> p
    | None \<Rightarrow> launcherFor M (executablePath M))"

section \<open>Lemmas\<close>

text \<open>The program file that only its launcher can start is never answered while the launcher is there.\<close>

lemma launcher_preferred:
  "launcherFor M p = q \<Longrightarrow> q = p \<and> \<not> (hidden_elf (filename p) \<and> usable M (launcher_beside p))
     \<or> q = launcher_beside p \<and> usable M q"
  by (auto simp: launcherFor_def)

lemma search_launched: "search_path M a0 dirs = Some q \<Longrightarrow> \<exists>p. q = launcherFor M p"
  by (induction dirs) (auto split: if_splits)

lemma relaunch_launched: "\<exists>p. relaunchPath M a0 = launcherFor M p"
  by (auto simp: relaunchPath_def found_by_name_def dest: search_launched split: option.splits if_splits)

lemma normal_example: "lexically_normal ''/opt/./logos/bin/../bin/logosctl'' = ''/opt/logos/bin/logosctl''"
  by code_simp

end
