(* ===== verification/Daemon_Node.thy ===== *)
theory Daemon_Node
  imports Daemon_Files Process_Util Rpc_Client Log_Sink Package_Bootstrap Paths
begin

text \<open>
  The machine a daemon boots on, \<open>src/src/daemon/port_allocator.cpp\<close> (POSIX branches) and the listener
  sets of \<open>src/src/daemon/daemon.cpp\<close>. The core library, the sockets and the event loop are outside
  \<open>src/\<close>: they answer from a state \<open>'r\<close> of their own, and every call to the core is recorded.
\<close>

section \<open>The machine\<close>

text \<open>A listener as the core library is given it.\<close>

record listener = transport_cfg +
  sv_certFile :: string
  sv_keyFile :: string

datatype core_call =
    Set_Env_Var string string
  | Reap_Sockets string
  | Core_Init
  | Add_Modules_Dir string
  | Set_Persistence_Path string
  | Set_Container_Policy "string option"
  | Install_Webhost
  | Set_Access_Policy "string option"
  | Set_Module_Transports string "listener list"
  | Core_Start
  | Set_Debug_Level bool
  | Publish_Core "listener list"
  | Save_Inbound string string
  | Core_Load string
  | Core_Unload string
  | Invoke_Manager string "string list"
  | Core_Cleanup
  | Delete_Core

record 'r sockets =
  so_pton6 :: "string \<Rightarrow> bool"                    \<comment> \<open>an IPv6 literal\<close>
  so_pton4 :: "string \<Rightarrow> bool"
  so_socket :: "bool \<Rightarrow> 'r \<Rightarrow> bool \<times> 'r"          \<comment> \<open>\<open>True\<close>: the IPv6 family\<close>
  so_bind :: "bool \<Rightarrow> string \<Rightarrow> 'r \<Rightarrow> bool \<times> 'r"  \<comment> \<open>to the address, port 0\<close>
  so_name :: "'r \<Rightarrow> 16 word option \<times> 'r"       \<comment> \<open>the bound port, by \<open>getsockname\<close>\<close>
  so_close :: "'r \<Rightarrow> 'r"
  so_error :: "'r \<Rightarrow> string"                    \<comment> \<open>\<open>strerror(errno)\<close>\<close>

record 'r node_env =
  ne_daemon :: daemon_env
  ne_sha256 :: "string \<Rightarrow> 8 word list"
  ne_os :: "'r os"
  ne_sockets :: "'r sockets"
  ne_paths :: path_os
  ne_log :: log_env
  ne_core :: "core_call \<Rightarrow> 'r \<Rightarrow> int \<times> 'r"
  ne_whyNot :: "'r \<Rightarrow> string"                   \<comment> \<open>why there is no webview host\<close>
  ne_uuid :: "'r \<Rightarrow> string \<times> 'r"
  ne_pid :: int
  ne_temp :: string
  ne_exec :: "world \<Rightarrow> 'r \<Rightarrow> int \<times> world \<times> 'r"  \<comment> \<open>the event loop, until it is told to quit\<close>

record 'r node =
  nd_world :: world
  nd_net :: 'r
  nd_calls :: "core_call list"   \<comment> \<open>latest first\<close>
  nd_held :: nat                 \<comment> \<open>sockets this process holds open\<close>
  nd_links :: "string \<rightharpoonup> string"
  nd_fds :: fd_table
  nd_sink :: log_sink
  nd_out :: "string list"        \<comment> \<open>lines on standard output, latest first\<close>

type_synonym ('r, 'a) node_op = "('r node, 'a) state"

definition node_io :: "'a io \<Rightarrow> ('r, 'a) node_op" where
  "node_io m = State (\<lambda>s. case run_state m (nd_world s) of (a, w) \<Rightarrow> (a, s\<lparr>nd_world := w\<rparr>))"

definition node_log :: "'a log_op \<Rightarrow> ('r, 'a) node_op" where
  "node_log m = State (\<lambda>s. case run_state m \<lparr>lg_world = nd_world s, lg_links = nd_links s, lg_fds = nd_fds s, lg_sink = nd_sink s\<rparr> of
     (a, l) \<Rightarrow> (a, s\<lparr>nd_world := lg_world l, nd_links := lg_links l, nd_fds := lg_fds l, nd_sink := lg_sink l\<rparr>))"

definition net_op :: "('r \<Rightarrow> 'a \<times> 'r) \<Rightarrow> ('r, 'a) node_op" where
  "net_op f = State (\<lambda>s. case f (nd_net s) of (a, r) \<Rightarrow> (a, s\<lparr>nd_net := r\<rparr>))"

definition core :: "'r node_env \<Rightarrow> core_call \<Rightarrow> ('r, int) node_op" where
  "core E c = State (\<lambda>s. case ne_core E c (nd_net s) of (a, r) \<Rightarrow> (a, s\<lparr>nd_net := r, nd_calls := c # nd_calls s\<rparr>))"

definition do_core :: "'r node_env \<Rightarrow> core_call \<Rightarrow> ('r, unit) node_op" where
  "do_core E c = do { _ \<leftarrow> core E c; State_Monad.return () }"

definition complain :: "string \<Rightarrow> ('r, unit) node_op" where
  "complain line = node_io (cerr line)"

definition print_out :: "string \<Rightarrow> ('r, unit) node_op" where
  "print_out line = State_Monad.update (\<lambda>s. s\<lparr>nd_out := line # nd_out s\<rparr>)"

section \<open>allocateEphemeralTcp\<close>

definition open_socket :: "'r node_env \<Rightarrow> bool \<Rightarrow> ('r, bool) node_op" where
  "open_socket E v6 = State (\<lambda>s. case so_socket (ne_sockets E) v6 (nd_net s) of
     (ok, r) \<Rightarrow> (ok, s\<lparr>nd_net := r, nd_held := (if ok then Suc (nd_held s) else nd_held s)\<rparr>))"

definition close_socket :: "'r node_env \<Rightarrow> ('r, unit) node_op" where
  "close_socket E = State_Monad.update (\<lambda>s. s\<lparr>nd_net := so_close (ne_sockets E) (nd_net s), nd_held := nd_held s - 1\<rparr>)"

definition socket_error :: "'r node_env \<Rightarrow> string \<Rightarrow> ('r, unit) node_op" where
  "socket_error E line = do {
     s \<leftarrow> State_Monad.get;
     complain (''PortAllocator: '' @ line @ so_error (ne_sockets E) (nd_net s)) }"

text \<open>Bind, ask for the port, and let the socket go.\<close>

definition probe_port :: "'r node_env \<Rightarrow> bool \<Rightarrow> string \<Rightarrow> string \<Rightarrow> ('r, 16 word) node_op" where
  "probe_port E v6 h shown = do {
     bound \<leftarrow> net_op (so_bind (ne_sockets E) v6 h);
     if \<not> bound then do {
       _ \<leftarrow> socket_error E (''bind() failed on '' @ shown @ '':0: '');
       _ \<leftarrow> close_socket E;
       State_Monad.return 0 }
     else do {
       port \<leftarrow> net_op (so_name (ne_sockets E));
       (case port of
         None \<Rightarrow> do {
           _ \<leftarrow> socket_error E ''getsockname() failed: '';
           _ \<leftarrow> close_socket E;
           State_Monad.return 0 }
       | Some p \<Rightarrow> do { _ \<leftarrow> close_socket E; State_Monad.return p }) } }"

definition allocateEphemeralTcp :: "'r node_env \<Rightarrow> string \<Rightarrow> ('r, 16 word) node_op" where
  "allocateEphemeralTcp E host = (let h = (if host = [] then ''0.0.0.0'' else host) in
     if so_pton6 (ne_sockets E) h then do {
       ok \<leftarrow> open_socket E True;
       if \<not> ok then do { _ \<leftarrow> socket_error E ''socket(AF_INET6) failed: ''; State_Monad.return 0 }
       else probe_port E True h (''['' @ h @ '']'') }
     else do {
       ok \<leftarrow> open_socket E False;
       if \<not> ok then do { _ \<leftarrow> socket_error E ''socket() failed: ''; State_Monad.return 0 }
       else if \<not> so_pton4 (ne_sockets E) h then do {
         _ \<leftarrow> complain (''PortAllocator: inet_pton failed for '' @ [CHR 39] @ h @ [CHR 39] @ '' '' @ emdash
           @ '' pass a numeric IPv4 or IPv6 address'');
         _ \<leftarrow> close_socket E;
         State_Monad.return 0 }
       else probe_port E False h h })"

section \<open>buildTransportSet and toAdvertised\<close>

definition listener_of :: "transport_info \<Rightarrow> listener" where
  "listener_of t = \<lparr>
     tc_protocol = (if ti_protocol t = ''tcp'' then Tcp
                    else if ti_protocol t = ''tcp_ssl'' then TcpSsl else LocalSocket),
     tc_host = ti_host t, tc_port = ti_port t, tc_caFile = ti_caFile t, tc_verifyPeer = ti_verifyPeer t,
     tc_codec = (if ti_codec t = ''cbor'' then WireCbor else WireJson),
     sv_certFile = ti_certFile t, sv_keyFile = ti_keyFile t\<rparr>"

fun buildTransportSet :: "'r node_env \<Rightarrow> transport_info list \<Rightarrow> string \<Rightarrow> ('r, listener list option) node_op" where
  "buildTransportSet E [] moduleName = State_Monad.return (Some [])"
| "buildTransportSet E (src # infos) moduleName = do {
     port \<leftarrow> (if ti_protocol src \<noteq> ''local'' \<and> ti_port src = 0
              then allocateEphemeralTcp E (ti_host src) else State_Monad.return (ti_port src));
     if ti_protocol src \<noteq> ''local'' \<and> ti_port src = 0 \<and> port = 0 then do {
       _ \<leftarrow> complain (''['' @ moduleName @ ''] Failed to allocate ephemeral port for '' @ ti_protocol src);
       State_Monad.return None }
     else do {
       rest \<leftarrow> buildTransportSet E infos moduleName;
       State_Monad.return (map_option (\<lambda>ls. listener_of (src\<lparr>ti_port := port\<rparr>) # ls) rest) } }"

definition advertised :: "listener \<Rightarrow> transport_info" where
  "advertised l = \<lparr>
     ti_protocol = (case tc_protocol l of Tcp \<Rightarrow> ''tcp'' | TcpSsl \<Rightarrow> ''tcp_ssl'' | LocalSocket \<Rightarrow> ''local''),
     ti_host = tc_host l, ti_port = tc_port l, ti_caFile = tc_caFile l, ti_verifyPeer = tc_verifyPeer l,
     ti_codec = (if tc_codec l = WireCbor then ''cbor'' else ''json''), ti_certFile = [], ti_keyFile = []\<rparr>"

definition toAdvertised :: "listener list \<Rightarrow> transport_info list" where
  "toAdvertised ls = map advertised ls"

section \<open>Listener lemmas\<close>

text \<open>Whatever happens, a probe socket is closed again, and no call reaches the core library.\<close>

definition balanced :: "('r, 'a) node_op \<Rightarrow> bool" where
  "balanced m \<longleftrightarrow> (\<forall>s. nd_held (snd (run_state m s)) = nd_held s \<and> nd_calls (snd (run_state m s)) = nd_calls s)"

lemma balanced_rules:
  "balanced (State_Monad.return a)" "balanced (node_io m)" "balanced (net_op f)" "balanced (complain l)" "balanced (print_out l)"
  "balanced (socket_error E l)"
  by (auto simp: balanced_def node_io_def net_op_def complain_def print_out_def socket_error_def split: prod.split)

lemma balanced_bind: "balanced m \<Longrightarrow> (\<And>a. balanced (f a)) \<Longrightarrow> balanced (State_Monad.bind m f)"
  unfolding balanced_def by (auto split: prod.splits) (metis snd_conv)+

lemma balanced_if: "balanced a \<Longrightarrow> balanced b \<Longrightarrow> balanced (if c then a else b)"
  by simp

lemma probe_port_held:
  "nd_held (snd (run_state (probe_port E v6 h shown) s)) = nd_held s - 1 \<and> nd_calls (snd (run_state (probe_port E v6 h shown) s)) = nd_calls s"
  by (auto simp: probe_port_def net_op_def socket_error_def complain_def node_io_def close_socket_def split: prod.split option.split)

text \<open>A socket is opened for the rest, which closes it again.\<close>

definition closes :: "('r, 'a) node_op \<Rightarrow> bool" where
  "closes m \<longleftrightarrow> (\<forall>s. nd_held (snd (run_state m s)) = nd_held s - 1 \<and> nd_calls (snd (run_state m s)) = nd_calls s)"

lemma closes_probe: "closes (probe_port E v6 h shown)"
  unfolding closes_def using probe_port_held by blast

lemma closes_if: "closes a \<Longrightarrow> closes b \<Longrightarrow> closes (if c then a else b)"
  by simp

lemma closes_close: "balanced m \<Longrightarrow> closes (do { _ \<leftarrow> m; _ \<leftarrow> close_socket E; State_Monad.return a })"
  unfolding closes_def balanced_def by (auto simp: close_socket_def split: prod.splits) (metis snd_conv)+

lemma balanced_open:
  assumes "balanced a" "closes b"
  shows "balanced (State_Monad.bind (open_socket E v6) (\<lambda>ok. if \<not> ok then a else b))"
  using assms unfolding balanced_def closes_def
  by (auto simp: open_socket_def split: prod.split)

lemma balanced_allocate: "balanced (allocateEphemeralTcp E host)"
  unfolding allocateEphemeralTcp_def Let_def
  by (intro balanced_if balanced_open closes_if closes_probe closes_close balanced_rules;
      intro balanced_bind balanced_rules)

lemma balanced_build: "balanced (buildTransportSet E infos name)"
  by (induction infos) (auto intro!: balanced_bind balanced_if balanced_rules balanced_allocate)

text \<open>What a configured transport may be advertised as.\<close>

definition published_as :: "transport_info \<Rightarrow> transport_info \<Rightarrow> bool" where
  "published_as t a \<longleftrightarrow> a = t\<lparr>ti_port := ti_port a, ti_certFile := [], ti_keyFile := []\<rparr>
     \<and> (if ti_protocol t = ''local'' \<or> ti_port t \<noteq> 0 then ti_port a = ti_port t else ti_port a \<noteq> 0)"

definition known_transport :: "transport_info \<Rightarrow> bool" where
  "known_transport t \<longleftrightarrow> ti_protocol t \<in> {''local'', ''tcp'', ''tcp_ssl''} \<and> ti_codec t \<in> {''json'', ''cbor''}"

lemma advertised_listener:
  "known_transport t \<Longrightarrow> advertised (listener_of t) = t\<lparr>ti_certFile := [], ti_keyFile := []\<rparr>"
  by (cases t) (auto simp: known_transport_def advertised_def listener_of_def)

lemma build_published:
  "run_state (buildTransportSet E infos name) s = (Some ls, s') \<Longrightarrow> list_all known_transport infos \<Longrightarrow>
     list_all2 published_as infos (toAdvertised ls)"
proof (induction infos arbitrary: s s' ls)
  case (Cons t infos)
  define m where "m = (if ti_protocol t \<noteq> ''local'' \<and> ti_port t = 0
              then allocateEphemeralTcp E (ti_host t) else State_Monad.return (ti_port t))"
  obtain port s1 where p: "run_state m s = (port, s1)" by fastforce
  have fixed: "port = ti_port t" if "ti_protocol t = ''local'' \<or> ti_port t \<noteq> 0"
    using p that by (auto simp: m_def)
  have ok: "\<not> (ti_protocol t \<noteq> ''local'' \<and> ti_port t = 0 \<and> port = 0)"
    using Cons.prems(1) p by (auto simp: m_def [symmetric] complain_def node_io_def split: prod.splits if_splits)
  then obtain rest where r: "run_state (buildTransportSet E infos name) s1 = (Some rest, s')"
      "ls = listener_of (t\<lparr>ti_port := port\<rparr>) # rest"
    using Cons.prems(1) p by (auto simp: m_def [symmetric] split: prod.splits if_splits)
  have "known_transport (t\<lparr>ti_port := port\<rparr>)" using Cons.prems(2) by (simp add: known_transport_def)
  from advertised_listener [OF this] ok fixed have "published_as t (advertised (listener_of (t\<lparr>ti_port := port\<rparr>)))"
    by (cases t) (auto simp: published_as_def)
  with Cons.IH [OF r(1)] Cons.prems(2) r(2) show ?case by (simp add: toAdvertised_def)
qed (simp add: toAdvertised_def)

section \<open>Properties\<close>

text \<open>
  What is advertised is what was configured: when a listener set is built, every transport is published
  as configured but for its server secrets, a configured port is kept, and a network transport without one
  gets a port that is not 0; on success and on failure every probe socket is closed again.
\<close>

theorem listeners_advertised:
  assumes "run_state (buildTransportSet E infos name) s = (r, s')" "list_all known_transport infos"
  shows "nd_held s' = nd_held s \<and> (case r of None \<Rightarrow> True | Some ls \<Rightarrow> list_all2 published_as infos (toAdvertised ls))"
proof -
  have "nd_held s' = nd_held s" using balanced_build [of E infos name] assms(1) unfolding balanced_def by (metis snd_conv)
  with assms build_published show ?thesis by (auto split: option.split)
qed

lemma listeners_advertised_witness:
  "\<forall>E s. \<exists>ls s'. run_state (buildTransportSet E [sample_transport\<lparr>ti_port := 6000\<rparr>] ''core_service'') s = (Some ls, s')
    \<and> list_all2 published_as [sample_transport\<lparr>ti_port := 6000\<rparr>] (toAdvertised ls)"
proof (intro allI)
  fix E :: "'r node_env" and s :: "'r node"
  obtain ls s' where r: "run_state (buildTransportSet E [sample_transport\<lparr>ti_port := 6000\<rparr>] ''core_service'') s = (Some ls, s')"
    by simp
  then show "\<exists>ls s'. run_state (buildTransportSet E [sample_transport\<lparr>ti_port := 6000\<rparr>] ''core_service'') s = (Some ls, s')
    \<and> list_all2 published_as [sample_transport\<lparr>ti_port := 6000\<rparr>] (toAdvertised ls)"
    using listeners_advertised [OF r] by (intro exI [of _ ls] exI [of _ s']) (simp add: sample_transport_def known_transport_def)
qed

end
