(* ===== verification/Daemon_Boot.thy ===== *)
theory Daemon_Boot
  imports Daemon_Node Token_Store
begin

text \<open>
  \<open>src/src/daemon/daemon.cpp\<close>, POSIX branches: the whole of \<open>Daemon::start\<close>, from the session directories
  and the log to the event loop and the cleanup, and \<open>src/src/daemon/access_policy_arg.cpp\<close>. It answers
  the exit code, or the exception that leaves it.
\<close>

section \<open>resolveAccessPolicyArg\<close>

definition kEnforceAlias :: string where "kEnforceAlias = ''enforce''"
definition kEnforceEnvelope :: string where
  "kEnforceEnvelope = ''{\"version\":1,\"mode\":\"enforce\",\"restrictions\":{}}''"

definition looks_inline :: "string \<Rightarrow> bool" where
  "looks_inline arg \<longleftrightarrow> starts_with_char (dropWhile (\<lambda>c. c \<in> set ws) arg) CHR ''{''"

definition policy_text :: "json_lib \<Rightarrow> (string \<Rightarrow> string) \<Rightarrow> string \<Rightarrow> string \<Rightarrow> string + string" where
  "policy_text J what content source = (case jl_parse J content of
      None \<Rightarrow> Inl (source @ '' is not valid JSON: '' @ what content)
    | Some _ \<Rightarrow> Inr content)"

definition resolveAccessPolicyArg :: "json_lib \<Rightarrow> (string \<Rightarrow> string) \<Rightarrow> string \<Rightarrow> (string + string) io" where
  "resolveAccessPolicyArg J what arg =
    (if arg = kEnforceAlias then State_Monad.return (Inr kEnforceEnvelope)
     else if looks_inline arg then State_Monad.return (policy_text J what arg ''inline --access-policy JSON'')
     else do {
       content \<leftarrow> read_file arg;
       State_Monad.return (case content of
           None \<Rightarrow> Inl (''--access-policy file '' @ [CHR 39] @ arg @ [CHR 39] @ '' could not be opened.'')
         | Some c \<Rightarrow> policy_text J what c (''--access-policy file '' @ [CHR 39] @ arg @ [CHR 39])) })"

section \<open>Before the core\<close>

definition session_config :: "daemon_config \<Rightarrow> config \<Rightarrow> config" where
  "session_config cfg c = (let d = dc_dirs cfg in
     setSessionDirOverride Logs (sd_logs d) (setSessionDirOverride Cache (sd_cache d)
       (setSessionDirOverride Data (sd_data d) (setSessionDirOverride Keyring (sd_keyring d)
         (setSessionDirOverride Plugins (sd_plugins d) (setSessionDirOverride Modules (sd_modules d) c))))))"

definition session_env :: "'r node_env \<Rightarrow> daemon_config \<Rightarrow> daemon_env" where
  "session_env E cfg = (ne_daemon E)\<lparr>d_cfg := session_config cfg (d_cfg (ne_daemon E))\<rparr>"

definition token_side :: "'r node_env \<Rightarrow> daemon_env \<Rightarrow> token_env" where
  "token_side E D = \<lparr>t_cfg = d_cfg D, t_json = d_json D, t_sha256 = ne_sha256 E\<rparr>"

definition log_settings :: "daemon_env \<Rightarrow> logging_config \<Rightarrow> log_options" where
  "log_settings D l = \<lparr>lo_enabled = lc_enabled l, lo_dir = logsDir (d_cfg D), lo_file = lc_file l,
     lo_maxSizeMb = lc_maxSizeMb l, lo_maxFiles = lc_maxFiles l, lo_console = lc_console l\<rparr>"

definition start_logging :: "'r node_env \<Rightarrow> daemon_env \<Rightarrow> daemon_config \<Rightarrow> ('r, unit) node_op" where
  "start_logging E D cfg =
    (if isModern (d_cfg D) \<and> lc_enabled (dc_logging cfg) then do {
       ok \<leftarrow> node_log (log_start (ne_log E) (log_settings D (dc_logging cfg)));
       (if \<not> ok then complain (''Warning: could not open the log file under '' @ logsDir (d_cfg D)
          @ ''; continuing without file logging.'') else State_Monad.return ()) }
     else State_Monad.return ())"

definition instance_of_uuid :: "string \<Rightarrow> string" where
  "instance_of_uuid uuid = take 12 (filter (\<lambda>c. c \<noteq> CHR ''-'') uuid)"

definition share_group :: "'r node_env \<Rightarrow> daemon_env \<Rightarrow> string \<Rightarrow> ('r, string) node_op" where
  "share_group E D accessGroup =
    (if accessGroup = [] then State_Monad.return []
     else case resolveOsGroupGid (d_getgrnam D) accessGroup of
         None \<Rightarrow> do {
           _ \<leftarrow> complain (''Warning: --access-group '' @ [CHR 39] @ accessGroup @ [CHR 39]
             @ '' is not a known group; the daemon will not be shared.'');
           State_Monad.return [] }
       | Some _ \<Rightarrow> do {
           _ \<leftarrow> do_core E (Set_Env_Var ''LOGOS_SOCKET_GROUP'' accessGroup);
           _ \<leftarrow> do_core E (Set_Env_Var ''LOGOS_SOCKET_MODE'' ''0660'');
           State_Monad.return accessGroup })"

text \<open>A live daemon that owns the directory already.\<close>

definition already_running :: "'r node_env \<Rightarrow> daemon_env \<Rightarrow> ('r, bool) node_op" where
  "already_running E D = do {
     existing \<leftarrow> node_io (state_read D);
     if \<not> rs_fileOk existing \<or> rs_pid existing \<le> 0 then State_Monad.return False
     else do {
       alive \<leftarrow> net_op (processAlive (ne_os E) (rs_pid existing));
       if \<not> alive then State_Monad.return False
       else do {
         _ \<leftarrow> complain (''Error: a logosctl daemon is already running in this config dir (pid '' @ show_int (rs_pid existing)
           @ '', instance '' @ rs_instanceId existing @ ''). Refusing to start a second one '' @ emdash
           @ '' use --config-dir for a parallel instance.'');
         State_Monad.return True } } }"

section \<open>The core\<close>

definition say_if :: "bool \<Rightarrow> string \<Rightarrow> ('r, unit) node_op" where
  "say_if verbose line = (if verbose then complain line else State_Monad.return ())"

fun add_dirs :: "'r node_env \<Rightarrow> bool \<Rightarrow> string list \<Rightarrow> ('r, unit) node_op" where
  "add_dirs E verbose [] = State_Monad.return ()"
| "add_dirs E verbose (dir # dirs) = (let resolved = (case po_absolute (ne_paths E) dir of None \<Rightarrow> dir | Some p \<Rightarrow> p) in do {
     _ \<leftarrow> say_if verbose (''Added plugins directory: '' @ resolved);
     _ \<leftarrow> do_core E (Add_Modules_Dir resolved);
     add_dirs E verbose dirs })"

fun make_dirs :: "string list \<Rightarrow> ('r, unit) node_op" where
  "make_dirs [] = State_Monad.return ()"
| "make_dirs (d # ds) = do { _ \<leftarrow> node_io (mk_dirs d); make_dirs ds }"

definition search_paths :: "'r node_env \<Rightarrow> daemon_env \<Rightarrow> daemon_config \<Rightarrow> bool \<Rightarrow> ('r, unit) node_op" where
  "search_paths E D cfg verbose = (let bundled = bundledModulesDir (ne_paths E); pkg = bundledPackageModulesDir (ne_paths E) in do {
     _ \<leftarrow> (if bundled \<noteq> [] then do {
             _ \<leftarrow> do_core E (Add_Modules_Dir bundled);
             say_if verbose (''Added bundled modules directory: '' @ bundled) }
           else State_Monad.return ());
     _ \<leftarrow> add_dirs E verbose (dc_modulesDirs cfg);
     if isModern (d_cfg D) then do {
       _ \<leftarrow> make_dirs [modulesDir (d_cfg D), pluginsDir (d_cfg D), keyringDir (d_cfg D), cacheDir (d_cfg D)];
       _ \<leftarrow> do_core E (Add_Modules_Dir (modulesDir (d_cfg D)));
       _ \<leftarrow> (if pkg \<noteq> [] then do_core E (Add_Modules_Dir pkg) else State_Monad.return ());
       say_if verbose (''Added session modules directory: '' @ modulesDir (d_cfg D)) }
     else State_Monad.return () })"

definition some_text :: "string \<Rightarrow> string option" where
  "some_text s = (if s = [] then None else Some s)"

definition core_settings :: "'r node_env \<Rightarrow> daemon_env \<Rightarrow> daemon_config \<Rightarrow> ('r, unit) node_op" where
  "core_settings E D cfg = do {
     _ \<leftarrow> do_core E (Set_Persistence_Path (dataDir (d_cfg D)));
     _ \<leftarrow> do_core E (Set_Container_Policy (some_text (dc_container cfg)));
     _ \<leftarrow> (if dc_container cfg = ''web'' then do {
             ok \<leftarrow> core E Install_Webhost;
             s \<leftarrow> State_Monad.get;
             (if ok = 0 then complain (''Warning: --container web, but no webview host is available: '' @ ne_whyNot E (nd_net s))
              else State_Monad.return ()) }
           else State_Monad.return ());
     do_core E (Set_Access_Policy (some_text (dc_accessPolicy cfg))) }"

definition module_infos :: "daemon_config \<Rightarrow> string \<Rightarrow> transport_info list" where
  "module_infos cfg name = (case map_of (dc_modules cfg) name of None \<Rightarrow> [] | Some ts \<Rightarrow> ts)"

text \<open>The persisted tokens, as the provider's validator asks for them.\<close>

definition token_valid :: "token_env \<Rightarrow> string \<Rightarrow> string \<Rightarrow> (exn + bool) io" where
  "token_valid T token transportProtocol =
     tbind (lookupByToken T token transportProtocol) (\<lambda>name. pure (name \<noteq> None))"

section \<open>bootstrapPackageModules\<close>

text \<open>The hooks over the running core: the state they answer from is the whole node.\<close>

definition core_hook :: "'r node_env \<Rightarrow> hook_call \<Rightarrow> ('r, bool) node_op" where
  "core_hook E c = (case c of
      Load_Module m \<Rightarrow> do { r \<leftarrow> core E (Core_Load m); State_Monad.return (r \<noteq> 0) }
    | Unload_Module m \<Rightarrow> do { r \<leftarrow> core E (Core_Unload m); State_Monad.return (r \<noteq> 0) }
    | Configure m vs \<Rightarrow> do { r \<leftarrow> core E (Invoke_Manager m vs); State_Monad.return (r \<noteq> 0) }
    | Warn l \<Rightarrow> do { _ \<leftarrow> complain l; State_Monad.return True }
    | Note l \<Rightarrow> do { _ \<leftarrow> complain l; State_Monad.return True })"

definition core_hooks :: "'r node_env \<Rightarrow> bool \<Rightarrow> ('r node) hooks" where
  "core_hooks E verbose = \<lparr>hk_answer = (\<lambda>c s. run_state (core_hook E c) s), hk_unload = True, hk_note = verbose\<rparr>"

definition bundle_dirs :: "string \<Rightarrow> config \<Rightarrow> boot_dirs" where
  "bundle_dirs bundledDir c = \<lparr>
     bd_embeddedModules = bundledDir,
     bd_embeddedUiPlugins = (if bundledDir = [] then [] else path_append (parent_dir bundledDir) ''plugins''),
     bd_userModules = modulesDir c, bd_userUiPlugins = pluginsDir c, bd_keyring = keyringDir c\<rparr>"

definition bootstrapPackageModules :: "'r node_env \<Rightarrow> config \<Rightarrow> string \<Rightarrow> string \<Rightarrow> bool \<Rightarrow> ('r, outcome) node_op" where
  "bootstrapPackageModules E c bundledDir policy verbose = State (\<lambda>s.
     case run_state (run_bootstrap (core_hooks E verbose) (bundle_dirs bundledDir c) policy) \<lparr>bt_net = s, bt_log = []\<rparr> of
       (out, b) \<Rightarrow> (out, bt_net b))"

section \<open>start\<close>

text \<open>A failure after the core has been started: say so, clean up, exit code 1.\<close>

definition status_number :: "issue_status \<Rightarrow> int" where
  "status_number st = (case st of Issue_Ok \<Rightarrow> 0 | Issue_InvalidName \<Rightarrow> 1 | Issue_AlreadyExists \<Rightarrow> 2 | Issue_IoError \<Rightarrow> 3)"

definition abandon :: "'r node_env \<Rightarrow> string \<Rightarrow> ('r, exn + int) node_op" where
  "abandon E line = do { _ \<leftarrow> complain line; _ \<leftarrow> do_core E Core_Cleanup; pure 1 }"

definition resolved_state :: "'r node_env \<Rightarrow> daemon_config \<Rightarrow> string \<Rightarrow> string \<Rightarrow> string \<Rightarrow> listener list \<Rightarrow> listener list \<Rightarrow> runtime_state" where
  "resolved_state E cfg source instanceId startedAt coreTs capTs =
     empty_state\<lparr>rs_instanceId := instanceId, rs_pid := ne_pid E, rs_startedAt := startedAt, rs_configSource := source,
       rs_resolved := cfg\<lparr>dc_modules :=
         emplace ''capability_module'' (toAdvertised capTs) (emplace ''core_service'' (toAdvertised coreTs) [])\<rparr>\<rparr>"

definition persist :: "daemon_env \<Rightarrow> daemon_config \<Rightarrow> ('r, exn + unit) node_op" where
  "persist D cfg = tbind (node_io (config_write D cfg)) (\<lambda>ok.
     plain (if ok then print_out (''Persisted config: '' @ daemonConfigPath (d_cfg D))
               else complain (''Warning: failed to persist config to '' @ daemonConfigPath (d_cfg D))))"

definition announce :: "'r node_env \<Rightarrow> daemon_env \<Rightarrow> string \<Rightarrow> ('r, unit) node_op" where
  "announce E D instanceId = do {
     _ \<leftarrow> print_out (''Logosctl daemon started (pid '' @ show_int (ne_pid E) @ '', instance '' @ instanceId @ '')'');
     _ \<leftarrow> print_out (''Daemon state: '' @ daemonStatePath (d_cfg D));
     print_out (''Local client config: '' @ clientConfigPath (d_cfg D)) }"

text \<open>The event loop, \<open>aboutToQuit\<close>, and the way out.\<close>

definition event_loop :: "'r node_env \<Rightarrow> ('r, int) node_op" where
  "event_loop E = State (\<lambda>s. case ne_exec E (nd_world s) (nd_net s) of
     (code, w, r) \<Rightarrow> (code, s\<lparr>nd_world := w, nd_net := r\<rparr>))"

definition serve :: "'r node_env \<Rightarrow> daemon_env \<Rightarrow> ('r, int) node_op" where
  "serve E D = do {
     code \<leftarrow> event_loop E;
     _ \<leftarrow> node_io (state_remove D);
     _ \<leftarrow> print_out ''Shutting down logosctl daemon...'';
     _ \<leftarrow> do_core E Core_Cleanup;
     _ \<leftarrow> node_log (log_stop (ne_log E));
     _ \<leftarrow> node_io (state_remove D);
     _ \<leftarrow> do_core E Delete_Core;
     _ \<leftarrow> print_out ''Logosctl daemon stopped.'';
     State_Monad.return code }"

text \<open>From the automatic token to the event loop; the core runs.\<close>

definition boot_session ::
    "'r node_env \<Rightarrow> daemon_env \<Rightarrow> daemon_config \<Rightarrow> string \<Rightarrow> bool \<Rightarrow> bool \<Rightarrow> string \<Rightarrow> string \<Rightarrow> listener list \<Rightarrow> listener list
      \<Rightarrow> ('r, exn + int) node_op" where
  "boot_session E D cfg source persistConfig verbose instanceId accessGroup coreTs capTs =
     tbind (node_io (issueToken (token_side E D) ''auto'' [] True True)) (\<lambda>issued.
     if ir_status issued \<noteq> Issue_Ok
     then abandon E (''Failed to auto-issue local client token (status='' @ show_int (status_number (ir_status issued)) @ '')'')
     else
       tbind (plain (do_core E (Save_Inbound ''cli_client'' (ir_token issued)))) (\<lambda>_.
       tbind (plain (if isModern (d_cfg D)
           then do { _ \<leftarrow> bootstrapPackageModules E (d_cfg D) (bundledPackageModulesDir (ne_paths E)) (dc_signaturePolicy cfg) verbose;
                     State_Monad.return () }
           else State_Monad.return ())) (\<lambda>_.
       tbind (plain (node_io now)) (\<lambda>tt.
       tbind (node_io (state_write D (resolved_state E cfg source instanceId (currentUtcIso8601 tt) coreTs capTs))) (\<lambda>written.
       if \<not> written then abandon E (''Failed to write daemon state file: '' @ daemonStatePath (d_cfg D))
       else
         tbind (if persistConfig then persist D cfg else pure ()) (\<lambda>_.
         tbind (node_io (writeLocalClientArtifacts D instanceId (ir_token issued) (currentUtcIso8601 tt)
                  (toAdvertised coreTs) (toAdvertised capTs) accessGroup)) (\<lambda>ok.
         tbind (plain (if \<not> ok then complain (''Warning: failed to write local client artifacts under '' @ clientDir (d_cfg D))
                          else State_Monad.return ())) (\<lambda>_.
         tbind (plain (announce E D instanceId)) (\<lambda>_. plain (serve E D))))))))))"

definition listeners_failed :: "string \<Rightarrow> ('r, exn + int) node_op" where
  "listeners_failed name = do {
     _ \<leftarrow> complain (''Daemon startup aborted: failed to build '' @ name
       @ '' transport set (see prior log lines for which listener failed).'');
     pure 1 }"

text \<open>The core: initialised, told where modules are, started with the listeners it was promised.\<close>

definition boot_core ::
    "'r node_env \<Rightarrow> daemon_env \<Rightarrow> daemon_config \<Rightarrow> string \<Rightarrow> bool \<Rightarrow> bool \<Rightarrow> string \<Rightarrow> string \<Rightarrow> ('r, exn + int) node_op" where
  "boot_core E D cfg source persistConfig verbose instanceId accessGroup = do {
     reaped \<leftarrow> core E (Reap_Sockets (ne_temp E));
     _ \<leftarrow> say_if (verbose \<and> reaped > 0) (''Reaped '' @ show_int reaped @ '' stale socket file(s) from '' @ ne_temp E);
     _ \<leftarrow> do_core E Core_Init;
     _ \<leftarrow> search_paths E D cfg verbose;
     _ \<leftarrow> core_settings E D cfg;
     coreSet \<leftarrow> buildTransportSet E (module_infos cfg ''core_service'') ''core_service'';
     (case coreSet of None \<Rightarrow> listeners_failed ''core_service''
      | Some coreTs \<Rightarrow> do {
          capSet \<leftarrow> buildTransportSet E (module_infos cfg ''capability_module'') ''capability_module'';
          (case capSet of None \<Rightarrow> listeners_failed ''capability_module''
           | Some capTs \<Rightarrow> do {
               _ \<leftarrow> do_core E (Set_Module_Transports ''capability_module'' capTs);
               _ \<leftarrow> do_core E Core_Start;
               _ \<leftarrow> do_core E (Set_Debug_Level verbose);
               _ \<leftarrow> do_core E (Publish_Core coreTs);
               boot_session E D cfg source persistConfig verbose instanceId accessGroup coreTs capTs }) }) }"

text \<open>What happens before another daemon is looked for.\<close>

definition before_check :: "'r node_env \<Rightarrow> daemon_env \<Rightarrow> daemon_config \<Rightarrow> ('r, string \<times> string) node_op" where
  "before_check E D cfg = do {
     _ \<leftarrow> start_logging E D cfg;
     uuid \<leftarrow> net_op (ne_uuid E);
     _ \<leftarrow> do_core E (Set_Env_Var ''LOGOS_INSTANCE_ID'' (instance_of_uuid uuid));
     accessGroup \<leftarrow> share_group E D (dc_accessGroup cfg);
     State_Monad.return (instance_of_uuid uuid, accessGroup) }"

definition daemon_start :: "'r node_env \<Rightarrow> daemon_config \<Rightarrow> string \<Rightarrow> bool \<Rightarrow> bool \<Rightarrow> ('r, exn + int) node_op" where
  "daemon_start E cfg source persistConfig verbose = (let D = session_env E cfg in do {
     (instanceId, accessGroup) \<leftarrow> before_check E D cfg;
     running \<leftarrow> already_running E D;
     if running then pure 1
     else boot_core E D cfg source persistConfig verbose instanceId accessGroup })"

end
