(* ===== verification/Daemon_Boot_Props.thy ===== *)
theory Daemon_Boot_Props
  imports Daemon_Boot Daemon_Files_Props
begin

text \<open>
  What a boot promises: a second daemon in a session changes nothing but old logs, and a core that
  was started is cleaned up exactly when the boot comes to an exit code.
\<close>

section \<open>Calls to the core\<close>

definition calls_of :: "('r, 'a) node_op \<Rightarrow> ('a \<Rightarrow> core_call list \<Rightarrow> bool) \<Rightarrow> bool" where
  "calls_of m P \<longleftrightarrow> (\<forall>s a s'. run_state m s = (a, s') \<longrightarrow> (\<exists>new. nd_calls s' = new @ nd_calls s \<and> P a new))"

lemma calls_ofD: "calls_of m P \<Longrightarrow> run_state m s = (a, s') \<Longrightarrow> \<exists>new. nd_calls s' = new @ nd_calls s \<and> P a new"
  by (simp add: calls_of_def)

lemma calls_bind:
  assumes "calls_of m P" "\<And>a new. P a new \<Longrightarrow> calls_of (f a) (\<lambda>b later. Q b (later @ new))"
  shows "calls_of (State_Monad.bind m f) Q"
  unfolding calls_of_def
proof (intro allI impI)
  fix s b s' assume r: "run_state (State_Monad.bind m f) s = (b, s')"
  obtain a s1 where a: "run_state m s = (a, s1)" by fastforce
  with r have b: "run_state (f a) s1 = (b, s')" by simp
  from calls_ofD [OF assms(1) a] obtain new where n: "nd_calls s1 = new @ nd_calls s" "P a new" by blast
  from calls_ofD [OF assms(2) [OF n(2)] b] n(1) show "\<exists>new. nd_calls s' = new @ nd_calls s \<and> Q b new" by auto
qed

lemma calls_weaken: "calls_of m P \<Longrightarrow> (\<And>a new. P a new \<Longrightarrow> Q a new) \<Longrightarrow> calls_of m Q"
  unfolding calls_of_def by blast

lemma calls_return: "calls_of (State_Monad.return a) (\<lambda>b new. b = a \<and> new = [])"
  by (simp add: calls_of_def)

lemma calls_do: "calls_of (do_core E c) (\<lambda>_ new. new = [c])"
  by (auto simp: calls_of_def do_core_def core_def split: prod.splits)

text \<open>No start and no cleanup among them.\<close>

abbreviation plain_call :: "core_call \<Rightarrow> bool" where
  "plain_call c \<equiv> c \<noteq> Core_Start \<and> c \<noteq> Core_Cleanup"

definition only :: "(core_call \<Rightarrow> bool) \<Rightarrow> ('r, 'a) node_op \<Rightarrow> bool" where
  "only P m \<longleftrightarrow> calls_of m (\<lambda>_ new. list_all P new)"

abbreviation neutral :: "('r, 'a) node_op \<Rightarrow> bool" where
  "neutral m \<equiv> only plain_call m"

lemmas neutral_def = only_def [of plain_call]

text \<open>The calls a boot makes beside starting, cleaning up and handing over listeners.\<close>

definition admits :: "(core_call \<Rightarrow> bool) \<Rightarrow> bool" where
  "admits P \<longleftrightarrow> (\<forall>c. plain_call c \<and> (\<forall>n ls. c \<noteq> Set_Module_Transports n ls) \<and> (\<forall>ls. c \<noteq> Publish_Core ls) \<longrightarrow> P c)"

named_theorems neutrals \<open>steps of a boot whose calls to the core are of one kind\<close>

lemma admits_plain [neutrals]: "admits plain_call"
  by (simp add: admits_def)

lemma only_bind [neutrals]: "only P m \<Longrightarrow> (\<And>a. only P (f a)) \<Longrightarrow> only P (State_Monad.bind m f)"
  unfolding only_def by (rule calls_bind, assumption) (auto intro: calls_weaken)

lemma neutral_basic [neutrals]:
  "only P (State_Monad.return a)" "only P (node_io m)" "only P (net_op f)" "only P (complain l)" "only P (print_out l)"
  "only P (node_log n)" "only P State_Monad.get" "only P (pure b)" "only P (event_loop E)"
  by (auto simp: only_def calls_of_def node_io_def net_op_def complain_def print_out_def node_log_def event_loop_def split: prod.splits)

lemma only_core [neutrals]: "P c \<Longrightarrow> only P (core E c)" "P c \<Longrightarrow> only P (do_core E c)"
  by (auto simp: only_def calls_of_def do_core_def core_def split: prod.splits)

lemma only_if [neutrals]: "only P a \<Longrightarrow> only P b \<Longrightarrow> only P (if c then a else b)"
  by simp

lemma only_option [neutrals]: "only P a \<Longrightarrow> (\<And>x. only P (f x)) \<Longrightarrow> only P (case z of None \<Rightarrow> a | Some x \<Rightarrow> f x)"
  by (simp split: option.split)

lemma only_tbind [neutrals]: "only P m \<Longrightarrow> (\<And>a. only P (f a)) \<Longrightarrow> only P (tbind m f)"
  unfolding tbind_def by (rule only_bind) (auto intro: neutrals split: sum.split)

lemma only_plain [neutrals]: "only P m \<Longrightarrow> only P (plain m)"
  unfolding plain_def by (intro neutrals)

lemma only_balanced: "balanced m \<Longrightarrow> only P m"
  unfolding balanced_def only_def calls_of_def by (metis append_Nil list.pred_inject(1) snd_conv)

lemma only_build [neutrals]: "only P (buildTransportSet E infos name)"
  by (rule only_balanced [OF balanced_build])

lemma only_say [neutrals]: "only P (say_if v l)"
  unfolding say_if_def by (intro neutrals)

lemma only_add_dirs [neutrals]: "admits P \<Longrightarrow> only P (add_dirs E v ds)"
  by (induction ds) (auto intro!: neutrals simp: Let_def admits_def)

lemma only_make_dirs [neutrals]: "only P (make_dirs ds)"
  by (induction ds) (auto intro!: neutrals)

lemma only_parts [neutrals]:
  assumes "admits P"
  shows "only P (start_logging E D cfg)" "only P (share_group E D g)" "only P (already_running E D)"
    "only P (search_paths E D cfg v)" "only P (core_settings E D cfg)" "only P (listeners_failed n)"
  unfolding start_logging_def share_group_def already_running_def search_paths_def core_settings_def listeners_failed_def Let_def
  by (intro neutrals assms; simp add: assms [unfolded admits_def])+

section \<open>The package modules\<close>

text \<open>A reflexive and transitive relation that every hook keeps is kept by the whole of \<open>run\<close>.\<close>

definition evolves :: "('r \<Rightarrow> 'r \<Rightarrow> bool) \<Rightarrow> ('r, 'a) boot_op \<Rightarrow> bool" where
  "evolves R m \<longleftrightarrow> (\<forall>s. R (bt_net s) (bt_net (snd (run_state m s))))"

lemma evolves_bind: "transp R \<Longrightarrow> evolves R m \<Longrightarrow> (\<And>a. evolves R (f a)) \<Longrightarrow> evolves R (State_Monad.bind m f)"
  unfolding evolves_def by (auto split: prod.split dest: transpD) (metis snd_conv transpD)

lemma evolves_return: "reflp R \<Longrightarrow> evolves R (State_Monad.return a)"
  by (simp add: evolves_def reflpD)

lemma evolves_if: "evolves R a \<Longrightarrow> evolves R b \<Longrightarrow> evolves R (if c then a else b)"
  by simp

lemma evolves_hook: "(\<And>c s. R s (snd (hk_answer H c s))) \<Longrightarrow> evolves R (hook H c)"
  unfolding evolves_def by (auto simp: hook_def split: prod.split) (metis snd_conv)

lemma evolves_bootstrap:
  assumes R: "reflp R" "transp R" and H: "\<And>c s. R s (snd (hk_answer H c s))"
  shows "evolves R (run_bootstrap H D policy)"
proof -
  have hook: "evolves R (hook H c)" for c by (rule evolves_hook) (rule H)
  note step = evolves_bind [OF R(2)] evolves_return [OF R(1)] evolves_if hook
  have say: "evolves R (say H c)" for c unfolding say_def by (intro step)
  have load: "evolves R (load_bundled H ms out)" for ms out
  proof (induction ms arbitrary: out)
    case (Cons m ms)
    show ?case by (cases m) (simp only: load_bundled.simps, intro step say Cons.IH)
  qed (simp add: step)
  have set: "evolves R (set_each H ms)" for ms
    by (induction ms) (auto intro!: step)
  have "evolves R (fail_closed H policy out)" "evolves R (settle H D policy out)" for out
    unfolding fail_closed_def settle_def by (intro step say)+
  then have "evolves R (configure_manager H D policy out)" for out
    unfolding configure_manager_def by (auto intro!: step set)
  then show ?thesis unfolding run_bootstrap_def by (intro step load)
qed

definition quiet_core :: "(core_call \<Rightarrow> bool) \<Rightarrow> 'r node \<Rightarrow> 'r node \<Rightarrow> bool" where
  "quiet_core P s s' \<longleftrightarrow> (\<exists>new. nd_calls s' = new @ nd_calls s \<and> list_all P new)"

lemma quiet_core_rel: "reflp (quiet_core P)" "transp (quiet_core P)"
  unfolding quiet_core_def by (auto intro!: reflpI transpI)

lemma only_quiet: "only P m \<Longrightarrow> quiet_core P s (snd (run_state m s))"
  unfolding only_def calls_of_def quiet_core_def by (metis surjective_pairing)

lemma only_hook: "admits P \<Longrightarrow> only P (core_hook E c)"
  by (cases c) (auto simp: core_hook_def admits_def intro!: neutrals)

lemma only_bootstrap [neutrals]:
  assumes "admits P"
  shows "only P (bootstrapPackageModules E c b p v)"
proof -
  have "quiet_core P s (snd (hk_answer (core_hooks E v) x s))" for x s
    by (simp add: core_hooks_def only_quiet only_hook assms)
  from evolves_bootstrap [OF quiet_core_rel this] have
    "quiet_core P s (bt_net (snd (run_state (run_bootstrap (core_hooks E v) (bundle_dirs b c) p) \<lparr>bt_net = s, bt_log = []\<rparr>)))" for s
    unfolding evolves_def by (metis boot.select_convs(1))
  then show ?thesis
    unfolding only_def calls_of_def bootstrapPackageModules_def quiet_core_def
    by (auto split: prod.splits) (metis snd_conv)
qed

section \<open>Starting and cleaning up\<close>

text \<open>From the start of the core on: the cleanup follows exactly when there is an exit code.\<close>

definition tidy :: "exn + int \<Rightarrow> core_call list \<Rightarrow> bool" where
  "tidy r new \<longleftrightarrow> Core_Start \<notin> set new \<and> (Core_Cleanup \<in> set new \<longleftrightarrow> \<not> isl r)"

lemma list_all_plain: "list_all plain_call new \<longleftrightarrow> Core_Start \<notin> set new \<and> Core_Cleanup \<notin> set new"
  by (auto simp: list_all_iff)

lemma tidy_tbind:
  assumes "neutral m" "\<And>a. calls_of (f a) tidy"
  shows "calls_of (tbind m f) tidy"
  unfolding tbind_def
proof (rule calls_bind [OF assms(1) [unfolded neutral_def]])
  fix a new assume "list_all plain_call new"
  then show "calls_of (case a of Inl x \<Rightarrow> State_Monad.return (Inl x) | Inr a \<Rightarrow> f a) (\<lambda>b later. tidy b (later @ new))"
    by (cases a) (auto simp: tidy_def list_all_plain intro: calls_weaken [OF calls_return] calls_weaken [OF assms(2)])
qed

lemma tidy_bind:
  assumes "neutral m" "\<And>a. calls_of (f a) tidy"
  shows "calls_of (State_Monad.bind m f) tidy"
proof (rule calls_bind [OF assms(1) [unfolded neutral_def]])
  fix a new assume "list_all plain_call new"
  then show "calls_of (f a) (\<lambda>b later. tidy b (later @ new))"
    by (intro calls_weaken [OF assms(2)]) (auto simp: tidy_def list_all_plain)
qed

lemma tidy_if: "calls_of a tidy \<Longrightarrow> calls_of b tidy \<Longrightarrow> calls_of (if c then a else b) tidy"
  by simp

lemma tidy_abandon: "calls_of (abandon E l) tidy"
  unfolding abandon_def
  by (rule tidy_bind, intro neutrals, rule calls_bind [OF calls_do])
    (auto simp: pure_def tidy_def intro: calls_weaken [OF calls_return])

definition cleans :: "('r, 'a) node_op \<Rightarrow> bool" where
  "cleans m \<longleftrightarrow> calls_of m (\<lambda>_ new. Core_Cleanup \<in> set new \<and> Core_Start \<notin> set new)"

lemma cleans_later: "neutral m \<Longrightarrow> (\<And>a. cleans (f a)) \<Longrightarrow> cleans (State_Monad.bind m f)"
  unfolding neutral_def cleans_def by (rule calls_bind, assumption) (auto simp: list_all_plain intro: calls_weaken)

lemma cleans_now: "(\<And>a. neutral (f a)) \<Longrightarrow> cleans (State_Monad.bind (do_core E Core_Cleanup) f)"
  unfolding neutral_def cleans_def by (rule calls_bind [OF calls_do]) (auto simp: list_all_plain intro: calls_weaken)

lemma tidy_serve: "calls_of (plain (serve E D)) tidy"
proof -
  have "cleans (serve E D)"
    unfolding serve_def
    by (rule cleans_later [OF neutral_basic(9)], rule cleans_later [OF neutral_basic(2)],
        rule cleans_later [OF neutral_basic(5)], rule cleans_now) (auto intro!: neutrals)
  then show ?thesis
    unfolding cleans_def plain_def by (rule calls_bind) (auto simp: tidy_def intro: calls_weaken [OF calls_return])
qed

lemma tidy_session: "calls_of (boot_session E D cfg source p v i g coreTs capTs) tidy"
  unfolding boot_session_def persist_def announce_def
  by (intro tidy_tbind tidy_if tidy_abandon tidy_serve neutrals; (intro neutrals)?; simp)

text \<open>A whole boot: the core is not started and the exit code is 1, or it is started once.\<close>

definition boot_ok :: "exn + int \<Rightarrow> core_call list \<Rightarrow> bool" where
  "boot_ok r new \<longleftrightarrow> (if Core_Start \<in> set new
     then (\<exists>later before. new = later @ Core_Start # before \<and> list_all plain_call before \<and> tidy r later)
     else r = Inr 1 \<and> Core_Cleanup \<notin> set new)"

lemma boot_ok_before:
  assumes "boot_ok r later" "list_all plain_call new"
  shows "boot_ok r (later @ new)"
proof (cases "Core_Start \<in> set later")
  case True
  with assms(1) obtain l b where "later = l @ Core_Start # b" "list_all plain_call b" "tidy r l"
    unfolding boot_ok_def by auto
  with assms(2) have "later @ new = l @ Core_Start # (b @ new)" "list_all plain_call (b @ new)" "tidy r l" by simp_all
  moreover have "Core_Start \<in> set (later @ new)" using True by simp
  ultimately show ?thesis unfolding boot_ok_def by metis
next
  case False
  with assms show ?thesis by (auto simp: boot_ok_def list_all_plain)
qed

lemma boot_ok_bind:
  assumes "neutral m" "\<And>a. calls_of (f a) boot_ok"
  shows "calls_of (State_Monad.bind m f) boot_ok"
proof (rule calls_bind [OF assms(1) [unfolded neutral_def]])
  fix a new assume "list_all plain_call new"
  then show "calls_of (f a) (\<lambda>b later. boot_ok b (later @ new))"
    by (intro calls_weaken [OF assms(2)]) (rule boot_ok_before)
qed

lemma boot_ok_pure: "calls_of (pure 1) boot_ok"
  unfolding pure_def by (rule calls_weaken [OF calls_return]) (simp add: boot_ok_def)

lemma boot_ok_failed: "calls_of (listeners_failed n) boot_ok"
  unfolding listeners_failed_def by (intro boot_ok_bind boot_ok_pure neutrals)

lemma boot_ok_now: "tidy r later \<Longrightarrow> boot_ok r (later @ [Core_Start])"
  unfolding boot_ok_def by (intro iffD2 [OF if_P] exI [of _ later] exI [of _ "[]"]) simp_all

lemma boot_ok_started:
  assumes "\<And>a. calls_of (f a) tidy"
  shows "calls_of (State_Monad.bind (do_core E Core_Start) f) boot_ok"
  by (rule calls_bind [OF calls_do]) (auto intro: calls_weaken [OF assms] boot_ok_now)

lemma boot_ok_options: "calls_of a boot_ok \<Longrightarrow> (\<And>x. calls_of (f x) boot_ok) \<Longrightarrow> calls_of (case z of None \<Rightarrow> a | Some x \<Rightarrow> f x) boot_ok"
  by (simp split: option.split)

lemma boot_core_calls: "calls_of (boot_core E D cfg source p v i g) boot_ok"
  unfolding boot_core_def
  by (intro boot_ok_bind boot_ok_options boot_ok_failed boot_ok_started tidy_bind tidy_session neutrals; simp)

lemma only_before [neutrals]: "admits P \<Longrightarrow> only P (before_check E D cfg)"
  unfolding before_check_def by (intro neutrals; simp add: admits_def)

lemma boot_ok_if: "calls_of a boot_ok \<Longrightarrow> calls_of b boot_ok \<Longrightarrow> calls_of (if c then a else b) boot_ok"
  by simp

lemma daemon_start_calls: "calls_of (daemon_start E cfg source p v) boot_ok"
  unfolding daemon_start_def Let_def
  by (rule boot_ok_bind [OF only_before [OF admits_plain]]) (auto intro!: boot_ok_bind boot_ok_if boot_ok_pure boot_core_calls neutrals split: prod.split)

section \<open>Files a refused boot leaves alone\<close>

definition log_leaves :: "string \<Rightarrow> 'a log_op \<Rightarrow> bool" where
  "log_leaves q m \<longleftrightarrow> (\<forall>s. w_files (lg_world (snd (run_state m s))) q = w_files (lg_world s) q)"

named_theorems log_frames \<open>log operations that leave a file alone\<close>

lemma log_leaves_bind [log_frames]: "log_leaves q m \<Longrightarrow> (\<And>a. log_leaves q (f a)) \<Longrightarrow> log_leaves q (State_Monad.bind m f)"
  unfolding log_leaves_def by (simp split: prod.split) (metis snd_conv)

lemma log_leaves_world [log_frames]: "untouched q m \<Longrightarrow> log_leaves q (on_world m)"
  by (auto simp: log_leaves_def on_world_def untouched_def Let_def split: prod.split) (metis snd_conv)

lemma log_leaves_basic [log_frames]:
  "log_leaves q (State_Monad.return a)" "log_leaves q State_Monad.get" "log_leaves q (put_sink f)" "log_leaves q (dup E n)"
  "log_leaves q (dup2 E n m)" "log_leaves q (close_fd n)" "log_leaves q (makePipe E)" "log_leaves q (link_name E l t)"
  by (simp_all add: log_leaves_def put_sink_def dup_def dup2_def close_fd_def makePipe_def link_name_def Let_def)

lemma log_leaves_if [log_frames]: "log_leaves q a \<Longrightarrow> log_leaves q b \<Longrightarrow> log_leaves q (if c then a else b)"
  by simp

lemma log_leaves_cases [log_frames]:
  "log_leaves q a \<Longrightarrow> (\<And>x. log_leaves q (f x)) \<Longrightarrow> log_leaves q (case z of None \<Rightarrow> a | Some x \<Rightarrow> f x)"
  "(\<And>x y. log_leaves q (g x y)) \<Longrightarrow> log_leaves q (case p of (x, y) \<Rightarrow> g x y)"
  by (simp_all split: option.split prod.split)

lemma log_leaves_cleanup [log_frames]: "log_leaves q log_cleanup"
  unfolding log_cleanup_def close_opt_def by (intro log_frames)

lemma log_leaves_redirect [log_frames]: "log_leaves q (redirect E)"
  unfolding redirect_def by (intro log_frames)

lemma untouched_prune: "q \<notin> path_append dir ` set fs \<Longrightarrow> untouched q (remove_all dir fs)"
  by (induction fs) (auto intro!: frames)

text \<open>The files that the start of the log may remove.\<close>

definition log_paths :: "'r node_env \<Rightarrow> daemon_env \<Rightarrow> daemon_config \<Rightarrow> string set" where
  "log_paths E D cfg = (let opts = log_settings D (dc_logging cfg) in
     insert (stablePath (lo_dir opts) (lo_file opts))
       (path_append (lo_dir opts) ` set (outdated (split_name (lo_file opts)) (lo_maxFiles opts - 1) (le_entries (ne_log E)))))"

lemma log_start_leaves:
  "q \<notin> log_paths E D cfg \<Longrightarrow> log_leaves q (log_start (ne_log E) (log_settings D (dc_logging cfg)))"
  unfolding log_start_def Let_def pruneOldLogs_def
  by (intro log_frames frames untouched_prune) (auto simp: log_paths_def Let_def)

definition node_leaves :: "string \<Rightarrow> ('r, 'a) node_op \<Rightarrow> bool" where
  "node_leaves q m \<longleftrightarrow> (\<forall>s. w_files (nd_world (snd (run_state m s))) q = w_files (nd_world s) q)"

named_theorems node_frames \<open>steps of a boot that leave a file alone\<close>

lemma node_leaves_bind [node_frames]: "node_leaves q m \<Longrightarrow> (\<And>a. node_leaves q (f a)) \<Longrightarrow> node_leaves q (State_Monad.bind m f)"
  unfolding node_leaves_def by (simp split: prod.split) (metis snd_conv)

lemma node_leaves_io [node_frames]: "untouched q m \<Longrightarrow> node_leaves q (node_io m)"
  by (auto simp: node_leaves_def node_io_def untouched_def Let_def split: prod.split) (metis snd_conv)

lemma node_leaves_log [node_frames]: "log_leaves q m \<Longrightarrow> node_leaves q (node_log m)"
  by (auto simp: node_leaves_def node_log_def log_leaves_def split: prod.split) (metis log_state.select_convs(1) snd_conv)

lemma node_leaves_basic [node_frames]:
  "node_leaves q (State_Monad.return a)" "node_leaves q (net_op f)" "node_leaves q (do_core E c)"
  by (simp_all add: node_leaves_def net_op_def do_core_def core_def split: prod.split)

lemma node_leaves_if [node_frames]: "node_leaves q a \<Longrightarrow> node_leaves q b \<Longrightarrow> node_leaves q (if c then a else b)"
  by simp

lemma node_leaves_option [node_frames]:
  "node_leaves q a \<Longrightarrow> (\<And>x. node_leaves q (f x)) \<Longrightarrow> node_leaves q (case z of None \<Rightarrow> a | Some x \<Rightarrow> f x)"
  by (simp split: option.split)

lemma before_check_leaves:
  assumes "q \<notin> log_paths E D cfg"
  shows "node_leaves q (before_check E D cfg)"
  unfolding before_check_def start_logging_def share_group_def complain_def
  by (intro node_frames log_start_leaves [OF assms] frames)

lemma untouched_state_read: "untouched q (state_read D)"
  unfolding state_read_def by (auto intro!: frames split: option.split sum.split prod.split)

lemma already_running_leaves: "node_leaves q (already_running E D)"
  unfolding already_running_def complain_def by (intro node_frames untouched_state_read frames)

text \<open>Only environment variables are set.\<close>

definition setenv_call :: "core_call \<Rightarrow> bool" where
  "setenv_call c \<longleftrightarrow> (\<exists>k v. c = Set_Env_Var k v)"

lemma before_check_calls: "calls_of (before_check E D cfg) (\<lambda>_ new. list_all setenv_call new)"
proof -
  have none: "calls_of (start_logging E D cfg) (\<lambda>_ new. new = [])" "calls_of (net_op (ne_uuid E)) (\<lambda>_ new. new = [])"
    by (auto simp: calls_of_def start_logging_def node_log_def complain_def node_io_def net_op_def split: prod.splits if_splits)
  have group: "calls_of (share_group E D g) (\<lambda>_ new. list_all setenv_call new)" for g
    unfolding share_group_def
    by (auto simp: calls_of_def do_core_def core_def complain_def node_io_def setenv_call_def split: option.split prod.splits)
  show ?thesis
    unfolding before_check_def
    by (rule calls_bind [OF none(1)], rule calls_bind [OF none(2)], rule calls_bind [OF calls_do], rule calls_bind [OF group])
      (auto simp: setenv_call_def intro: calls_weaken [OF calls_return])
qed

section \<open>Properties\<close>

text \<open>
  C30: a core that was started is never left behind with an exit code: in every boot either the core is
  not started at all and the exit code is 1, or it is started once, and cleaned up afterwards exactly
  when the boot ends with an exit code; only an exception leaves it running.
\<close>

theorem core_cleaned_up:
  assumes "run_state (daemon_start E cfg source persistConfig verbose) s = (r, s')" "nd_calls s = []"
  shows "(Core_Start \<notin> set (nd_calls s') \<and> r = Inr 1 \<and> Core_Cleanup \<notin> set (nd_calls s'))
    \<or> (\<exists>later before. nd_calls s' = later @ Core_Start # before \<and> Core_Start \<notin> set (later @ before)
        \<and> Core_Cleanup \<notin> set before \<and> (Core_Cleanup \<in> set later \<longleftrightarrow> (\<exists>code. r = Inr code)))"
  using calls_ofD [OF daemon_start_calls assms(1)] assms(2)
  by (cases r) (auto simp: boot_ok_def tidy_def list_all_plain split: if_splits)


section \<open>Witnesses\<close>

text \<open>A machine on which every process is alive, and a session whose \<open>state.json\<close> names process 7.\<close>

definition sample_node :: "int node_env" where
  "sample_node = \<lparr>ne_daemon = sample_daemon, ne_sha256 = sample_sha,
     ne_os = \<lparr>os_kill = (\<lambda>_ t. (Kill_Ok, t)), os_now = (\<lambda>t. t), os_sleep = (\<lambda>ms t. t + int ms)\<rparr>,
     ne_sockets = \<lparr>so_pton6 = (\<lambda>_. False), so_pton4 = (\<lambda>_. True), so_socket = (\<lambda>_ t. (False, t)),
       so_bind = (\<lambda>_ _ t. (False, t)), so_name = (\<lambda>t. (None, t)), so_close = (\<lambda>t. t), so_error = (\<lambda>_. [])\<rparr>,
     ne_paths = \<lparr>po_self = None, po_canonical = (\<lambda>_. None), po_is_directory = (\<lambda>_. False), po_absolute = Some,
       po_runnable = (\<lambda>_. False), po_path = None\<rparr>,
     ne_log = sample_log (\<lambda>_. True), ne_core = (\<lambda>_ t. (1, t)), ne_whyNot = (\<lambda>_. []),
     ne_uuid = (\<lambda>t. (''0123-4567-89ab-cdef'', t)), ne_pid = 4711, ne_temp = ''/tmp'', ne_exec = (\<lambda>w t. (0, w, t))\<rparr>"

definition quiet_config :: daemon_config where
  "quiet_config = default_config\<lparr>dc_logging := default_logging\<lparr>lc_enabled := False\<rparr>\<rparr>"

definition sample_node_state :: "world \<Rightarrow> int node" where
  "sample_node_state w = \<lparr>nd_world = w, nd_net = 0, nd_calls = [], nd_held = 0, nd_links = Map.empty,
     nd_fds = lg_fds (sample_log_state w), nd_sink = lg_sink (sample_log_state w), nd_out = []\<rparr>"

definition running_doc :: json where
  "running_doc = mk_obj [(''version'', JInt 2), (''instance_id'', JStr ''i1''), (''pid'', JInt 7)]"

definition running_world :: world where
  "running_world = sample_file (daemonStatePath sample_cfg) (enc_json running_doc @ [CHR 10])"

lemma quiet_session: "session_env sample_node quiet_config = sample_daemon"
  by (simp add: session_env_def session_config_def quiet_config_def default_config_def no_dirs_def setSessionDirOverride_def
    sample_node_def sample_daemon_def sample_cfg_def)

lemma running_state:
  "rs_fileOk (fst (run_state (state_read sample_daemon) running_world))
    \<and> rs_pid (fst (run_state (state_read sample_daemon) running_world)) = 7"
proof -
  have "jtext_ok running_doc" by code_simp
  then have "jl_dump sample_json 4 running_doc = Some (enc_json running_doc)" by (rule sample_dump)
  from json_lib_ok_parse [OF sample_json_ok this]
  have p: "jl_parse sample_json (enc_json running_doc @ [CHR 10]) = Some (reparse running_doc)" .
  have v: "run_state (r_integer (reader_of (reparse running_doc) []) ''version'' 0 int64_min int64_max) no_errors = (2, no_errors)"
    "is_object (reparse running_doc)" "errs_ok no_errors" "wrap_int 32 2 = kDaemonRuntimeStateSchemaVersion"
    by code_simp+
  have "case state_fields (daemonStatePath sample_cfg) (reparse running_doc) 2 of Inl _ \<Rightarrow> False | Inr st \<Rightarrow> rs_fileOk st \<and> rs_pid st = 7"
    by code_simp
  then obtain st where "state_fields (daemonStatePath sample_cfg) (reparse running_doc) 2 = Inr st" "rs_fileOk st" "rs_pid st = 7"
    by (auto split: sum.splits)
  moreover have "fst (run_state (read_file (daemonStatePath sample_cfg)) running_world) = Some (enc_json running_doc @ [CHR 10])"
    by (simp add: read_file_def running_world_def)
  ultimately show ?thesis using p v
    by (simp add: state_read_def sample_daemon_def split_beta kDaemonRuntimeStateSchemaVersion_def)
qed

lemma before_quiet: "run_state (before_check sample_node sample_daemon quiet_config) (sample_node_state w)
    = ((''0123456789ab'', []), (sample_node_state w)\<lparr>nd_calls := [Set_Env_Var ''LOGOS_INSTANCE_ID'' ''0123456789ab'']\<rparr>)"
  by (simp add: before_check_def start_logging_def quiet_config_def default_config_def net_op_def do_core_def core_def share_group_def
    sample_node_def sample_node_state_def instance_of_uuid_def)

lemma tokens_not_a_log: "''/s/daemon/tokens.json'' \<notin> log_paths sample_node sample_daemon quiet_config"
  by (simp add: log_paths_def Let_def log_settings_def sample_node_def sample_log_def outdated_def List.map_filter_simps
    quiet_config_def default_config_def default_logging_def stablePath_def path_append_def is_absolute_def
    starts_with_char_def sample_daemon_def sample_cfg_def logsDir_def sessionDir_def configDir_def)


lemma core_cleaned_up_witness:
  "\<exists>r s'. run_state (daemon_start sample_node quiet_config [] False False) (sample_node_state sample_world) = (r, s')
    \<and> ((Core_Start \<notin> set (nd_calls s') \<and> r = Inr 1 \<and> Core_Cleanup \<notin> set (nd_calls s'))
      \<or> (\<exists>later before. nd_calls s' = later @ Core_Start # before \<and> Core_Start \<notin> set (later @ before)
          \<and> Core_Cleanup \<notin> set before \<and> (Core_Cleanup \<in> set later \<longleftrightarrow> (\<exists>code. r = Inr code))))"
proof -
  obtain r s' where r: "run_state (daemon_start sample_node quiet_config [] False False) (sample_node_state sample_world) = (r, s')"
    by fastforce
  from core_cleaned_up [OF this] r show ?thesis by (auto simp: sample_node_state_def)
qed

end
