(* ===== verification/Config_Command.thy ===== *)
theory Config_Command
  imports Client_Commands_Props
begin

text \<open>
  \<open>src/src/client/commands/config_command.cpp\<close>: showing and replacing the daemon's or the client's
  configuration document. Standard input is an argument.
\<close>

section \<open>The document\<close>

definition readDocument :: "string \<Rightarrow> string \<Rightarrow> (string + string) io" where
  "readDocument stdin spec =
    (if spec = ''-'' then State_Monad.return (Inr stdin)
     else (let path = (if starts_with_char spec CHR ''@'' then drop 1 spec else spec) in do {
       text \<leftarrow> read_file path;
       State_Monad.return (case text of
           None \<Rightarrow> Inl (''Could not open '' @ quoted path @ ''.'') | Some s \<Rightarrow> Inr s) }))"

definition kDaemonKeys :: "string list" where
  "kDaemonKeys = [''access_group'', ''access_policy'', ''dirs'', ''insecure_tcp'', ''logging'', ''modules'',
     ''modules_dirs'', ''persistence_path'', ''signature_policy'', ''ssl'', ''version'']"

definition kClientKeys :: "string list" where
  "kClientKeys = [''daemon'', ''instance_id'', ''token_file'', ''version'']"

definition known_keys :: "bool \<Rightarrow> string list" where
  "known_keys daemonSide = (if daemonSide then kDaemonKeys else kClientKeys)"

definition unknown_keys :: "bool \<Rightarrow> fields \<Rightarrow> string list" where
  "unknown_keys daemonSide kvs = filter (\<lambda>k. k \<notin> set (known_keys daemonSide)) (map fst kvs)"

definition document_valid :: "bool \<Rightarrow> json \<Rightarrow> string option" where
  "document_valid daemonSide doc =
    (if daemonSide then (case parseDaemonConfigDocument doc of Inl e \<Rightarrow> Some e | Inr _ \<Rightarrow> None)
     else (case parseClientStateDocument doc of Inl e \<Rightarrow> Some e | Inr _ \<Rightarrow> None))"

text \<open>The canonical text of a document, or the code and message of its refusal.\<close>

definition canonical_text :: "yaml_lib \<Rightarrow> bool \<Rightarrow> string \<Rightarrow> string + string" where
  "canonical_text Y daemonSide text = (case yaml_parse Y text of
      Inl what \<Rightarrow> Inl (''Not valid YAML: '' @ what)
    | Inr (JObj kvs) \<Rightarrow>
        if unknown_keys daemonSide kvs \<noteq> []
        then Inl (''Unknown key(s): '' @ join (unknown_keys daemonSide kvs) '', '' @ ''. Known keys are: ''
          @ join (known_keys daemonSide) '', '' @ ''.'')
        else (let canonical = yaml_dump Y (JObj (put_all
                [(''version'', JInt (if daemonSide then kDaemonConfigSchemaVersion else kClientStateSchemaVersion))] kvs))
          in case yaml_parse Y canonical of
               Inl what \<Rightarrow> Inl (''Not valid YAML: '' @ what)
             | Inr doc \<Rightarrow> (case document_valid daemonSide doc of Some e \<Rightarrow> Inl e | None \<Rightarrow> Inr canonical))
    | Inr _ \<Rightarrow> Inl ''The config document must be a mapping at the top level.'')"

section \<open>set and show\<close>

definition own_pid :: "int io" where
  "own_pid = State (\<lambda>w. (w_pid w, w))"

text \<open>The new text beside the target, with the permissions of the file it will replace.\<close>

definition stage_config :: "string \<Rightarrow> string \<Rightarrow> string \<Rightarrow> bool io" where
  "stage_config path tmp canonical = do {
     opened \<leftarrow> open_trunc tmp;
     if \<not> opened then State_Monad.return False
     else do {
       written \<leftarrow> write_out tmp canonical;
       if \<not> written then do { _ \<leftarrow> remove_file tmp; State_Monad.return False }
       else do {
         mode \<leftarrow> stat_mode path;
         _ \<leftarrow> (case mode of None \<Rightarrow> State_Monad.return False | Some m \<Rightarrow> chmod tmp m);
         State_Monad.return True } } }"

definition config_tmp :: "string \<Rightarrow> int \<Rightarrow> string" where
  "config_tmp path pid = path @ ''.tmp.'' @ show_int pid"

text \<open>Staging and renaming into place; the message of a failure.\<close>

definition publish_config :: "string \<Rightarrow> string \<Rightarrow> string option io" where
  "publish_config path canonical = do {
     made \<leftarrow> mk_dirs (parent_path path);
     if \<not> made then State_Monad.return (Some (''Could not create '' @ path))
     else do {
       pid \<leftarrow> own_pid;
       staged \<leftarrow> stage_config path (config_tmp path pid) canonical;
       if \<not> staged then State_Monad.return (Some (''Could not write '' @ path))
       else do {
         renamed \<leftarrow> rename (config_tmp path pid) path;
         if \<not> renamed then do {
           _ \<leftarrow> remove_file (config_tmp path pid);
           State_Monad.return (Some (''Could not write '' @ path)) }
         else State_Monad.return None } } }"

definition config_path :: "'r app \<Rightarrow> bool \<Rightarrow> string" where
  "config_path A daemonSide = (if daemonSide then daemonConfigPath (ce_cfg (ap_client A)) else clientConfigPath (ce_cfg (ap_client A)))"

definition set_report :: "'r app \<Rightarrow> bool \<Rightarrow> ('r, int) command_op" where
  "set_report A daemonSide = print_exit
     (if json_mode A then printSuccess (ap_out A) (mk_obj [(''status'', JStr ''ok''), (''path'', JStr (config_path A daemonSide))])
      else tbind (printRaw (''Wrote '' @ config_path A daemonSide)) (\<lambda>_.
        if daemonSide then printRaw ''Restart the daemon for it to take effect.'' else pure ())) 0"

definition config_set :: "'r app \<Rightarrow> bool \<Rightarrow> string \<Rightarrow> string \<Rightarrow> ('r, int) command_op" where
  "config_set A daemonSide stdin spec =
     tbind (on_files (plain (readDocument stdin spec))) (\<lambda>text. case text of
         Inl e \<Rightarrow> err_exit A ''IO_ERROR'' e [] 1
       | Inr t \<Rightarrow> (case canonical_text (ce_yaml (ap_client A)) daemonSide t of
           Inl e \<Rightarrow> err_exit A ''INVALID_CONFIG'' e [] 1
         | Inr canonical \<Rightarrow>
             tbind (on_files (plain (publish_config (config_path A daemonSide) canonical))) (\<lambda>failed. case failed of
                 Some e \<Rightarrow> err_exit A ''IO_ERROR'' e [] 1
               | None \<Rightarrow> set_report A daemonSide)))"

definition config_show :: "'r app \<Rightarrow> bool \<Rightarrow> ('r, int) command_op" where
  "config_show A daemonSide = (let path = config_path A daemonSide in
     tbind (on_files (plain (read_file path))) (\<lambda>text. case text of
         None \<Rightarrow> print_exit
           (if json_mode A then printSuccess (ap_out A) (mk_obj [(''path'', JStr path), (''exists'', JBool False)])
            else printRaw (path @ ''  (does not exist '' @ emdash @ '' using defaults)'')) 0
       | Some s \<Rightarrow> print_exit
           (if json_mode A then printSuccess (ap_out A) (mk_obj [(''path'', JStr path), (''exists'', JBool True),
              (''config'', case yaml_parse (ce_yaml (ap_client A)) s of Inl _ \<Rightarrow> JNull | Inr j \<Rightarrow> j)])
            else tbind (printRaw (''# '' @ path)) (\<lambda>_. printRaw s)) 0))"

definition config_command :: "'r app \<Rightarrow> bool \<Rightarrow> string \<Rightarrow> string list \<Rightarrow> ('r, int) command_op" where
  "config_command A daemonSide stdin args = (let group = (if daemonSide then ''daemon'' else ''client'') in
     case args of
       [] \<Rightarrow> err_exit A ''INVALID_ARGS'' (''Usage: logosctl '' @ group @ '' config <show|set FILE>'') [] 1
     | a # rest \<Rightarrow>
         if a = ''show'' then config_show A daemonSide
         else if a = ''set'' then (case rest of
             [] \<Rightarrow> err_exit A ''INVALID_ARGS'' (''Usage: logosctl '' @ group @ '' config set <FILE|@FILE|->'') [] 1
           | spec # _ \<Rightarrow> config_set A daemonSide stdin spec)
         else err_exit A ''INVALID_ARGS'' (''Unknown config subcommand: '' @ a) [] 1)"

section \<open>What is on disk\<close>

lemma stage_leaves: "q \<noteq> tmp \<Longrightarrow> untouched q (stage_config path tmp canonical)"
  unfolding stage_config_def by (auto intro!: frames split: option.split)

lemma stage_run:
  "run_state (stage_config path tmp canonical) w = (True, w') \<Longrightarrow> \<exists>f. w_files w' tmp = Some f \<and> i_text f = canonical"
  by (auto simp: stage_config_def open_trunc_def write_out_def stat_mode_def chmod_def remove_file_def sys_def Let_def set_text_def
    split: if_splits option.splits prod.splits)

lemma rename_run:
  "p \<noteq> q \<Longrightarrow> run_state (rename p q) w = (ok, w') \<Longrightarrow> w_files w' q = (if ok then w_files w p else w_files w q)"
  by (auto simp: rename_def sys_def split: if_splits)

lemma publish_run:
  assumes "run_state (publish_config path canonical) w = (r, w')"
  shows "(r = None \<and> (\<exists>f. w_files w' path = Some f \<and> i_text f = canonical))
    \<or> (r \<noteq> None \<and> w_files w' path = w_files w path)"
proof -
  define tmp where "tmp = config_tmp path (w_pid (snd (run_state (mk_dirs (parent_path path)) w)))"
  have tmp: "path \<noteq> tmp" "tmp \<noteq> path" by (simp_all add: tmp_def config_tmp_def)
  obtain made w1 where 1: "run_state (mk_dirs (parent_path path)) w = (made, w1)" by fastforce
  note f1 = untouchedD(1) [OF untouched_calls(1) 1, of path]
  obtain staged w2 where 2: "run_state (stage_config path tmp canonical) w1 = (staged, w2)" by fastforce
  note f2 = untouchedD(1) [OF stage_leaves [OF tmp(1)] 2]
  obtain renamed w3 where 3: "run_state (rename tmp path) w2 = (renamed, w3)" by fastforce
  note f3 = rename_run [OF tmp(2) 3]
  obtain gone w4 where 4: "run_state (remove_file tmp) w3 = (gone, w4)" by fastforce
  note f4 = untouchedD(1) [OF untouched_calls(10) [OF tmp(1)] 4]
  have t: "config_tmp path (w_pid w1) = tmp" by (simp add: tmp_def 1)
  have "(r, w') = (if \<not> made then (Some (''Could not create '' @ path), w1)
      else if \<not> staged then (Some (''Could not write '' @ path), w2)
      else if \<not> renamed then (Some (''Could not write '' @ path), w4) else (None, w3))"
    using assms by (simp add: publish_config_def own_pid_def 1 t 2 3 4 split: if_splits)
  moreover have "\<exists>f. w_files w2 tmp = Some f \<and> i_text f = canonical" if staged using stage_run 2 that by auto
  ultimately show ?thesis using f1 f2 f3 f4 by (auto split: if_splits)
qed

text \<open>A document that is accepted is one the loaders take.\<close>

lemma canonical_loads:
  "canonical_text Y daemonSide text = Inr canonical \<Longrightarrow>
     \<exists>doc. yaml_parse Y canonical = Inr doc \<and> (if daemonSide then \<exists>cfg. parseDaemonConfigDocument doc = Inr cfg
       else \<exists>st. parseClientStateDocument doc = Inr st)"
  by (auto simp: canonical_text_def document_valid_def Let_def split: sum.splits json.splits if_splits option.splits)

lemma print_exit_world:
  "run_state (print_exit p code) s = (r, s') \<Longrightarrow> rc_world (cl_rpc s') = rc_world (cl_rpc s) \<and> (\<forall>c. r = Inr c \<longrightarrow> c = code)"
  by (auto simp: print_exit_def on_screen_def split: prod.splits sum.splits)

text \<open>
  The key \<open>container\<close> is read and written by the daemon's own documents, but not known here: the document
  of a daemon with a container policy is refused.
\<close>

lemma container_refused:
  "dc_container cfg \<noteq> [] \<Longrightarrow> ''container'' \<in> set (unknown_keys True (config_fields cfg True))"
  by (simp add: unknown_keys_def known_keys_def kDaemonKeys_def config_fields_def opt_field_def image_iff)

section \<open>Properties\<close>

text \<open>
  C26: a configuration is replaced whole or not at all: \<open>config set\<close> that reports success has put a document
  in place that the program's own loader accepts, and one that reports an error has left the file as it was.
\<close>

theorem config_set_safe:
  assumes "run_state (config_set A daemonSide stdin spec) s = (Inr code, s')"
  shows "if code = 0 then (\<exists>f doc. w_files (rc_world (cl_rpc s')) (config_path A daemonSide) = Some f
        \<and> yaml_parse (ce_yaml (ap_client A)) (i_text f) = Inr doc
        \<and> (if daemonSide then \<exists>cfg. parseDaemonConfigDocument doc = Inr cfg else \<exists>st. parseClientStateDocument doc = Inr st))
    else w_files (rc_world (cl_rpc s')) (config_path A daemonSide) = w_files (rc_world (cl_rpc s)) (config_path A daemonSide)"
proof -
  let ?p = "config_path A daemonSide" and ?Y = "ce_yaml (ap_client A)"
  obtain content w1 where 1: "run_state (readDocument stdin spec) (rc_world (cl_rpc s)) = (content, w1)" by fastforce
  have "untouched ?p (readDocument stdin spec)" unfolding readDocument_def Let_def by (intro frames)
  note f1 = untouchedD(1) [OF this 1]
  let ?s1 = "s\<lparr>cl_rpc := (cl_rpc s)\<lparr>rc_world := w1\<rparr>\<rparr>"
  have err: "code = 1 \<and> rc_world (cl_rpc s') = rc_world (cl_rpc t)"
    if "run_state (err_exit A c e [] 1) t = (Inr code, s')" for c e t
    using print_exit_world that unfolding err_exit_def by blast
  show ?thesis
  proof (cases "\<exists>t canonical. content = Inr t \<and> canonical_text ?Y daemonSide t = Inr canonical")
    case False
    then obtain c e where "run_state (err_exit A c e [] 1) ?s1 = (Inr code, s')"
      using assms by (auto simp: config_set_def on_files_def 1 split: sum.splits)
    from err [OF this] f1 show ?thesis by simp
  next
    case True
    then obtain t canonical where t: "content = Inr t" "canonical_text ?Y daemonSide t = Inr canonical" by blast
    obtain failed w2 where 2: "run_state (publish_config ?p canonical) w1 = (failed, w2)" by fastforce
    let ?s2 = "s\<lparr>cl_rpc := (cl_rpc s)\<lparr>rc_world := w2\<rparr>\<rparr>"
    have r: "run_state (case failed of Some e \<Rightarrow> err_exit A ''IO_ERROR'' e [] 1 | None \<Rightarrow> set_report A daemonSide) ?s2 = (Inr code, s')"
      using assms t by (simp add: config_set_def on_files_def 1 2)
    show ?thesis
    proof (cases failed)
      case None
      with r have "code = 0 \<and> rc_world (cl_rpc s') = w2" unfolding set_report_def using print_exit_world by fastforce
      with publish_run [OF 2] None canonical_loads [OF t(2)] show ?thesis by (cases daemonSide) auto
    next
      case (Some e)
      with r err [of _ _ ?s2] have "code = 1 \<and> rc_world (cl_rpc s') = w2" by fastforce
      with publish_run [OF 2] Some f1 show ?thesis by simp
    qed
  qed
qed

text \<open>The empty client document, installed from standard input.\<close>

lemma sample_canonical:
  "canonical_text sample_yaml False (yaml_dump sample_yaml (JObj [])) = Inr (yaml_dump sample_yaml (JObj [(''version'', JInt 2)]))"
  by code_simp

lemma sample_config_path: "config_path sample_app False = ''/s/client/config.yaml''"
  by (simp add: config_path_def sample_app_def client_of_daemon_def sample_daemon_def sample_cfg_def) code_simp

lemma sample_publish:
  assumes "parent_path p \<noteq> p" "parent_path p \<noteq> config_tmp p 4711"
  shows "fst (run_state (publish_config p c) sample_world) = None"
proof -
  have "config_tmp p 4711 \<noteq> p" by (simp add: config_tmp_def)
  with assms show ?thesis
    by (simp add: publish_config_def own_pid_def stage_config_def mk_dirs_def open_trunc_def write_out_def stat_mode_def
      chmod_def rename_def sys_def Let_def set_text_def observe_def sample_world_def tick_def)
qed

lemma sample_parent: "parent_path ''/s/client/config.yaml'' = ''/s/client''"
  by code_simp

lemma sample_report: "fst (run_state (set_report sample_app False) s) = Inr 0"
  by (simp add: set_report_def sample_app_def newOutput_def print_exit_def on_screen_def printSuccess_def isJsonMode_def printRaw_def cout_def
    print_json_def cout_line_def config_path_def client_of_daemon_def sample_daemon_def)

lemma sample_distinct: "''/s/client'' \<noteq> ''/s/client/config.yaml''" "''/s/client'' \<noteq> config_tmp ''/s/client/config.yaml'' 4711"
  by (simp_all add: config_tmp_def)

lemma rc_sample: "rc_world (sample_rpc w) = w"
  by (simp add: sample_rpc_def)

lemma config_set_safe_witness:
  "\<exists>f doc. w_files (rc_world (cl_rpc (snd (run_state
       (config_set sample_app False (yaml_dump sample_yaml (JObj [])) ''-'')
       \<lparr>cl_rpc = sample_rpc sample_world, cl_screen = \<lparr>sc_out = [], sc_err = []\<rparr>\<rparr>)))) (config_path sample_app False) = Some f
     \<and> yaml_parse sample_yaml (i_text f) = Inr doc \<and> (\<exists>st. parseClientStateDocument doc = Inr st)"
proof -
  let ?s = "\<lparr>cl_rpc = sample_rpc sample_world, cl_screen = \<lparr>sc_out = [], sc_err = []\<rparr>\<rparr>"
  let ?m = "config_set sample_app False (yaml_dump sample_yaml (JObj [])) ''-''"
  have Y: "ce_yaml (ap_client sample_app) = sample_yaml" by (simp add: sample_app_def client_of_daemon_def sample_daemon_def)
  obtain w where "run_state (publish_config (config_path sample_app False) (yaml_dump sample_yaml (JObj [(''version'', JInt 2)])))
      sample_world = (None, w)"
    using sample_publish [of "config_path sample_app False"]
    by (metis sample_config_path sample_parent sample_distinct prod.collapse)
  then have "fst (run_state ?m ?s) = Inr 0"
    by (simp add: config_set_def Y readDocument_def sample_canonical on_files_def plain_def sample_report rc_sample)
  then have "run_state ?m ?s = (Inr 0, snd (run_state ?m ?s))" by (metis prod.collapse)
  from config_set_safe [OF this] show ?thesis by (simp add: Y)
qed

end
