(* ===== verification/Catalog_Command.thy ===== *)
theory Catalog_Command
  imports Client_Commands
begin

text \<open>
  \<open>src/src/client/commands/catalog_command.cpp\<close>: the catalog and trusted key commands, which are requests to
  the package modules, with the printing of their answers.
\<close>

section \<open>Requests to a module\<close>


text \<open>\<open>r[key]\<close> of an object, where a missing key reads as null.\<close>

definition member :: "json \<Rightarrow> string \<Rightarrow> json" where
  "member r key = (case jfind r key of None \<Rightarrow> JNull | Some v \<Rightarrow> v)"

text \<open>An error envelope, under a code and message of its own or the given code, ends the command with 1.\<close>

definition unless_refused :: "'r app \<Rightarrow> json \<Rightarrow> string \<Rightarrow> ('r, int) command_op \<Rightarrow> ('r, int) command_op" where
  "unless_refused A r code m =
     tbind (value_or_throw (str_at r ''status'')) (\<lambda>status.
       if status = ''error'' then
         tbind (value_or_throw (jvalue get_str r ''code'' code)) (\<lambda>c.
         tbind (value_or_throw (str_at r ''message'')) (\<lambda>msg. err_exit A c msg (fields_of r) 1))
       else m)"

definition call_module :: "'r app \<Rightarrow> string \<Rightarrow> string \<Rightarrow> json list \<Rightarrow> ('r, json) command_op" where
  "call_module A module method args = on_rpc (rpc_callModuleMethod (ap_link A) module method (JArr args))"

definition module_result :: "'r app \<Rightarrow> string \<Rightarrow> string \<Rightarrow> json list \<Rightarrow> (json \<Rightarrow> ('r, int) command_op) \<Rightarrow> ('r, int) command_op" where
  "module_result A module method args f =
     tbind (call_module A module method args) (\<lambda>r. unless_refused A r ''RPC_FAILED'' (f (member r ''result'')))"

text \<open>A listing: the raw document, a line for an empty one, or one print per row.\<close>

definition dump_line :: "'r app \<Rightarrow> json \<Rightarrow> unit printed" where
  "dump_line A j = print_json (ap_out A) j"

definition nothing_listed :: "json \<Rightarrow> bool" where
  "nothing_listed j = (case j of JArr (e # es) \<Rightarrow> False | _ \<Rightarrow> True)"

definition list_exit :: "'r app \<Rightarrow> json \<Rightarrow> string \<Rightarrow> unit printed \<Rightarrow> ('r, int) command_op" where
  "list_exit A j empty_line rows =
    (if json_mode A then print_exit (dump_line A j) 0
     else if nothing_listed j then print_exit (printRaw empty_line) 0
     else print_exit rows 0)"

definition cell :: "json \<Rightarrow> string \<Rightarrow> string \<Rightarrow> string printed" where
  "cell j key dflt = val_of (jvalue get_str j key dflt)"

section \<open>catalog\<close>

definition catalog_row :: "'r app \<Rightarrow> json \<Rightarrow> unit printed" where
  "catalog_row A c =
     tbind (val_of (jvalue get_bool c ''enabled'' False)) (\<lambda>enabled.
     tbind (cell c ''resolveError'' []) (\<lambda>resolveError.
     tbind (cell c ''name'' ''<unresolved>'') (\<lambda>name.
     tbind (cell c ''url'' []) (\<lambda>url.
     tbind (val_of (jvalue get_bool c ''isDefault'' False)) (\<lambda>isDefault.
     tbind (printRaw ((if enabled then ''[on ]'' else ''[off]'') @ '' '' @ padRight (ap_out A) name 26 @ '' '' @ url
         @ (if isDefault then ''  (default)'' else []))) (\<lambda>_.
       if resolveError = [] then pure () else printRaw (''      error: '' @ resolveError)))))))"

definition catalog_list :: "'r app \<Rightarrow> ('r, int) command_op" where
  "catalog_list A = module_result A kPd ''listRepositories'' [] (\<lambda>repos.
     list_exit A repos ''No catalogs configured.'' (each_print (catalog_row A) (elements repos)))"

text \<open>The request of a subcommand that changes the catalogs.\<close>

definition catalog_request :: "string \<Rightarrow> string \<Rightarrow> (string \<times> json list) option" where
  "catalog_request sub url =
    (if sub = ''add'' then Some (''addRepository'', [JStr url])
     else if sub = ''remove'' then Some (''removeRepository'', [JStr url])
     else if sub = ''enable'' then Some (''setRepositoryEnabled'', [JStr url, JBool True])
     else if sub = ''disable'' then Some (''setRepositoryEnabled'', [JStr url, JBool False])
     else if sub = ''refresh'' then Some (''refreshCatalog'', [])
     else None)"

text \<open>What an object answer says of its success; any other answer counts as success.\<close>

definition succeeded :: "json \<Rightarrow> exn + bool" where
  "succeeded res = (if is_object res then jvalue get_bool res ''success'' True else Inr True)"

definition answer_exit :: "'r app \<Rightarrow> json \<Rightarrow> string \<Rightarrow> ('r, int) command_op" where
  "answer_exit A res line =
    (if json_mode A then print_exit (printSuccess (ap_out A) (if is_object res then res else JNull)) 0
     else print_exit (printRaw line) 0)"

definition catalog_answer :: "'r app \<Rightarrow> string \<Rightarrow> string \<Rightarrow> json \<Rightarrow> ('r, int) command_op" where
  "catalog_answer A sub url res =
     tbind (value_or_throw (if is_object res then str_at res ''error'' else Inr [])) (\<lambda>errMsg.
     tbind (value_or_throw (succeeded res)) (\<lambda>ok.
       if \<not> ok then err_exit A ''CATALOG_FAILED'' (if errMsg = [] then ''catalog '' @ sub @ '' failed'' else errMsg) [] 1
       else answer_exit A res (if sub = ''refresh'' then ''Catalogs refreshed.'' else ''Catalog '' @ sub @ ''d: '' @ url)))"

definition needs_url :: "string \<Rightarrow> bool" where
  "needs_url sub \<longleftrightarrow> sub \<in> {''add'', ''remove'', ''enable'', ''disable''}"

definition catalog_command :: "'r app \<Rightarrow> string list \<Rightarrow> ('r, int) command_op" where
  "catalog_command A args = (case args of
      [] \<Rightarrow> err_exit A ''INVALID_ARGS'' ''Usage: logosctl catalog <ls|add|remove|enable|disable|refresh> [url]'' [] 1
    | sub # rest \<Rightarrow> (let url = (case rest of [] \<Rightarrow> [] | u # _ \<Rightarrow> u) in
        if needs_url sub \<and> url = [] then
          err_exit A ''INVALID_ARGS'' (''Usage: logosctl catalog '' @ sub @ '' <url>'') [] 1
        else connected_then A (
          if sub = ''ls'' \<or> sub = ''list'' then catalog_list A
          else (case catalog_request sub url of
              None \<Rightarrow> err_exit A ''INVALID_ARGS'' (''Unknown catalog subcommand: '' @ sub) [] 1
            | Some (method, callArgs) \<Rightarrow> module_result A kPd method callArgs (catalog_answer A sub url)))))"

section \<open>key\<close>

definition key_row :: "'r app \<Rightarrow> json \<Rightarrow> unit printed" where
  "key_row A k = tbind (cell k ''name'' []) (\<lambda>name. tbind (cell k ''did'' []) (\<lambda>did.
     printRaw (padRight (ap_out A) name 20 @ '' '' @ did)))"

definition key_list :: "'r app \<Rightarrow> ('r, int) command_op" where
  "key_list A = module_result A kPm ''listTrustedKeys'' [] (\<lambda>keys.
     list_exit A keys (''No trusted keys. Packages from unknown signers ''
         @ ''are accepted or rejected per this session's signature policy.'')
       (each_print (key_row A) (elements keys)))"

record key_args =
  ka_name :: string
  ka_did :: string
  ka_display :: string
  ka_url :: string

fun read_key_args :: "string list \<Rightarrow> key_args \<Rightarrow> key_args" where
  "read_key_args [] k = k"
| "read_key_args [a] k = (if ka_name k = [] then k\<lparr>ka_name := a\<rparr> else k)"
| "read_key_args (a # b # rest) k =
    (if a = ''--did'' then read_key_args rest (k\<lparr>ka_did := b\<rparr>)
     else if a = ''--display-name'' then read_key_args rest (k\<lparr>ka_display := b\<rparr>)
     else if a = ''--url'' then read_key_args rest (k\<lparr>ka_url := b\<rparr>)
     else read_key_args (b # rest) (if ka_name k = [] then k\<lparr>ka_name := a\<rparr> else k))"

text \<open>The answer to a change of the keys: a refusal under its code, or the line of a success.\<close>

definition key_answer :: "'r app \<Rightarrow> string \<Rightarrow> string \<Rightarrow> json \<Rightarrow> ('r, int) command_op" where
  "key_answer A code line res =
     tbind (value_or_throw (succeeded res)) (\<lambda>ok.
       if \<not> ok then tbind (value_or_throw (str_at res ''error'')) (\<lambda>e. err_exit A code e [] 1)
       else answer_exit A res line)"

definition key_add :: "'r app \<Rightarrow> string list \<Rightarrow> ('r, int) command_op" where
  "key_add A args = (let k = read_key_args args \<lparr>ka_name = [], ka_did = [], ka_display = [], ka_url = []\<rparr> in
     if ka_name k = [] \<or> ka_did k = [] then
       err_exit A ''INVALID_ARGS'' (''Usage: logosctl key add <name> --did <did:jwk:...> ''
         @ ''[--display-name N] [--url U]'') [] 1
     else module_result A kPm ''addTrustedKey''
       [JStr (ka_name k), JStr (ka_did k), JStr (ka_display k), JStr (ka_url k)]
       (key_answer A ''KEY_ADD_FAILED'' (''Trusted key added: '' @ ka_name k)))"

definition key_remove :: "'r app \<Rightarrow> string list \<Rightarrow> ('r, int) command_op" where
  "key_remove A args = (case args of
      [] \<Rightarrow> err_exit A ''INVALID_ARGS'' ''Usage: logosctl key remove <name>'' [] 1
    | name # _ \<Rightarrow> module_result A kPm ''removeTrustedKey'' [JStr name]
        (key_answer A ''KEY_REMOVE_FAILED'' (''Trusted key removed: '' @ name)))"

definition key_command :: "'r app \<Rightarrow> string list \<Rightarrow> ('r, int) command_op" where
  "key_command A args = (case args of
      [] \<Rightarrow> err_exit A ''INVALID_ARGS'' ''Usage: logosctl key <ls|add|remove> ...'' [] 1
    | sub # rest \<Rightarrow> connected_then A (
        if sub = ''ls'' \<or> sub = ''list'' then key_list A
        else if sub = ''add'' then key_add A rest
        else if sub = ''remove'' then key_remove A rest
        else err_exit A ''INVALID_ARGS'' (''Unknown key subcommand: '' @ sub) [] 1))"

section \<open>Lemmas\<close>

text \<open>The message of a successful \<open>add\<close> has a verb of its own.\<close>

lemma added_line: "''Catalog '' @ ''add'' @ ''d: '' @ url = ''Catalog addd: '' @ url"
  by simp

text \<open>An option whose value is missing is taken for the name, when there is none yet.\<close>

lemma bare_option_is_name: "ka_name (read_key_args [''--did''] \<lparr>ka_name = [], ka_did = [], ka_display = [], ka_url = []\<rparr>) = ''--did''"
  by simp

end
