(* ===== verification/Package_Command.thy ===== *)
theory Package_Command
  imports Catalog_Command Paths
begin

text \<open>
  \<open>src/src/client/commands/package_command.cpp\<close>: installing, upgrading and removing packages behind a plan and
  a confirmation, and the listings. The caller's directory entries, terminal and answer are parameters.
\<close>

section \<open>The caller\<close>

record 'r pkg_env =
  pk_app :: "'r app"
  pk_os :: path_os
  pk_names :: "string \<Rightarrow> string list \<Rightarrow> string list"   \<comment> \<open>the positional names of a command line\<close>
  pk_regular :: "string \<Rightarrow> bool"
  pk_entries :: "string \<Rightarrow> string list"                \<comment> \<open>what the iterator of a directory meets\<close>
  pk_tty :: bool
  pk_line :: "string option"                          \<comment> \<open>the line read from the terminal\<close>

definition endsWithLgx :: "string \<Rightarrow> bool" where
  "endsWithLgx s \<longleftrightarrow> length s > 4 \<and> drop (length s - 4) s = ''.lgx''"

definition absolute_path :: "'r pkg_env \<Rightarrow> string \<Rightarrow> ('r, string) command_op" where
  "absolute_path E p = value_or_throw (case po_absolute (pk_os E) p of
      None \<Rightarrow> Inl (Runtime_Error ''cannot make absolute path'') | Some q \<Rightarrow> Inr q)"

text \<open>\<open>confirm\<close>: no terminal is no consent.\<close>

definition confirm_tty :: "'r pkg_env \<Rightarrow> string \<Rightarrow> ('r, bool) command_op" where
  "confirm_tty E prompt =
    (if \<not> pk_tty E then pure False
     else tbind (on_screen (cout (prompt @ '' [y/N] ''))) (\<lambda>_. pure (case pk_line E of
         None \<Rightarrow> False | Some line \<Rightarrow> line \<in> {''y'', ''Y'', ''yes'', ''Yes''})))"

definition actionVerb :: "string \<Rightarrow> string" where
  "actionVerb action = (if action \<in> {''install'', ''upgrade'', ''reinstall'', ''remove''} then action else ''keep'')"

text \<open>\<open>availableVersions\<close>: each version once, in the order of the catalog.\<close>

fun versions_from :: "string list \<Rightarrow> json list \<Rightarrow> exn + string list" where
  "versions_from acc [] = Inr acc"
| "versions_from acc (release # rest) =
    (if \<not> is_object release then versions_from acc rest
     else ebind (jvalue Inr release ''manifest'' (JObj [])) (\<lambda>manifest.
       if \<not> is_object manifest then versions_from acc rest
       else ebind (str_at manifest ''version'') (\<lambda>version.
         versions_from (if version \<noteq> [] \<and> version \<notin> set acc then acc @ [version] else acc) rest)))"

definition availableVersions :: "json \<Rightarrow> exn + string list" where
  "availableVersions versions = (case versions of JArr rs \<Rightarrow> versions_from [] rs | _ \<Rightarrow> Inr [])"

section \<open>install, upgrade, remove: the command line\<close>

definition invalid :: "'r app \<Rightarrow> string \<Rightarrow> ('r, 'b + int) command_op" where
  "invalid A message = tbind (on_screen (printError (ap_out A) ''INVALID_ARGS'' message [])) (\<lambda>_. pure (Inr 1))"

fun add_files :: "'r pkg_env \<Rightarrow> string list \<Rightarrow> json list \<Rightarrow> ('r, json list + int) command_op" where
  "add_files E [] acc = pure (Inl acc)"
| "add_files E (p # ps) acc =
    (if \<not> pk_regular E p then invalid (pk_app E) (''No such .lgx file: '' @ p)
     else tbind (absolute_path E p) (\<lambda>q. add_files E ps (acc @ [JStr q])))"

fun absolute_paths :: "'r pkg_env \<Rightarrow> string list \<Rightarrow> ('r, json list) command_op" where
  "absolute_paths E [] = pure []"
| "absolute_paths E (p # ps) = tbind (absolute_path E p) (\<lambda>q. tbind (absolute_paths E ps) (\<lambda>qs. pure (JStr q # qs)))"

definition add_directory :: "'r pkg_env \<Rightarrow> string \<Rightarrow> json list \<Rightarrow> ('r, json list + int) command_op" where
  "add_directory E dir files =
    (if dir = [] then pure (Inl files)
     else if \<not> po_is_directory (pk_os E) dir then invalid (pk_app E) (''Not a directory: '' @ dir)
     else tbind (absolute_paths E (filter (\<lambda>e. pk_regular E e \<and> endsWithLgx (filename e)) (pk_entries E dir))) (\<lambda>found.
       if found = [] then invalid (pk_app E) (''No .lgx files found in: '' @ dir)
       else pure (Inl (files @ found))))"

text \<open>The files among the positional names and in the options; \<open>remove\<close> reads no file.\<close>

definition local_files :: "'r pkg_env \<Rightarrow> string \<Rightarrow> string list \<Rightarrow> (string \<rightharpoonup> string) \<Rightarrow> ('r, json list + int) command_op" where
  "local_files E k names opts =
     tbind (add_files E ((if k = ''remove'' then [] else filter endsWithLgx names)
         @ (let f = text_option opts ''--file'' in if f = [] then [] else [f])) []) (\<lambda>files. case files of
         Inr code \<Rightarrow> pure (Inr code)
       | Inl fs \<Rightarrow> add_directory E (text_option opts ''--dir'') fs)"

definition catalog_names :: "string \<Rightarrow> string list \<Rightarrow> string list" where
  "catalog_names k names = (if k = ''remove'' then names else filter (\<lambda>n. \<not> endsWithLgx n) names)"

definition nothing_named :: "string \<Rightarrow> string" where
  "nothing_named k = (if k = ''remove'' then ''Nothing to remove. Name an installed package.''
     else ''Nothing to '' @ k @ ''. Name a package, or give a path to an .lgx file (or --file / --dir).'')"

definition operation_opts :: "(string \<rightharpoonup> string) \<Rightarrow> json list \<Rightarrow> json" where
  "operation_opts opts files = mk_obj
     [(''withDeps'', JBool (opts ''--no-deps'' = None)), (''withDependents'', JBool (opts ''--no-dependents'' = None)),
      (''version'', JStr (text_option opts ''--version'')), (''rootHash'', JStr (text_option opts ''--root-hash'')),
      (''catalog'', JStr (text_option opts ''--catalog'')), (''localFiles'', JArr files)]"

section \<open>The plan\<close>

definition change_versions :: "string \<Rightarrow> string \<Rightarrow> string" where
  "change_versions old new =
    (if new = [] then (if old = [] then [] else '' ('' @ old @ '')'')
     else if old = [] then '' '' @ new else '' '' @ old @ '' -> '' @ new)"

definition change_line :: "'r app \<Rightarrow> json \<Rightarrow> unit printed" where
  "change_line A c =
     tbind (cell c ''action'' []) (\<lambda>action.
       if action = ''installed'' then pure ()
       else tbind (cell c ''fromVersion'' []) (\<lambda>old. tbind (cell c ''toVersion'' []) (\<lambda>new.
         tbind (cell c ''name'' []) (\<lambda>name.
           printRaw (''  '' @ padRight (ap_out A) (actionVerb action) 10 @ '' '' @ name @ change_versions old new)))))"

definition affected_line :: "string \<Rightarrow> json \<Rightarrow> unit printed" where
  "affected_line k affected = (case affected of
      JArr (m # ms) \<Rightarrow> tbind (val_of (collect get_str (m # ms))) (\<lambda>names.
        printRaw ((if k = ''remove'' then ''These running modules will be stopped: ''
          else ''These running modules will be stopped and restarted: '') @ join names '', ''))
    | _ \<Rightarrow> pure ())"

definition plan_lines :: "'r app \<Rightarrow> string \<Rightarrow> json \<Rightarrow> unit printed" where
  "plan_lines A k proposal =
     tbind (printRaw (''The following changes will be made ('' @ k @ ''):'')) (\<lambda>_.
     tbind (each_print (change_line A) (elements (member proposal ''changes''))) (\<lambda>_.
       affected_line k (member proposal ''affected_loaded'')))"

text \<open>Reading a missing key of the plan puts a null there.\<close>

definition touched :: "json \<Rightarrow> string \<Rightarrow> json" where
  "touched j key = (if jcontains j key then j else JObj (jins key JNull (fields_of j)))"

definition any_change :: "json \<Rightarrow> exn + bool" where
  "any_change proposal = ebind (collect (\<lambda>c. str_at c ''action'') (elements (member proposal ''changes'')))
     (\<lambda>actions. Inr (\<exists>a \<in> set actions. a \<noteq> ''installed''))"

section \<open>The outcome\<close>

definition failure_line :: "string \<Rightarrow> string \<Rightarrow> string \<Rightarrow> string" where
  "failure_line k step reason =
    (if step = [] then k @ '' failed: '' @ reason
     else k @ '' failed at step '' @ quoted step @ '': '' @ reason)"

definition operation_failed :: "'r app \<Rightarrow> string \<Rightarrow> json \<Rightarrow> ('r, int) command_op" where
  "operation_failed A k result =
     tbind (value_or_throw (str_at result ''failed_step'')) (\<lambda>step.
     tbind (value_or_throw (str_at result ''error'')) (\<lambda>e.
     tbind (if e = [] then value_or_throw (str_at result ''message'') else pure e) (\<lambda>why.
     tbind (value_or_throw (jvalue get_str result ''code'' ''PACKAGE_OP_FAILED'')) (\<lambda>code.
       err_exit A code (failure_line k step (if why = [] then ''no reason reported'' else why)) (fields_of result) 1))))"

definition names_in :: "json \<Rightarrow> string \<Rightarrow> string list printed" where
  "names_in result key = val_of (ebind (jvalue Inr result key (JArr [])) (\<lambda>arr. case arr of
      JArr es \<Rightarrow> collect get_str es | _ \<Rightarrow> Inr []))"

definition named_line :: "string \<Rightarrow> string list \<Rightarrow> unit printed" where
  "named_line title names = (if names = [] then pure () else printRaw (title @ join names '', ''))"

definition outcome_lines :: "string list \<Rightarrow> json \<Rightarrow> unit printed" where
  "outcome_lines names result =
     tbind (names_in result ''installed'') (\<lambda>installed.
     tbind (names_in result ''removed'') (\<lambda>removed.
     tbind (names_in result ''reloaded'') (\<lambda>reloaded. prints
      [named_line ''Installed: '' installed, named_line ''Removed: '' removed, named_line ''Restarted: '' reloaded,
       if installed = [] then pure ()
       else printRaw (''Load with: logosctl module load '' @ hd (if names = [] then installed else names))])))"

definition operation_outcome :: "'r app \<Rightarrow> string \<Rightarrow> string list \<Rightarrow> json \<Rightarrow> ('r, int) command_op" where
  "operation_outcome A k names result =
     tbind (value_or_throw (str_at result ''status'')) (\<lambda>status.
       if status = ''error'' then operation_failed A k result
       else if json_mode A then print_exit (printSuccess (ap_out A) result) 0
       else print_exit (outcome_lines names result) 0)"

section \<open>The operation\<close>

definition apply_confirmed :: "'r pkg_env \<Rightarrow> string \<Rightarrow> string list \<Rightarrow> json \<Rightarrow> bool \<Rightarrow> ('r, int) command_op" where
  "apply_confirmed E k names opts yes =
     tbind (if yes then pure True else confirm_tty E ''Proceed?'') (\<lambda>ok.
       if \<not> ok then err_exit (pk_app E) ''CANCELLED'' (if pk_tty E then ''Cancelled.''
           else ''Refusing to proceed without confirmation. Pass -y to continue.'') [] 1
       else tbind (on_rpc (rpc_applyPackageOperation (ap_link (pk_app E)) k (JArr (map JStr names)) opts))
         (operation_outcome (pk_app E) k names))"

definition planned :: "'r pkg_env \<Rightarrow> string \<Rightarrow> string list \<Rightarrow> json \<Rightarrow> bool \<Rightarrow> bool \<Rightarrow> json \<Rightarrow> ('r, int) command_op" where
  "planned E k names opts yes dryRun proposal = (let A = pk_app E; seen = touched proposal ''changes'' in
     unless_refused A proposal ''PLAN_FAILED'' (
       tbind (value_or_throw (any_change proposal)) (\<lambda>some.
         if \<not> some then
           (if json_mode A then print_exit (printSuccess (ap_out A) seen) 0
            else print_exit (printRaw (''Nothing to do '' @ emdash @ '' already up to date.'')) 0)
         else if json_mode A \<and> dryRun then print_exit (printSuccess (ap_out A) seen) 0
         else tbind (if json_mode A then pure () else on_screen (plan_lines A k proposal)) (\<lambda>_.
           if dryRun then print_exit (printRaw (''(dry run '' @ emdash @ '' nothing was changed)'')) 0
           else apply_confirmed E k names opts yes))))"

definition mutate_named :: "'r pkg_env \<Rightarrow> string \<Rightarrow> string list \<Rightarrow> json list \<Rightarrow> (string \<rightharpoonup> string) \<Rightarrow> ('r, int) command_op" where
  "mutate_named E k names files opts = (let A = pk_app E; req = operation_opts opts files in
     if names = [] \<and> files = [] then err_exit A ''INVALID_ARGS'' (nothing_named k) [] 1
     else if names \<noteq> [] \<and> files \<noteq> [] then err_exit A ''INVALID_ARGS''
       (''Cannot mix catalog packages with local .lgx files in one '' @ k @ ''. Run them as separate commands.'') [] 1
     else connected_then A (
       tbind (on_rpc (rpc_planPackageOperation (ap_link A) k (JArr (map JStr names)) req))
         (planned E k names req (opts ''--yes'' \<noteq> None) (opts ''--dry-run'' \<noteq> None))))"

definition mutate :: "'r pkg_env \<Rightarrow> string \<Rightarrow> string list \<Rightarrow> ('r, int) command_op" where
  "mutate E k args = (let A = pk_app E; app = ''package '' @ k in
     with_options A app args (''Usage: logosctl package '' @ k @ '' <name|file.lgx ...> [--version V] [-y] [--dry-run]'') (\<lambda>opts.
       if k = ''remove'' \<and> (text_option opts ''--file'' \<noteq> [] \<or> text_option opts ''--dir'' \<noteq> []) then
         err_exit A ''INVALID_ARGS'' ''--file / --dir apply to install and upgrade. Give remove the package name.'' [] 1
       else tbind (local_files E k (pk_names E app args) opts) (\<lambda>files. case files of
           Inr code \<Rightarrow> pure code
         | Inl fs \<Rightarrow> mutate_named E k (catalog_names k (pk_names E app args)) fs opts)))"

section \<open>ls and deps\<close>

definition package_row :: "'r app \<Rightarrow> json \<Rightarrow> unit printed" where
  "package_row A p =
     tbind (cell p ''name'' []) (\<lambda>name. tbind (cell p ''version'' ''-'') (\<lambda>version.
     tbind (cell p ''type'' ''-'') (\<lambda>kind. tbind (cell p ''installType'' ''-'') (\<lambda>source.
       printRaw (padRight (ap_out A) name 28 @ '' '' @ padRight (ap_out A) version 12 @ '' ''
         @ padRight (ap_out A) kind 10 @ '' '' @ source)))))"

definition package_list :: "'r pkg_env \<Rightarrow> string list \<Rightarrow> ('r, int) command_op" where
  "package_list E args = (let A = pk_app E; P = ap_out A in
     with_options A ''package ls'' args ''Usage: logosctl package ls [--type core|ui]'' (\<lambda>opts.
       connected_then A (module_result A kPm
         (let kind = text_option opts ''--type'' in
            if kind = ''ui'' then ''getInstalledUiPlugins''
            else if kind = ''core'' then ''getInstalledModules'' else ''getInstalledPackages'') [] (\<lambda>pkgs.
           list_exit A pkgs ''No packages installed.''
             (tbind (printRaw (padRight P ''NAME'' 28 @ '' '' @ padRight P ''VERSION'' 12 @ '' ''
                 @ padRight P ''TYPE'' 10 @ '' '' @ ''SOURCE'')) (\<lambda>_.
               each_print (package_row A) (elements pkgs)))))))"

definition formatDependencyRow :: "'r app \<Rightarrow> json \<Rightarrow> exn + string" where
  "formatDependencyRow A n =
     ebind (str_at n ''installType'') (\<lambda>source.
     ebind (jvalue get_str n ''status'' source) (\<lambda>status.
     ebind (jvalue get_bool n ''optional'' False) (\<lambda>optional.
     ebind (str_at n ''version'') (\<lambda>version.
     ebind (str_at n ''name'') (\<lambda>name.
       Inr (padRight (ap_out A) name 28 @ '' '' @ padRight (ap_out A) (if version = [] then ''-'' else version) 12 @ '' ''
         @ status @ (if optional then '' (optional)'' else [])))))))"

definition package_deps :: "'r pkg_env \<Rightarrow> string list \<Rightarrow> ('r, int) command_op" where
  "package_deps E args = (let A = pk_app E in
     with_options A ''package deps'' args ''Usage: logosctl package deps <name> [-r] [--reverse]'' (\<lambda>opts.
       let reverse = (opts ''--reverse'' \<noteq> None) in
       connected_then A (module_result A kPm (if reverse then ''resolveFlatDependents'' else ''resolveFlatDependencies'')
         [JStr (text_option opts ''name''), JBool (opts ''--recursive'' \<noteq> None)] (\<lambda>nodes.
           list_exit A nodes (if reverse then ''Nothing depends on this package.'' else ''This package has no dependencies.'')
             (each_print (\<lambda>n. tbind (val_of (formatDependencyRow A n)) printRaw) (elements nodes))))))"

section \<open>show\<close>

definition inspect_keys :: "string list" where
  "inspect_keys = [''name'', ''version'', ''type'', ''category'', ''description'', ''signatureStatus'', ''signerDid'',
     ''signerName'', ''isAlreadyInstalled'', ''installedVersion'']"

definition inspect_line :: "'r app \<Rightarrow> json \<Rightarrow> string \<Rightarrow> unit printed" where
  "inspect_line A i k = (case member i k of
      JNull \<Rightarrow> pure ()
    | v \<Rightarrow> tbind (val_of (case v of JStr s \<Rightarrow> Inr s | _ \<Rightarrow> compact (ap_out A) v)) (\<lambda>s.
        printRaw (padRight (ap_out A) (k @ '':'') 20 @ '' '' @ s)))"

definition show_file :: "'r pkg_env \<Rightarrow> string \<Rightarrow> ('r, int) command_op" where
  "show_file E target = (let A = pk_app E in
     tbind (absolute_path E target) (\<lambda>path.
     module_result A kPm ''inspectPackage'' [JStr path] (\<lambda>i.
       if json_mode A then print_exit (dump_line A i) 0
       else print_exit (each_print (inspect_line A i) inspect_keys) 0)))"

text \<open>The first entry of that name, or \<open>{}\<close>.\<close>

fun find_named :: "string \<Rightarrow> json list \<Rightarrow> exn + json" where
  "find_named target [] = Inr (JObj [])"
| "find_named target (p # ps) = ebind (str_at p ''name'') (\<lambda>name. if name = target then Inr p else find_named target ps)"

definition empty_json :: "json \<Rightarrow> bool" where
  "empty_json j = (case j of JNull \<Rightarrow> True | JObj kvs \<Rightarrow> kvs = [] | JArr es \<Rightarrow> es = [] | _ \<Rightarrow> False)"

definition fact_line :: "'r app \<Rightarrow> string \<Rightarrow> string \<Rightarrow> unit printed" where
  "fact_line A title s = printRaw (padRight (ap_out A) title 14 @ '' '' @ s)"

definition info_keys :: "string list" where
  "info_keys = [''name'', ''version'', ''type'', ''category'', ''author'', ''license'', ''description'', ''installType'', ''installDir'']"

definition info_line :: "'r app \<Rightarrow> json \<Rightarrow> string \<Rightarrow> unit printed" where
  "info_line A info k = (case member info k of
      JStr (c # cs) \<Rightarrow> fact_line A (k @ '':'') (c # cs) | _ \<Rightarrow> pure ())"

fun strings_in :: "json list \<Rightarrow> string list" where
  "strings_in [] = []"
| "strings_in (JStr s # es) = s # strings_in es"
| "strings_in (_ # es) = strings_in es"

definition dependencies_line :: "'r app \<Rightarrow> json \<Rightarrow> unit printed" where
  "dependencies_line A info = tbind (val_of (jvalue Inr info ''dependencies'' (JArr []))) (\<lambda>deps. case deps of
      JArr es \<Rightarrow> if strings_in es = [] then pure () else fact_line A ''dependencies:'' (join (strings_in es) '', '')
    | _ \<Rightarrow> pure ())"

definition available_line :: "'r app \<Rightarrow> json \<Rightarrow> unit printed" where
  "available_line A entry =
     tbind (val_of (ebind (jvalue Inr entry ''versions'' (JArr [])) availableVersions)) (\<lambda>versions.
       if versions = [] then pure () else fact_line A ''available:'' (join versions '', ''))"

definition show_lines :: "'r app \<Rightarrow> json \<Rightarrow> json \<Rightarrow> unit printed" where
  "show_lines A installed entry = (let info = (if empty_json installed then entry else installed) in prints
     [each_print (info_line A info) info_keys, dependencies_line A info, available_line A entry,
      if empty_json installed then fact_line A ''installed:'' ''no'' else pure ()])"

definition catalog_entry :: "'r app \<Rightarrow> string \<Rightarrow> json \<Rightarrow> ('r, json) command_op" where
  "catalog_entry A target c =
     tbind (value_or_throw (str_at c ''status'')) (\<lambda>status. value_or_throw
       (case member c ''result'' of
          JArr ps \<Rightarrow> if status \<noteq> ''error'' then find_named target ps else Inr (JObj [])
        | _ \<Rightarrow> Inr (JObj [])))"

definition show_known :: "'r app \<Rightarrow> string \<Rightarrow> json \<Rightarrow> json \<Rightarrow> ('r, int) command_op" where
  "show_known A target installed entry =
    (if empty_json installed \<and> empty_json entry then err_exit A ''PACKAGE_NOT_FOUND''
       (''No package named '' @ quoted target @ '' is installed or in any catalog.'') [] 1
     else if json_mode A then print_exit (dump_line A entry) 0
     else print_exit (show_lines A installed entry) 0)"

definition show_package :: "'r app \<Rightarrow> string \<Rightarrow> ('r, int) command_op" where
  "show_package A target = module_result A kPm ''getInstalledPackages'' [] (\<lambda>ps.
     tbind (value_or_throw (find_named target (elements ps))) (\<lambda>installed.
       if json_mode A \<and> \<not> empty_json installed then print_exit (dump_line A installed) 0
       else tbind (call_module A kPd ''getCatalog'' []) (\<lambda>c.
         tbind (catalog_entry A target c) (show_known A target installed))))"

definition package_show :: "'r pkg_env \<Rightarrow> string list \<Rightarrow> ('r, int) command_op" where
  "package_show E args = (let A = pk_app E in case args of
      [] \<Rightarrow> err_exit A ''INVALID_ARGS'' ''Usage: logosctl package show <name|file.lgx>'' [] 1
    | target # _ \<Rightarrow> connected_then A (if endsWithLgx target then show_file E target else show_package A target))"

section \<open>search\<close>

definition search_text :: "json \<Rightarrow> exn + string" where
  "search_text p = ebind (str_at p ''name'') (\<lambda>name. ebind (str_at p ''description'') (\<lambda>desc.
     ebind (str_at p ''displayName'') (\<lambda>shown. Inr (to_lower (name @ '' '' @ desc @ '' '' @ shown)))))"

definition search_hit :: "string \<Rightarrow> string \<Rightarrow> json \<Rightarrow> exn + bool" where
  "search_hit cat q p =
     ebind (if cat = [] then Inr True else ebind (str_at p ''category'') (\<lambda>c. Inr (to_lower c = cat))) (\<lambda>ok.
       if \<not> ok then Inr False
       else if q = [] then Inr True
       else ebind (search_text p) (\<lambda>hay. Inr (has_sub hay q)))"

fun search_hits :: "string \<Rightarrow> string \<Rightarrow> json list \<Rightarrow> exn + json list" where
  "search_hits cat q [] = Inr []"
| "search_hits cat q (p # ps) = ebind (search_hit cat q p) (\<lambda>hit.
     ebind (search_hits cat q ps) (\<lambda>hs. Inr (if hit then p # hs else hs)))"

definition version_text :: "string list \<Rightarrow> string" where
  "version_text versions = (case versions of
      [] \<Rightarrow> ''-'' | [v] \<Rightarrow> v | v # more_of \<Rightarrow> v @ '' (+'' @ show_nat (length more_of) @ '')'')"

definition shortened :: "string \<Rightarrow> string" where
  "shortened desc = (if length desc > 44 then take 41 desc @ ''...'' else desc)"

definition search_row :: "'r app \<Rightarrow> json \<Rightarrow> unit printed" where
  "search_row A p =
     tbind (val_of (ebind (jvalue Inr p ''versions'' (JArr [])) availableVersions)) (\<lambda>versions.
     tbind (cell p ''description'' []) (\<lambda>desc.
     tbind (cell p ''name'' []) (\<lambda>name.
     tbind (cell p ''category'' ''-'') (\<lambda>category.
       printRaw (padRight (ap_out A) name 24 @ '' '' @ padRight (ap_out A) (version_text versions) 16 @ '' ''
         @ padRight (ap_out A) category 12 @ '' '' @ shortened desc)))))"

definition search_answer :: "'r app \<Rightarrow> string \<Rightarrow> string \<Rightarrow> json \<Rightarrow> ('r, int) command_op" where
  "search_answer A cat q found = (let P = ap_out A in
     tbind (value_or_throw (search_hits cat q (elements found))) (\<lambda>hits.
       list_exit A (JArr hits) ''No packages found.''
         (tbind (printRaw (padRight P ''NAME'' 24 @ '' '' @ padRight P ''VERSION'' 16 @ '' ''
             @ padRight P ''CATEGORY'' 12 @ '' '' @ ''DESCRIPTION'')) (\<lambda>_.
           each_print (search_row A) hits))))"

definition package_search :: "'r pkg_env \<Rightarrow> string list \<Rightarrow> ('r, int) command_op" where
  "package_search E args = (let A = pk_app E in
     with_options A ''package search'' args ''Usage: logosctl package search [query] [--category C] [--catalog C]'' (\<lambda>opts.
       let catalog = text_option opts ''--catalog'' in
       connected_then A (module_result A kPd (if catalog = [] then ''getCatalog'' else ''getCatalogForRepo'')
         (if catalog = [] then [] else [JStr catalog])
         (search_answer A (to_lower (text_option opts ''--category'')) (to_lower (text_option opts ''query''))))))"

section \<open>download\<close>

text \<open>Where the download goes: a relative directory means the caller's.\<close>

definition output_dir :: "'r pkg_env \<Rightarrow> string \<Rightarrow> string" where
  "output_dir E outDir =
    (if outDir = [] \<or> is_absolute outDir then outDir
     else (case po_absolute (pk_os E) outDir of None \<Rightarrow> outDir | Some full \<Rightarrow> lexically_normal full))"

definition download_answer :: "'r app \<Rightarrow> string \<Rightarrow> json \<Rightarrow> ('r, int) command_op" where
  "download_answer A pkg res =
     tbind (value_or_throw (str_at res ''path'')) (\<lambda>path.
       if path = [] then err_exit A ''DOWNLOAD_FAILED'' (''Could not download '' @ quoted pkg @ ''.'') [] 1
       else if json_mode A then print_exit (printSuccess (ap_out A) res) 0
       else print_exit (printRaw (''Downloaded '' @ pkg @ '' -> '' @ path)) 0)"

definition package_download :: "'r pkg_env \<Rightarrow> string list \<Rightarrow> ('r, int) command_op" where
  "package_download E args = (let A = pk_app E in
     with_options A ''package download'' args ''Usage: logosctl package download <name> [--version V] [-o DIR]'' (\<lambda>opts.
       let pkg = text_option opts ''name'' in
       connected_then A (
         tbind (on_rpc (rpc_downloadPackage (ap_link A) pkg (mk_obj
           [(''version'', JStr (text_option opts ''--version'')), (''root_hash'', JStr (text_option opts ''--root-hash'')),
            (''catalog'', JStr (text_option opts ''--catalog'')),
            (''output'', JStr (output_dir E (text_option opts ''--output'')))]))) (\<lambda>r.
         unless_refused A r ''RPC_FAILED'' (download_answer A pkg (member r ''result''))))))"

section \<open>package\<close>

definition package_usage :: string where
  "package_usage = ''Usage: logosctl package <install|upgrade|remove|ls|show|deps|search|download> ...''"

definition package_command :: "'r pkg_env \<Rightarrow> string list \<Rightarrow> ('r, int) command_op" where
  "package_command E args = (case args of
      [] \<Rightarrow> err_exit (pk_app E) ''INVALID_ARGS'' package_usage [] 1
    | sub # rest \<Rightarrow>
        if sub = ''install'' then mutate E ''install'' rest
        else if sub = ''upgrade'' then mutate E ''upgrade'' rest
        else if sub = ''remove'' \<or> sub = ''uninstall'' then mutate E ''remove'' rest
        else if sub = ''ls'' \<or> sub = ''list'' then package_list E rest
        else if sub = ''show'' \<or> sub = ''info'' then package_show E rest
        else if sub = ''deps'' then package_deps E rest
        else if sub = ''search'' then package_search E rest
        else if sub = ''download'' then package_download E rest
        else err_exit (pk_app E) ''INVALID_ARGS'' (''Unknown package subcommand: '' @ sub) [] 1)"

end
