(* ===== verification/Package_Command_Props.thy ===== *)
theory Package_Command_Props
  imports Package_Command Client_Commands_Props
begin

text \<open>
  What a package command sends to the daemon: a change is sent once, after the plan of the very same request,
  and only with consent; a dry run sends the plan alone.
\<close>

section \<open>The requests of a run\<close>

fun asked_of :: "sdk_call list \<Rightarrow> (string \<times> json) list" where
  "asked_of [] = []"
| "asked_of (Invoked m a d # cs) = (m, a) # asked_of cs"
| "asked_of (_ # cs) = asked_of cs"

abbreviation asked :: "'r cli \<Rightarrow> (string \<times> json) list" where
  "asked s \<equiv> asked_of (rc_log (cl_rpc s))"

definition mute :: "('r, 'a) client_op \<Rightarrow> bool" where
  "mute m \<longleftrightarrow> (\<forall>s a s'. run_state m s = (a, s') \<longrightarrow> asked_of (rc_log s') = asked_of (rc_log s))"

text \<open>The requests a command adds, and its result.\<close>

definition sends :: "('r, 'a) command_op \<Rightarrow> (exn + 'a \<Rightarrow> (string \<times> json) list \<Rightarrow> bool) \<Rightarrow> bool" where
  "sends m R \<longleftrightarrow> (\<forall>s a s'. run_state m s = (a, s') \<longrightarrow> (\<exists>d. asked s' = d @ asked s \<and> R a d))"

abbreviation quiet :: "('r, 'a) command_op \<Rightarrow> bool" where
  "quiet m \<equiv> sends m (\<lambda>a d. d = [])"

named_theorems mutes \<open>commands that ask the daemon nothing\<close>

section \<open>Client operations that only prepare\<close>

lemma muteI: "(\<And>s a s'. run_state m s = (a, s') \<Longrightarrow> asked_of (rc_log s') = asked_of (rc_log s)) \<Longrightarrow> mute m"
  by (auto simp: mute_def)

lemma mute_bind [mutes]:
  assumes "mute m" "\<And>a. mute (f a)"
  shows "mute (State_Monad.bind m f)"
proof (rule muteI)
  fix s b s' assume r: "run_state (State_Monad.bind m f) s = (b, s')"
  obtain a s1 where 1: "run_state m s = (a, s1)" by fastforce
  with r have "run_state (f a) s1 = (b, s')" by simp
  with 1 assms show "asked_of (rc_log s') = asked_of (rc_log s)" unfolding mute_def by metis
qed

lemma mute_return [mutes]: "mute (State_Monad.return a)"
  by (simp add: mute_def)

lemma mute_get [mutes]: "mute State_Monad.get"
  by (simp add: mute_def)

lemma mute_update [mutes]: "(\<And>s. rc_log (f s) = rc_log s) \<Longrightarrow> mute (State_Monad.update f)"
  by (auto simp: mute_def)

lemma mute_sdk [mutes]: "asked_of [c] = [] \<Longrightarrow> mute (sdk c)"
  by (cases c) (auto simp: mute_def sdk_def)

lemma mute_disk [mutes]: "mute (on_disk m)"
  by (auto simp: mute_def on_disk_def split: prod.splits)

lemma mute_if [mutes]: "mute a \<Longrightarrow> mute b \<Longrightarrow> mute (if c then a else b)"
  by simp

lemma mute_option [mutes]: "mute a \<Longrightarrow> (\<And>y. mute (f y)) \<Longrightarrow> mute (case x of None \<Rightarrow> a | Some y \<Rightarrow> f y)"
  by (cases x) simp_all

lemma mute_fails [mutes]: "mute (fails_with msg)"
  unfolding fails_with_def by (intro mutes) simp

lemma mute_connect [mutes]: "mute (connect_app A)"
  unfolding connect_app_def connect_def dial_def Let_def by (intro mutes; simp)

lemma mute_flags [mutes]: "mute is_connected" "mute last_error"
  by (auto simp: mute_def is_connected_def last_error_def)

lemma mute_stale [mutes]: "mute (detectStaleSession A)"
  by (rule muteI) (auto simp: detectStaleSession_def on_disk_def split: prod.splits if_splits)

section \<open>Commands\<close>

lemma sendsI: "(\<And>s a s'. run_state m s = (a, s') \<Longrightarrow> \<exists>d. asked s' = d @ asked s \<and> R a d) \<Longrightarrow> sends m R"
  by (auto simp: sends_def)

lemma sends_weaken: "sends m R \<Longrightarrow> (\<And>a d. R a d \<Longrightarrow> S a d) \<Longrightarrow> sends m S"
  unfolding sends_def by blast

lemma sends_tbind:
  assumes "sends m R" "\<And>x d. R (Inl x) d \<Longrightarrow> T (Inl x) d"
    and "\<And>a. sends (f a) (\<lambda>b d2. \<forall>d1. R (Inr a) d1 \<longrightarrow> T b (d2 @ d1))"
  shows "sends (tbind m f) T"
proof (rule sendsI)
  fix s b s' assume r: "run_state (tbind m f) s = (b, s')"
  obtain a s1 where 1: "run_state m s = (a, s1)" by fastforce
  with assms(1) obtain d1 where d1: "asked s1 = d1 @ asked s" "R a d1" unfolding sends_def by blast
  show "\<exists>d. asked s' = d @ asked s \<and> T b d"
  proof (cases a)
    case (Inl x)
    with r 1 d1 assms(2) show ?thesis by auto
  next
    case (Inr y)
    with r 1 have "run_state (f y) s1 = (b, s')" by simp
    with assms(3) obtain d2 where "asked s' = d2 @ asked s1" "R (Inr y) d1 \<longrightarrow> T b (d2 @ d1)" unfolding sends_def by meson
    with d1 Inr show ?thesis by auto
  qed
qed

lemma quiet_sends: "quiet m \<Longrightarrow> (\<And>a. R a []) \<Longrightarrow> sends m R"
  by (erule sends_weaken) simp

lemma sends_if: "(c \<Longrightarrow> sends a R) \<Longrightarrow> (\<not> c \<Longrightarrow> sends b R) \<Longrightarrow> sends (if c then a else b) R"
  by simp

lemma sends_sum: "(\<And>y. sends (f y) R) \<Longrightarrow> (\<And>y. sends (g y) R) \<Longrightarrow> sends (case x of Inl y \<Rightarrow> f y | Inr y \<Rightarrow> g y) R"
  by (cases x) simp_all

text \<open>After a step that asks nothing, and before one.\<close>

lemma sends_after: "quiet m \<Longrightarrow> (\<And>x. T (Inl x) []) \<Longrightarrow> (\<And>a. sends (f a) T) \<Longrightarrow> sends (tbind m f) T"
  by (rule sends_tbind [where R = "\<lambda>a d. d = []"]) (auto elim: sends_weaken)

lemma quiet_tbind [mutes]: "quiet m \<Longrightarrow> (\<And>a. quiet (f a)) \<Longrightarrow> quiet (tbind m f)"
  by (rule sends_after) simp_all

lemma quiet_basic [mutes]: "quiet (pure a)" "quiet (raise x)" "quiet (on_screen p)" "quiet (value_or_throw v)"
  by (auto simp: sends_def on_screen_def value_or_throw_def split: prod.splits sum.splits)

lemma quiet_rpc [mutes]: "mute m \<Longrightarrow> quiet (on_rpc m)"
  by (auto simp: sends_def mute_def on_rpc_def split: prod.splits)

lemma quiet_if [mutes]: "quiet a \<Longrightarrow> quiet b \<Longrightarrow> quiet (if c then a else b)"
  by simp

lemma quiet_option [mutes]: "quiet a \<Longrightarrow> (\<And>y. quiet (f y)) \<Longrightarrow> quiet (case x of None \<Rightarrow> a | Some y \<Rightarrow> f y)"
  by (cases x) simp_all

lemma quiet_pair [mutes]: "(\<And>y z. quiet (g y z)) \<Longrightarrow> quiet (case p of (y, z) \<Rightarrow> g y z)"
  by (cases p) simp

lemma quiet_sum [mutes]: "(\<And>y. quiet (f y)) \<Longrightarrow> (\<And>y. quiet (g y)) \<Longrightarrow> quiet (case x of Inl y \<Rightarrow> f y | Inr y \<Rightarrow> g y)"
  by (cases x) simp_all

lemma quiet_exits [mutes]: "quiet (print_exit p code)" "quiet (err_exit A c msg extra code)" "quiet (invalid A message)"
  unfolding print_exit_def err_exit_def invalid_def by (intro mutes)+

lemma quiet_connected [mutes]: "quiet (ensureConnected A)"
  unfolding ensureConnected_def by (intro mutes)

lemma quiet_refused: "quiet m \<Longrightarrow> quiet (unless_refused A r code m)"
  unfolding unless_refused_def by (intro mutes)

lemma sends_request: "sends (on_rpc (request L method args t msg)) (\<lambda>a d. d = [(method, JArr args)])"
  by (auto simp: sends_def on_rpc_def request_def invoke_rpc_def Let_def split: prod.splits)

section \<open>The package operations\<close>

lemma quiet_absolute [mutes]: "quiet (absolute_path E p)"
  by (simp add: absolute_path_def mutes)

lemma quiet_files [mutes]: "quiet (add_files E ps acc)"
  by (induction ps arbitrary: acc) (auto intro!: mutes)

lemma quiet_paths [mutes]: "quiet (absolute_paths E ps)"
  by (induction ps) (auto intro!: mutes)

lemma quiet_local [mutes]: "quiet (local_files E k names opts)"
  unfolding local_files_def add_directory_def by (intro mutes)

lemma quiet_outcome [mutes]: "quiet (operation_outcome A k names result)"
  unfolding operation_outcome_def operation_failed_def by (intro mutes)

text \<open>What a terminal answers.\<close>

definition agreed :: "'r pkg_env \<Rightarrow> bool" where
  "agreed E \<longleftrightarrow> pk_tty E \<and> pk_line E \<in> Some ` {''y'', ''Y'', ''yes'', ''Yes''}"

lemma sends_confirm: "sends (confirm_tty E prompt) (\<lambda>a d. d = [] \<and> (a = Inr True \<longrightarrow> agreed E))"
  by (auto simp: sends_def confirm_tty_def on_screen_def cout_def agreed_def split: prod.splits option.splits)

definition request_of :: "string \<Rightarrow> string list \<Rightarrow> json \<Rightarrow> json" where
  "request_of k names req = JArr [JStr k, JArr (map JStr names), req]"

lemma sends_apply:
  "sends (apply_confirmed E k names req yes) (\<lambda>a d. d = []
     \<or> d = [(''applyPackageOperation'', request_of k names req)] \<and> (yes \<or> agreed E))"
  unfolding apply_confirmed_def
proof (rule sends_tbind [where R = "\<lambda>a d. d = [] \<and> (a = Inr True \<longrightarrow> yes \<or> agreed E)"])
  show "sends (if yes then pure True else confirm_tty E ''Proceed?'') (\<lambda>a d. d = [] \<and> (a = Inr True \<longrightarrow> yes \<or> agreed E))"
    by (cases yes) (auto simp: sends_def dest: sends_confirm [unfolded sends_def, rule_format])
next
  fix ok
  have "sends (tbind (on_rpc (rpc_applyPackageOperation (ap_link (pk_app E)) k (JArr (map JStr names)) req))
      (operation_outcome (pk_app E) k names)) (\<lambda>b d. d = [(''applyPackageOperation'', request_of k names req)])"
    unfolding rpc_applyPackageOperation_def
    by (rule sends_tbind [OF sends_request]) (auto simp: request_of_def intro: sends_weaken [OF quiet_outcome])
  then show "sends (if \<not> ok then err_exit (pk_app E) ''CANCELLED'' (if pk_tty E then ''Cancelled.''
        else ''Refusing to proceed without confirmation. Pass -y to continue.'') [] 1
      else tbind (on_rpc (rpc_applyPackageOperation (ap_link (pk_app E)) k (JArr (map JStr names)) req))
        (operation_outcome (pk_app E) k names))
    (\<lambda>b d2. \<forall>d1. d1 = [] \<and> (Inr ok = (Inr True :: exn + bool) \<longrightarrow> yes \<or> agreed E) \<longrightarrow>
      d2 @ d1 = [] \<or> d2 @ d1 = [(''applyPackageOperation'', request_of k names req)] \<and> (yes \<or> agreed E))"
    by (cases ok) (auto elim!: sends_weaken intro: sends_weaken [OF quiet_exits(2)])
qed simp

lemma sends_refused:
  assumes "\<And>a. R a []" "sends m R"
  shows "sends (unless_refused A r code m) R"
  unfolding unless_refused_def
proof (rule sends_after)
  fix status
  have "quiet (tbind (value_or_throw (jvalue get_str r ''code'' code)) (\<lambda>c.
         tbind (value_or_throw (str_at r ''message'')) (\<lambda>msg. err_exit A c msg (fields_of r) 1)))" (is "quiet ?e")
    by (intro mutes)
  then show "sends (if status = ''error'' then ?e else m) R"
    using assms by (cases "status = ''error''") (simp_all add: quiet_sends)
qed (simp_all add: mutes assms(1))

lemma sends_connected: "(\<And>a. R a []) \<Longrightarrow> sends m R \<Longrightarrow> sends (connected_then A m) R"
  unfolding connected_then_def by (intro sends_after [OF quiet_connected] sends_if) (simp_all add: quiet_sends mutes)

text \<open>The requests of a plan that has been made.\<close>

lemma sends_planned:
  "sends (planned E k names req yes dry proposal) (\<lambda>a d. d = []
     \<or> d = [(''applyPackageOperation'', request_of k names req)] \<and> \<not> dry \<and> (yes \<or> agreed E))" (is "sends _ ?R")
proof -
  have q: "sends m ?R" if "quiet m" for m using that by (rule quiet_sends) simp
  have a: "sends (apply_confirmed E k names req yes) ?R" if "\<not> dry" using sends_apply by (rule sends_weaken) (use that in auto)
  have s: "sends (tbind m f) ?R" if "quiet m" "\<And>a. sends (f a) ?R" for m :: "('a, 'b) command_op" and f
    by (rule sends_after [OF that(1) _ that(2)]) simp
  show ?thesis
    unfolding planned_def Let_def
    by (intro sends_refused s sends_if) ((rule a, assumption) | (rule q, rule mutes) | rule mutes | simp)+
qed

section \<open>Properties\<close>

text \<open>
  C25: no package changes unasked: a package operation sends nothing, or the plan alone, or the plan and then once
  the very same request to apply it; and it is sent only without a dry run and with \<open>-y\<close> or the word of a terminal.
\<close>

theorem applied_as_planned:
  assumes "run_state (mutate E k args) s = (r, s')"
  shows "asked s' = asked s \<or> (\<exists>opts names files. ap_parse (pk_app E) (''package '' @ k) args = Some opts
    \<and> (let req = request_of k names (operation_opts opts files); planning = (''planPackageOperation'', req) in
        (names = []) \<noteq> (files = [])
        \<and> (asked s' = planning # asked s
          \<or> asked s' = (''applyPackageOperation'', req) # planning # asked s
            \<and> opts ''--dry-run'' = None \<and> (opts ''--yes'' \<noteq> None \<or> agreed E))))"
proof -
  let ?r = "\<lambda>opts names files. request_of k names (operation_opts opts files)"
  let ?P = "\<lambda>opts d. d = [] \<or> (\<exists>names files. (names = []) \<noteq> (files = [])
      \<and> (d = [(''planPackageOperation'', ?r opts names files)]
        \<or> d = [(''applyPackageOperation'', ?r opts names files), (''planPackageOperation'', ?r opts names files)]
          \<and> opts ''--dry-run'' = None \<and> (opts ''--yes'' \<noteq> None \<or> agreed E)))"
  have q: "sends m (\<lambda>a. ?P opts)" if "quiet m" for m opts using that by (rule quiet_sends) simp
  have named: "sends (mutate_named E k names files opts) (\<lambda>a. ?P opts)" for names files opts
  proof (cases "(names = []) = (files = [])")
    case True
    then have "quiet (mutate_named E k names files opts)"
      by (cases "names = []") (simp_all add: mutate_named_def Let_def mutes)
    then show ?thesis by (rule q)
  next
    case False
    let ?req = "operation_opts opts files"
    have "sends (tbind (on_rpc (rpc_planPackageOperation (ap_link (pk_app E)) k (JArr (map JStr names)) ?req))
        (planned E k names ?req (opts ''--yes'' \<noteq> None) (opts ''--dry-run'' \<noteq> None))) (\<lambda>a. ?P opts)"
      unfolding rpc_planPackageOperation_def
    proof (rule sends_tbind [OF sends_request])
      fix a
      show "sends (planned E k names ?req (opts ''--yes'' \<noteq> None) (opts ''--dry-run'' \<noteq> None) a)
        (\<lambda>b d2. \<forall>d1. d1 = [(''planPackageOperation'', JArr [JStr k, JArr (map JStr names), ?req])] \<longrightarrow> ?P opts (d2 @ d1))"
        by (rule sends_weaken [OF sends_planned]) (use False in \<open>auto simp: Let_def request_of_def\<close>)
    qed (use False in \<open>auto simp: Let_def request_of_def\<close>)
    from sends_connected [OF _ this] have "sends (connected_then (pk_app E) (tbind (on_rpc (rpc_planPackageOperation
        (ap_link (pk_app E)) k (JArr (map JStr names)) ?req)) (planned E k names ?req (opts ''--yes'' \<noteq> None) (opts ''--dry-run'' \<noteq> None))))
      (\<lambda>a. ?P opts)" by simp
    moreover have "mutate_named E k names files opts = connected_then (pk_app E) (tbind (on_rpc (rpc_planPackageOperation
        (ap_link (pk_app E)) k (JArr (map JStr names)) ?req)) (planned E k names ?req (opts ''--yes'' \<noteq> None) (opts ''--dry-run'' \<noteq> None)))"
      using False by (auto simp: mutate_named_def Let_def)
    ultimately show ?thesis by (simp only:)
  qed
  show ?thesis
  proof (cases "ap_parse (pk_app E) (''package '' @ k) args")
    case None
    have "quiet (mutate E k args)" using None by (simp add: mutate_def with_options_def Let_def mutes)
    with assms show ?thesis unfolding sends_def by fastforce
  next
    case (Some opts)
    have "sends (mutate E k args) (\<lambda>a. ?P opts)"
      unfolding mutate_def Let_def with_options_def Some option.case
      by (intro sends_if sends_after [OF quiet_local] sends_sum named) (rule q, rule mutes | simp)+
    with assms obtain d where d: "asked s' = d @ asked s" "?P opts d" unfolding sends_def by blast
    show ?thesis
    proof (cases "d = []")
      case True
      with d show ?thesis by simp
    next
      case False
      with d(2) obtain names files where "(names = []) \<noteq> (files = [])" "d = [(''planPackageOperation'', ?r opts names files)]
        \<or> d = [(''applyPackageOperation'', ?r opts names files), (''planPackageOperation'', ?r opts names files)]
          \<and> opts ''--dry-run'' = None \<and> (opts ''--yes'' \<noteq> None \<or> agreed E)" by blast
      with d(1) Some show ?thesis
        unfolding Let_def by (intro disjI2 exI [of _ opts] exI [of _ names] exI [of _ files]) auto
    qed
  qed
qed

text \<open>No \<open>-y\<close> and no terminal: nothing is applied.\<close>

definition sample_caller :: "int pkg_env" where
  "sample_caller = \<lparr>pk_app = sample_app,
     pk_os = \<lparr>po_self = None, po_canonical = Some, po_is_directory = (\<lambda>_. False), po_absolute = Some,
       po_runnable = (\<lambda>_. False), po_path = None\<rparr>,
     pk_names = (\<lambda>_ args. args), pk_regular = (\<lambda>_. True), pk_entries = (\<lambda>_. []), pk_tty = False, pk_line = None\<rparr>"

lemma applied_as_planned_witness:
  "''applyPackageOperation'' \<notin> fst ` set (asked (snd (run_state (mutate sample_caller ''install'' [''wallet''])
     \<lparr>cl_rpc = sample_rpc sample_world, cl_screen = \<lparr>sc_out = [], sc_err = []\<rparr>\<rparr>)))"
proof -
  let ?s = "\<lparr>cl_rpc = sample_rpc sample_world, cl_screen = \<lparr>sc_out = [], sc_err = []\<rparr>\<rparr>"
  obtain r s' where 1: "run_state (mutate sample_caller ''install'' [''wallet'']) ?s = (r, s')" by fastforce
  have "asked ?s = []" by (simp add: sample_rpc_def)
  with applied_as_planned [OF 1] show ?thesis
    unfolding 1 snd_conv by (auto simp: Let_def agreed_def sample_caller_def sample_app_def)
qed

end
