(* ===== verification/Listener_Plan.thy ===== *)
theory Listener_Plan
  imports Daemon_Boot Arg_Coerce
begin

text \<open>
  The listeners a daemon is started with, as the daemon branches of \<open>src/src/main.cpp\<close> (\<open>logosctl\<close>) and
  \<open>src/src/main_legacy.cpp\<close> (\<open>logoscore\<close>) prepare them: the \<open>--module-transport\<close> grammar, the local listener
  every module gets, and the guards against plaintext and against TLS without a certificate.
\<close>

section \<open>The listeners of a module\<close>

definition isLoopback :: "string \<Rightarrow> bool" where
  "isLoopback h \<longleftrightarrow> h = ''127.0.0.1'' \<or> h = ''::1'' \<or> h = ''localhost''"

definition validateCodec :: "string \<Rightarrow> bool" where
  "validateCodec c \<longleftrightarrow> c = ''json'' \<or> c = ''cbor''"

text \<open>A default-constructed listener.\<close>

definition new_transport :: "string \<Rightarrow> transport_info" where
  "new_transport protocol = \<lparr>ti_protocol = protocol, ti_host = [], ti_port = 0, ti_caFile = [], ti_verifyPeer = True,
     ti_codec = ''json'', ti_certFile = [], ti_keyFile = []\<rparr>"

definition with_well_known :: "module_transports \<Rightarrow> module_transports" where
  "with_well_known ms = emplace ''capability_module'' [] (emplace ''core_service'' [] ms)"

definition is_local :: "transport_info \<Rightarrow> bool" where
  "is_local t \<longleftrightarrow> ti_protocol t = ''local''"

text \<open>The first local listener is moved to the front; a module without one gets one.\<close>

definition local_first :: "transport_info list \<Rightarrow> transport_info list" where
  "local_first ts = (case find is_local ts of
      None \<Rightarrow> new_transport ''local'' # ts
    | Some t \<Rightarrow> t # takeWhile (\<lambda>u. \<not> is_local u) ts @ drop 1 (dropWhile (\<lambda>u. \<not> is_local u) ts))"

definition with_listeners :: "daemon_config \<Rightarrow> daemon_config" where
  "with_listeners cfg = cfg\<lparr>dc_modules := map (\<lambda>m. (fst m, local_first (snd m))) (with_well_known (dc_modules cfg))\<rparr>"

section \<open>The guards\<close>

definition exposed :: "transport_info \<Rightarrow> bool" where
  "exposed t \<longleftrightarrow> ti_protocol t = ''tcp'' \<and> \<not> isLoopback (ti_host t)"

text \<open>The first plaintext listener on a public address, with its module.\<close>

definition plaintext_offender :: "daemon_config \<Rightarrow> (string \<times> transport_info) option" where
  "plaintext_offender cfg =
    (if dc_insecureTcp cfg then None
     else find (\<lambda>p. exposed (snd p)) (concat (map (\<lambda>m. map (Pair (fst m)) (snd m)) (dc_modules cfg))))"

definition plaintext_line :: "string \<Rightarrow> string \<times> transport_info \<Rightarrow> string" where
  "plaintext_line hint p = ''Error: module '' @ [CHR 39] @ fst p @ [CHR 39] @ '' binds plaintext tcp on non-loopback host ''
     @ [CHR 39] @ ti_host (snd p) @ [CHR 39] @ hint"

definition modern_hint :: string where
  "modern_hint = ''. Use protocol: tcp_ssl, or set insecure_tcp: true in the daemon config if you really mean it.''"

definition legacy_hint :: string where
  "legacy_hint = ''. Use protocol=tcp_ssl, or pass --insecure-tcp if you really mean it.''"

definition material_line :: "string \<Rightarrow> string" where
  "material_line who = ''Error: '' @ who @ '' has no certificate/key. Set cert: and key: on the listener, or a ''
     @ ''top-level ssl: { cert, key } block to cover every tcp_ssl listener at once.''"

text \<open>The configuration \<open>logosctl\<close> starts with, or its complaints.\<close>

definition modern_listeners :: "daemon_config \<Rightarrow> string list + daemon_config" where
  "modern_listeners disk = (let cfg = with_listeners (applySslDefaults disk) in
     case plaintext_offender cfg of
       Some p \<Rightarrow> Inl [plaintext_line modern_hint p]
     | None \<Rightarrow> (case findTlsListenersMissingMaterial cfg of
           [] \<Rightarrow> Inr cfg
         | missing \<Rightarrow> Inl (map material_line missing)))"

definition legacy_listeners :: "daemon_config \<Rightarrow> string + daemon_config" where
  "legacy_listeners merged = (let cfg = with_listeners merged in
     case plaintext_offender cfg of Some p \<Rightarrow> Inl (plaintext_line legacy_hint p) | None \<Rightarrow> Inr cfg)"

section \<open>--module-transport\<close>

definition flag_error :: "string \<Rightarrow> string" where
  "flag_error s = ''Error: --module-transport '' @ s"

definition in_quotes :: "string \<Rightarrow> string" where
  "in_quotes s = [CHR 39] @ s @ [CHR 39]"

text \<open>Splitting at commas: a comma at the end starts no part.\<close>

fun comma_parts :: "string \<Rightarrow> string \<Rightarrow> string list" where
  "comma_parts cur [] = (if cur = [] then [] else [cur])"
| "comma_parts cur (c # cs) = (if c = CHR '','' then cur # comma_parts [] cs else comma_parts (cur @ [c]) cs)"

definition split_once :: "char \<Rightarrow> string \<Rightarrow> (string \<times> string) option" where
  "split_once sep s = (if sep \<in> set s
     then Some (takeWhile (\<lambda>c. c \<noteq> sep) s, drop 1 (dropWhile (\<lambda>c. c \<noteq> sep) s)) else None)"

text \<open>\<open>std::stoi\<close>, which skips leading white space, and the test that the whole value was read.\<close>

definition stoi_whole :: "string \<Rightarrow> int option" where
  "stoi_whole v = (case stoll (dropWhile (\<lambda>c. c \<in> set ws) v) of
      None \<Rightarrow> None
    | Some (n, pos) \<Rightarrow> if pos = length (dropWhile (\<lambda>c. c \<in> set ws) v) \<and> - (2 ^ 31) \<le> n \<and> n < 2 ^ 31 then Some n else None)"

definition port_setting :: "string \<Rightarrow> transport_info \<Rightarrow> string + transport_info" where
  "port_setting v t = (case stoi_whole v of
      None \<Rightarrow> Inl (flag_error (''port '' @ in_quotes v @ '' is not a valid integer''))
    | Some n \<Rightarrow> if n < 0 \<or> n > 0xFFFF then Inl (flag_error (''port '' @ in_quotes v @ '' must be in [0, 65535]''))
        else Inr (t\<lparr>ti_port := word_of_int n\<rparr>))"

definition verify_setting :: "string \<Rightarrow> transport_info \<Rightarrow> string + transport_info" where
  "verify_setting v t =
    (if v = ''true'' \<or> v = ''1'' then Inr (t\<lparr>ti_verifyPeer := True\<rparr>)
     else if v = ''false'' \<or> v = ''0'' then Inr (t\<lparr>ti_verifyPeer := False\<rparr>)
     else Inl (flag_error (''verify_peer '' @ in_quotes v @ '' must be one of true|false|1|0'')))"

definition setting :: "string \<Rightarrow> string \<Rightarrow> string \<Rightarrow> transport_info \<Rightarrow> string + transport_info" where
  "setting spec k v t =
    (if k = ''host'' then Inr (t\<lparr>ti_host := v\<rparr>)
     else if k = ''codec'' then Inr (t\<lparr>ti_codec := v\<rparr>)
     else if k = ''ca'' then Inr (t\<lparr>ti_caFile := v\<rparr>)
     else if k = ''cert'' then Inr (t\<lparr>ti_certFile := v\<rparr>)
     else if k = ''key'' then Inr (t\<lparr>ti_keyFile := v\<rparr>)
     else if k = ''verify_peer'' then verify_setting v t
     else if k = ''port'' then port_setting v t
     else Inl (flag_error (''unknown key '' @ in_quotes k @ '' in '' @ in_quotes spec)))"

fun settings :: "string \<Rightarrow> string list \<Rightarrow> transport_info \<Rightarrow> string + transport_info" where
  "settings spec [] t = Inr t"
| "settings spec (kv # kvs) t = (case split_once CHR ''='' kv of
      None \<Rightarrow> Inl (flag_error (in_quotes spec @ '' has malformed kv pair '' @ in_quotes kv @ '' (expected k=v)''))
    | Some (k, v) \<Rightarrow> ebind (setting spec k v t) (settings spec kvs))"

definition initial_transport :: "string \<Rightarrow> transport_info" where
  "initial_transport protocol =
    (if protocol = ''tcp'' \<or> protocol = ''tcp_ssl''
     then (new_transport protocol)\<lparr>ti_host := ''127.0.0.1'', ti_codec := ''json'', ti_verifyPeer := True\<rparr>
     else new_transport protocol)"

definition codec_error :: "transport_info \<Rightarrow> string" where
  "codec_error t = flag_error (ti_protocol t @ '' codec '' @ in_quotes (ti_codec t) @ '' must be '' @ in_quotes ''json''
     @ '' or '' @ in_quotes ''cbor'')"

definition accept_transport :: "string \<Rightarrow> transport_info \<Rightarrow> string + transport_info" where
  "accept_transport moduleName t =
    (if ti_protocol t = ''local'' then Inr t
     else if ti_protocol t = ''tcp'' then (if validateCodec (ti_codec t) then Inr t else Inl (codec_error t))
     else if ti_protocol t = ''tcp_ssl'' then
       (if \<not> validateCodec (ti_codec t) then Inl (codec_error t)
        else if ti_certFile t = [] \<or> ti_keyFile t = []
        then Inl (flag_error (''tcp_ssl for '' @ in_quotes moduleName @ '' requires cert= and key=''))
        else Inr t)
     else Inl (flag_error (''unknown protocol '' @ in_quotes (ti_protocol t) @ '' (expected local | tcp | tcp_ssl)'')))"

definition transport_flag :: "string \<Rightarrow> string + (string \<times> transport_info)" where
  "transport_flag spec = (case split_once CHR ''='' spec of
      None \<Rightarrow> Inl (flag_error (''expects '' @ in_quotes ''NAME=PROTOCOL[,k=v...]'' @ '', got: '' @ in_quotes spec))
    | Some (moduleName, body) \<Rightarrow>
        if moduleName = [] \<or> body = []
        then Inl (flag_error (''expects '' @ in_quotes ''NAME=PROTOCOL[,k=v...]'' @ '', got: '' @ in_quotes spec))
        else (case comma_parts [] body of
            [] \<Rightarrow> Inl (flag_error (in_quotes spec @ '' missing protocol''))
          | protocol # kvs \<Rightarrow>
              if protocol = [] then Inl (flag_error (in_quotes spec @ '' missing protocol''))
              else ebind (settings spec kvs (initial_transport protocol)) (\<lambda>t.
                ebind (accept_transport moduleName t) (\<lambda>t. Inr (moduleName, t)))))"

text \<open>\<open>map[name].push_back(t)\<close>.\<close>

fun push_module :: "string \<Rightarrow> transport_info \<Rightarrow> module_transports \<Rightarrow> module_transports" where
  "push_module k t [] = [(k, [t])]"
| "push_module k t ((a, ts) # r) =
    (if k = a then (a, ts @ [t]) # r
     else if k < a then (k, [t]) # (a, ts) # r
     else (a, ts) # push_module k t r)"

fun transport_flags :: "string list \<Rightarrow> module_transports \<Rightarrow> string + module_transports" where
  "transport_flags [] ms = Inr ms"
| "transport_flags (spec # specs) ms =
    ebind (transport_flag spec) (\<lambda>(name, t). transport_flags specs (push_module name t ms))"

end
