(* ===== verification/Command_Line.thy ===== *)
theory Command_Line
  imports Token_Commands Config_Command Package_Command
begin

text \<open>
  What \<open>src/src/main.cpp\<close> and \<open>src/src/main_legacy.cpp\<close> do with \<open>argv\<close> before and after CLI11 parses it: the early
  scan for the session directory, the group verbs that are collapsed to one token, the global flags
  among a command's arguments, the table of commands (\<open>command.cpp\<close>) and the messages of Qt.
\<close>

section \<open>Before parsing\<close>

definition config_dir_prefix :: string where
  "config_dir_prefix = ''--config-dir=''"

text \<open>The arguments after the program path.\<close>

fun preScanConfigDir :: "string list \<Rightarrow> string" where
  "preScanConfigDir [] = []"
| "preScanConfigDir (a # rest) =
    (case rest of
       v # _ \<Rightarrow> if a = ''--config-dir'' then v
               else if starts_with a config_dir_prefix then drop (length config_dir_prefix) a
               else preScanConfigDir rest
     | [] \<Rightarrow> if starts_with a config_dir_prefix then drop (length config_dir_prefix) a else [])"

definition kGroups :: "(string \<times> (string \<times> string) list) list" where
  "kGroups =
    [(''daemon'', [(''config'', ''daemon-config''), (''start'', ''daemon''), (''stop'', ''stop''), (''status'', ''status'')]),
     (''client'', [(''config'', ''client-config'')]),
     (''module'', [(''ls'', ''list-modules''), (''list'', ''list-modules''), (''show'', ''module-info''),
        (''info'', ''module-info''), (''load'', ''load-module''), (''unload'', ''unload-module''),
        (''reload'', ''reload-module''), (''stats'', ''stats'')]),
     (''token'', [(''issue'', ''issue-token''), (''ls'', ''list-tokens''), (''list'', ''list-tokens''),
        (''revoke'', ''revoke-token'')])]"

definition group_verb :: "string \<Rightarrow> string \<Rightarrow> string option" where
  "group_verb a v = (case map_of kGroups a of None \<Rightarrow> None | Some verbs \<Rightarrow> map_of verbs v)"

text \<open>The arguments after the program path; every pair of them is looked at.\<close>

fun normalizeGroupVerbs :: "string list \<Rightarrow> string list" where
  "normalizeGroupVerbs [] = []"
| "normalizeGroupVerbs [a] = [a]"
| "normalizeGroupVerbs (a # v # rest) = (case group_verb a v of
      Some verb \<Rightarrow> verb # normalizeGroupVerbs rest
    | None \<Rightarrow> a # normalizeGroupVerbs (v # rest))"

section \<open>A command's own arguments\<close>

record global_flags =
  gf_json :: bool
  gf_human :: bool
  gf_quiet :: bool

text \<open>Global flags may follow the subcommand; everything else belongs to the command.\<close>

fun extract_globals :: "string list \<Rightarrow> global_flags \<Rightarrow> global_flags \<times> string list" where
  "extract_globals [] g = (g, [])"
| "extract_globals (r # rs) g =
    (if r = ''--json'' \<or> r = ''-j'' then extract_globals rs (g\<lparr>gf_json := True\<rparr>)
     else if r = ''--no-json'' \<or> r = ''--human'' then extract_globals rs (g\<lparr>gf_human := True\<rparr>)
     else if r = ''--quiet'' \<or> r = ''-q'' then extract_globals rs (g\<lparr>gf_quiet := True\<rparr>)
     else (case extract_globals rs g of (g', rest) \<Rightarrow> (g', r # rest)))"

definition output_for :: "fmt_lib \<Rightarrow> bool \<Rightarrow> global_flags \<Rightarrow> printer" where
  "output_for F tty g = (let out = newOutput F tty (gf_json g) in if gf_human g then setHumanMode True out else out)"

text \<open>\<open>install\<close> and \<open>search\<close> are the package command with its subcommand supplied.\<close>

definition alias_args :: "string \<Rightarrow> string list \<Rightarrow> string \<times> string list" where
  "alias_args name args =
    (if name = ''install'' \<or> name = ''search'' then (''package'', name # args) else (name, args))"

section \<open>createCommand\<close>

text \<open>What a run of the program has: the caller, the token store, the clock, standard input, the events to come.\<close>

record 'r front =
  fr_caller :: "'r pkg_env"
  fr_tokens :: token_env
  fr_nowNs :: int
  fr_stdin :: string
  fr_arrivals :: "(string \<times> json) list"

type_synonym 'r execution = "'r cli \<Rightarrow> ((exn + int) \<times> 'r cli) option"

definition returns :: "('r, int) command_op \<Rightarrow> 'r execution" where
  "returns m s = Some (run_state m s)"

definition createCommand :: "'r front \<Rightarrow> string \<Rightarrow> string list \<Rightarrow> 'r execution option" where
  "createCommand F name args = (let A = pk_app (fr_caller F); T = fr_tokens F in
     if name = ''status'' then Some (returns (status_command A args))
     else if name = ''load-module'' then Some (returns (load_module_command A args))
     else if name = ''unload-module'' then Some (returns (unload_module_command A args))
     else if name = ''reload-module'' then Some (returns (reload_module_command A args))
     else if name = ''list-modules'' then Some (returns (list_modules_command A args))
     else if name = ''module-info'' \<or> name = ''info'' then Some (returns (module_info_command A args))
     else if name = ''call'' \<or> name = ''module'' then Some (returns (call_command A args))
     else if name = ''watch'' then Some (returns (watch_command A (fr_arrivals F) args))
     else if name = ''stats'' then Some (returns (stats_command A args))
     else if name = ''stop'' then Some (stop_command A args)
     else if name = ''issue-token'' then Some (returns (issue_token_command A T (fr_nowNs F) args))
     else if name = ''revoke-token'' then Some (returns (revoke_token_command A T args))
     else if name = ''list-tokens'' then Some (returns (list_tokens_command A T args))
     else if name = ''package'' then Some (returns (package_command (fr_caller F) args))
     else if name = ''catalog'' then Some (returns (catalog_command A args))
     else if name = ''key'' then Some (returns (key_command A args))
     else if name = ''daemon-config'' then Some (returns (config_command A True (fr_stdin F) args))
     else if name = ''client-config'' \<or> name = ''client'' then Some (returns (config_command A False (fr_stdin F) args))
     else None)"

definition knownSubcommands :: "string list" where
  "knownSubcommands = [''daemon'', ''status'', ''load-module'', ''unload-module'', ''reload-module'', ''list-modules'',
     ''module-info'', ''info'', ''call'', ''module'', ''watch'', ''stats'', ''stop'', ''issue-token'', ''revoke-token'',
     ''list-tokens'', ''package'', ''catalog'', ''key'', ''daemon-config'', ''client-config'', ''client'']"

definition front_with :: "printer \<Rightarrow> 'r front \<Rightarrow> 'r front" where
  "front_with P F = F\<lparr>fr_caller := (fr_caller F)\<lparr>pk_app := (pk_app (fr_caller F))\<lparr>ap_out := P\<rparr>\<rparr>\<rparr>"

text \<open>Running a subcommand with what CLI11 left to it; \<open>hint\<close> ends the message for a name without a command.\<close>

definition run_subcommand :: "'r front \<Rightarrow> bool \<Rightarrow> string \<Rightarrow> global_flags \<Rightarrow> string \<Rightarrow> string list \<Rightarrow> 'r execution" where
  "run_subcommand F tty hint g name remaining =
    (case extract_globals remaining g of (g', args) \<Rightarrow>
     case alias_args name args of (commandName, cmdArgs) \<Rightarrow>
       (let A = pk_app (fr_caller F); P = output_for (o_fmt (ap_out A)) tty g'; F' = front_with P F
        in case createCommand F' commandName cmdArgs of
             Some run \<Rightarrow> run
           | None \<Rightarrow> returns (err_exit (pk_app (fr_caller F')) ''INVALID_ARGS'' (''Unknown command: '' @ name @ hint) [] 1)))"

section \<open>Messages of Qt\<close>

datatype qt_msg = QtDebugMsg | QtInfoMsg | QtWarningMsg | QtCriticalMsg | QtFatalMsg

definition located :: "string \<Rightarrow> string \<Rightarrow> int \<Rightarrow> string \<Rightarrow> string" where
  "located msg file_name line function = msg @ '' ('' @ file_name @ '':'' @ show_int line @ '', '' @ function @ '')'' @ [CHR 10]"

text \<open>What goes to standard error, and whether the program ends there (\<open>abort\<close>).\<close>

fun messageHandler :: "bool \<Rightarrow> qt_msg \<Rightarrow> string \<Rightarrow> string \<Rightarrow> int \<Rightarrow> string \<Rightarrow> string \<times> bool" where
  "messageHandler verbose QtDebugMsg msg fl line fn = (if verbose then ''Debug: '' @ msg @ [CHR 10] else [], False)"
| "messageHandler verbose QtInfoMsg msg fl line fn = (if verbose then ''Info: '' @ msg @ [CHR 10] else [], False)"
| "messageHandler verbose QtWarningMsg msg fl line fn = (if verbose then ''Warning: '' @ msg @ [CHR 10] else [], False)"
| "messageHandler verbose QtCriticalMsg msg fl line fn = (''Critical: '' @ located msg fl line fn, False)"
| "messageHandler verbose QtFatalMsg msg fl line fn = (''Fatal: '' @ located msg fl line fn, True)"

section \<open>Lemmas\<close>

text \<open>Every token a group verb collapses to is a command, or starts the daemon.\<close>

lemma group_verbs_known:
  "group_verb a v = Some verb \<Longrightarrow> verb \<in> set knownSubcommands \<and> (verb = ''daemon'' \<or> createCommand F verb args \<noteq> None)"
  by (auto simp: group_verb_def kGroups_def knownSubcommands_def createCommand_def Let_def split: if_splits option.splits)

lemma known_created: "name \<in> set knownSubcommands \<Longrightarrow> name \<noteq> ''daemon'' \<Longrightarrow> createCommand F name args \<noteq> None"
  by (auto simp: knownSubcommands_def createCommand_def Let_def)

text \<open>The verbs are looked for among the arguments of a command as well: a call of the method \<open>list\<close> of a
  module \<open>token\<close> loses its target.\<close>

lemma call_arguments_rewritten:
  "normalizeGroupVerbs [''call'', ''token'', ''list''] = [''call'', ''list-tokens'']"
  by (simp add: group_verb_def kGroups_def)

text \<open>Global flags are taken out wherever they stand, and nothing else is.\<close>

definition is_global :: "string \<Rightarrow> bool" where
  "is_global r \<longleftrightarrow> r \<in> {''--json'', ''-j'', ''--no-json'', ''--human'', ''--quiet'', ''-q''}"

lemma extract_globals_spec:
  "extract_globals rs g = (g', args) \<Longrightarrow> args = filter (\<lambda>r. \<not> is_global r) rs
    \<and> (gf_json g' \<longleftrightarrow> gf_json g \<or> ''--json'' \<in> set rs \<or> ''-j'' \<in> set rs)
    \<and> (gf_human g' \<longleftrightarrow> gf_human g \<or> ''--no-json'' \<in> set rs \<or> ''--human'' \<in> set rs)"
proof (induction rs arbitrary: g g' args)
  case (Cons r rs)
  then show ?case
    by (auto simp: is_global_def split: if_splits prod.splits; fastforce)
qed simp

end
