(* ===== verification/Main_Modern.thy ===== *)
theory Main_Modern
  imports Listener_Plan Command_Line
begin

text \<open>
  \<open>src/src/main.cpp\<close>, POSIX branches: the program \<open>logosctl\<close>, from \<open>argv\<close> to the daemon, the detached start or a
  command. CLI11 is a parameter: its answer is the parsed command line, or the exit code it ends with.
  What the detached child and the clock do between two looks of the parent is a parameter as well.
\<close>

section \<open>The session directory\<close>

record main_env =
  me_absolute :: "string \<Rightarrow> string + string"        \<comment> \<open>\<open>fs::absolute\<close>, or the error's message\<close>
  me_mkdir_error :: string

text \<open>The early scan: a directory that cannot be made absolute is left for the parse to refuse.\<close>

definition early_config :: "main_env \<Rightarrow> string list \<Rightarrow> config \<Rightarrow> config" where
  "early_config M args c = (let dir = preScanConfigDir args in
     if dir = [] then c
     else (case me_absolute M dir of Inl e \<Rightarrow> c | Inr p \<Rightarrow> setConfigDir p c))"

definition config_env_name :: "config \<Rightarrow> string" where
  "config_env_name c = (if isModern c then ''LOGOSCTL_CONFIG_DIR'' else ''LOGOSCORE_CONFIG_DIR'')"

text \<open>The directory of the parsed command line; \<open>Inl\<close> is the exit code of a refusal.\<close>

definition select_session :: "main_env \<Rightarrow> string \<Rightarrow> config \<Rightarrow> (int + config) io" where
  "select_session M dir c =
    (if dir = [] then State_Monad.return (Inr c)
     else (case me_absolute M dir of
         Inl e \<Rightarrow> do {
           _ \<leftarrow> cerr (''Error: failed to resolve --config-dir '' @ in_quotes dir @ '': '' @ e);
           State_Monad.return (Inl 1) }
       | Inr p \<Rightarrow> do {
           made \<leftarrow> mk_dirs p;
           if \<not> made then do {
             _ \<leftarrow> cerr (''Error: failed to create --config-dir '' @ in_quotes p @ '': '' @ me_mkdir_error M);
             State_Monad.return (Inl 1) }
           else State_Monad.return (Inr ((setConfigDir p c)
             \<lparr>c_env := (c_env c)(config_env_name c \<mapsto> p)\<rparr>)) }))"

section \<open>The daemon\<close>

fun complain_all :: "string list \<Rightarrow> ('r, unit) node_op" where
  "complain_all [] = State_Monad.return ()"
| "complain_all (l # ls) = do { _ \<leftarrow> complain l; complain_all ls }"

definition or_default :: "daemon_config option \<Rightarrow> daemon_config" where
  "or_default disk = (case disk of None \<Rightarrow> default_config | Some cfg \<Rightarrow> cfg)"

definition modern_source :: "daemon_config option \<Rightarrow> string" where
  "modern_source disk = (case disk of None \<Rightarrow> ''defaults'' | Some _ \<Rightarrow> ''config.yaml'')"

definition modern_daemon :: "'r node_env \<Rightarrow> bool \<Rightarrow> ('r, exn + int) node_op" where
  "modern_daemon E verbose = do {
     disk \<leftarrow> node_io (config_read (ne_daemon E));
     (case modern_listeners (or_default disk) of
       Inl errors \<Rightarrow> do { _ \<leftarrow> complain_all errors; pure 1 }
     | Inr cfg \<Rightarrow> daemon_start E cfg (modern_source disk) False verbose) }"

section \<open>The detached start\<close>

record 'r child_env =
  ch_self :: string                                   \<comment> \<open>\<open>paths::relaunchPath\<close>\<close>
  ch_fork :: "string list \<Rightarrow> 'r \<Rightarrow> (string + int) \<times> 'r"   \<comment> \<open>\<open>Inl\<close>: the error of \<open>fork\<close>\<close>
  ch_step :: "world \<Rightarrow> 'r \<Rightarrow> world \<times> 'r"                \<comment> \<open>while the parent sleeps\<close>
  ch_exited :: "'r \<Rightarrow> bool \<times> 'r"                        \<comment> \<open>\<open>waitpid(WNOHANG)\<close>\<close>

definition child_args :: "string \<Rightarrow> string list \<Rightarrow> string list" where
  "child_args self args = self # filter (\<lambda>a. a \<noteq> ''-d'' \<and> a \<noteq> ''--detach'') args"

definition startup_path :: "config \<Rightarrow> string" where
  "startup_path c = path_append (daemonDir c) ''startup.err''"

text \<open>What is removed before the child starts.\<close>

definition clear_stale :: "'r node_env \<Rightarrow> ('r, unit) node_op" where
  "clear_stale E = (let c = d_cfg (ne_daemon E) in do {
     _ \<leftarrow> do_core E (Set_Env_Var ''LOGOSCTL_CONFIG_DIR'' (configDir c));
     _ \<leftarrow> node_io (remove_file (daemonStatePath c));
     _ \<leftarrow> node_io (mk_dirs (daemonDir c));
     _ \<leftarrow> node_io (remove_file (startup_path c));
     State_Monad.return () })"

text \<open>Where the child will log, by the configuration it will read.\<close>

definition child_log :: "config \<Rightarrow> daemon_config \<Rightarrow> string" where
  "child_log c cfg =
    (if \<not> lc_enabled (dc_logging cfg) then ''(file logging disabled)''
     else stablePath (logsDir (setSessionDirOverride Logs (sd_logs (dc_dirs cfg)) c)) (lc_file (dc_logging cfg)))"

definition strip_newlines :: "string \<Rightarrow> string" where
  "strip_newlines s = rev (dropWhile (\<lambda>c. c = CHR 10 \<or> c = CHR 13) (rev s))"

definition early_output :: "'r node_env \<Rightarrow> ('r, string) node_op" where
  "early_output E = do {
     content \<leftarrow> node_io (read_file (startup_path (d_cfg (ne_daemon E))));
     State_Monad.return (case content of None \<Rightarrow> [] | Some s \<Rightarrow> strip_newlines s) }"

definition last_lines :: "nat \<Rightarrow> string \<Rightarrow> string" where
  "last_lines n s = concat (map (\<lambda>l. l @ [CHR 10]) (drop (length (text_lines s) - n) (text_lines s)))"

definition log_tail :: "string \<Rightarrow> nat \<Rightarrow> ('r, string) node_op" where
  "log_tail log_path n =
    (if log_path = [] then State_Monad.return []
     else do {
       content \<leftarrow> node_io (read_file log_path);
       State_Monad.return (case content of None \<Rightarrow> [] | Some s \<Rightarrow> last_lines n s) })"

definition point_at_log :: "string \<Rightarrow> string \<Rightarrow> ('r, unit) node_op" where
  "point_at_log log_path tail =
    (if tail \<noteq> [] then complain (''--- '' @ log_path @ '' (last lines) ---'' @ [CHR 10] @ butlast tail)
     else complain (''See '' @ log_path))"

definition remove_startup :: "'r node_env \<Rightarrow> ('r, unit) node_op" where
  "remove_startup E = do { _ \<leftarrow> node_io (remove_file (startup_path (d_cfg (ne_daemon E)))); State_Monad.return () }"

definition report_exited :: "'r node_env \<Rightarrow> string \<Rightarrow> ('r, int) node_op" where
  "report_exited E log_path = do {
     early \<leftarrow> early_output E;
     _ \<leftarrow> (if early \<noteq> [] then complain early
           else do {
             tail \<leftarrow> log_tail log_path 30;
             _ \<leftarrow> complain ''Error: daemon exited during startup.'';
             point_at_log log_path tail });
     _ \<leftarrow> remove_startup E;
     State_Monad.return 1 }"

definition give_up :: "'r node_env \<Rightarrow> string \<Rightarrow> ('r, int) node_op" where
  "give_up E log_path = do {
     early \<leftarrow> early_output E;
     _ \<leftarrow> complain ''Error: daemon did not become ready in 60s.'';
     _ \<leftarrow> (if early \<noteq> [] then complain early else State_Monad.return ());
     tail \<leftarrow> log_tail log_path 30;
     _ \<leftarrow> point_at_log log_path tail;
     _ \<leftarrow> remove_startup E;
     State_Monad.return 1 }"

definition child_steps :: "'r child_env \<Rightarrow> ('r, unit) node_op" where
  "child_steps X = State (\<lambda>s. case ch_step X (nd_world s) (nd_net s) of
     (w, r) \<Rightarrow> ((), s\<lparr>nd_world := w, nd_net := r\<rparr>))"

text \<open>One look every tenth of a second, as many as are left.\<close>

fun await_child :: "'r node_env \<Rightarrow> 'r child_env \<Rightarrow> string \<Rightarrow> int \<Rightarrow> nat \<Rightarrow> ('r, int) node_op" where
  "await_child E X log_path pid 0 = give_up E log_path"
| "await_child E X log_path pid (Suc n) = do {
     ready \<leftarrow> node_io (file_exists (daemonStatePath (d_cfg (ne_daemon E))));
     if ready then do {
       _ \<leftarrow> remove_startup E;
       _ \<leftarrow> print_out (''Daemon started (pid '' @ show_int pid @ '')'' @ [CHR 10] @ ''Logs: '' @ log_path);
       State_Monad.return 0 }
     else do {
       gone \<leftarrow> net_op (ch_exited X);
       if gone then report_exited E log_path
       else do {
         _ \<leftarrow> child_steps X;
         await_child E X log_path pid n } } }"

definition kReadyLooks :: nat where "kReadyLooks = 600"

definition detached_start :: "'r node_env \<Rightarrow> 'r child_env \<Rightarrow> string list \<Rightarrow> ('r, int) node_op" where
  "detached_start E X args =
    (if ch_self X = [] then do {
       _ \<leftarrow> complain ''Error: could not resolve own path for --detach.'';
       State_Monad.return 1 }
     else do {
       _ \<leftarrow> clear_stale E;
       child \<leftarrow> net_op (ch_fork X (child_args (ch_self X) args));
       (case child of
         Inl e \<Rightarrow> do {
           _ \<leftarrow> complain (''Error: could not fork for --detach: '' @ e);
           State_Monad.return 1 }
       | Inr pid \<Rightarrow> do {
           disk \<leftarrow> node_io (config_read (ne_daemon E));
           await_child E X (child_log (d_cfg (ne_daemon E)) (or_default disk)) pid kReadyLooks }) })"

section \<open>Which of them\<close>

text \<open>A parsed command line: the subcommand comes with the arguments CLI11 left to it.\<close>

record main_parse =
  mp_configDir :: string
  mp_verbose :: bool
  mp_globals :: global_flags
  mp_daemonFlag :: bool
  mp_detach :: bool
  mp_sub :: "(string \<times> string list) option"

datatype route = Manage string "string list" | Usage string | Boot | Boot_Detached | Client_Command string "string list" | Help

definition module_usage :: string where
  "module_usage = ''Error: usage: logosctl module <ls|show|load|unload|reload|stats> [name]''"

definition token_usage :: string where
  "token_usage = ''Error: usage: logosctl token <issue --name N|ls|revoke NAME>''"

definition client_usage :: string where
  "client_usage = ''Error: usage: logosctl client config <show|set FILE>''"

definition modern_client_subs :: "string list" where
  "modern_client_subs = [''status'', ''load-module'', ''unload-module'', ''reload-module'', ''list-modules'', ''module-info'',
     ''info'', ''call'', ''watch'', ''stats'', ''stop'', ''issue-token'', ''revoke-token'', ''list-tokens'', ''package'',
     ''catalog'', ''key'', ''install'', ''search'']"

definition is_sub :: "main_parse \<Rightarrow> string \<Rightarrow> bool" where
  "is_sub p name \<longleftrightarrow> (case mp_sub p of None \<Rightarrow> False | Some (n, _) \<Rightarrow> n = name)"

definition sub_args :: "main_parse \<Rightarrow> string list" where
  "sub_args p = (case mp_sub p of None \<Rightarrow> [] | Some (_, args) \<Rightarrow> args)"

definition modern_route :: "main_parse \<Rightarrow> route" where
  "modern_route p =
    (if is_sub p ''daemon-config'' then Manage ''daemon-config'' (sub_args p)
     else if is_sub p ''client-config'' then Manage ''client-config'' (sub_args p)
     else if is_sub p ''module'' then Usage module_usage
     else if is_sub p ''token'' then Usage token_usage
     else if is_sub p ''client'' then Usage client_usage
     else if mp_daemonFlag p \<or> is_sub p ''daemon'' then (if mp_detach p then Boot_Detached else Boot)
     else (case mp_sub p of
         Some (name, args) \<Rightarrow> if name \<in> set modern_client_subs then Client_Command name args else Help
       | None \<Rightarrow> Help))"

text \<open>What runs: on the machine of a daemon, or on that of a client.\<close>

type_synonym 'r program = "('r, exn + int) node_op + 'r execution"

definition modern_program ::
    "'r node_env \<Rightarrow> 'r child_env \<Rightarrow> 'r front \<Rightarrow> bool \<Rightarrow> string \<Rightarrow> string list \<Rightarrow> main_parse \<Rightarrow> 'r program" where
  "modern_program E X F tty help args p = (case modern_route p of
      Manage name rest \<Rightarrow> Inr (run_subcommand F tty [] (mp_globals p) name rest)
    | Usage line \<Rightarrow> Inl (do { _ \<leftarrow> complain line; pure 1 })
    | Boot \<Rightarrow> Inl (modern_daemon E (mp_verbose p))
    | Boot_Detached \<Rightarrow> Inl (plain (detached_start E X args))
    | Client_Command name rest \<Rightarrow> Inr (run_subcommand F tty ''. Run 'logosctl --help' for usage.'' (mp_globals p) name rest)
    | Help \<Rightarrow> Inl (do { _ \<leftarrow> print_out help; pure 0 }))"

section \<open>main\<close>

definition with_session :: "config \<Rightarrow> 'r node_env \<Rightarrow> 'r node_env" where
  "with_session c E = E\<lparr>ne_daemon := (ne_daemon E)\<lparr>d_cfg := c\<rparr>\<rparr>"

definition front_session :: "config \<Rightarrow> 'r front \<Rightarrow> 'r front" where
  "front_session c F = (let A = pk_app (fr_caller F) in
     F\<lparr>fr_caller := (fr_caller F)\<lparr>pk_app := A\<lparr>ap_client := (ap_client A)\<lparr>ce_cfg := c\<rparr>\<rparr>\<rparr>,
       fr_tokens := (fr_tokens F)\<lparr>t_cfg := c\<rparr>\<rparr>)"

text \<open>The exit code of a parse or of the session directory, or what runs in the session.\<close>

definition logosctl_main ::
    "main_env \<Rightarrow> (string list \<Rightarrow> int + main_parse) \<Rightarrow> 'r node_env \<Rightarrow> 'r child_env \<Rightarrow> 'r front \<Rightarrow> bool \<Rightarrow> string \<Rightarrow>
      config \<Rightarrow> string list \<Rightarrow> (int + 'r program) io" where
  "logosctl_main M parse E X F tty help c args =
    (let c0 = early_config M args (setFlavor Modern c) in
     case parse (normalizeGroupVerbs args) of
       Inl code \<Rightarrow> State_Monad.return (Inl code)
     | Inr p \<Rightarrow> do {
         session \<leftarrow> select_session M (mp_configDir p) c0;
         State_Monad.return (case session of
             Inl code \<Rightarrow> Inl code
           | Inr c' \<Rightarrow> Inr (modern_program (with_session c' E) X (front_session c' F) tty help args p)) })"

end
