(* ===== verification/Main_Legacy.thy ===== *)
theory Main_Legacy
  imports Main_Modern
begin

text \<open>
  \<open>src/src/main_legacy.cpp\<close>: the program \<open>logoscore\<close>. Its flags are laid over the configuration of the
  daemon or of the client, one by one and only those that were passed; \<open>--persist-config\<close> writes the result.
  CLI11 is a parameter: a flag that was not passed is \<open>None\<close>.
\<close>

section \<open>Flags\<close>

record daemon_flags =
  df_modulesDirs :: "string list option"
  df_persistencePath :: "string option"
  df_moduleTransport :: "string list option"
  df_insecureTcp :: "bool option"
  df_container :: "string option"
  df_accessGroup :: "string option"
  df_accessPolicy :: "string option"

record client_flags =
  cf_transport :: "string option"
  cf_tcpHost :: "string option"
  cf_tcpPort :: "16 word option"
  cf_noVerifyPeer :: "bool option"
  cf_codec :: "string option"
  cf_tokenFile :: "string option"
  cf_sslCa :: "string option"

record legacy_parse =
  lp_configDir :: string
  lp_verbose :: bool
  lp_persist :: bool
  lp_globals :: global_flags
  lp_daemonFlag :: bool
  lp_daemon :: daemon_flags
  lp_client :: client_flags
  lp_sub :: "(string \<times> string list) option"

definition passed :: "'a option \<Rightarrow> 'a \<Rightarrow> 'a" where
  "passed flag disk = (case flag of None \<Rightarrow> disk | Some v \<Rightarrow> v)"

section \<open>The daemon\<close>

definition any_daemon_flag :: "daemon_flags \<Rightarrow> bool" where
  "any_daemon_flag f \<longleftrightarrow> df_modulesDirs f \<noteq> None \<or> df_persistencePath f \<noteq> None \<or> df_moduleTransport f \<noteq> None
     \<or> df_insecureTcp f \<noteq> None \<or> df_accessPolicy f \<noteq> None \<or> df_container f \<noteq> None \<or> df_accessGroup f \<noteq> None"

definition tilde_path :: "string \<Rightarrow> bool" where
  "tilde_path p = (case p of [] \<Rightarrow> False | c # rest \<Rightarrow> c = CHR ''~'' \<and> (rest = [] \<or> starts_with_char rest CHR ''/''))"

text \<open>A path typed on the command line is relative to the shell's directory; a tilde is left for the session.\<close>

definition pinned :: "main_env \<Rightarrow> string \<Rightarrow> string" where
  "pinned M p = (if p = [] \<or> tilde_path p then p
     else (case me_absolute M p of Inl _ \<Rightarrow> p | Inr full \<Rightarrow> lexically_normal full))"

text \<open>The merge, with the policy that \<open>--access-policy\<close> was resolved to.\<close>

definition merge_daemon :: "main_env \<Rightarrow> daemon_flags \<Rightarrow> string option \<Rightarrow> module_transports \<Rightarrow> daemon_config \<Rightarrow> daemon_config" where
  "merge_daemon M f policy ms disk = (let data = map_option (pinned M) (df_persistencePath f) in
     disk\<lparr>dc_modulesDirs := passed (df_modulesDirs f) (dc_modulesDirs disk),
       dc_persistencePath := passed data (dc_persistencePath disk),
       dc_dirs := (dc_dirs disk)\<lparr>sd_data := passed data (sd_data (dc_dirs disk))\<rparr>,
       dc_insecureTcp := passed (df_insecureTcp f) (dc_insecureTcp disk),
       dc_container := passed (df_container f) (dc_container disk),
       dc_accessGroup := passed (df_accessGroup f) (dc_accessGroup disk),
       dc_accessPolicy := passed policy (dc_accessPolicy disk),
       dc_modules := (if df_moduleTransport f \<noteq> None then ms else dc_modules disk)\<rparr>)"

definition legacy_source :: "daemon_flags \<Rightarrow> daemon_config option \<Rightarrow> string" where
  "legacy_source f disk = (if any_daemon_flag f then ''cli'' else case disk of None \<Rightarrow> ''defaults'' | Some _ \<Rightarrow> ''config.json'')"

text \<open>\<open>resolveAccessPolicy\<close>; \<open>what\<close> is the parser's message. No flag resolves to no policy.\<close>

definition resolve_policy :: "json_lib \<Rightarrow> (string \<Rightarrow> string) \<Rightarrow> string option \<Rightarrow> (string + string option) io" where
  "resolve_policy J what flag = (case flag of
      None \<Rightarrow> State_Monad.return (Inr None)
    | Some arg \<Rightarrow> do {
        r \<leftarrow> resolveAccessPolicyArg J what arg;
        State_Monad.return (case r of Inl e \<Rightarrow> Inl (''Error: '' @ e) | Inr doc \<Rightarrow> Inr (Some doc)) })"

definition refuse :: "string \<Rightarrow> ('r, exn + int) node_op" where
  "refuse line = do { _ \<leftarrow> complain line; pure 1 }"

definition legacy_daemon ::
    "'r node_env \<Rightarrow> main_env \<Rightarrow> (string \<Rightarrow> string) \<Rightarrow> daemon_flags \<Rightarrow> bool \<Rightarrow> bool \<Rightarrow> ('r, exn + int) node_op" where
  "legacy_daemon E M what f persistConfig verbose =
    (case transport_flags (passed (df_moduleTransport f) []) [] of
      Inl line \<Rightarrow> refuse line
    | Inr ms \<Rightarrow> do {
        disk \<leftarrow> node_io (config_read (ne_daemon E));
        policy \<leftarrow> node_io (resolve_policy (d_json (ne_daemon E)) what (df_accessPolicy f));
        (case policy of
          Inl line \<Rightarrow> refuse line
        | Inr doc \<Rightarrow> (case legacy_listeners (merge_daemon M f doc ms (or_default disk)) of
            Inl line \<Rightarrow> refuse line
          | Inr cfg \<Rightarrow> daemon_start E cfg (legacy_source f disk) persistConfig verbose)) })"

section \<open>The client\<close>

definition any_client_flag :: "client_flags \<Rightarrow> bool" where
  "any_client_flag f \<longleftrightarrow> cf_transport f \<noteq> None \<or> cf_tcpHost f \<noteq> None \<or> cf_tcpPort f \<noteq> None \<or> cf_noVerifyPeer f \<noteq> None
     \<or> cf_codec f \<noteq> None \<or> cf_tokenFile f \<noteq> None \<or> cf_sslCa f \<noteq> None"

definition merge_transport :: "client_flags \<Rightarrow> client_transport \<Rightarrow> client_transport" where
  "merge_transport f t = (let protocol = passed (cf_transport f) (ct_protocol t) in
     t\<lparr>ct_protocol := (if protocol = [] then ''local'' else protocol),
       ct_host := passed (cf_tcpHost f) (ct_host t),
       ct_port := passed (cf_tcpPort f) (ct_port t),
       ct_codec := passed (cf_codec f) (ct_codec t),
       ct_verifyPeer := passed (map_option Not (cf_noVerifyPeer f)) (ct_verifyPeer t),
       ct_caFile := passed (cf_sslCa f) (ct_caFile t)\<rparr>)"

text \<open>\<open>map[name]\<close>, changed in place: an entry that is not there is default-constructed first.\<close>

definition apply_to_module :: "client_flags \<Rightarrow> string \<Rightarrow> (string \<times> client_transport) list \<Rightarrow> (string \<times> client_transport) list" where
  "apply_to_module f name entries =
    map (\<lambda>m. if fst m = name then (name, merge_transport f (snd m)) else m) (emplace name default_transport entries)"

definition merge_client :: "client_flags \<Rightarrow> client_state \<Rightarrow> client_state" where
  "merge_client f disk = (let daemon = apply_to_module f ''capability_module'' (apply_to_module f ''core_service'' (cs_daemon disk));
       token = passed (cf_tokenFile f) (cs_tokenFile disk) in
     disk\<lparr>cs_daemon := daemon, cs_tokenFile := token, cs_schemaVersion := kClientStateSchemaVersion,
       cs_fileOk := (daemon \<noteq> [] \<and> token \<noteq> [])\<rparr>)"

text \<open>What is wrong with the token file of \<open>--token-file\<close>, if anything.\<close>

definition token_complaint :: "client_env \<Rightarrow> client_flags \<Rightarrow> string option io" where
  "token_complaint C f = (case cf_tokenFile f of
      None \<Rightarrow> State_Monad.return None
    | Some name \<Rightarrow> do {
        there \<leftarrow> file_exists (clientTokenPath (ce_cfg C) name);
        if \<not> there then State_Monad.return (Some (''Error: --token-file '' @ in_quotes name @ '' does not exist at ''
          @ clientDir (ce_cfg C) @ ''/'' @ name @ ''. Copy it from the daemon's daemon/tokens/ dir first.''))
        else do {
          token \<leftarrow> readTokenFile C name;
          State_Monad.return (if token = [] then Some (''Error: --token-file '' @ in_quotes name @ '' at ''
              @ clientTokenPath (ce_cfg C) name @ '' has no usable '' @ in_quotes ''token''
              @ '' field (missing key, empty, or unparseable JSON).'') else None) } })"

definition bad_codec :: "client_flags \<Rightarrow> string option" where
  "bad_codec f = (case cf_codec f of None \<Rightarrow> None
    | Some c \<Rightarrow> if c \<noteq> ''json'' \<and> c \<noteq> ''cbor''
        then Some (''Error: --client-codec '' @ in_quotes c @ '' must be '' @ in_quotes ''json'' @ '' or '' @ in_quotes ''cbor'')
        else None)"

text \<open>The state that will dial in this run, or the complaint that ends it.\<close>

definition client_merge :: "client_env \<Rightarrow> client_flags \<Rightarrow> (string + client_state) io" where
  "client_merge C f = (case bad_codec f of
      Some line \<Rightarrow> State_Monad.return (Inl line)
    | None \<Rightarrow> do {
        disk \<leftarrow> client_read C None;
        complaint \<leftarrow> token_complaint C f;
        State_Monad.return (case complaint of Some line \<Rightarrow> Inl line | None \<Rightarrow> Inr (merge_client f disk)) })"

definition persist_client :: "client_env \<Rightarrow> client_state \<Rightarrow> ('r, unit) command_op" where
  "persist_client C merged = tbind (on_files (client_write C merged)) (\<lambda>ok.
     if ok then on_screen (cout_line [''Persisted client config: '', clientConfigPath (ce_cfg C)])
     else on_files (plain (cerr (''Warning: failed to persist client config to '' @ clientConfigPath (ce_cfg C)))))"

text \<open>The override slot after the flags of the client, or the exit code.\<close>

definition client_config_flags :: "client_env \<Rightarrow> client_flags \<Rightarrow> bool \<Rightarrow> ('r, int + client_state option) command_op" where
  "client_config_flags C f persistConfig =
    (if \<not> (any_client_flag f \<or> persistConfig) then pure (Inr None)
     else tbind (on_files (plain (client_merge C f))) (\<lambda>merged. case merged of
         Inl line \<Rightarrow> tbind (on_files (plain (cerr line))) (\<lambda>_. pure (Inl 1))
       | Inr st \<Rightarrow> tbind (if persistConfig then persist_client C st else pure ()) (\<lambda>_.
           pure (Inr (setOverride (Some st) None)))))"

definition daemon_only_line :: string where
  "daemon_only_line = ''Error: -m/--modules-dir and --persistence-path apply only to the daemon (-D); inline (-c) mode has been removed. ''
     @ ''Use daemon + client commands:'' @ [CHR 10]
     @ ''  logoscore -D -m <dir>                     # start a daemon (clean)'' @ [CHR 10]
     @ ''  logoscore load-module <module>            # load a module'' @ [CHR 10]
     @ ''  logoscore call <module> <method> [args]   # call a method''"

definition daemon_only :: "daemon_flags \<Rightarrow> bool" where
  "daemon_only f \<longleftrightarrow> df_modulesDirs f \<noteq> None \<or> df_persistencePath f \<noteq> None"

definition legacy_client_subs :: "string list" where
  "legacy_client_subs = [''status'', ''load-module'', ''unload-module'', ''reload-module'', ''list-modules'', ''module-info'',
     ''info'', ''call'', ''module'', ''watch'', ''stats'', ''stop'', ''issue-token'', ''revoke-token'', ''list-tokens'']"

definition with_override :: "client_state option \<Rightarrow> 'r front \<Rightarrow> 'r front" where
  "with_override override F = F\<lparr>fr_caller := (fr_caller F)\<lparr>pk_app := (pk_app (fr_caller F))\<lparr>ap_override := override\<rparr>\<rparr>\<rparr>"

definition legacy_command :: "'r front \<Rightarrow> bool \<Rightarrow> string \<Rightarrow> legacy_parse \<Rightarrow> 'r execution" where
  "legacy_command F tty help p =
    (if daemon_only (lp_daemon p) then returns (tbind (on_files (plain (cerr daemon_only_line))) (\<lambda>_. pure 1))
     else (case lp_sub p of
         Some (name, args) \<Rightarrow>
           if name \<in> set legacy_client_subs
           then run_subcommand F tty ''. Run 'logoscore --help' for usage.'' (lp_globals p) name args
           else returns (print_exit (cout_line [help]) 0)
       | None \<Rightarrow> returns (print_exit (cout_line [help]) 0)))"

definition legacy_client :: "'r front \<Rightarrow> bool \<Rightarrow> string \<Rightarrow> legacy_parse \<Rightarrow> 'r execution" where
  "legacy_client F tty help p s =
    (case run_state (client_config_flags (ap_client (pk_app (fr_caller F))) (lp_client p) (lp_persist p)) s of
      (Inl x, s') \<Rightarrow> Some (Inl x, s')
    | (Inr (Inl code), s') \<Rightarrow> Some (Inr code, s')
    | (Inr (Inr override), s') \<Rightarrow> legacy_command (with_override override F) tty help p s')"

section \<open>main\<close>

definition legacy_program ::
    "'r node_env \<Rightarrow> main_env \<Rightarrow> (string \<Rightarrow> string) \<Rightarrow> 'r front \<Rightarrow> bool \<Rightarrow> string \<Rightarrow> legacy_parse \<Rightarrow> 'r program" where
  "legacy_program E M what F tty help p =
    (if lp_daemonFlag p \<or> (case lp_sub p of None \<Rightarrow> False | Some (name, _) \<Rightarrow> name = ''daemon'')
     then Inl (legacy_daemon E M what (lp_daemon p) (lp_persist p) (lp_verbose p))
     else Inr (legacy_client F tty help p))"

definition logoscore_main ::
    "main_env \<Rightarrow> (string list \<Rightarrow> int + legacy_parse) \<Rightarrow> 'r node_env \<Rightarrow> (string \<Rightarrow> string) \<Rightarrow> 'r front \<Rightarrow> bool \<Rightarrow> string \<Rightarrow>
      config \<Rightarrow> string list \<Rightarrow> (int + 'r program) io" where
  "logoscore_main M parse E what F tty help c args =
    (let c0 = early_config M args (setFlavor Legacy c) in
     case parse args of
       Inl code \<Rightarrow> State_Monad.return (Inl code)
     | Inr p \<Rightarrow> do {
         session \<leftarrow> select_session M (lp_configDir p) c0;
         State_Monad.return (case session of
             Inl code \<Rightarrow> Inl code
           | Inr c' \<Rightarrow> Inr (legacy_program (with_session c' E) M what (front_session c' F) tty help p)) })"

end
