(* ===== verification/Main_Modern_Props.thy ===== *)
theory Main_Modern_Props
  imports Main_Modern Daemon_Boot_Props Client_State_Props
begin

text \<open>
  What \<open>logosctl\<close> promises of a start: whatever the configuration says, no listener is given to the core that
  would send tokens in the clear to the network or could not finish a TLS handshake; and a detached start
  reports success only when the child has published its state.
\<close>

section \<open>The listeners of a module\<close>

lemma local_first_hd: "local_first ts \<noteq> [] \<and> is_local (hd (local_first ts))"
  by (auto simp: local_first_def is_local_def new_transport_def find_Some_iff split: option.split)

lemma local_first_set: "t \<in> set (local_first ts) \<Longrightarrow> t \<in> set ts \<or> t = new_transport ''local''"
  by (auto simp: local_first_def find_Some_iff split: option.splits dest: set_takeWhileD in_set_dropD set_dropWhileD)

text \<open>No operator's listener is lost.\<close>

lemma local_first_keeps: "t \<in> set ts \<Longrightarrow> t \<in> set (local_first ts)"
proof (induction ts)
  case (Cons u ts)
  then show ?case by (cases "is_local u") (auto simp: local_first_def split: option.splits)
qed simp

text \<open>A second local listener stays.\<close>

lemma two_locals_stay: "local_first [new_transport ''local'', new_transport ''local''] = [new_transport ''local'', new_transport ''local'']"
  by (simp add: local_first_def is_local_def new_transport_def)

section \<open>Listeners handed to the core\<close>

text \<open>The first flag: plaintext on a public address is allowed; the second: TLS needs its files.\<close>

definition sound_listener :: "bool \<Rightarrow> bool \<Rightarrow> listener \<Rightarrow> bool" where
  "sound_listener insecure tls l \<longleftrightarrow> (case tc_protocol l of
      LocalSocket \<Rightarrow> True
    | Tcp \<Rightarrow> insecure \<or> isLoopback (tc_host l)
    | TcpSsl \<Rightarrow> tls \<longrightarrow> sv_certFile l \<noteq> [] \<and> sv_keyFile l \<noteq> [])"

definition sound_set :: "bool \<Rightarrow> bool \<Rightarrow> listener list \<Rightarrow> bool" where
  "sound_set insecure tls ls \<longleftrightarrow> ls \<noteq> [] \<and> tc_protocol (hd ls) = LocalSocket \<and> list_all (sound_listener insecure tls) ls"

definition sound_call :: "bool \<Rightarrow> bool \<Rightarrow> core_call \<Rightarrow> bool" where
  "sound_call insecure tls c \<longleftrightarrow> (case c of
      Set_Module_Transports _ ls \<Rightarrow> sound_set insecure tls ls
    | Publish_Core ls \<Rightarrow> sound_set insecure tls ls
    | _ \<Rightarrow> True)"

definition sound_transport :: "bool \<Rightarrow> bool \<Rightarrow> transport_info \<Rightarrow> bool" where
  "sound_transport insecure tls t \<longleftrightarrow> (insecure \<or> \<not> exposed t) \<and> (tls \<longrightarrow> \<not> tls_incomplete t)"

definition sound_infos :: "bool \<Rightarrow> bool \<Rightarrow> transport_info list \<Rightarrow> bool" where
  "sound_infos insecure tls ts \<longleftrightarrow> ts \<noteq> [] \<and> is_local (hd ts) \<and> list_all (sound_transport insecure tls) ts"

lemma listener_sound: "sound_transport insecure tls t \<Longrightarrow> sound_listener insecure tls (listener_of (t\<lparr>ti_port := p\<rparr>))"
  by (auto simp: sound_transport_def sound_listener_def listener_of_def exposed_def tls_incomplete_def)

lemma build_sound:
  "run_state (buildTransportSet E infos name) s = (Some ls, s') \<Longrightarrow> list_all (sound_transport insecure tls) infos \<Longrightarrow>
     list_all (sound_listener insecure tls) ls \<and> (infos \<noteq> [] \<longrightarrow> ls \<noteq> [] \<and> (is_local (hd infos) \<longrightarrow> tc_protocol (hd ls) = LocalSocket))"
proof (induction infos arbitrary: s s' ls)
  case (Cons t infos)
  define m where "m = (if ti_protocol t \<noteq> ''local'' \<and> ti_port t = 0
              then allocateEphemeralTcp E (ti_host t) else State_Monad.return (ti_port t))"
  obtain port s1 where p: "run_state m s = (port, s1)" by fastforce
  have "\<not> (ti_protocol t \<noteq> ''local'' \<and> ti_port t = 0 \<and> port = 0)"
    using Cons.prems(1) p by (auto simp: m_def [symmetric] complain_def node_io_def split: prod.splits if_splits)
  then obtain rest where r: "run_state (buildTransportSet E infos name) s1 = (Some rest, s')"
      "ls = listener_of (t\<lparr>ti_port := port\<rparr>) # rest"
    using Cons.prems(1) p by (auto simp: m_def [symmetric] split: prod.splits if_splits)
  with Cons.IH [OF r(1)] Cons.prems(2) listener_sound [of insecure tls t port] show ?case
    by (auto simp: listener_of_def is_local_def)
qed simp

lemma build_calls:
  assumes "sound_infos insecure tls infos"
  shows "calls_of (buildTransportSet E infos name) (\<lambda>r new. new = [] \<and> (\<forall>ls. r = Some ls \<longrightarrow> sound_set insecure tls ls))"
  unfolding calls_of_def
proof (intro allI impI)
  fix s r s' assume run: "run_state (buildTransportSet E infos name) s = (r, s')"
  then have "nd_calls s' = nd_calls s" using balanced_build [of E infos name] unfolding balanced_def by (metis snd_conv)
  moreover have "sound_set insecure tls ls" if "r = Some ls" for ls
    using build_sound [of E infos name s ls s' insecure tls] run that assms unfolding sound_infos_def sound_set_def by auto
  ultimately show "\<exists>new. nd_calls s' = new @ nd_calls s \<and> new = [] \<and> (\<forall>ls. r = Some ls \<longrightarrow> sound_set insecure tls ls)" by auto
qed

section \<open>A whole boot\<close>

lemma admits_sound: "admits (sound_call insecure tls)"
  by (auto simp: admits_def sound_call_def split: core_call.split)

lemma sound_others [simp]:
  "sound_call insecure tls Core_Init" "sound_call insecure tls Core_Start" "sound_call insecure tls Core_Cleanup" "sound_call insecure tls Delete_Core"
  "sound_call insecure tls (Reap_Sockets t)" "sound_call insecure tls (Save_Inbound n k)" "sound_call insecure tls (Set_Debug_Level b)"
  by (simp_all add: sound_call_def)

lemma only_abandon: "only (sound_call insecure tls) (abandon E l)"
  unfolding abandon_def by (intro neutrals; simp)

lemma only_serve: "only (sound_call insecure tls) (serve E D)"
  unfolding serve_def by (intro neutrals; simp)

lemma only_session: "only (sound_call insecure tls) (boot_session E D cfg source p v i g coreTs capTs)"
  unfolding boot_session_def persist_def announce_def
  by (intro neutrals only_abandon only_serve admits_sound; simp)

lemma only_after_build:
  assumes "sound_infos insecure tls infos" "only P a" "\<And>ls. sound_set insecure tls ls \<Longrightarrow> only P (f ls)"
  shows "only P (State_Monad.bind (buildTransportSet E infos name) (\<lambda>r. case r of None \<Rightarrow> a | Some ls \<Rightarrow> f ls))"
  unfolding only_def
  by (rule calls_bind [OF build_calls [OF assms(1)]])
    (use assms(2,3) in \<open>auto simp: only_def split: option.splits\<close>)

lemma only_boot_core:
  assumes "sound_infos insecure tls (module_infos cfg ''core_service'')" "sound_infos insecure tls (module_infos cfg ''capability_module'')"
  shows "only (sound_call insecure tls) (boot_core E D cfg source p v i g)"
  unfolding boot_core_def
  by (intro only_after_build [OF assms(1)] only_after_build [OF assms(2)] neutrals admits_sound only_session;
      simp add: sound_call_def)

lemma only_daemon_start:
  assumes "sound_infos insecure tls (module_infos cfg ''core_service'')" "sound_infos insecure tls (module_infos cfg ''capability_module'')"
  shows "only (sound_call insecure tls) (daemon_start E cfg source p v)"
proof -
  have "only (sound_call insecure tls) (case b of (i, g) \<Rightarrow> State_Monad.bind (already_running E D)
      (\<lambda>running. if running then pure 1 else boot_core E D cfg source p v i g))" for b D
    by (cases b) (auto intro!: neutrals admits_sound only_boot_core assms)
  then show ?thesis
    unfolding daemon_start_def Let_def by (intro only_bind only_before admits_sound)
qed

section \<open>The configuration that passes the guards\<close>

lemma well_known_there: "\<exists>ts. (name, ts) \<in> set (with_well_known ms) \<and> map_of (with_well_known ms) name = Some ts"
  if "name \<in> {''core_service'', ''capability_module''}" for ms
proof -
  have "name \<in> fst ` set (with_well_known ms)" using that by (auto simp: with_well_known_def emplace_names)
  then obtain ts where "map_of (with_well_known ms) name = Some ts" by (metis map_of_eq_None_iff not_Some_eq)
  then show ?thesis by (auto dest: map_of_SomeD)
qed

lemma plaintext_none:
  "plaintext_offender cfg = None \<longleftrightarrow> dc_insecureTcp cfg \<or> (\<forall>m \<in> set (dc_modules cfg). \<forall>t \<in> set (snd m). \<not> exposed t)"
  by (auto simp: plaintext_offender_def find_None_iff)

lemma tls_none: "findTlsListenersMissingMaterial cfg = [] \<longleftrightarrow> (\<forall>m \<in> set (dc_modules cfg). \<forall>t \<in> set (snd m). \<not> tls_incomplete t)"
  by (auto simp: findTlsListenersMissingMaterial_def filter_empty_conv)

lemma modern_accepts:
  "modern_listeners disk = Inr cfg \<longleftrightarrow> cfg = with_listeners (applySslDefaults disk)
     \<and> plaintext_offender cfg = None \<and> findTlsListenersMissingMaterial cfg = []"
  by (auto simp: modern_listeners_def Let_def split: option.split list.split)

text \<open>Both modules the core is given listeners for have an entry, and every entry passed the guards.\<close>

lemma with_listeners_sound:
  assumes "cfg = with_listeners base" "plaintext_offender cfg = None" "tls \<longrightarrow> findTlsListenersMissingMaterial cfg = []"
    and "name \<in> {''core_service'', ''capability_module''}"
  shows "sound_infos (dc_insecureTcp base) tls (module_infos cfg name)"
proof -
  let ?ms = "with_well_known (dc_modules base)"
  from assms(1) have cfg: "dc_modules cfg = map (\<lambda>m. (fst m, local_first (snd m))) ?ms" "dc_insecureTcp cfg = dc_insecureTcp base"
    by (auto simp: with_listeners_def)
  obtain ts where ts: "(name, ts) \<in> set ?ms" "map_of ?ms name = Some ts" using well_known_there [OF assms(4)] by blast
  then have m: "(name, local_first ts) \<in> set (dc_modules cfg)" by (force simp: cfg(1))
  have "map_of (map (\<lambda>m. (fst m, local_first (snd m))) ms) name = map_option local_first (map_of ms name)" for ms
    by (induction ms) auto
  then have "module_infos cfg name = local_first ts" by (simp add: module_infos_def cfg(1) ts(2))
  moreover have "sound_transport (dc_insecureTcp base) tls t" if "t \<in> set (local_first ts)" for t
    using assms(2,3) m that cfg(2) by (fastforce simp: plaintext_none tls_none sound_transport_def)
  ultimately show ?thesis using local_first_hd [of ts] by (simp add: sound_infos_def list_all_iff)
qed

lemma modern_sound:
  assumes "modern_listeners disk = Inr cfg" "name \<in> {''core_service'', ''capability_module''}"
  shows "sound_infos (dc_insecureTcp disk) True (module_infos cfg name)"
  using with_listeners_sound [of cfg "applySslDefaults disk" True name] assms
  by (auto simp: modern_accepts applySslDefaults_def)

lemma only_complain_all: "only P (complain_all ls)"
  by (induction ls) (auto intro!: neutrals)

section \<open>Properties\<close>

text \<open>
  C32: nothing is exposed by a configuration: whatever is on disk, every listener set \<open>logosctl\<close> hands to the core
  begins with a local one, has no plaintext listener on a public address unless the configuration opts in, and no
  TLS listener without its certificate and key.
\<close>

theorem no_listener_exposed:
  assumes "run_state (modern_daemon E verbose) s = (r, s')"
  shows "\<exists>new. nd_calls s' = new @ nd_calls s
    \<and> list_all (sound_call (dc_insecureTcp (or_default (fst (run_state (config_read (ne_daemon E)) (nd_world s))))) True) new"
proof -
  let ?disk = "or_default (fst (run_state (config_read (ne_daemon E)) (nd_world s)))"
  obtain disk w where d: "run_state (config_read (ne_daemon E)) (nd_world s) = (disk, w)" by fastforce
  define rest where "rest = (case modern_listeners (or_default disk) of
      Inl errors \<Rightarrow> do { _ \<leftarrow> complain_all errors; pure 1 }
    | Inr cfg \<Rightarrow> daemon_start E cfg (modern_source disk) False verbose)"
  have "only (sound_call (dc_insecureTcp ?disk) True) rest"
  proof (cases "modern_listeners (or_default disk)")
    case (Inl errors)
    then show ?thesis by (simp add: rest_def) (intro only_bind only_complain_all neutral_basic)
  next
    case (Inr cfg)
    then show ?thesis using modern_sound [OF Inr] d by (simp add: rest_def only_daemon_start)
  qed
  moreover have "run_state rest (s\<lparr>nd_world := w\<rparr>) = (r, s')"
    using assms by (simp add: modern_daemon_def node_io_def d rest_def)
  ultimately show ?thesis unfolding only_def by (auto dest!: calls_ofD)
qed

lemma no_listener_exposed_witness:
  "\<exists>r s' new. run_state (modern_daemon sample_node False) (sample_node_state sample_world) = (r, s')
    \<and> nd_calls s' = new @ nd_calls (sample_node_state sample_world) \<and> list_all (sound_call False True) new"
proof -
  obtain r s' where 1: "run_state (modern_daemon sample_node False) (sample_node_state sample_world) = (r, s')" by fastforce
  have "fst (run_state (config_read (ne_daemon sample_node)) (nd_world (sample_node_state sample_world))) = None"
    by (simp add: config_read_def read_file_def sample_node_state_def)
  then have "\<not> dc_insecureTcp (or_default (fst (run_state (config_read (ne_daemon sample_node)) (nd_world (sample_node_state sample_world)))))"
    by (simp add: or_default_def default_config_def)
  with no_listener_exposed [OF 1] 1 show ?thesis by simp
qed

section \<open>The detached start\<close>

text \<open>Success is reported only when the child's state file is there at that moment.\<close>

lemma detached_ready:
  "run_state (await_child E X log_path pid n) s = (code, s') \<Longrightarrow> code = 1
     \<or> code = 0 \<and> (\<exists>w. fst (run_state (file_exists (daemonStatePath (d_cfg (ne_daemon E)))) w)
        \<and> nd_world s' = snd (run_state (remove_file (startup_path (d_cfg (ne_daemon E)))) w))"
proof (induction n arbitrary: s)
  case 0
  then show ?case by (auto simp: give_up_def split: prod.splits)
next
  case (Suc n)
  let ?p = "daemonStatePath (d_cfg (ne_daemon E))"
  obtain ready w where 1: "run_state (file_exists ?p) (nd_world s) = (ready, w)" by fastforce
  then have w: "w = nd_world s" by (simp add: file_exists_def)
  show ?case
  proof (cases ready)
    case True
    with Suc.prems 1 w have "code = 0" "nd_world s' = snd (run_state (remove_file (startup_path (d_cfg (ne_daemon E)))) (nd_world s))"
      by (auto simp: node_io_def remove_startup_def print_out_def split: prod.splits)
    with True 1 show ?thesis by (intro disjI2 conjI exI [of _ "nd_world s"]) auto
  next
    case False
    with Suc.prems 1 w Suc.IH show ?thesis
      by (auto simp: node_io_def net_op_def child_steps_def report_exited_def split: prod.splits if_splits)
  qed
qed

text \<open>
  The parent removes the state file before its child looks for a daemon that is already running: the child
  finds none, whichever process is alive.
\<close>

lemma detach_hides_daemon:
  assumes "run_state (clear_stale E) s = (u, s')"
    and "\<And>n. w_sys (nd_world s) n (RemoveF (daemonStatePath (d_cfg (ne_daemon E))))"
  shows "\<not> fst (run_state (already_running E (ne_daemon E)) s')"
proof -
  let ?c = "d_cfg (ne_daemon E)"
  have d: "startup_path ?c \<noteq> daemonStatePath ?c"
    by (simp add: startup_path_def daemonStatePath_def path_append_def is_absolute_def starts_with_char_def)
  have "w_files (nd_world s') (daemonStatePath ?c) = None"
    using assms d by (auto simp: clear_stale_def Let_def do_core_def core_def node_io_def remove_file_def mk_dirs_def sys_def
      observe_def split: prod.splits if_splits)
  then show ?thesis
    by (auto simp: already_running_def state_read_def read_file_def node_io_def empty_state_def split: prod.splits)
qed

end
