(* ===== verification/Main_Legacy_Props.thy ===== *)
theory Main_Legacy_Props
  imports Main_Legacy Main_Modern_Props
begin

text \<open>
  What \<open>logoscore\<close> promises: no plaintext listener is exposed, whether it came from a flag or from the disk;
  a client flag wins over the disk and touches nothing else; what \<open>--persist-config\<close> writes is what the next launch reads;
  and a refused flag writes nothing and sends nothing.
\<close>

section \<open>The daemon\<close>

lemma legacy_accepts: "legacy_listeners merged = Inr cfg \<longleftrightarrow> cfg = with_listeners merged \<and> plaintext_offender cfg = None"
  by (auto simp: legacy_listeners_def Let_def split: option.split)

lemma only_refuse: "only P (refuse line)"
  unfolding refuse_def by (intro neutrals)

lemma legacy_sound:
  assumes "legacy_listeners merged = Inr cfg" "name \<in> {''core_service'', ''capability_module''}"
  shows "sound_infos (dc_insecureTcp merged) False (module_infos cfg name)"
proof -
  from assms(1) have "cfg = with_listeners merged" "plaintext_offender cfg = None" by (auto simp: legacy_accepts)
  from with_listeners_sound [OF this _ assms(2)] show ?thesis by simp
qed

lemma merged_insecure: "dc_insecureTcp (merge_daemon M f policy ms disk) = passed (df_insecureTcp f) (dc_insecureTcp disk)"
  by (simp add: merge_daemon_def Let_def)

text \<open>
  C33: whatever the flags and the configuration on disk say, every listener set \<open>logoscore\<close> hands to the core begins with a
  local one and has no plaintext listener on a public address, unless the flag or, without the flag, the configuration opts in.
\<close>

theorem no_plaintext_exposed:
  assumes "run_state (legacy_daemon E M what f persistConfig verbose) s = (r, s')"
  shows "\<exists>new. nd_calls s' = new @ nd_calls s \<and> list_all (sound_call (passed (df_insecureTcp f)
    (dc_insecureTcp (or_default (fst (run_state (config_read (ne_daemon E)) (nd_world s)))))) False) new"
proof -
  obtain disk w where d: "run_state (config_read (ne_daemon E)) (nd_world s) = (disk, w)" by fastforce
  let ?P = "sound_call (passed (df_insecureTcp f) (dc_insecureTcp (or_default disk))) False"
  show ?thesis
  proof (cases "transport_flags (passed (df_moduleTransport f) []) []")
    case (Inl line)
    then have "run_state (refuse line) s = (r, s')" using assms by (simp add: legacy_daemon_def)
    with only_refuse [of ?P line] d show ?thesis by (auto simp: only_def dest!: calls_ofD)
  next
    case (Inr ms)
    define rest where "rest = do {
        policy \<leftarrow> node_io (resolve_policy (d_json (ne_daemon E)) what (df_accessPolicy f));
        (case policy of
          Inl line \<Rightarrow> refuse line
        | Inr doc \<Rightarrow> (case legacy_listeners (merge_daemon M f doc ms (or_default disk)) of
            Inl line \<Rightarrow> refuse line
          | Inr cfg \<Rightarrow> daemon_start E cfg (legacy_source f disk) persistConfig verbose)) }"
    have start: "only ?P (daemon_start E cfg (legacy_source f disk) persistConfig verbose)"
      if "legacy_listeners (merge_daemon M f doc ms (or_default disk)) = Inr cfg" for cfg doc
      using legacy_sound [OF that, unfolded merged_insecure] by (intro only_daemon_start) simp_all
    have "only ?P (case policy of
          Inl line \<Rightarrow> refuse line
        | Inr doc \<Rightarrow> (case legacy_listeners (merge_daemon M f doc ms (or_default disk)) of
            Inl line \<Rightarrow> refuse line
          | Inr cfg \<Rightarrow> daemon_start E cfg (legacy_source f disk) persistConfig verbose))" for policy
      by (auto split: sum.split intro: only_refuse start)
    then have "only ?P rest" unfolding rest_def by (intro only_bind neutrals admits_sound)
    moreover have "run_state rest (s\<lparr>nd_world := w\<rparr>) = (r, s')"
      using assms Inr d by (simp add: legacy_daemon_def node_io_def rest_def)
    ultimately show ?thesis using d unfolding only_def by (auto dest!: calls_ofD)
  qed
qed

definition no_daemon_flags :: daemon_flags where
  "no_daemon_flags = \<lparr>df_modulesDirs = None, df_persistencePath = None, df_moduleTransport = None, df_insecureTcp = None,
     df_container = None, df_accessGroup = None, df_accessPolicy = None\<rparr>"

definition sample_main :: main_env where
  "sample_main = \<lparr>me_absolute = (\<lambda>p. Inr (''/s/'' @ p)), me_mkdir_error = []\<rparr>"

lemma no_plaintext_exposed_witness:
  "\<exists>r s' new. run_state (legacy_daemon sample_node sample_main id
        (no_daemon_flags\<lparr>df_moduleTransport := Some [''core_service=tcp,host=0.0.0.0''], df_insecureTcp := Some False\<rparr>) False False)
      (sample_node_state sample_world) = (r, s')
    \<and> nd_calls s' = new @ nd_calls (sample_node_state sample_world) \<and> list_all (sound_call False False) new"
proof -
  let ?f = "no_daemon_flags\<lparr>df_moduleTransport := Some [''core_service=tcp,host=0.0.0.0''], df_insecureTcp := Some False\<rparr>"
  obtain r s' where 1: "run_state (legacy_daemon sample_node sample_main id ?f False False) (sample_node_state sample_world) = (r, s')"
    by fastforce
  have "passed (df_insecureTcp ?f) b = False" for b by (simp add: passed_def)
  with no_plaintext_exposed [OF 1] 1 show ?thesis by simp
qed

section \<open>The client\<close>

text \<open>An entry as the file keeps it: what a protocol does not use is not written.\<close>

definition kept_entry :: "client_transport \<Rightarrow> client_transport" where
  "kept_entry t =
    (if ct_protocol t = ''local'' then default_transport\<lparr>ct_protocol := ''local''\<rparr>
     else (if ct_protocol t = ''tcp_ssl'' then t else t\<lparr>ct_caFile := [], ct_verifyPeer := True\<rparr>)
       \<lparr>ct_codec := (if ct_codec t = [] then ''json'' else ct_codec t)\<rparr>)"

definition kept_client :: "client_state \<Rightarrow> client_state" where
  "kept_client st = st\<lparr>cs_daemon := map (\<lambda>m. (fst m, kept_entry (snd m))) (cs_daemon st)\<rparr>"

lemma kept_entry_wf: "known_protocol (ct_protocol t) \<Longrightarrow> wf_entry (kept_entry t) \<and> ct_codec (kept_entry t) \<noteq> []"
  by (auto simp: wf_entry_def kept_entry_def default_transport_def known_protocol_def)

lemma kept_entry_written: "clientTransportToJson (kept_entry t) = clientTransportToJson t"
  by (auto simp: clientTransportToJson_def kept_entry_def default_transport_def)

lemma kept_written: "client_doc (kept_client st) = client_doc st"
  by (simp add: client_doc_def kept_client_def kept_entry_written comp_def)

text \<open>Dialing an entry as it was kept reaches the same endpoint, in the same way.\<close>

lemma kept_dials: "tc_protocol (toCfg (kept_entry t)) = tc_protocol (toCfg t)"
    "tc_protocol (toCfg t) \<noteq> LocalSocket \<Longrightarrow> tc_host (toCfg (kept_entry t)) = tc_host (toCfg t)
       \<and> tc_port (toCfg (kept_entry t)) = tc_port (toCfg t) \<and> tc_codec (toCfg (kept_entry t)) = tc_codec (toCfg t)"
    "tc_protocol (toCfg t) = TcpSsl \<Longrightarrow> tc_caFile (toCfg (kept_entry t)) = tc_caFile (toCfg t)
       \<and> tc_verifyPeer (toCfg (kept_entry t)) = tc_verifyPeer (toCfg t)"
  by (auto simp: toCfg_def kept_entry_def default_transport_def split: if_splits)

lemma apply_keys: "map fst (apply_to_module f name entries) = map fst (emplace name default_transport entries)"
  by (simp add: apply_to_module_def)

lemma apply_entries:
  assumes "list_all (\<lambda>m. fst m \<noteq> [] \<and> P (snd m)) entries" "name \<noteq> []"
    and "\<And>t. P t \<or> t = default_transport \<Longrightarrow> P (merge_transport f t)"
  shows "list_all (\<lambda>m. fst m \<noteq> [] \<and> P (snd m)) (apply_to_module f name entries)"
proof -
  have "fst m \<noteq> [] \<and> P (snd m) \<or> m = (name, default_transport)" if "m \<in> set (emplace name default_transport entries)" for m
    using that assms(1) set_emplace(1) [of name default_transport entries] by (auto simp: list_all_iff)
  then show ?thesis using assms(2,3)
    by (auto simp: apply_to_module_def list_all_iff) (metis fst_conv snd_conv)+
qed

lemma apply_sorted: "sorted_wrt (<) (map fst entries) \<Longrightarrow> sorted_wrt (<) (map fst (apply_to_module f name entries))"
  by (simp add: apply_keys emplace_sorted)

lemma merge_known:
  assumes "\<forall>p. cf_transport f = Some p \<longrightarrow> known_protocol p" "known_protocol (ct_protocol t) \<or> t = default_transport"
  shows "known_protocol (ct_protocol (merge_transport f t))"
  using assms by (auto simp: merge_transport_def passed_def Let_def default_transport_def known_protocol_def split: option.split)


definition no_client_flags :: client_flags where
  "no_client_flags = \<lparr>cf_transport = None, cf_tcpHost = None, cf_tcpPort = None, cf_noVerifyPeer = None, cf_codec = None,
     cf_tokenFile = None, cf_sslCa = None\<rparr>"

definition sample_flags :: client_flags where
  "sample_flags = no_client_flags\<lparr>cf_transport := Some ''tcp_ssl'', cf_tcpPort := Some 6000, cf_noVerifyPeer := Some True\<rparr>"


text \<open>Any other word is accepted: it dials the local socket, and what is persisted is refused from then on.\<close>

lemma unknown_transport_dials_local:
  assumes "cf_transport f = Some p" "p \<noteq> []" "\<not> known_protocol p"
  shows "tc_protocol (toCfg (merge_transport f t)) = LocalSocket"
  using assms by (auto simp: toCfg_def merge_transport_def passed_def Let_def known_protocol_def)

text \<open>A flag wins over the disk; a field without a flag keeps its value, and so does every other module.\<close>

lemma flags_win:
  "cf_tcpHost f = Some h \<Longrightarrow> ct_host (merge_transport f t) = h"
  "cf_tcpHost f = None \<Longrightarrow> ct_host (merge_transport f t) = ct_host t"
  "cf_noVerifyPeer f = Some b \<Longrightarrow> ct_verifyPeer (merge_transport f t) = (\<not> b)"
  "cf_transport f = None \<Longrightarrow> ct_protocol t \<noteq> [] \<Longrightarrow> ct_protocol (merge_transport f t) = ct_protocol t"
  by (simp_all add: merge_transport_def passed_def Let_def)

lemma other_modules_kept:
  assumes "name \<notin> {''core_service'', ''capability_module''}"
  shows "(name, t) \<in> set (cs_daemon (merge_client f disk)) \<longleftrightarrow> (name, t) \<in> set (cs_daemon disk)"
proof -
  have "(name, t) \<in> set (apply_to_module f k entries) \<longleftrightarrow> (name, t) \<in> set entries" if "name \<noteq> k" for k entries
    using that set_emplace(1) [of k default_transport entries] set_emplace(2) [of entries k default_transport]
    by (fastforce simp: apply_to_module_def image_iff)
  with assms show ?thesis by (simp add: merge_client_def Let_def)
qed

section \<open>Refusals\<close>

text \<open>Operations that write no file, send nothing and print nothing on standard output.\<close>

definition reads_only :: "'a io \<Rightarrow> bool" where
  "reads_only m \<longleftrightarrow> (\<forall>w. w_files (snd (run_state m w)) = w_files w \<and> w_dirs (snd (run_state m w)) = w_dirs w)"

lemma reads_only_basic: "reads_only (State_Monad.return a)" "reads_only (cerr l)" "reads_only (read_file p)" "reads_only (file_exists p)"
  by (auto simp: reads_only_def cerr_def read_file_def file_exists_def tick_def State_Monad.update_def State_Monad.set_def State_Monad.get_def)

lemma reads_only_bind: "reads_only m \<Longrightarrow> (\<And>a. reads_only (f a)) \<Longrightarrow> reads_only (State_Monad.bind m f)"
  by (auto simp: reads_only_def split: prod.split) (metis snd_conv)+

lemma merge_reads_only: "reads_only (client_merge C f)"
proof -
  have "reads_only (client_read C slot)" for slot
    unfolding client_read_def
    by (cases slot) (auto intro!: reads_only_bind reads_only_basic split: option.split sum.split)
  moreover have "reads_only (token_complaint C f)"
    unfolding token_complaint_def readTokenFile_def
    by (cases "cf_tokenFile f") (auto intro!: reads_only_bind reads_only_basic)
  ultimately show ?thesis
    unfolding client_merge_def
    by (cases "bad_codec f") (auto intro!: reads_only_bind reads_only_basic)
qed

lemma refused_flags_harmless:
  assumes "run_state (client_config_flags C f persistConfig) s = (Inr (Inl code), s')"
  shows "code = 1 \<and> cl_screen s' = cl_screen s \<and> rc_net (cl_rpc s') = rc_net (cl_rpc s)
    \<and> w_files (rc_world (cl_rpc s')) = w_files (rc_world (cl_rpc s))"
proof -
  obtain merged w where m: "run_state (client_merge C f) (rc_world (cl_rpc s)) = (merged, w)" by fastforce
  with merge_reads_only [of C f] have "w_files w = w_files (rc_world (cl_rpc s))"
    by (auto simp: reads_only_def) (metis snd_conv)
  with assms m show ?thesis
    by (auto simp: client_config_flags_def tbind_def pure_def plain_def on_files_def cerr_def State_Monad.update_def
        State_Monad.set_def State_Monad.get_def split: if_splits sum.splits prod.splits)
qed

text \<open>The flags of a daemon with a command run no command.\<close>

lemma daemon_flags_refused:
  assumes "daemon_only (lp_daemon p)"
  shows "\<exists>s'. legacy_command F tty help p s = Some (Inr 1, s') \<and> cl_screen s' = cl_screen s \<and> rc_net (cl_rpc s') = rc_net (cl_rpc s)"
  using assms
  by (simp add: legacy_command_def returns_def tbind_def pure_def plain_def on_files_def cerr_def State_Monad.update_def
        State_Monad.set_def State_Monad.get_def)

end
