(* ===== verification/Web_Frames.thy ===== *)
theory Web_Frames
  imports Prelude
begin

text \<open>
  The web transport between the daemon and the process that holds a module's page: one JSON text per line over a socket.
  \<open>SocketState::write\<close> and the framing of \<open>SocketState::pump\<close> in \<open>src/src/web/webhost_view.cpp\<close>, and the framing of the other end
  in \<open>src/src/webhost/main.cpp\<close>, which is the same. The kernel is a parameter: how many bytes a \<open>send\<close> takes,
  how a \<open>recv\<close> cuts the stream, and when either fails.
\<close>

section \<open>Taking lines from what was received\<close>

abbreviation newline :: char where "newline \<equiv> CHR 10"

text \<open>The first newline of the inbox ends a line; an empty line is no message.\<close>

definition first_line :: "string \<Rightarrow> (string \<times> string) option" where
  "first_line inbox = (if newline \<in> set inbox
     then Some (takeWhile (\<lambda>c. c \<noteq> newline) inbox, drop 1 (dropWhile (\<lambda>c. c \<noteq> newline) inbox)) else None)"

lemma first_line_shorter: "first_line inbox = Some (line, rest) \<Longrightarrow> length rest < length inbox"
proof -
  assume a: "first_line inbox = Some (line, rest)"
  then have "newline \<in> set inbox" "rest = drop 1 (dropWhile (\<lambda>c. c \<noteq> newline) inbox)"
    by (auto simp: first_line_def split: if_splits)
  moreover have "length (dropWhile (\<lambda>c. c \<noteq> newline) inbox) \<le> length inbox" by (rule length_dropWhile_le)
  ultimately show ?thesis by (cases inbox) auto
qed

function drain :: "string \<Rightarrow> string list \<times> string" where
  "drain inbox = (case first_line inbox of
      None \<Rightarrow> ([], inbox)
    | Some (line, rest) \<Rightarrow> (case drain rest of (lines, left) \<Rightarrow> (if line = [] then lines else line # lines, left)))"
  by pat_completeness auto
termination
  by (relation "measure length") (auto simp: first_line_shorter)

declare drain.simps [simp del]

text \<open>What one \<open>recv\<close> brought is appended, and the lines it completes are taken.\<close>

definition take_chunk :: "string \<Rightarrow> string \<Rightarrow> string list \<times> string" where
  "take_chunk inbox chunk = drain (inbox @ chunk)"

fun feeds :: "('s \<Rightarrow> string \<Rightarrow> 'm list \<times> 's) \<Rightarrow> 's \<Rightarrow> string list \<Rightarrow> 'm list \<times> 's" where
  "feeds feed s [] = ([], s)"
| "feeds feed s (chunk # chunks) =
    (case feed s chunk of (ms, t) \<Rightarrow> (case feeds feed t chunks of (ns, u) \<Rightarrow> (ms @ ns, u)))"

abbreviation take_chunks :: "string \<Rightarrow> string list \<Rightarrow> string list \<times> string" where
  "take_chunks \<equiv> feeds take_chunk"

lemma drain_quiet: "newline \<notin> set s \<Longrightarrow> drain s = ([], s)"
  by (subst drain.simps) (simp add: first_line_def)

lemma first_line_here: "newline \<notin> set line \<Longrightarrow> first_line (line @ newline # s) = Some (line, s)"
  by (induction line) (auto simp: first_line_def)

lemma drain_line:
  assumes "newline \<notin> set line"
  shows "drain (line @ newline # s) = (case drain s of (lines, left) \<Rightarrow> (if line = [] then lines else line # lines, left))"
proof -
  show ?thesis by (subst drain.simps) (simp add: first_line_here [OF assms])
qed

text \<open>Every text is its lines and a rest without a newline.\<close>

lemma split_first: "newline \<in> set s \<Longrightarrow> \<exists>line rest. s = line @ newline # rest \<and> newline \<notin> set line"
  by (metis split_list_first)

lemma drain_left: "newline \<notin> set (snd (drain s))"
proof (induction s rule: drain.induct)
  case (1 s)
  show ?case
  proof (cases "newline \<in> set s")
    case True
    from split_first [OF True] obtain line rest where s: "s = line @ newline # rest" "newline \<notin> set line" by blast
    then have "first_line s = Some (line, rest)" by (simp add: first_line_here)
    from 1 [OF this refl] show ?thesis by (auto simp: s(1) drain_line [OF s(2)] split: prod.split)
  qed (simp add: drain_quiet)
qed

text \<open>How the stream is cut into chunks makes no difference.\<close>

lemma drain_append: "drain (s @ t) = (case drain s of (lines, left) \<Rightarrow> (case drain (left @ t) of (more_lines, left') \<Rightarrow> (lines @ more_lines, left')))"
proof (induction s rule: drain.induct)
  case (1 s)
  show ?case
  proof (cases "newline \<in> set s")
    case True
    from split_first [OF True] obtain line rest where s: "s = line @ newline # rest" "newline \<notin> set line" by blast
    then have "first_line s = Some (line, rest)" by (simp add: first_line_here)
    from 1 [OF this refl] s(1) show ?thesis
      using drain_line [OF s(2), of "rest @ t"] drain_line [OF s(2), of rest] by (auto split: prod.splits)
  qed (auto simp: drain_quiet split: prod.split)
qed

section \<open>What a receiver may rely on\<close>

text \<open>
  A stream of messages over bytes: the receiver's state, what a piece of the stream completes, and the frame of a message. The
  laws are that cutting a piece in two changes nothing, and that a frame is its message.
\<close>

locale message_stream =
  fixes feed :: "'s \<Rightarrow> string \<Rightarrow> 'm list \<times> 's"
    and frame :: "'m \<Rightarrow> string"
    and start :: 's
    and valid :: "'m \<Rightarrow> bool"
  assumes feed_append: "feed s (a @ b) = (case feed s a of (ms, t) \<Rightarrow> (case feed t b of (ns, u) \<Rightarrow> (ms @ ns, u)))"
    and feed_frame: "valid m \<Longrightarrow> feed start (frame m) = ([m], start)"
    and feed_nothing: "feed start [] = ([], start)"
begin

text \<open>A state that some piece has left behind is left alone by nothing.\<close>

lemma feed_rest: "feed s a = (ms, t) \<Longrightarrow> feed t [] = ([], t)"
  using feed_append [of s a "[]"] by (cases "feed t []") simp

lemma feeds_concat: "feed s [] = ([], s) \<Longrightarrow> feeds feed s chunks = feed s (concat chunks)"
proof (induction chunks arbitrary: s)
  case (Cons c cs)
  obtain ms t where f: "feed s c = (ms, t)" by fastforce
  from Cons.IH [OF feed_rest [OF f]] f show ?case using feed_append [of s c "concat cs"] by simp
qed simp

lemma feed_frames: "list_all valid ms \<Longrightarrow> feed start (concat (map frame ms)) = (ms, start)"
proof (induction ms)
  case (Cons m ms)
  then show ?case using feed_append [of start "frame m" "concat (map frame ms)"] by (simp add: feed_frame)
qed (simp add: feed_nothing)

lemma frames_arrive:
  "list_all valid ms \<Longrightarrow> concat chunks = concat (map frame ms) \<Longrightarrow> feeds feed start chunks = (ms, start)"
  by (simp add: feeds_concat [OF feed_nothing] feed_frames)

end

definition frame_of :: "string \<Rightarrow> string" where
  "frame_of message = message @ [newline]"

definition is_message :: "string \<Rightarrow> bool" where
  "is_message m \<longleftrightarrow> m \<noteq> [] \<and> newline \<notin> set m"

interpretation line_stream: message_stream take_chunk frame_of "[]" is_message
proof
  show "take_chunk s (a @ b) = (case take_chunk s a of (ms, t) \<Rightarrow> (case take_chunk t b of (ns, u) \<Rightarrow> (ms @ ns, u)))" for s a b
    using drain_append [of "s @ a" b] by (simp add: take_chunk_def)
  show "take_chunk [] (frame_of m) = ([m], [])" if "is_message m" for m
    using that drain_line [of m "[]"] by (simp add: take_chunk_def frame_of_def is_message_def drain_quiet)
  show "take_chunk [] [] = ([], [])" by (simp add: take_chunk_def drain_quiet)
qed

lemma chunks_drain: "take_chunks [] chunks = drain (concat chunks)"
  using line_stream.feeds_concat [OF line_stream.feed_nothing, of chunks] by (simp add: take_chunk_def)

section \<open>Writing a message\<close>

datatype send_answer = Sent nat | Send_Interrupted | Send_Failed

text \<open>The \<open>send\<close> of the kernel: the bytes offered, and its state; it takes a prefix of them.\<close>

type_synonym 'r sender = "string \<Rightarrow> 'r \<Rightarrow> send_answer \<times> 'r"

text \<open>
  The loop of \<open>write\<close>: the answer, what the stream holds after it, and the kernel. It may be interrupted for ever,
  so not returning is \<open>None\<close>.
\<close>

partial_function (option) send_all :: "'r sender \<Rightarrow> string \<Rightarrow> string \<Rightarrow> 'r \<Rightarrow> (bool \<times> string \<times> 'r) option" where
  "send_all K left wire r =
    (if left = [] then Some (True, wire, r)
     else (case K left r of
         (Send_Interrupted, r') \<Rightarrow> send_all K left wire r'
       | (Send_Failed, r') \<Rightarrow> Some (False, wire, r')
       | (Sent n, r') \<Rightarrow> if n = 0 then Some (False, wire, r') else send_all K (drop n left) (wire @ take n left) r'))"

text \<open>\<open>SocketState::write\<close> on an endpoint that is open or not.\<close>

definition write_message :: "'r sender \<Rightarrow> bool \<Rightarrow> string \<Rightarrow> string \<Rightarrow> 'r \<Rightarrow> (bool \<times> string \<times> 'r) option" where
  "write_message K usable message wire r =
    (if \<not> usable then Some (False, wire, r) else send_all K (frame_of message) wire r)"

text \<open>A sequence of messages, each written whatever became of the one before.\<close>

fun write_messages :: "'r sender \<Rightarrow> string list \<Rightarrow> string \<Rightarrow> 'r \<Rightarrow> (bool list \<times> string \<times> 'r) option" where
  "write_messages K [] wire r = Some ([], wire, r)"
| "write_messages K (m # ms) wire r = (case write_message K True m wire r of
      None \<Rightarrow> None
    | Some (ok, wire', r') \<Rightarrow> (case write_messages K ms wire' r' of
          None \<Rightarrow> None
        | Some (oks, wire'', r'') \<Rightarrow> Some (ok # oks, wire'', r'')))"

text \<open>What is on the stream after a write is a prefix of the frame, the whole of it exactly when the write says so.\<close>

definition prefix_sent :: "string \<Rightarrow> string \<Rightarrow> bool \<times> string \<times> 'r \<Rightarrow> bool" where
  "prefix_sent left wire y \<longleftrightarrow> (\<exists>sent rest. left = sent @ rest \<and> fst (snd y) = wire @ sent \<and> (fst y \<longleftrightarrow> rest = []))"

lemma prefix_sent_step: "prefix_sent (drop n left) (wire @ take n left) y \<Longrightarrow> prefix_sent left wire y"
  unfolding prefix_sent_def by (metis append.assoc append_take_drop_id)

lemma send_all_sent: "send_all K left wire r = Some y \<Longrightarrow> prefix_sent left wire y"
proof (rule send_all.raw_induct [where P = "\<lambda>K left wire r y. prefix_sent left wire y"])
  fix send :: "'a sender \<Rightarrow> string \<Rightarrow> string \<Rightarrow> 'a \<Rightarrow> (bool \<times> string \<times> 'a) option" and K left wire r y
  assume IH: "\<And>K left wire r y. send K left wire r = Some y \<Longrightarrow> prefix_sent left wire y"
    and step: "(if left = [] then Some (True, wire, r)
     else (case K left r of
         (Send_Interrupted, r') \<Rightarrow> send K left wire r'
       | (Send_Failed, r') \<Rightarrow> Some (False, wire, r')
       | (Sent n, r') \<Rightarrow> if n = 0 then Some (False, wire, r') else send K (drop n left) (wire @ take n left) r')) = Some y"
  show "prefix_sent left wire y"
  proof (cases "left = []")
    case False
    then have stay: "prefix_sent left wire (False, wire, r1)" for r1 :: 'a by (simp add: prefix_sent_def)
    obtain a r1 where k: "K left r = (a, r1)" by fastforce
    show ?thesis
    proof (cases a)
      case (Sent n)
      show ?thesis
      proof (cases "n = 0")
        case True
        with k Sent \<open>left \<noteq> []\<close> step have "y = (False, wire, r1)" by simp
        with stay show ?thesis by simp
      next
        case False
        with k Sent \<open>left \<noteq> []\<close> step have "send K (drop n left) (wire @ take n left) r1 = Some y" by simp
        from prefix_sent_step [OF IH [OF this]] show ?thesis .
      qed
    next
      case Send_Interrupted
      with k \<open>left \<noteq> []\<close> step IH show ?thesis by simp
    next
      case Send_Failed
      with k \<open>left \<noteq> []\<close> step have "y = (False, wire, r1)" by simp
      with stay show ?thesis by simp
    qed
  qed (use step in \<open>auto simp: prefix_sent_def\<close>)
qed

lemma write_prefix:
  assumes "write_message K usable m wire r = Some (ok, wire', r')"
  shows "prefix_sent (frame_of m) wire (ok, wire', r')"
  using assms send_all_sent [of K "frame_of m" wire r "(ok, wire', r')"]
  by (auto simp: write_message_def prefix_sent_def frame_of_def split: if_splits)

text \<open>A write returns, unless the kernel is interrupted for ever.\<close>

lemma send_all_returns:
  fixes patience :: "'r \<Rightarrow> nat"
  assumes "\<And>l r r'. K l r = (Send_Interrupted, r') \<Longrightarrow> patience r' < patience r"
  shows "send_all K left wire r \<noteq> None"
proof (induction "(length left, patience r)" arbitrary: left wire r rule: wf_induct_rule [OF wf_lex_prod [OF wf_less_than wf_less_than]])
  case 1
  show ?case
  proof (cases "left = []")
    case False
    obtain a r1 where k: "K left r = (a, r1)" by fastforce
    show ?thesis
    proof (cases a)
      case (Sent n)
      show ?thesis
      proof (cases "n = 0")
        case False
        with \<open>left \<noteq> []\<close> have "((length (drop n left), patience r1), (length left, patience r)) \<in> less_than <*lex*> less_than"
          by simp
        with 1 have "send_all K (drop n left) (wire @ take n left) r1 \<noteq> None" by blast
        with \<open>left \<noteq> []\<close> False k Sent show ?thesis by (simp add: send_all.simps [of K left])
      qed (use \<open>left \<noteq> []\<close> k Sent in \<open>simp add: send_all.simps [of K left]\<close>)
    next
      case Send_Interrupted
      with k assms have "patience r1 < patience r" by blast
      with 1 have "send_all K left wire r1 \<noteq> None" by fastforce
      with \<open>left \<noteq> []\<close> k Send_Interrupted show ?thesis by (simp add: send_all.simps [of K left])
    qed (use \<open>left \<noteq> []\<close> k in \<open>simp add: send_all.simps [of K left]\<close>)
  qed (simp add: send_all.simps)
qed

lemma messages_written:
  "write_messages K ms wire r = Some (oks, wire', r') \<Longrightarrow> list_all (\<lambda>ok. ok) oks \<Longrightarrow> wire' = wire @ concat (map frame_of ms)"
proof (induction ms arbitrary: wire r oks wire' r')
  case (Cons m ms)
  from Cons.prems(1) obtain ok w1 r1 oks1 where 1: "write_message K True m wire r = Some (ok, w1, r1)"
      "write_messages K ms w1 r1 = Some (oks1, wire', r')" "oks = ok # oks1"
    by (auto split: option.splits prod.splits)
  with Cons.prems(2) have "ok" "list_all (\<lambda>ok. ok) oks1" by simp_all
  with write_prefix [OF 1(1)] Cons.IH [OF 1(2)] show ?case by (auto simp: prefix_sent_def)
qed simp

lemma drain_frames:
  assumes "list_all (\<lambda>m. newline \<notin> set m) ms"
  shows "drain (concat (map frame_of ms) @ s) = (case drain s of (lines, left) \<Rightarrow> (filter (\<lambda>m. m \<noteq> []) ms @ lines, left))"
  using assms
proof (induction ms)
  case (Cons m ms)
  have "concat (map frame_of (m # ms)) @ s = m @ newline # concat (map frame_of ms) @ s" by (simp add: frame_of_def)
  with Cons drain_line [of m "concat (map frame_of ms) @ s"] show ?case by (simp split: prod.splits)
qed (simp split: prod.split)

section \<open>The channel as a whole\<close>

text \<open>
  The messages that were written without a failure arrive as they were written, once each and in their order, however
  the kernel took the bytes on one side and cut them on the other; an empty message is dropped. A message is a text without
  a newline, as compact JSON is.
\<close>

theorem messages_arrive:
  assumes "write_messages K ms [] r = Some (oks, wire, r')" "list_all (\<lambda>ok. ok) oks" "list_all (\<lambda>m. newline \<notin> set m) ms"
    and "concat chunks = wire"
  shows "take_chunks [] chunks = (filter (\<lambda>m. m \<noteq> []) ms, [])"
proof -
  have "take_chunks [] chunks = drain (concat (map frame_of ms))"
    using chunks_drain [of chunks] messages_written [OF assms(1,2)] assms(4) by simp
  also have "\<dots> = (filter (\<lambda>m. m \<noteq> []) ms, [])" using drain_frames [OF assms(3), of "[]"] by (simp add: drain_quiet)
  finally show ?thesis .
qed

text \<open>A kernel that takes at most three bytes at a time, and is interrupted before each odd step.\<close>

definition slow_sender :: "nat sender" where
  "slow_sender left r = (if odd r then (Send_Interrupted, r - 1) else (Sent (min 3 (length left)), r + 3))"

lemma messages_arrive_witness:
  "take_chunks [] [''{a'', ''}'' @ [newline] @ ''{'', ''b}'' @ [newline]] = ([''{a}'', ''{b}''], [])"
proof -
  have "write_messages slow_sender [''{a}'', ''{b}''] [] 1 = Some ([True, True], ''{a}'' @ [newline] @ ''{b}'' @ [newline], 9)"
    by (simp add: write_message_def frame_of_def slow_sender_def send_all.simps [of slow_sender])
  from messages_arrive [OF this, of "[''{a'', ''}'' @ [newline] @ ''{'', ''b}'' @ [newline]]"] show ?thesis by simp
qed

text \<open>
  A write that fails half way leaves the channel open and its half of the frame on the stream: the next message is glued to
  it and arrives as one text that nobody sent.
\<close>

lemma half_frame_glues:
  assumes "newline \<notin> set half" "newline \<notin> set m" "half \<noteq> []"
  shows "take_chunks [] [half @ frame_of m] = ([half @ m], [])"
  using assms drain_line [of "half @ m" "[]"] by (simp add: take_chunk_def frame_of_def drain_quiet)

end
