(* ===== verification/Web_Channel.thy ===== *)
theory Web_Channel
  imports Web_Frames
begin

text \<open>
  \<open>SocketState\<close> and \<open>SocketChannel\<close> of \<open>src/src/web/webhost_view.cpp\<close> with their threads: the pump that reads the socket and runs the
  receiver, and any number of owners that send, set the receiver and close. A step is what a thread does while it holds a
  mutex, or a wait for one; a send is one step, so it is taken to return. \<open>m_pumpMu\<close> is held across the join, and \<open>receiverMu\<close> across the receiver.
\<close>

section \<open>State\<close>

text \<open>Where the pump is; inside a callback it remembers the lines it still has.\<close>

datatype callback = In_Receiver "string list" | In_Eof

datatype pump_at =
    At_Top
  | At_Recv
  | At_Lines "string list"
  | At_Callback "string list"     \<comment> \<open>the receiver runs\<close>
  | At_Close callback             \<comment> \<open>the callback closes the channel and waits for \<open>m_pumpMu\<close>\<close>
  | At_Exit
  | At_Eof                        \<comment> \<open>the end-of-stream callback runs\<close>
  | At_Gone

datatype owner_at = Idle | Wants_Pump | Joining

record chan =
  ch_fd :: bool                   \<comment> \<open>\<open>fd >= 0\<close>\<close>
  ch_kernel :: bool               \<comment> \<open>the descriptor is open in the kernel\<close>
  ch_closes :: nat                \<comment> \<open>how often it was closed\<close>
  ch_closed :: bool
  ch_receiver :: "nat option"
  ch_rxHeld :: bool               \<comment> \<open>\<open>receiverMu\<close> is held by the pump\<close>
  ch_mu :: "nat option"           \<comment> \<open>the owner that holds \<open>m_pumpMu\<close>\<close>
  ch_joinable :: bool
  ch_pump :: pump_at
  ch_owner :: "nat \<Rightarrow> owner_at"
  ch_inbox :: string
  ch_bytes :: string              \<comment> \<open>all that was received\<close>
  ch_seen :: "(nat option \<times> string) list"   \<comment> \<open>the lines taken, each with the receiver it went to\<close>

text \<open>A channel whose pump has just been started.\<close>

definition started :: chan where
  "started = \<lparr>ch_fd = True, ch_kernel = True, ch_closes = 0, ch_closed = False, ch_receiver = None, ch_rxHeld = False, ch_mu = None,
     ch_joinable = True, ch_pump = At_Top, ch_owner = (\<lambda>_. Idle), ch_inbox = [], ch_bytes = [], ch_seen = []\<rparr>"

definition shutdownFd :: "chan \<Rightarrow> chan" where
  "shutdownFd c = c\<lparr>ch_closed := True\<rparr>"

text \<open>The end of \<open>pump\<close>.\<close>

definition drop_fd :: "chan \<Rightarrow> chan" where
  "drop_fd c = (let c = c\<lparr>ch_closed := True\<rparr> in
     if ch_fd c then c\<lparr>ch_fd := False, ch_kernel := False, ch_closes := ch_closes c + 1\<rparr> else c)"

fun resume :: "callback \<Rightarrow> pump_at" where
  "resume (In_Receiver ls) = At_Callback ls"
| "resume In_Eof = At_Eof"

definition isOpen :: "chan \<Rightarrow> bool" where
  "isOpen c \<longleftrightarrow> \<not> ch_closed c"

section \<open>Steps\<close>

datatype chan_act = By_Pump | Calls_Close nat | By_Owner nat | Owner_Sets "nat option" | Callback_Sets "nat option"

inductive chan_step :: "chan_act \<Rightarrow> chan \<Rightarrow> chan \<Rightarrow> bool" where
  top_stop: "ch_pump c = At_Top \<Longrightarrow> ch_closed c \<or> \<not> ch_fd c \<Longrightarrow> chan_step By_Pump c (c\<lparr>ch_pump := At_Exit\<rparr>)"
| top_go: "ch_pump c = At_Top \<Longrightarrow> \<not> ch_closed c \<Longrightarrow> ch_fd c \<Longrightarrow> chan_step By_Pump c (c\<lparr>ch_pump := At_Recv\<rparr>)"
| recv_again: "ch_pump c = At_Recv \<Longrightarrow> chan_step By_Pump c (c\<lparr>ch_pump := At_Top\<rparr>)"
| recv_end: "ch_pump c = At_Recv \<Longrightarrow> chan_step By_Pump c (c\<lparr>ch_pump := At_Exit\<rparr>)"
| recv_bytes: "ch_pump c = At_Recv \<Longrightarrow> take_chunk (ch_inbox c) chunk = (ls, left) \<Longrightarrow>
    chan_step By_Pump c (c\<lparr>ch_pump := At_Lines ls, ch_inbox := left, ch_bytes := ch_bytes c @ chunk\<rparr>)"
| lines_done: "ch_pump c = At_Lines [] \<Longrightarrow> chan_step By_Pump c (c\<lparr>ch_pump := At_Top\<rparr>)"
| line_to_nobody: "ch_pump c = At_Lines (l # ls) \<Longrightarrow> ch_receiver c = None \<Longrightarrow>
    chan_step By_Pump c (c\<lparr>ch_pump := At_Lines ls, ch_seen := ch_seen c @ [(None, l)]\<rparr>)"
| line_delivered: "ch_pump c = At_Lines (l # ls) \<Longrightarrow> ch_receiver c = Some f \<Longrightarrow>
    chan_step By_Pump c (c\<lparr>ch_pump := At_Callback ls, ch_rxHeld := True, ch_seen := ch_seen c @ [(Some f, l)]\<rparr>)"
| callback_sets: "ch_pump c = At_Callback ls \<Longrightarrow> chan_step (Callback_Sets r) c (c\<lparr>ch_receiver := r\<rparr>)"
| callback_returns: "ch_pump c = At_Callback ls \<Longrightarrow> chan_step By_Pump c (c\<lparr>ch_pump := At_Lines ls, ch_rxHeld := False\<rparr>)"
| callback_closes: "ch_pump c = At_Callback ls \<Longrightarrow>
    chan_step By_Pump c ((shutdownFd c)\<lparr>ch_pump := At_Close (In_Receiver ls)\<rparr>)"
| close_detaches: "ch_pump c = At_Close k \<Longrightarrow> ch_mu c = None \<Longrightarrow>
    chan_step By_Pump c (c\<lparr>ch_joinable := False, ch_pump := resume k\<rparr>)"
| falls_out: "ch_pump c = At_Exit \<Longrightarrow> chan_step By_Pump c ((drop_fd c)\<lparr>ch_pump := At_Eof\<rparr>)"
| eof_returns: "ch_pump c = At_Eof \<Longrightarrow> chan_step By_Pump c (c\<lparr>ch_pump := At_Gone\<rparr>)"
| eof_closes: "ch_pump c = At_Eof \<Longrightarrow> chan_step By_Pump c ((shutdownFd c)\<lparr>ch_pump := At_Close In_Eof\<rparr>)"
| owner_closes: "ch_owner c i = Idle \<Longrightarrow>
    chan_step (Calls_Close i) c ((shutdownFd c)\<lparr>ch_owner := (ch_owner c)(i := Wants_Pump)\<rparr>)"
| owner_enters: "ch_owner c i = Wants_Pump \<Longrightarrow> ch_mu c = None \<Longrightarrow> ch_joinable c \<Longrightarrow>
    chan_step (By_Owner i) c (c\<lparr>ch_mu := Some i, ch_owner := (ch_owner c)(i := Joining)\<rparr>)"
| owner_nothing: "ch_owner c i = Wants_Pump \<Longrightarrow> ch_mu c = None \<Longrightarrow> \<not> ch_joinable c \<Longrightarrow>
    chan_step (By_Owner i) c (c\<lparr>ch_owner := (ch_owner c)(i := Idle)\<rparr>)"
| owner_joined: "ch_owner c i = Joining \<Longrightarrow> ch_pump c = At_Gone \<Longrightarrow>
    chan_step (By_Owner i) c (c\<lparr>ch_mu := None, ch_joinable := False, ch_owner := (ch_owner c)(i := Idle)\<rparr>)"
| owner_sets: "\<not> ch_rxHeld c \<Longrightarrow> chan_step (Owner_Sets r) c (c\<lparr>ch_receiver := r\<rparr>)"

inductive_cases by_pump: "chan_step By_Pump c c'"
inductive_cases by_owner: "chan_step (By_Owner i) c c'"
inductive_cases owner_set: "chan_step (Owner_Sets r) c c'"

text \<open>Any number of steps.\<close>

inductive chan_steps :: "chan \<Rightarrow> chan_act list \<Rightarrow> chan \<Rightarrow> bool" where
  no_step: "chan_steps c [] c"
| a_step: "chan_step a c c' \<Longrightarrow> chan_steps c' as c'' \<Longrightarrow> chan_steps c (a # as) c''"

definition reachable :: "chan \<Rightarrow> bool" where
  "reachable c \<longleftrightarrow> (\<exists>as. chan_steps started as c)"

lemma steps_preserve:
  assumes "chan_steps c as c'" "P c" "\<And>a c c'. chan_step a c c' \<Longrightarrow> a \<in> set as \<Longrightarrow> P c \<Longrightarrow> P c'"
  shows "P c'"
  using assms by (induction rule: chan_steps.induct) auto

section \<open>The invariant\<close>

fun waiting :: "pump_at \<Rightarrow> string list" where
  "waiting (At_Lines ls) = ls"
| "waiting (At_Callback ls) = ls"
| "waiting (At_Close (In_Receiver ls)) = ls"
| "waiting _ = []"

fun in_receiver :: "pump_at \<Rightarrow> bool" where
  "in_receiver (At_Callback ls) = True"
| "in_receiver (At_Close (In_Receiver ls)) = True"
| "in_receiver _ = False"

text \<open>The pump has left its loop and dropped the descriptor.\<close>

fun past_loop :: "pump_at \<Rightarrow> bool" where
  "past_loop At_Eof = True"
| "past_loop (At_Close In_Eof) = True"
| "past_loop At_Gone = True"
| "past_loop _ = False"

definition fd_ok :: "chan \<Rightarrow> bool" where
  "fd_ok c \<longleftrightarrow> ch_kernel c = ch_fd c \<and> ch_fd c = (\<not> past_loop (ch_pump c)) \<and> ch_closes c = (if past_loop (ch_pump c) then 1 else 0)
     \<and> (past_loop (ch_pump c) \<longrightarrow> ch_closed c)"

definition locks_ok :: "chan \<Rightarrow> bool" where
  "locks_ok c \<longleftrightarrow> ch_rxHeld c = in_receiver (ch_pump c) \<and> (\<forall>i. ch_owner c i = Joining \<longleftrightarrow> ch_mu c = Some i)"

definition stream_ok :: "chan \<Rightarrow> bool" where
  "stream_ok c \<longleftrightarrow> drain (ch_bytes c) = (map snd (ch_seen c) @ waiting (ch_pump c), ch_inbox c)"

lemma past_loop_resume [simp]: "past_loop (resume k) = past_loop (At_Close k)" by (cases k) auto
lemma in_receiver_resume [simp]: "in_receiver (resume k) = in_receiver (At_Close k)" by (cases k) auto
lemma waiting_resume [simp]: "waiting (resume k) = waiting (At_Close k)" by (cases k) auto

lemma fd_step: "chan_step a c c' \<Longrightarrow> fd_ok c \<Longrightarrow> fd_ok c'"
  by (induction rule: chan_step.induct) (auto simp: fd_ok_def shutdownFd_def drop_fd_def Let_def)

lemma locks_step: "chan_step a c c' \<Longrightarrow> locks_ok c \<Longrightarrow> locks_ok c'"
  by (induction rule: chan_step.induct)
    (auto simp: locks_ok_def shutdownFd_def drop_fd_def Let_def split: if_splits, (metis owner_at.distinct)+)

lemma drain_more: "drain s = (ls, left) \<Longrightarrow> take_chunk left t = (more_lines, left') \<Longrightarrow> drain (s @ t) = (ls @ more_lines, left')"
  using drain_append [of s t] by (simp add: take_chunk_def)

lemma stream_step: "chan_step a c c' \<Longrightarrow> stream_ok c \<Longrightarrow> stream_ok c'"
proof (induction rule: chan_step.induct)
  case (recv_bytes c chunk ls left)
  then show ?case using drain_more [of "ch_bytes c" "map snd (ch_seen c)" "ch_inbox c" chunk ls left] by (simp add: stream_ok_def)
qed (simp_all add: stream_ok_def shutdownFd_def drop_fd_def Let_def)

lemma reachable_ok:
  assumes "reachable c"
  shows "fd_ok c" "locks_ok c" "stream_ok c"
proof -
  obtain as where as: "chan_steps started as c" using assms by (auto simp: reachable_def)
  have "fd_ok started" "locks_ok started" "stream_ok started"
    by (simp_all add: fd_ok_def locks_ok_def stream_ok_def started_def drain_quiet)
  then show "fd_ok c" "locks_ok c" "stream_ok c"
    using steps_preserve [OF as, of fd_ok] steps_preserve [OF as, of locks_ok] steps_preserve [OF as, of stream_ok]
      fd_step locks_step stream_step by blast+
qed

section \<open>Properties\<close>

text \<open>
  C36: whatever the threads do, the descriptor is read only while it is open, it is closed at most once and exactly when the
  pump has left its loop, and never while a write or a shutdown could still use its number.
\<close>

theorem descriptor_safe:
  assumes "chan_steps started as c"
  shows "(ch_pump c = At_Recv \<longrightarrow> ch_kernel c) \<and> (ch_fd c \<longrightarrow> ch_kernel c)
    \<and> ch_closes c = (if past_loop (ch_pump c) then 1 else 0) \<and> (ch_pump c = At_Gone \<longrightarrow> \<not> ch_kernel c)"
proof -
  have "reachable c" using assms by (auto simp: reachable_def)
  from reachable_ok(1) [OF this] show ?thesis by (auto simp: fd_ok_def)
qed

text \<open>
  The lines the receivers were given, and those the pump still has, are the messages of all that was received, once each and in order,
  under every interleaving of the pump with the owners.
\<close>

theorem receivers_see_stream:
  assumes "chan_steps started as c"
  shows "drain (ch_bytes c) = (map snd (ch_seen c) @ waiting (ch_pump c), ch_inbox c)"
  using reachable_ok(3) [of c] assms by (auto simp: reachable_def stream_ok_def)

definition quiet_since :: "chan \<Rightarrow> nat option \<Rightarrow> chan \<Rightarrow> bool" where
  "quiet_since c0 r c \<longleftrightarrow> ch_receiver c = r \<and> (\<exists>new. ch_seen c = ch_seen c0 @ new \<and> list_all (\<lambda>d. fst d = r) new)"

lemma quiet_step: "chan_step a c c' \<Longrightarrow> (\<forall>r. a \<noteq> Owner_Sets r \<and> a \<noteq> Callback_Sets r) \<Longrightarrow> quiet_since c0 r c \<Longrightarrow> quiet_since c0 r c'"
  by (induction rule: chan_step.induct) (auto simp: quiet_since_def shutdownFd_def drop_fd_def Let_def)

text \<open>
  C38: once an owner's \<open>setReceiver\<close> has returned, the receiver that was there before is not running and never runs again: until the next change
  every line goes to the new one, or to nobody if there is none.
\<close>

theorem replaced_receiver_quiet:
  assumes "chan_steps started as c" "chan_step (Owner_Sets r) c c1"
    and "chan_steps c1 bs c2" "\<forall>q. Owner_Sets q \<notin> set bs \<and> Callback_Sets q \<notin> set bs"
  shows "\<not> in_receiver (ch_pump c1) \<and> (\<exists>new. ch_seen c2 = ch_seen c1 @ new \<and> list_all (\<lambda>d. fst d = r) new)"
proof -
  have c1: "c1 = c\<lparr>ch_receiver := r\<rparr>" "\<not> ch_rxHeld c" using assms(2) by (auto elim: owner_set)
  then have "\<not> in_receiver (ch_pump c1)" "quiet_since c1 r c1"
    using reachable_ok(2) [of c] assms(1) by (auto simp: reachable_def locks_ok_def quiet_since_def)
  moreover have "quiet_since c1 r c2"
    using steps_preserve [OF assms(3), of "quiet_since c1 r"] calculation(2) quiet_step assms(4) by blast
  ultimately show ?thesis by (auto simp: quiet_since_def)
qed

section \<open>When nobody can go on\<close>

text \<open>No step is left to the pump or to an owner that has begun to close.\<close>

definition stuck :: "chan \<Rightarrow> bool" where
  "stuck c \<longleftrightarrow> (\<forall>a c'. chan_step a c c' \<longrightarrow> (\<exists>i. a = Calls_Close i) \<or> (\<exists>r. a = Owner_Sets r \<or> a = Callback_Sets r))"

definition all_done :: "chan \<Rightarrow> bool" where
  "all_done c \<longleftrightarrow> ch_pump c = At_Gone \<and> (\<forall>i. ch_owner c i = Idle)"

text \<open>The pump, inside a callback, wants the mutex of an owner that waits for the pump.\<close>

definition deadlocked :: "chan \<Rightarrow> bool" where
  "deadlocked c \<longleftrightarrow> (\<exists>k i. ch_pump c = At_Close k \<and> ch_owner c i = Joining \<and> ch_mu c = Some i)"

lemma pump_moves:
  assumes "ch_pump c \<noteq> At_Gone" "\<forall>k. ch_pump c = At_Close k \<longrightarrow> ch_mu c = None"
  shows "\<exists>c'. chan_step By_Pump c c'"
proof (cases "ch_pump c")
  case At_Top
  then show ?thesis by (cases "ch_closed c \<or> \<not> ch_fd c") (blast intro: top_stop top_go)+
next
  case (At_Lines ls)
  show ?thesis
  proof (cases ls)
    case Nil
    with At_Lines show ?thesis by (blast intro: lines_done)
  next
    case (Cons l rest)
    with At_Lines show ?thesis by (cases "ch_receiver c") (blast intro: line_to_nobody line_delivered)+
  qed
qed (use assms in \<open>blast intro: recv_again callback_returns close_detaches falls_out eof_returns\<close>)+

lemma owner_moves:
  assumes "locks_ok c" "ch_pump c = At_Gone" "ch_owner c i \<noteq> Idle"
  shows "\<exists>j c'. chan_step (By_Owner j) c c'"
proof (cases "ch_mu c")
  case (Some j)
  with assms(1) have "ch_owner c j = Joining" by (simp add: locks_ok_def)
  with assms(2) show ?thesis by (blast intro: owner_joined)
next
  case None
  with assms(1) have "ch_owner c i \<noteq> Joining" by (simp add: locks_ok_def)
  with assms(3) have "ch_owner c i = Wants_Pump" by (cases "ch_owner c i") auto
  with None show ?thesis by (cases "ch_joinable c") (blast intro: owner_enters owner_nothing)+
qed

lemma deadlocked_stuck:
  assumes "locks_ok c" "deadlocked c"
  shows "stuck c"
proof -
  from assms(2) obtain k i where c: "ch_pump c = At_Close k" "ch_mu c = Some i" by (auto simp: deadlocked_def)
  have "(\<exists>i. a = Calls_Close i) \<or> (\<exists>r. a = Owner_Sets r \<or> a = Callback_Sets r)" if "chan_step a c c'" for a c'
    using that c by cases auto
  then show ?thesis by (auto simp: stuck_def)
qed


section \<open>The deadlock happens\<close>

text \<open>
  A message arrives, its receiver fails on it and closes the channel while the owner unloads the module: the owner has marked the
  channel closed and taken \<open>m_pumpMu\<close> before the pump asks for it.
\<close>

definition deadlock_run :: "chan_act list" where
  "deadlock_run = [Owner_Sets (Some 0), By_Pump, By_Pump, By_Pump, Calls_Close 0, By_Owner 0, By_Pump]"

definition deadlock_end :: chan where
  "deadlock_end = started\<lparr>ch_receiver := Some 0, ch_pump := At_Close (In_Receiver []), ch_inbox := [], ch_bytes := ''x'' @ [newline],
     ch_rxHeld := True, ch_seen := [(Some 0, ''x'')], ch_closed := True, ch_owner := (\<lambda>_. Idle)(0 := Joining), ch_mu := Some 0\<rparr>"

lemma deadlock_happens: "chan_steps started deadlock_run deadlock_end" "deadlocked deadlock_end"
proof -
  let ?c1 = "started\<lparr>ch_receiver := Some 0\<rparr>"
  let ?c2 = "?c1\<lparr>ch_pump := At_Recv\<rparr>"
  let ?c3 = "?c2\<lparr>ch_pump := At_Lines [''x''], ch_inbox := [], ch_bytes := ''x'' @ [newline]\<rparr>"
  let ?c4 = "?c3\<lparr>ch_pump := At_Callback [], ch_rxHeld := True, ch_seen := [(Some 0, ''x'')]\<rparr>"
  let ?c5 = "(shutdownFd ?c4)\<lparr>ch_owner := (\<lambda>_. Idle)(0 := Wants_Pump)\<rparr>"
  let ?c6 = "?c5\<lparr>ch_mu := Some 0, ch_owner := (\<lambda>_. Idle)(0 := Joining)\<rparr>"
  have d: "take_chunk [] (''x'' @ [newline]) = ([''x''], [])"
    using drain_line [of "''x''" "[]"] by (simp add: take_chunk_def drain_quiet)
  have s1: "chan_step (Owner_Sets (Some 0)) started ?c1" by (rule owner_sets) (simp add: started_def)
  have s2: "chan_step By_Pump ?c1 ?c2" by (rule top_go) (simp_all add: started_def)
  have s3: "chan_step By_Pump ?c2 ?c3"
    using recv_bytes [of ?c2 "''x'' @ [newline]" "[''x'']" "[]"] d by (simp add: started_def)
  have s4: "chan_step By_Pump ?c3 ?c4"
    using line_delivered [of ?c3 "''x''" "[]" 0] by (simp add: started_def)
  have s5: "chan_step (Calls_Close 0) ?c4 ?c5"
    using owner_closes [of ?c4 0] by (simp add: started_def)
  have s6: "chan_step (By_Owner 0) ?c5 ?c6"
    using owner_enters [of ?c5 0] by (simp add: started_def shutdownFd_def)
  have s7: "chan_step By_Pump ?c6 deadlock_end"
    using callback_closes [of ?c6 "[]"] by (simp add: started_def shutdownFd_def deadlock_end_def)
  show "chan_steps started deadlock_run deadlock_end"
    unfolding deadlock_run_def
    by (rule a_step [OF s1 a_step [OF s2 a_step [OF s3 a_step [OF s4 a_step [OF s5 a_step [OF s6 a_step [OF s7 no_step]]]]]]])
  show "deadlocked deadlock_end" by (simp add: deadlocked_def deadlock_end_def)
qed

text \<open>And it lasts: no later step, of any thread, ends it.\<close>

definition held :: "nat \<Rightarrow> callback \<Rightarrow> chan \<Rightarrow> bool" where
  "held i k c \<longleftrightarrow> ch_pump c = At_Close k \<and> ch_owner c i = Joining \<and> ch_mu c = Some i"

lemma held_step: "chan_step a c c' \<Longrightarrow> held i k c \<Longrightarrow> held i k c'"
  by (induction rule: chan_step.induct) (auto simp: held_def shutdownFd_def drop_fd_def Let_def)

lemma deadlock_lasts:
  assumes "deadlocked c" "chan_steps c as c'"
  shows "deadlocked c'"
proof -
  from assms(1) obtain k i where "held i k c" by (auto simp: deadlocked_def held_def)
  then have "held i k c'" using steps_preserve [OF assms(2), of "held i k"] held_step by blast
  then show ?thesis by (auto simp: deadlocked_def held_def)
qed

section \<open>Witnesses\<close>

lemma descriptor_safe_witness: "ch_kernel deadlock_end \<and> ch_closes deadlock_end = 0"
  using descriptor_safe [OF deadlock_happens(1)] by (simp add: deadlock_end_def started_def)

lemma receivers_see_stream_witness: "drain (''x'' @ [newline]) = ([''x''], [])"
  using receivers_see_stream [OF deadlock_happens(1)] by (simp add: deadlock_end_def started_def)

lemma replaced_receiver_quiet_witness: "\<not> in_receiver (ch_pump (started\<lparr>ch_receiver := None\<rparr>))"
proof -
  have "chan_step (Owner_Sets None) started (started\<lparr>ch_receiver := None\<rparr>)"
    by (rule owner_sets) (simp add: started_def)
  from replaced_receiver_quiet [OF no_step this no_step] show ?thesis by simp
qed


end
