(* ===== verification/Web_View.thy ===== *)
theory Web_View
  imports Web_Channel Paths
begin

text \<open>
  The rest of \<open>src/src/web/webhost_view.cpp\<close>, POSIX branch: \<open>WebhostView\<close> (the announcement of a page's death against the
  deliberate teardown, and the end of the helper process), \<open>spawnView\<close>, \<open>resolveHelper\<close> and \<open>installWebhostBackend\<close>.
  The kernel is a parameter; what the program has open and running is state of the model.
\<close>

section \<open>The announcement\<close>

text \<open>\<open>announceDeath\<close>, on the pump thread, one atomic access at a time.\<close>

datatype announcing = Not_Yet | Won | Marked_Dead | Has_Callback "nat option" | Calling | Announced

datatype owning = Owned | Silenced | Stopping | Stopped

record view =
  vw_announced :: bool
  vw_alive :: bool
  vw_onDied :: "nat option"
  vw_pump :: announcing
  vw_owner :: owning
  vw_called :: "nat list"         \<comment> \<open>the death callbacks that ran\<close>
  vw_silentFirst :: bool          \<comment> \<open>the teardown began before the pump's exchange\<close>

definition new_view :: view where
  "new_view = \<lparr>vw_announced = False, vw_alive = True, vw_onDied = None, vw_pump = Not_Yet, vw_owner = Owned, vw_called = [],
     vw_silentFirst = False\<rparr>"

inductive view_step :: "view \<Rightarrow> view \<Rightarrow> bool" where
  loses: "vw_pump v = Not_Yet \<Longrightarrow> vw_announced v \<Longrightarrow> view_step v (v\<lparr>vw_pump := Announced\<rparr>)"
| wins: "vw_pump v = Not_Yet \<Longrightarrow> \<not> vw_announced v \<Longrightarrow> view_step v (v\<lparr>vw_announced := True, vw_pump := Won\<rparr>)"
| marks: "vw_pump v = Won \<Longrightarrow> view_step v (v\<lparr>vw_alive := False, vw_pump := Marked_Dead\<rparr>)"
| reads: "vw_pump v = Marked_Dead \<Longrightarrow> view_step v (v\<lparr>vw_pump := Has_Callback (vw_onDied v)\<rparr>)"
| calls: "vw_pump v = Has_Callback (Some f) \<Longrightarrow> view_step v (v\<lparr>vw_called := vw_called v @ [f], vw_pump := Calling\<rparr>)"
| returns_from: "vw_pump v = Calling \<Longrightarrow> view_step v (v\<lparr>vw_pump := Announced\<rparr>)"
| calls_nobody: "vw_pump v = Has_Callback None \<Longrightarrow> view_step v (v\<lparr>vw_pump := Announced\<rparr>)"
| sets_onDied: "vw_owner v = Owned \<Longrightarrow> view_step v (v\<lparr>vw_onDied := f\<rparr>)"
| silences: "vw_owner v = Owned \<Longrightarrow>
    view_step v (v\<lparr>vw_announced := True, vw_owner := Silenced, vw_silentFirst := (vw_pump v = Not_Yet)\<rparr>)"
| stops: "vw_owner v = Silenced \<Longrightarrow> view_step v (v\<lparr>vw_alive := False, vw_owner := Stopping\<rparr>)"
| joins: "vw_owner v = Stopping \<Longrightarrow> vw_pump v = Announced \<Longrightarrow> view_step v (v\<lparr>vw_owner := Stopped\<rparr>)"
| detaches: "vw_owner v = Stopping \<Longrightarrow> vw_pump v = Calling \<Longrightarrow> view_step v (v\<lparr>vw_owner := Stopped\<rparr>)"

inductive view_run :: "view \<Rightarrow> bool" where
  view_start: "view_run new_view"
| view_next: "view_run v \<Longrightarrow> view_step v w \<Longrightarrow> view_run w"

definition view_pid :: "view \<Rightarrow> int \<Rightarrow> int option" where
  "view_pid v pid = (if vw_alive v then Some pid else None)"

fun has_won :: "announcing \<Rightarrow> bool" where
  "has_won Won = True"
| "has_won Marked_Dead = True"
| "has_won (Has_Callback f) = True"
| "has_won Calling = True"
| "has_won _ = False"

definition view_ok :: "view \<Rightarrow> bool" where
  "view_ok v \<longleftrightarrow> length (vw_called v) \<le> 1
     \<and> (vw_pump v \<noteq> Announced \<and> vw_pump v \<noteq> Calling \<longrightarrow> vw_called v = [])
     \<and> (vw_pump v \<noteq> Not_Yet \<longrightarrow> vw_announced v)
     \<and> (vw_owner v \<noteq> Owned \<longrightarrow> vw_announced v)
     \<and> (vw_silentFirst v \<longrightarrow> vw_called v = [] \<and> \<not> has_won (vw_pump v) \<and> vw_owner v \<noteq> Owned)
     \<and> (vw_owner v = Stopping \<or> vw_owner v = Stopped \<longrightarrow> \<not> vw_alive v)
     \<and> (vw_called v \<noteq> [] \<longrightarrow> \<not> vw_alive v)
     \<and> ((\<exists>f. vw_pump v = Has_Callback f) \<or> vw_pump v = Marked_Dead \<or> vw_pump v = Calling \<longrightarrow> \<not> vw_alive v)
     \<and> (vw_announced v \<and> vw_pump v = Not_Yet \<longrightarrow> vw_silentFirst v)
     \<and> (vw_owner v = Stopped \<longrightarrow> vw_pump v = Announced \<or> vw_pump v = Calling)"

lemma view_step_ok: "view_step v w \<Longrightarrow> view_ok v \<Longrightarrow> view_ok w"
  by (induction rule: view_step.induct) (auto simp: view_ok_def)

lemma view_run_ok: "view_run v \<Longrightarrow> view_ok v"
proof (induction rule: view_run.induct)
  case view_start
  then show ?case by (simp add: view_ok_def new_view_def)
qed (rule view_step_ok)

text \<open>
  The death of a page is reported at most once; not at all when the teardown began first; and from the moment it is reported, or the teardown is under way,
  the view answers no process id and is not alive.
\<close>

theorem death_reported_once:
  assumes "view_run v"
  shows "length (vw_called v) \<le> 1 \<and> (vw_silentFirst v \<longrightarrow> vw_called v = [])
    \<and> (vw_called v \<noteq> [] \<or> vw_owner v = Stopping \<or> vw_owner v = Stopped \<longrightarrow> view_pid v pid = None)"
  using view_run_ok [OF assms] by (auto simp: view_ok_def view_pid_def)

lemma death_reported_once_witness: "length (vw_called new_view) \<le> 1"
  using death_reported_once [OF view_start] by blast

text \<open>
  A page that dies before the container has set its callback is reported to nobody: the callback set afterwards is never called.
\<close>

lemma early_death_unreported:
  shows "\<exists>v. view_run v \<and> vw_onDied v = Some f \<and> vw_pump v = Announced \<and> vw_called v = []"
proof -
  let ?v1 = "new_view\<lparr>vw_announced := True, vw_pump := Won\<rparr>"
  let ?v2 = "?v1\<lparr>vw_alive := False, vw_pump := Marked_Dead\<rparr>"
  let ?v3 = "?v2\<lparr>vw_pump := Has_Callback (vw_onDied ?v2)\<rparr>"
  let ?v4 = "?v3\<lparr>vw_pump := Announced\<rparr>"
  let ?v5 = "?v4\<lparr>vw_onDied := Some f\<rparr>"
  have "view_run ?v1" by (rule view_next [OF view_start wins]) (simp_all add: new_view_def)
  then have "view_run ?v2" by (rule view_next [OF _ marks]) (simp add: new_view_def)
  then have "view_run ?v3" by (rule view_next [OF _ reads]) (simp add: new_view_def)
  then have "view_run ?v4" by (rule view_next [OF _ calls_nobody]) (simp add: new_view_def)
  then have "view_run ?v5" by (rule view_next [OF _ sets_onDied]) (simp add: new_view_def)
  then show ?thesis by (intro exI [of _ ?v5]) (simp add: new_view_def)
qed

lemma announced_for_good: "view_step v w \<Longrightarrow> vw_pump v = Announced \<Longrightarrow> vw_pump w = Announced \<and> vw_called w = vw_called v"
  by (induction rule: view_step.induct) auto

section \<open>The end of the helper process\<close>

datatype wait_answer = Reaped | Running | No_Child | Wait_Failed

datatype proc_call = Terminate int | Kill_It int | Wait_Nohang int | Wait_For int | Nap

text \<open>What the kernel answers to a \<open>waitpid\<close>; every call is recorded, latest first.\<close>

record 'r procs =
  pr_wait :: "int \<Rightarrow> 'r \<Rightarrow> wait_answer \<times> 'r"

type_synonym 'r proc_state = "'r \<times> proc_call list"

definition record_call :: "proc_call \<Rightarrow> 'r proc_state \<Rightarrow> 'r proc_state" where
  "record_call c s = (fst s, c # snd s)"

definition wait_nohang :: "'r procs \<Rightarrow> int \<Rightarrow> 'r proc_state \<Rightarrow> wait_answer \<times> 'r proc_state" where
  "wait_nohang K pid s = (case pr_wait K pid (fst s) of (a, r) \<Rightarrow> (a, (r, Wait_Nohang pid # snd s)))"

definition kExitGraceMs :: nat where "kExitGraceMs = 2000"

definition killAndReap :: "int \<Rightarrow> 'r proc_state \<Rightarrow> 'r proc_state" where
  "killAndReap pid s = (if pid \<le> 0 then s else record_call (Wait_For pid) (record_call (Kill_It pid) s))"

text \<open>The looks that are left; \<open>-1\<close> once the process is gone.\<close>

fun grace :: "'r procs \<Rightarrow> int \<Rightarrow> nat \<Rightarrow> 'r proc_state \<Rightarrow> int \<times> 'r proc_state" where
  "grace K pid 0 s = (pid, s)"
| "grace K pid (Suc n) s = (case wait_nohang K pid s of (a, s') \<Rightarrow>
     if a = Reaped \<or> a = No_Child then (-1, s') else grace K pid n (record_call Nap s'))"

definition stop_process :: "'r procs \<Rightarrow> int \<Rightarrow> 'r proc_state \<Rightarrow> int \<times> 'r proc_state" where
  "stop_process K pid s =
    (if pid > 0 then (case grace K pid (kExitGraceMs div 20) (record_call (Terminate pid) s) of
        (pid', s') \<Rightarrow> if pid' > 0 then (-1, killAndReap pid' s') else (pid', s'))
     else (pid, s))"

text \<open>One look that saw the process running.\<close>

definition vain :: "int \<Rightarrow> proc_call list" where
  "vain pid = [Nap, Wait_Nohang pid]"

lemma grace_calls:
  assumes "0 < pid" "grace K pid n s = (pid', s')"
  shows "(pid' = pid \<and> snd s' = concat (replicate n (vain pid)) @ snd s)
    \<or> (pid' = -1 \<and> (\<exists>k < n. snd s' = Wait_Nohang pid # concat (replicate k (vain pid)) @ snd s))"
  using assms(2)
proof (induction n arbitrary: s)
  case (Suc n)
  obtain a s1 where w: "wait_nohang K pid s = (a, s1)" by (cases "wait_nohang K pid s")
  then have s1: "snd s1 = Wait_Nohang pid # snd s" by (auto simp: wait_nohang_def split: prod.splits)
  have rep: "concat (replicate k (vain pid)) @ vain pid = concat (replicate (Suc k) (vain pid))" for k
    by (simp flip: replicate_append_same)
  show ?case
  proof (cases "a = Reaped \<or> a = No_Child")
    case True
    with Suc.prems w have "pid' = -1" "s' = s1" by auto
    with s1 show ?thesis by force
  next
    case False
    with Suc.prems w have "grace K pid n (record_call Nap s1) = (pid', s')" by auto
    from Suc.IH [OF this] show ?thesis
    proof
      assume g: "pid' = pid \<and> snd s' = concat (replicate n (vain pid)) @ snd (record_call Nap s1)"
      then have "snd s' = (concat (replicate n (vain pid)) @ vain pid) @ snd s" by (simp add: record_call_def s1 vain_def)
      with g show ?thesis unfolding rep by simp
    next
      assume "pid' = -1 \<and> (\<exists>k < n. snd s' = Wait_Nohang pid # concat (replicate k (vain pid)) @ snd (record_call Nap s1))"
      then obtain k where k: "k < n" "pid' = -1"
          "snd s' = Wait_Nohang pid # (concat (replicate k (vain pid)) @ vain pid) @ snd s"
        by (auto simp: record_call_def s1 vain_def)
      from k(3) have "snd s' = Wait_Nohang pid # concat (replicate (Suc k) (vain pid)) @ snd s" by (simp only: rep)
      with k(1,2) show ?thesis by (intro disjI2 conjI exI [of _ "Suc k"]) simp_all
    qed
  qed
qed simp


definition stubborn :: "nat procs" where
  "stubborn = \<lparr>pr_wait = (\<lambda>pid r. (Running, r + 1))\<rparr>"


end
