(* ===== verification/Web_Spawn.thy ===== *)
theory Web_Spawn
  imports Web_View
begin

text \<open>
  \<open>listenOnLoopback\<close>, \<open>spawnView\<close>, \<open>resolveHelper\<close> and \<open>installWebhostBackend\<close> of \<open>src/src/web/webhost_view.cpp\<close>. The kernel answers through a
  parameter; the descriptors that are open and the children that run are state, so that what a failure leaves behind can be stated.
\<close>

section \<open>The kernel\<close>

record 'r spawn_os =
  so_socket :: "'r \<Rightarrow> int \<times> 'r"
  so_bind :: "int \<Rightarrow> 'r \<Rightarrow> bool \<times> 'r"
  so_listen :: "int \<Rightarrow> 'r \<Rightarrow> bool \<times> 'r"
  so_getsockname :: "int \<Rightarrow> 'r \<Rightarrow> 16 word option \<times> 'r"
  so_spawn :: "string \<Rightarrow> string list \<Rightarrow> string list \<Rightarrow> 'r \<Rightarrow> (string + int) \<times> 'r"   \<comment> \<open>the error's text, or the process id\<close>
  so_poll :: "int \<Rightarrow> int \<Rightarrow> 'r \<Rightarrow> int \<times> 'r"
  so_accept :: "int \<Rightarrow> 'r \<Rightarrow> int \<times> 'r"
  so_errno :: "'r \<Rightarrow> string"                   \<comment> \<open>\<open>strerror(errno)\<close>\<close>
  so_environ :: "string list"

record 'r web =
  wb_net :: 'r
  wb_fds :: "int list"        \<comment> \<open>open descriptors, latest first\<close>
  wb_children :: "int list"
  wb_log :: "(bool \<times> string) list"   \<comment> \<open>lines of the log, with \<open>True\<close> for an error, latest first\<close>

type_synonym ('r, 'a) web_op = "('r web, 'a) state"

definition ask :: "('r \<Rightarrow> 'a \<times> 'r) \<Rightarrow> ('r, 'a) web_op" where
  "ask f = State (\<lambda>s. case f (wb_net s) of (a, r) \<Rightarrow> (a, s\<lparr>wb_net := r\<rparr>))"

text \<open>A call that opens a descriptor.\<close>

definition ask_fd :: "('r \<Rightarrow> int \<times> 'r) \<Rightarrow> ('r, int) web_op" where
  "ask_fd f = State (\<lambda>s. case f (wb_net s) of (fd, r) \<Rightarrow>
     (fd, s\<lparr>wb_net := r, wb_fds := (if fd < 0 then wb_fds s else fd # wb_fds s)\<rparr>))"

definition close_web :: "int \<Rightarrow> ('r, unit) web_op" where
  "close_web fd = State_Monad.update (\<lambda>s. s\<lparr>wb_fds := remove1 fd (wb_fds s)\<rparr>)"

definition reap_child :: "int \<Rightarrow> ('r, unit) web_op" where
  "reap_child pid = State_Monad.update (\<lambda>s. if pid \<le> 0 then s else s\<lparr>wb_children := remove1 pid (wb_children s)\<rparr>)"

definition log_line :: "bool \<Rightarrow> string \<Rightarrow> ('r, unit) web_op" where
  "log_line is_error l = State_Monad.update (\<lambda>s. s\<lparr>wb_log := (is_error, l) # wb_log s\<rparr>)"

definition log_errno :: "'r spawn_os \<Rightarrow> string \<Rightarrow> ('r, unit) web_op" where
  "log_errno K l = State_Monad.update (\<lambda>s. s\<lparr>wb_log := (True, l @ so_errno K (wb_net s)) # wb_log s\<rparr>)"

section \<open>listenOnLoopback\<close>

text \<open>The listener and its port; \<open>-1\<close> when there is none.\<close>

definition listenOnLoopback :: "'r spawn_os \<Rightarrow> ('r, int \<times> 16 word) web_op" where
  "listenOnLoopback K = do {
     fd \<leftarrow> ask_fd (so_socket K);
     if fd < 0 then State_Monad.return (-1, 0)
     else do {
       bound \<leftarrow> ask (so_bind K fd);
       listening \<leftarrow> (if bound then ask (so_listen K fd) else State_Monad.return False);
       if \<not> bound \<or> \<not> listening then do { _ \<leftarrow> close_web fd; State_Monad.return (-1, 0) }
       else do {
         port \<leftarrow> ask (so_getsockname K fd);
         (case port of
           None \<Rightarrow> do { _ \<leftarrow> close_web fd; State_Monad.return (-1, 0) }
         | Some p \<Rightarrow> State_Monad.return (fd, p)) } } }"

section \<open>spawnView\<close>

record view_request =
  vr_moduleName :: string
  vr_entryPath :: string
  vr_storagePath :: string

definition kConnectTimeoutMs :: int where "kConnectTimeoutMs = 20000"

definition helper_args :: "string \<Rightarrow> view_request \<Rightarrow> 16 word \<Rightarrow> string list" where
  "helper_args helper q port =
    [helper, ''--entry'', vr_entryPath q, ''--port'', show_int (uint port), ''--module'', vr_moduleName q]
    @ (if vr_storagePath q \<noteq> [] then [''--storage'', vr_storagePath q] else [])"

definition platform_name :: string where "platform_name = ''QT_QPA_PLATFORM=''"

definition helper_env :: "string list \<Rightarrow> string list" where
  "helper_env env = env @ (if list_ex (\<lambda>e. take (length platform_name) e = platform_name) env
     then [] else [''QT_QPA_PLATFORM=offscreen''])"

definition module_text :: "view_request \<Rightarrow> string" where
  "module_text q = ''Web module '' @ vr_moduleName q @ '': ''"

text \<open>The connected page and its process, if there is one.\<close>

definition spawnView :: "'r spawn_os \<Rightarrow> string \<Rightarrow> view_request \<Rightarrow> ('r, (int \<times> int) option) web_op" where
  "spawnView K helper q = do {
     (listener, port) \<leftarrow> listenOnLoopback K;
     if listener < 0 then do {
       _ \<leftarrow> log_errno K (module_text q @ ''could not open a loopback listener for the webview host: '');
       State_Monad.return None }
     else do {
       child \<leftarrow> ask (so_spawn K helper (helper_args helper q port) (helper_env (so_environ K)));
       (case child of
         Inl what \<Rightarrow> do {
           _ \<leftarrow> log_line True (module_text q @ ''could not start '' @ helper @ '': '' @ what);
           _ \<leftarrow> close_web listener;
           State_Monad.return None }
       | Inr pid \<Rightarrow> do {
           _ \<leftarrow> State_Monad.update (\<lambda>s. s\<lparr>wb_children := pid # wb_children s\<rparr>);
           ready \<leftarrow> ask (so_poll K listener kConnectTimeoutMs);
           if ready \<le> 0 then do {
             _ \<leftarrow> log_line True (module_text q @ ''the webview host did not connect back within ''
               @ show_int kConnectTimeoutMs @ '' ms'');
             _ \<leftarrow> reap_child pid;
             _ \<leftarrow> close_web listener;
             State_Monad.return None }
           else do {
             conn \<leftarrow> ask_fd (so_accept K listener);
             _ \<leftarrow> close_web listener;
             if conn < 0 then do {
               _ \<leftarrow> log_errno K (module_text q @ ''accept() failed: '');
               _ \<leftarrow> reap_child pid;
               State_Monad.return None }
             else do {
               _ \<leftarrow> log_line False (module_text q @ ''page host running at pid '' @ show_int pid @ '' on 127.0.0.1:''
                 @ show_int (uint port));
               State_Monad.return (Some (conn, pid)) } } }) } }"

section \<open>resolveHelper and installWebhostBackend\<close>

record helper_os =
  ho_is_file :: "string \<Rightarrow> string + bool"      \<comment> \<open>\<open>is_regular_file\<close>, or the text of its exception\<close>
  ho_webhost :: "string option"                \<comment> \<open>\<open>LOGOSCORE_WEBHOST\<close>\<close>
  ho_paths :: path_os

definition webhostBinaryName :: string where "webhostBinaryName = ''logoscore-webhost''"

definition is_file :: "helper_os \<Rightarrow> string \<Rightarrow> exn + bool" where
  "is_file H p = (case ho_is_file H p of Inl what \<Rightarrow> Inl (Runtime_Error what) | Inr b \<Rightarrow> Inr b)"

definition no_helper :: string where
  "no_helper = ''this build ships no '' @ webhostBinaryName
     @ '' beside the daemon (build with -DLOGOSCORE_WITH_WEBENGINE=ON, or set LOGOSCORE_WEBHOST)''"

text \<open>The helper, or why there is none.\<close>

definition resolveHelper :: "helper_os \<Rightarrow> string \<Rightarrow> exn + (string + string)" where
  "resolveHelper H given =
    (if given \<noteq> [] then ebind (is_file H given) (\<lambda>yes.
       Inr (if yes then Inr given else Inl (''no webview host at '' @ [CHR 39] @ given @ [CHR 39])))
     else (case ho_webhost H of
         Some fromEnv \<Rightarrow> ebind (is_file H fromEnv) (\<lambda>yes.
           Inr (if yes then Inr fromEnv
                else Inl (''LOGOSCORE_WEBHOST points at '' @ [CHR 39] @ fromEnv @ [CHR 39] @ '', which is not a file'')))
       | None \<Rightarrow> (let binDir = executableDir (ho_paths H); candidate = path_append binDir webhostBinaryName in
           if binDir \<noteq> [] then ebind (is_file H candidate) (\<lambda>yes. Inr (if yes then Inr candidate else Inl no_helper))
           else Inr (Inl no_helper))))"

text \<open>The factory that is installed, by its helper; \<open>None\<close> and the reason when nothing is installed.\<close>

definition installWebhostBackend :: "helper_os \<Rightarrow> string \<Rightarrow> exn + (string option \<times> string)" where
  "installWebhostBackend H helperPath = ebind (resolveHelper H helperPath) (\<lambda>r.
     Inr (case r of
         Inl why \<Rightarrow> (None, why)
       | Inr helper \<Rightarrow> if helper = [] then (None, []) else (Some helper, [])))"

section \<open>Properties\<close>

lemma listen_run:
  assumes "run_state (listenOnLoopback K) s = ((fd, p), s')"
  shows "wb_children s' = wb_children s \<and> wb_fds s' = (if fd < 0 then wb_fds s else fd # wb_fds s)"
  using assms
  by (auto simp: listenOnLoopback_def ask_fd_def ask_def close_web_def split: prod.splits if_splits option.splits)

text \<open>
  C40: whatever fails while a page is started, no descriptor and no process is left behind; when it succeeds, exactly the connection and the
  helper are: the listener is closed.
\<close>

theorem spawn_leaves_nothing:
  assumes "run_state (spawnView K helper q) s = (r, s')"
    and "\<And>h a e t pid t'. so_spawn K h a e t = (Inr pid, t') \<Longrightarrow> 0 < pid"
  shows "(case r of
      None \<Rightarrow> wb_fds s' = wb_fds s \<and> wb_children s' = wb_children s
    | Some (conn, pid) \<Rightarrow> 0 \<le> conn \<and> 0 < pid \<and> wb_fds s' = conn # wb_fds s \<and> wb_children s' = pid # wb_children s)"
proof -
  obtain fd p s1 where l: "run_state (listenOnLoopback K) s = ((fd, p), s1)" by (metis surj_pair)
  note o = listen_run [OF l]
  obtain child t where c: "so_spawn K helper (helper_args helper q p) (helper_env (so_environ K)) (wb_net s1) = (child, t)" by fastforce
  have pos: "0 < pid" if "child = Inr pid" for pid using assms(2) c that by blast
  show ?thesis
    using assms(1) l o c pos
    by (auto simp: spawnView_def ask_def ask_fd_def close_web_def reap_child_def log_line_def log_errno_def
        split: prod.splits if_splits sum.splits)
qed

definition sample_spawn :: "nat spawn_os" where
  "sample_spawn = \<lparr>so_socket = (\<lambda>r. (3, r)), so_bind = (\<lambda>fd r. (True, r)), so_listen = (\<lambda>fd r. (True, r)),
     so_getsockname = (\<lambda>fd r. (Some 4000, r)), so_spawn = (\<lambda>h a e r. (Inr 9, r)), so_poll = (\<lambda>fd ms r. (1, r)),
     so_accept = (\<lambda>fd r. (4, r)), so_errno = (\<lambda>r. []), so_environ = []\<rparr>"

lemma spawn_leaves_nothing_witness:
  "\<exists>s'. run_state (spawnView sample_spawn ''host'' \<lparr>vr_moduleName = ''m'', vr_entryPath = ''e'', vr_storagePath = []\<rparr>)
      \<lparr>wb_net = 0, wb_fds = [], wb_children = [], wb_log = []\<rparr> = (Some (4, 9), s') \<and> wb_fds s' = [4] \<and> wb_children s' = [9]"
proof -
  let ?q = "\<lparr>vr_moduleName = ''m'', vr_entryPath = ''e'', vr_storagePath = []\<rparr>"
  let ?s = "\<lparr>wb_net = 0 :: nat, wb_fds = [], wb_children = [], wb_log = []\<rparr>"
  have "fst (run_state (spawnView sample_spawn ''host'' ?q) ?s) = Some (4, 9)"
    by (simp add: spawnView_def listenOnLoopback_def sample_spawn_def ask_def ask_fd_def close_web_def log_line_def)
  then obtain s' where r: "run_state (spawnView sample_spawn ''host'' ?q) ?s = (Some (4, 9), s')" by (metis prod.collapse)
  from spawn_leaves_nothing [OF r] r show ?thesis by (simp add: sample_spawn_def)
qed

text \<open>A helper is installed only when it is a file, and a wrong path that was asked for is not replaced by another.\<close>

lemma installed_is_file:
  assumes "installWebhostBackend H given = Inr (Some helper, why)"
  shows "ho_is_file H helper = Inr True
    \<and> helper = (if given \<noteq> [] then given else case ho_webhost H of Some e \<Rightarrow> e | None \<Rightarrow> path_append (executableDir (ho_paths H)) webhostBinaryName)"
  using assms
  by (auto simp: installWebhostBackend_def resolveHelper_def is_file_def ebind_Inr Let_def split: if_splits option.splits sum.splits)

lemma not_installed_says_why:
  assumes "installWebhostBackend H given = Inr (None, why)" "\<And>p. ho_is_file H p = Inr True \<Longrightarrow> p \<noteq> []"
  shows "why \<noteq> []"
  using assms
  by (auto simp: installWebhostBackend_def resolveHelper_def is_file_def no_helper_def ebind_Inr Let_def split: if_splits option.splits sum.splits)

end
