(* ===== verification/Web_Host.thy ===== *)
theory Web_Host
  imports Web_Frames
begin

text \<open>
  \<open>src/src/webhost/main.cpp\<close>: the process that holds one page. It moves texts between the daemon's socket and the page: the
  \<open>Bridge\<close> that waits for the page, the channel that the injected script gives the page, the handlers that \<open>main\<close>
  connects, and \<open>main\<close>'s own early exits. Qt is a parameter: when it reports what, the answer of its option parser, and the conversion between bytes
  and its strings. QWebChannel delivers the messages of either side in the order they were sent, after the page has connected.
\<close>

section \<open>Bridge\<close>

record 't bridge =
  br_pageReady :: bool
  br_backlog :: "'t list"

definition new_bridge :: "'t bridge" where
  "new_bridge = \<lparr>br_pageReady = False, br_backlog = []\<rparr>"

text \<open>The bridge, and the texts it emits to the page.\<close>

definition deliverToPage :: "'t \<Rightarrow> 't bridge \<Rightarrow> 't bridge \<times> 't list" where
  "deliverToPage t b = (if \<not> br_pageReady b then (b\<lparr>br_backlog := br_backlog b @ [t]\<rparr>, []) else (b, [t]))"

definition page_ready :: "'t bridge \<Rightarrow> 't bridge \<times> 't list" where
  "page_ready b = (if br_pageReady b then (b, []) else (b\<lparr>br_pageReady := True, br_backlog := []\<rparr>, br_backlog b))"

section \<open>The channel in the page\<close>

text \<open>\<open>kChannelShim\<close>. A receiver is a number; \<open>pg_timers\<close> are the callbacks that \<open>setTimeout\<close> will run, in order.\<close>

record 't page =
  pg_pending :: "'t list"
  pg_receiver :: "nat option"
  pg_open :: bool
  pg_bridge :: bool
  pg_timers :: "(nat \<times> 't) list"
  pg_got :: "(nat \<times> 't) list"       \<comment> \<open>what the receivers were called with\<close>

definition new_page :: "'t page" where
  "new_page = \<lparr>pg_pending = [], pg_receiver = None, pg_open = True, pg_bridge = False, pg_timers = [], pg_got = []\<rparr>"

definition deliver :: "'t \<Rightarrow> 't page \<Rightarrow> 't page" where
  "deliver t p = (case pg_receiver p of
      Some f \<Rightarrow> p\<lparr>pg_timers := pg_timers p @ [(f, t)]\<rparr>
    | None \<Rightarrow> p\<lparr>pg_pending := pg_pending p @ [t]\<rparr>)"

datatype 't up = To_Host 't | Ready | Closed

text \<open>The methods of the channel: the page, what goes to the host, the answer.\<close>

definition channel_send :: "'t \<Rightarrow> 't page \<Rightarrow> 't page \<times> 't up list \<times> bool" where
  "channel_send t p = (if \<not> pg_open p \<or> \<not> pg_bridge p then (p, [], False) else (p, [To_Host t], True))"

definition channel_setReceiver :: "nat option \<Rightarrow> 't page \<Rightarrow> 't page" where
  "channel_setReceiver f p = (let p = p\<lparr>pg_receiver := f\<rparr> in
     if f = None then p else foldl (\<lambda>p t. deliver t p) (p\<lparr>pg_pending := []\<rparr>) (pg_pending p))"

definition channel_close :: "'t page \<Rightarrow> 't page \<times> 't up list" where
  "channel_close p = (if \<not> pg_open p then (p, []) else (p\<lparr>pg_open := False\<rparr>, if pg_bridge p then [Closed] else []))"

definition channel_isOpen :: "'t page \<Rightarrow> bool" where
  "channel_isOpen p = pg_open p"

text \<open>The callback of \<open>new QWebChannel\<close>.\<close>

definition connected :: "'t page \<Rightarrow> 't page \<times> 't up list" where
  "connected p = (p\<lparr>pg_bridge := True\<rparr>, [Ready])"

definition run_timer :: "'t page \<Rightarrow> 't page" where
  "run_timer p = (case pg_timers p of [] \<Rightarrow> p | (f, t) # rest \<Rightarrow> p\<lparr>pg_timers := rest, pg_got := pg_got p @ [(f, t)]\<rparr>)"

section \<open>The process\<close>

record 't qt_text =
  qt_from :: "string \<Rightarrow> 't"      \<comment> \<open>\<open>QString::fromUtf8\<close>\<close>
  qt_to :: "'t \<Rightarrow> string"        \<comment> \<open>\<open>QString::toUtf8\<close>\<close>

record 't host_state =
  hs_inbox :: string
  hs_bridge :: "'t bridge"
  hs_down :: "'t list"          \<comment> \<open>emitted to the page, not delivered yet\<close>
  hs_up :: "'t up list"         \<comment> \<open>called by the page, not delivered yet\<close>
  hs_page :: "'t page"
  hs_written :: string          \<comment> \<open>what the socket was given\<close>
  hs_quit :: bool
  hs_stderr :: "string list"    \<comment> \<open>latest first\<close>

datatype 't host_event =
    Socket_Ready string          \<comment> \<open>\<open>readyRead\<close>, with what \<open>readAll\<close> answers\<close>
  | Socket_Disconnected
  | Page_Connected
  | Reaches_Page                 \<comment> \<open>QWebChannel delivers the next text\<close>
  | Reaches_Host                 \<comment> \<open>QWebChannel delivers the next call\<close>
  | Page_Timer
  | Page_Sends 't
  | Page_Receiver "nat option"
  | Page_Closes
  | Renderer_Terminated int int
  | Load_Finished bool
  | Console int string int string

definition host_line :: "string \<Rightarrow> 't host_state \<Rightarrow> 't host_state" where
  "host_line l h = h\<lparr>hs_stderr := (''logoscore-webhost: '' @ l) # hs_stderr h\<rparr>"

definition hand_over :: "'t bridge \<times> 't list \<Rightarrow> 't host_state \<Rightarrow> 't host_state" where
  "hand_over r h = h\<lparr>hs_bridge := fst r, hs_down := hs_down h @ snd r\<rparr>"

definition socket_line :: "'t qt_text \<Rightarrow> string \<Rightarrow> 't host_state \<Rightarrow> 't host_state" where
  "socket_line Q line h = hand_over (deliverToPage (qt_from Q line) (hs_bridge h)) h"

definition on_readyRead :: "'t qt_text \<Rightarrow> string \<Rightarrow> 't host_state \<Rightarrow> 't host_state" where
  "on_readyRead Q bytes h = (case take_chunk (hs_inbox h) bytes of (lines, left) \<Rightarrow>
     foldl (\<lambda>h line. socket_line Q line h) (h\<lparr>hs_inbox := left\<rparr>) lines)"

definition on_fromPage :: "'t qt_text \<Rightarrow> 't \<Rightarrow> 't host_state \<Rightarrow> 't host_state" where
  "on_fromPage Q t h = h\<lparr>hs_written := hs_written h @ frame_of (qt_to Q t)\<rparr>"

definition on_pageClosed :: "string \<Rightarrow> 't host_state \<Rightarrow> 't host_state" where
  "on_pageClosed label h = (host_line (label @ '' closed its channel; it is no longer serving'') h)\<lparr>hs_quit := True\<rparr>"

definition on_terminated :: "string \<Rightarrow> int \<Rightarrow> int \<Rightarrow> 't host_state \<Rightarrow> 't host_state" where
  "on_terminated label status exitCode h = (host_line (''the renderer for '' @ label @ '' terminated (status ''
     @ show_int status @ '', exit '' @ show_int exitCode @ '')'') h)\<lparr>hs_quit := True\<rparr>"

definition console_level :: "int \<Rightarrow> string" where
  "console_level i = (if i = 0 then ''info'' else if i = 1 then ''warning'' else if i = 2 then ''error'' else ''?'')"

definition javaScriptConsoleMessage :: "string \<Rightarrow> int \<Rightarrow> string \<Rightarrow> int \<Rightarrow> string \<Rightarrow> 't host_state \<Rightarrow> 't host_state" where
  "javaScriptConsoleMessage label level message lineNumber sourceID =
     host_line ([CHR ''[''] @ console_level level @ ''] '' @ label @ '':'' @ show_int lineNumber @ '' '' @ message
       @ '' ('' @ sourceID @ '')'')"

text \<open>A call that reached the host.\<close>

fun host_slot :: "'t qt_text \<Rightarrow> string \<Rightarrow> 't up \<Rightarrow> 't host_state \<Rightarrow> 't host_state" where
  "host_slot Q label (To_Host t) h = on_fromPage Q t h"
| "host_slot Q label Ready h = hand_over (page_ready (hs_bridge h)) h"
| "host_slot Q label Closed h = on_pageClosed label h"

definition page_calls :: "'t page \<times> 't up list \<Rightarrow> 't host_state \<Rightarrow> 't host_state" where
  "page_calls r h = h\<lparr>hs_page := fst r, hs_up := hs_up h @ snd r\<rparr>"

fun handle_event :: "'t qt_text \<Rightarrow> string \<Rightarrow> 't host_event \<Rightarrow> 't host_state \<Rightarrow> 't host_state" where
  "handle_event Q label (Socket_Ready bytes) h = on_readyRead Q bytes h"
| "handle_event Q label Socket_Disconnected h = h\<lparr>hs_quit := True\<rparr>"
| "handle_event Q label Page_Connected h = page_calls (connected (hs_page h)) h"
| "handle_event Q label Reaches_Page h = (case hs_down h of
      [] \<Rightarrow> h
    | t # rest \<Rightarrow> h\<lparr>hs_down := rest, hs_page := deliver t (hs_page h)\<rparr>)"
| "handle_event Q label Reaches_Host h = (case hs_up h of
      [] \<Rightarrow> h
    | u # rest \<Rightarrow> host_slot Q label u (h\<lparr>hs_up := rest\<rparr>))"
| "handle_event Q label Page_Timer h = h\<lparr>hs_page := run_timer (hs_page h)\<rparr>"
| "handle_event Q label (Page_Sends t) h = (case channel_send t (hs_page h) of (p, us, ok) \<Rightarrow> page_calls (p, us) h)"
| "handle_event Q label (Page_Receiver f) h = h\<lparr>hs_page := channel_setReceiver f (hs_page h)\<rparr>"
| "handle_event Q label Page_Closes h = page_calls (channel_close (hs_page h)) h"
| "handle_event Q label (Renderer_Terminated status code) h = on_terminated label status code h"
| "handle_event Q label (Load_Finished ok) h = (if ok then h else host_line (label @ '' failed to load its entry document'') h)"
| "handle_event Q label (Console level message line_no source) h = javaScriptConsoleMessage label level message line_no source h"

text \<open>\<open>app.exec()\<close>: nothing is handled after \<open>quit\<close>.\<close>

fun host_run :: "'t qt_text \<Rightarrow> string \<Rightarrow> 't host_event list \<Rightarrow> 't host_state \<Rightarrow> 't host_state" where
  "host_run Q label [] h = h"
| "host_run Q label (e # es) h = (if hs_quit h then h else host_run Q label es (handle_event Q label e h))"

section \<open>main\<close>

record host_args =
  ha_entry :: string
  ha_port :: "16 word"          \<comment> \<open>\<open>toUShort\<close>: 0 when it is no number\<close>
  ha_module :: string
  ha_storage :: string

record page_profile =
  pp_name :: string             \<comment> \<open>empty: off the record\<close>
  pp_storage :: string
  pp_cache :: string
  pp_forceCookies :: bool

definition pageLabel :: "host_args \<Rightarrow> string" where
  "pageLabel a = (if ha_module a = [] then ''the page'' else ha_module a)"

definition profile_for :: "host_args \<Rightarrow> page_profile" where
  "profile_for a =
    (if ha_storage a = [] then \<lparr>pp_name = [], pp_storage = [], pp_cache = [], pp_forceCookies = False\<rparr>
     else \<lparr>pp_name = pageLabel a, pp_storage = ha_storage a, pp_cache = ha_storage a @ ''/cache'', pp_forceCookies = True\<rparr>)"

definition new_host :: "'t host_state" where
  "new_host = \<lparr>hs_inbox = [], hs_bridge = new_bridge, hs_down = [], hs_up = [], hs_page = new_page, hs_written = [], hs_quit = False,
     hs_stderr = []\<rparr>"

text \<open>The exit code with the lines on standard error, or the profile and the process that serves its page.\<close>

definition webhost_start :: "host_args \<Rightarrow> bool \<Rightarrow> bool \<Rightarrow> (int \<times> string list) + (page_profile \<times> 't host_state)" where
  "webhost_start a reached has_channel_js =
    (if ha_entry a = [] \<or> ha_port a = 0 then Inl (2, [''logoscore-webhost: --entry and --port are required''])
     else if \<not> reached then Inl (3, [''logoscore-webhost: cannot reach the daemon on 127.0.0.1:'' @ show_int (uint (ha_port a))])
     else if \<not> has_channel_js then Inl (4, [''logoscore-webhost: qwebchannel.js is not in this Qt build''])
     else Inr (profile_for a, host_line (pageLabel a @ '' storage: ''
       @ (if ha_storage a = [] then ''off the record (the daemon named no persistence path)'' else ha_storage a)) new_host))"

definition webhost_main ::
    "'t qt_text \<Rightarrow> host_args \<Rightarrow> bool \<Rightarrow> bool \<Rightarrow> 't host_event list \<Rightarrow> (int \<times> string list) + (page_profile \<times> 't host_state)" where
  "webhost_main Q a reached has_channel_js es = (case webhost_start a reached has_channel_js of
      Inl early \<Rightarrow> Inl early
    | Inr (profile, h) \<Rightarrow> Inr (profile, host_run Q (pageLabel a) es h))"

end
