(* ===== verification/Web_Host_Props.thy ===== *)
theory Web_Host_Props
  imports Web_Host
begin

text \<open>
  What the process of a page promises: every text of the daemon reaches the page's receivers, once and in order, whenever the page connects, sets a receiver or lets its
  timers run; every text the page sends reaches the socket as one line; and the channel as a whole, from the daemon's \<open>write\<close> to the page, is one queue.
\<close>

section \<open>From the socket to the page\<close>

text \<open>Where a text may be, oldest place first.\<close>

definition in_page :: "'t page \<Rightarrow> 't list" where
  "in_page p = map snd (pg_got p) @ map snd (pg_timers p) @ pg_pending p"

definition down_texts :: "'t host_state \<Rightarrow> 't list" where
  "down_texts h = in_page (hs_page h) @ hs_down h @ br_backlog (hs_bridge h)"

definition page_ok :: "'t page \<Rightarrow> bool" where
  "page_ok p \<longleftrightarrow> (pg_receiver p \<noteq> None \<longrightarrow> pg_pending p = [])"

definition host_ok :: "'t host_state \<Rightarrow> bool" where
  "host_ok h \<longleftrightarrow> page_ok (hs_page h) \<and> newline \<notin> set (hs_inbox h)
     \<and> (if br_pageReady (hs_bridge h) then br_backlog (hs_bridge h) = [] else hs_down h = [])"

lemma deliver_in: "page_ok p \<Longrightarrow> in_page (deliver t p) = in_page p @ [t] \<and> page_ok (deliver t p)"
  by (auto simp: in_page_def page_ok_def deliver_def split: option.splits)

lemma delivers_in: "page_ok p \<Longrightarrow> in_page (foldl (\<lambda>p t. deliver t p) p ts) = in_page p @ ts \<and> page_ok (foldl (\<lambda>p t. deliver t p) p ts)"
  by (induction ts arbitrary: p) (auto simp: deliver_in)

lemma receiver_in: "page_ok p \<Longrightarrow> in_page (channel_setReceiver f p) = in_page p \<and> page_ok (channel_setReceiver f p)"
proof (cases f)
  case (Some g)
  let ?p = "p\<lparr>pg_receiver := f, pg_pending := []\<rparr>"
  have "page_ok ?p" "in_page ?p @ pg_pending p = in_page p" by (simp_all add: page_ok_def in_page_def)
  with delivers_in [of ?p "pg_pending p"] Some show ?thesis by (simp add: channel_setReceiver_def Let_def)
qed (simp add: channel_setReceiver_def page_ok_def in_page_def)

lemma timer_in: "page_ok p \<Longrightarrow> in_page (run_timer p) = in_page p \<and> page_ok (run_timer p)"
  by (auto simp: run_timer_def in_page_def page_ok_def split: list.splits)

lemma calls_in [simp]: "in_page (fst (connected p)) = in_page p" "page_ok (fst (connected p)) = page_ok p"
    "in_page (fst (channel_send t p)) = in_page p" "page_ok (fst (channel_send t p)) = page_ok p"
    "in_page (fst (channel_close p)) = in_page p" "page_ok (fst (channel_close p)) = page_ok p"
  by (simp_all add: connected_def channel_send_def channel_close_def in_page_def page_ok_def)

lemma socket_line_in:
  "host_ok h \<Longrightarrow> down_texts (socket_line Q line h) = down_texts h @ [qt_from Q line] \<and> host_ok (socket_line Q line h)"
  by (auto simp: host_ok_def down_texts_def socket_line_def hand_over_def deliverToPage_def)

lemma socket_lines_in:
  "host_ok h \<Longrightarrow> down_texts (foldl (\<lambda>h line. socket_line Q line h) h ls) = down_texts h @ map (qt_from Q) ls
    \<and> host_ok (foldl (\<lambda>h line. socket_line Q line h) h ls)"
  by (induction ls arbitrary: h) (auto simp: socket_line_in)

lemma socket_lines_inbox: "hs_inbox (foldl (\<lambda>h line. socket_line Q line h) h ls) = hs_inbox h"
  by (induction ls arbitrary: h) (auto simp: socket_line_def hand_over_def)

text \<open>The bytes an event brings.\<close>

fun bytes_of :: "'t host_event \<Rightarrow> string" where
  "bytes_of (Socket_Ready bytes) = bytes"
| "bytes_of _ = []"

lemma slot_in: "host_ok h \<Longrightarrow> down_texts (host_slot Q label u h) = down_texts h \<and> host_ok (host_slot Q label u h)
    \<and> hs_inbox (host_slot Q label u h) = hs_inbox h"
  by (cases u) (auto simp: host_ok_def down_texts_def hand_over_def page_ready_def on_fromPage_def on_pageClosed_def host_line_def)

text \<open>An event appends the messages it completes and keeps everything else in its place.\<close>

lemma event_in:
  assumes "host_ok h"
  shows "down_texts (handle_event Q label e h) = down_texts h @ map (qt_from Q) (fst (take_chunk (hs_inbox h) (bytes_of e)))
    \<and> hs_inbox (handle_event Q label e h) = snd (take_chunk (hs_inbox h) (bytes_of e)) \<and> host_ok (handle_event Q label e h)"
proof -
  have quiet: "take_chunk (hs_inbox h) [] = ([], hs_inbox h)" using assms by (simp add: take_chunk_def host_ok_def drain_quiet)
  have stay: ?thesis if "bytes_of e = []" "down_texts (handle_event Q label e h) = down_texts h" "host_ok (handle_event Q label e h)"
      "hs_inbox (handle_event Q label e h) = hs_inbox h"
    using that quiet by simp
  show ?thesis
  proof (cases e)
    case (Socket_Ready bytes)
    obtain ls left where d: "take_chunk (hs_inbox h) bytes = (ls, left)" by fastforce
    then have "newline \<notin> set left" using drain_left [of "hs_inbox h @ bytes"] by (simp add: take_chunk_def)
    with assms have "host_ok (h\<lparr>hs_inbox := left\<rparr>)" "down_texts (h\<lparr>hs_inbox := left\<rparr>) = down_texts h"
      by (simp_all add: host_ok_def down_texts_def)
    with socket_lines_in [of "h\<lparr>hs_inbox := left\<rparr>" Q ls] show ?thesis
      by (simp add: Socket_Ready on_readyRead_def d socket_lines_inbox)
  next
    case Reaches_Page
    show ?thesis
      by (rule stay) (use assms deliver_in [of "hs_page h"] in \<open>auto simp: Reaches_Page host_ok_def down_texts_def split: list.splits\<close>)
  next
    case Reaches_Host
    have "host_ok (h\<lparr>hs_up := us\<rparr>)" "down_texts (h\<lparr>hs_up := us\<rparr>) = down_texts h" for us
      using assms by (simp_all add: host_ok_def down_texts_def)
    with slot_in [of "h\<lparr>hs_up := us\<rparr>" Q label for us] assms show ?thesis
      by (intro stay) (auto simp: Reaches_Host split: list.splits)
  next
    case (Page_Receiver f)
    show ?thesis
      by (rule stay) (use assms receiver_in [of "hs_page h" f] in \<open>auto simp: Page_Receiver host_ok_def down_texts_def\<close>)
  next
    case Page_Timer
    show ?thesis
      by (rule stay) (use assms timer_in [of "hs_page h"] in \<open>auto simp: Page_Timer host_ok_def down_texts_def\<close>)
  next
    case (Page_Sends t)
    show ?thesis
      by (rule stay) (use assms in \<open>auto simp: Page_Sends host_ok_def down_texts_def page_calls_def channel_send_def\<close>)
  qed (rule stay; use assms in \<open>auto simp: host_ok_def down_texts_def page_calls_def on_terminated_def javaScriptConsoleMessage_def host_line_def\<close>)+
qed

text \<open>The events that were handled: the loop ends with \<open>quit\<close>.\<close>

fun handled :: "'t qt_text \<Rightarrow> string \<Rightarrow> 't host_event list \<Rightarrow> 't host_state \<Rightarrow> 't host_event list" where
  "handled Q label [] h = []"
| "handled Q label (e # es) h = (if hs_quit h then [] else e # handled Q label es (handle_event Q label e h))"

lemma run_in:
  "host_ok h \<Longrightarrow> down_texts (host_run Q label es h) =
      down_texts h @ map (qt_from Q) (fst (drain (hs_inbox h @ concat (map bytes_of (handled Q label es h)))))"
proof (induction es arbitrary: h)
  case Nil
  then show ?case by (simp add: host_ok_def drain_quiet)
next
  case (Cons e es)
  show ?case
  proof (cases "hs_quit h")
    case True
    with Cons.prems show ?thesis by (simp add: host_ok_def drain_quiet)
  next
    case False
    note e = event_in [OF Cons.prems, of Q label e]
    let ?rest = "concat (map bytes_of (handled Q label es (handle_event Q label e h)))"
    obtain ls left where d: "drain (hs_inbox h @ bytes_of e) = (ls, left)" by fastforce
    then have "drain (hs_inbox h @ bytes_of e @ ?rest) = (ls @ fst (drain (left @ ?rest)), snd (drain (left @ ?rest)))"
      using drain_append [of "hs_inbox h @ bytes_of e" ?rest] by (simp split: prod.splits)
    with False e d Cons.IH [of "handle_event Q label e h"] show ?thesis by (simp add: take_chunk_def)
  qed
qed

lemma started_host: "host_ok (host_line l new_host)" "down_texts (host_line l new_host) = []" "hs_inbox (host_line l new_host) = []"
  by (simp_all add: host_ok_def page_ok_def down_texts_def in_page_def host_line_def new_host_def new_page_def new_bridge_def)

lemma started_run: "down_texts (host_run Q label es (host_line l new_host))
    = map (qt_from Q) (fst (drain (concat (map bytes_of (handled Q label es (host_line l new_host))))))"
  using run_in [OF started_host(1), of Q label es l] by (simp add: started_host(2,3))

text \<open>
  Every message the daemon's socket brought is, once and in order, with a receiver of the page or on its way to one: with its timers, the
  messages it has not asked for, what the web channel carries, and what the bridge holds until the page is connected.
\<close>

theorem page_gets_all:
  fixes h' :: "'t host_state"
  assumes "webhost_main Q a True True es = Inr (profile, h')"
  shows "map snd (pg_got (hs_page h')) @ map snd (pg_timers (hs_page h')) @ pg_pending (hs_page h') @ hs_down h' @ br_backlog (hs_bridge h')
    = map (qt_from Q) (fst (drain (concat (map bytes_of
        (handled Q (pageLabel a) es (snd (projr (webhost_start a True True :: (int \<times> string list) + (page_profile \<times> 't host_state)))))))))"
proof -
  obtain l where s: "(webhost_start a True True :: (int \<times> string list) + (page_profile \<times> 't host_state)) = Inr (profile_for a, host_line l new_host)"
    using assms by (auto simp: webhost_main_def webhost_start_def split: if_splits)
  with assms have "h' = host_run Q (pageLabel a) es (host_line l new_host)" by (simp add: webhost_main_def)
  with started_run [of Q "pageLabel a" es l] s show ?thesis by (simp add: down_texts_def in_page_def)
qed

section \<open>From the page to the socket\<close>

text \<open>The texts that were sent, as the page was told they were.\<close>

fun accepted :: "'t qt_text \<Rightarrow> string \<Rightarrow> 't host_event list \<Rightarrow> 't host_state \<Rightarrow> 't list" where
  "accepted Q label [] h = []"
| "accepted Q label (e # es) h = (if hs_quit h then [] else
     (case e of Page_Sends t \<Rightarrow> if snd (snd (channel_send t (hs_page h))) then [t] else [] | _ \<Rightarrow> [])
       @ accepted Q label es (handle_event Q label e h))"

fun up_texts :: "'t up list \<Rightarrow> 't list" where
  "up_texts [] = []"
| "up_texts (To_Host t # us) = t # up_texts us"
| "up_texts (u # us) = up_texts us"

lemma up_texts_append [simp]: "up_texts (us @ vs) = up_texts us @ up_texts vs"
  by (induction us rule: up_texts.induct) auto

definition lines_out :: "'t qt_text \<Rightarrow> 't list \<Rightarrow> string" where
  "lines_out Q ts = concat (map (\<lambda>t. frame_of (qt_to Q t)) ts)"

lemma lines_out_append [simp]: "lines_out Q (ts @ us) = lines_out Q ts @ lines_out Q us" "lines_out Q [] = []"
  by (simp_all add: lines_out_def)

lemma socket_lines_up [simp]: "hs_up (foldl (\<lambda>h line. socket_line Q line h) h ls) = hs_up h"
    "hs_written (foldl (\<lambda>h line. socket_line Q line h) h ls) = hs_written h"
  by (induction ls arbitrary: h) (auto simp: socket_line_def hand_over_def)

lemma event_out:
  "hs_written (handle_event Q label e h) @ lines_out Q (up_texts (hs_up (handle_event Q label e h)))
    = hs_written h @ lines_out Q (up_texts (hs_up h))
      @ lines_out Q (case e of Page_Sends t \<Rightarrow> if snd (snd (channel_send t (hs_page h))) then [t] else [] | _ \<Rightarrow> [])"
proof (cases e)
  case (Socket_Ready bytes)
  then show ?thesis
    by (auto simp: on_readyRead_def split: prod.split)
next
  case Reaches_Host
  show ?thesis
  proof (cases "hs_up h")
    case (Cons u us)
    with Reaches_Host show ?thesis
      by (cases u) (auto simp: on_fromPage_def hand_over_def on_pageClosed_def host_line_def lines_out_def)
  qed (simp add: Reaches_Host)
qed (auto simp: page_calls_def connected_def channel_send_def channel_close_def on_terminated_def javaScriptConsoleMessage_def
      host_line_def split: list.splits)

lemma run_out:
  "hs_written (host_run Q label es h) @ lines_out Q (up_texts (hs_up (host_run Q label es h)))
    = hs_written h @ lines_out Q (up_texts (hs_up h)) @ lines_out Q (accepted Q label es h)"
proof (induction es arbitrary: h)
  case (Cons e es)
  then show ?case using event_out [of Q label e h] by (simp add: Cons.IH)
qed simp

text \<open>What the daemon's pump makes of it: one message for each text the page sent, if none is empty or has a newline.\<close>

lemma daemon_gets_all:
  assumes "hs_up (host_run Q label es (host_line l new_host)) = []"
    and "list_all (\<lambda>t. is_message (qt_to Q t)) (accepted Q label es (host_line l new_host))"
    and "concat chunks = hs_written (host_run Q label es (host_line l new_host))"
  shows "take_chunks [] chunks = (map (qt_to Q) (accepted Q label es (host_line l new_host)), [])"
proof (rule line_stream.frames_arrive)
  show "list_all is_message (map (qt_to Q) (accepted Q label es (host_line l new_host)))"
    using assms(2) by (simp add: list_all_iff)
  show "concat chunks = concat (map frame_of (map (qt_to Q) (accepted Q label es (host_line l new_host))))"
    using run_out [of Q label es "host_line l new_host"] assms(1,3)
    by (simp add: lines_out_def host_line_def new_host_def comp_def)
qed

section \<open>The whole way\<close>

text \<open>
  C35: the whole way down. The daemon writes its messages and each write succeeds; the socket hands them to the page's process in any pieces, while the
  page connects, sets its receiver, sends and runs its timers in any order; once nothing is left on the way, the receivers have
  been called with exactly those messages, in order.
\<close>

theorem daemon_to_page:
  assumes "write_messages K ms [] r = Some (oks, wire, r')" "list_all (\<lambda>ok. ok) oks" "list_all is_message ms"
    and "concat (map bytes_of (handled Q label es (host_line l new_host))) = wire"
    and "h' = host_run Q label es (host_line l new_host)"
    and "pg_timers (hs_page h') = []" "pg_pending (hs_page h') = []" "hs_down h' = []" "br_backlog (hs_bridge h') = []"
  shows "map snd (pg_got (hs_page h')) = map (qt_from Q) ms"
proof -
  have "drain wire = (ms, [])"
    using messages_written [OF assms(1,2)] line_stream.feed_frames [OF assms(3)] by (simp add: take_chunk_def)
  with started_run [of Q label es l] assms(4-9) show ?thesis by (simp add: down_texts_def in_page_def)
qed

text \<open>A page that closes its channel ends the process, and with it the socket.\<close>

lemma page_close_ends:
  assumes "pg_open (hs_page h)" "pg_bridge (hs_page h)" "hs_up h = []"
  shows "hs_quit (handle_event Q label Reaches_Host (handle_event Q label Page_Closes h))"
  using assms by (simp add: channel_close_def page_calls_def on_pageClosed_def host_line_def)

lemma early_exits:
  "webhost_start a reached js = Inl (code, ls) \<Longrightarrow>
     code = 2 \<and> (ha_entry a = [] \<or> ha_port a = 0) \<or> code = 3 \<and> \<not> reached \<or> code = 4 \<and> reached \<and> \<not> js"
  by (auto simp: webhost_start_def split: if_splits)

text \<open>A profile is persistent exactly when there is somewhere to keep it.\<close>

lemma profile_persistent:
  "pp_name (profile_for a) \<noteq> [] \<longleftrightarrow> ha_storage a \<noteq> []" "pp_storage (profile_for a) = ha_storage a"
  by (auto simp: profile_for_def pageLabel_def)

section \<open>Witnesses\<close>

definition plain_text :: "string qt_text" where
  "plain_text = \<lparr>qt_from = id, qt_to = id\<rparr>"

definition sample_events :: "string host_event list" where
  "sample_events = [Socket_Ready (''ab'' @ [newline] @ ''c''), Page_Connected, Reaches_Host, Reaches_Page, Page_Receiver (Some 1),
     Socket_Ready [newline], Page_Timer, Reaches_Page, Page_Timer]"

definition sample_args :: host_args where
  "sample_args = \<lparr>ha_entry = ''e'', ha_port = 4000, ha_module = ''m'', ha_storage = []\<rparr>"

definition sample_host :: "string host_state" where
  "sample_host = host_line [] new_host"

lemma sample_got:
  "map snd (pg_got (hs_page (host_run plain_text ''m'' sample_events sample_host))) = [''ab'', ''c'']"
  "pg_timers (hs_page (host_run plain_text ''m'' sample_events sample_host)) = []"
  "pg_pending (hs_page (host_run plain_text ''m'' sample_events sample_host)) = []"
  "hs_down (host_run plain_text ''m'' sample_events sample_host) = []"
  "br_backlog (hs_bridge (host_run plain_text ''m'' sample_events sample_host)) = []"
  "concat (map bytes_of (handled plain_text ''m'' sample_events sample_host)) = ''ab'' @ [newline] @ ''c'' @ [newline]"
  by code_simp+

lemma page_gets_all_witness:
  "\<exists>profile h'. webhost_main plain_text sample_args True True sample_events = Inr (profile, h')
    \<and> map snd (pg_got (hs_page h')) @ map snd (pg_timers (hs_page h')) @ pg_pending (hs_page h') @ hs_down h'
       @ br_backlog (hs_bridge h') = [''ab'', ''c'']"
proof -
  have m: "webhost_main plain_text sample_args True True sample_events
      = Inr (profile_for sample_args, host_run plain_text ''m'' sample_events
          (snd (projr (webhost_start sample_args True True :: (int \<times> string list) + (page_profile \<times> string host_state)))))"
    by code_simp
  have "map (qt_from plain_text) (fst (drain (concat (map bytes_of (handled plain_text (pageLabel sample_args) sample_events
      (snd (projr (webhost_start sample_args True True :: (int \<times> string list) + (page_profile \<times> string host_state))))))))) = [''ab'', ''c'']"
    by code_simp
  from trans [OF page_gets_all [OF m] this] m show ?thesis by blast
qed

lemma daemon_to_page_witness:
  "map (qt_from plain_text) [''ab'', ''c''] = map snd (pg_got (hs_page (host_run plain_text ''m'' sample_events sample_host)))"
proof -
  have w: "write_messages slow_sender [''ab'', ''c''] [] 1 = Some ([True, True], ''ab'' @ [newline] @ ''c'' @ [newline], 5)"
    by (simp add: write_message_def frame_of_def slow_sender_def send_all.simps [of slow_sender])
  from daemon_to_page [OF w _ _ sample_got(6) [unfolded sample_host_def] refl] sample_got(2-5) show ?thesis
    by (simp add: sample_host_def is_message_def)
qed

end
