(* ===== verification/Windows_Args.thy ===== *)
theory Windows_Args
  imports String_Utils
begin

text \<open>
  \<open>quoteArg\<close> of \<open>src/src/main.cpp\<close> and the command line that \<open>spawnDetached\<close> makes with it: the Windows branch of the detached
  start. The rest of that branch is calls of the Windows API. How the child splits the line again is Microsoft's documented rule for the
  arguments after the program's name, written down here as the reference.
\<close>

abbreviation backslash :: char where "backslash \<equiv> CHR 92"
abbreviation dquote :: char where "dquote \<equiv> CHR 34"

section \<open>Quoting\<close>

definition needs_quotes :: "string \<Rightarrow> bool" where
  "needs_quotes a \<longleftrightarrow> a = [] \<or> list_ex (\<lambda>c. c \<in> {CHR '' '', CHR 9, CHR 10, CHR 11, dquote}) a"

text \<open>The backslashes before the rest are counted: they are escapes only before a quote, the closing one included.\<close>

fun quote_body :: "nat \<Rightarrow> string \<Rightarrow> string" where
  "quote_body n [] = replicate (2 * n) backslash"
| "quote_body n (c # cs) =
    (if c = backslash then quote_body (Suc n) cs
     else if c = dquote then replicate (2 * n + 1) backslash @ dquote # quote_body 0 cs
     else replicate n backslash @ c # quote_body 0 cs)"

definition quoteArg :: "string \<Rightarrow> string" where
  "quoteArg a = (if \<not> needs_quotes a then a else dquote # quote_body 0 a @ [dquote])"

fun join_args :: "string \<Rightarrow> string list \<Rightarrow> string" where
  "join_args line [] = line"
| "join_args line (a # as) = join_args ((if line \<noteq> [] then line @ '' '' else line) @ quoteArg a) as"

section \<open>The documented rule\<close>

text \<open>
  Spaces and tabs outside quotes end an argument; backslashes are literal unless a quote follows, when two make one and an
  odd one makes the quote literal; a doubled quote inside quotes is a literal quote.
\<close>

function win_split :: "bool \<Rightarrow> nat \<Rightarrow> string \<Rightarrow> bool \<Rightarrow> string \<Rightarrow> string list" where
  "win_split quoted n cur begun [] = (if begun then [cur @ replicate n backslash] else [])"
| "win_split quoted n cur begun (c # cs) =
    (if c = backslash then win_split quoted (Suc n) cur True cs
     else if c = dquote then
       (if odd n then win_split quoted 0 (cur @ replicate (n div 2) backslash @ [dquote]) True cs
        else if quoted \<and> cs \<noteq> [] \<and> hd cs = dquote
        then win_split quoted 0 (cur @ replicate (n div 2) backslash @ [dquote]) True (tl cs)
        else win_split (\<not> quoted) 0 (cur @ replicate (n div 2) backslash) True cs)
     else if (c = CHR '' '' \<or> c = CHR 9) \<and> \<not> quoted then
       (if begun then (cur @ replicate n backslash) # win_split False 0 [] False cs else win_split False 0 [] False cs)
     else win_split quoted 0 (cur @ replicate n backslash @ [c]) True cs)"
  by pat_completeness auto
termination
  by (relation "measure (\<lambda>(q, n, cur, b, s). length s)") (auto simp: neq_Nil_conv)

section \<open>The round trip\<close>

lemma split_backslashes: "win_split q n cur b (replicate k backslash @ s) = win_split q (n + k) cur (b \<or> k > 0) s"
  by (induction k arbitrary: n b) simp_all

text \<open>A quoted body, with the backslashes it has counted, is read back.\<close>

lemma split_body:
  "rest = [] \<or> hd rest \<noteq> dquote \<Longrightarrow>
   win_split True 0 cur True (quote_body n a @ dquote # rest) = win_split False 0 (cur @ replicate n backslash @ a) True rest"
proof (induction a arbitrary: n cur)
  case Nil
  then show ?case by (auto simp: split_backslashes)
next
  case (Cons c cs)
  show ?case
    using Cons.IH [where n = "Suc n" and cur = cur, OF Cons.prems] Cons.IH [where n = 0, OF Cons.prems]
    by (simp add: split_backslashes replicate_app_Cons_same)
qed

lemma split_plain:
  "\<not> list_ex (\<lambda>c. c \<in> {CHR '' '', CHR 9, CHR 10, CHR 11, dquote}) a \<Longrightarrow> rest = [] \<or> hd rest = CHR '' '' \<Longrightarrow>
   win_split False n cur (b \<or> n > 0) (a @ rest) = win_split False 0 (cur @ replicate n backslash @ a) (b \<or> n > 0 \<or> a \<noteq> []) rest"
proof (induction a arbitrary: n cur b)
  case Nil
  then show ?case by (cases rest) auto
next
  case (Cons c cs)
  show ?case
  proof (cases "c = backslash")
    case True
    with Cons.IH [of "Suc n" cur b] Cons.prems show ?thesis by (simp add: replicate_app_Cons_same)
  next
    case False
    with Cons.IH [of 0 "cur @ replicate n backslash @ [c]" True] Cons.prems show ?thesis by simp
  qed
qed

lemma split_quoted:
  assumes "rest = [] \<or> hd rest = CHR '' ''"
  shows "win_split False 0 [] False (quoteArg a @ rest) = win_split False 0 a True rest"
proof (cases "needs_quotes a")
  case True
  with assms split_body [of rest "[]" 0 a] show ?thesis by (auto simp: quoteArg_def)
next
  case False
  with assms split_plain [of a rest 0 "[]" False] show ?thesis by (simp add: quoteArg_def needs_quotes_def)
qed

lemma quoteArg_nonempty: "quoteArg a \<noteq> []"
  by (auto simp: quoteArg_def needs_quotes_def)

lemma join_args_from: "line \<noteq> [] \<Longrightarrow> join_args line as = line @ concat (map (\<lambda>a. '' '' @ quoteArg a) as)"
  by (induction as arbitrary: line) (auto simp: quoteArg_nonempty)

lemma split_spaced: "win_split False 0 cur True (concat (map (\<lambda>a. '' '' @ quoteArg a) as)) = cur # as"
proof (induction as arbitrary: cur)
  case (Cons a as)
  have "concat (map (\<lambda>a. '' '' @ quoteArg a) as) = [] \<or> hd (concat (map (\<lambda>a. '' '' @ quoteArg a) as)) = CHR '' ''"
    by (cases as) auto
  from split_quoted [OF this, of a] Cons.IH [of a] show ?case by simp
qed simp

text \<open>
  The command line of the detached start is split into exactly the arguments it was made of, whatever spaces, quotes and
  backslashes they have.
\<close>

theorem args_survive: "win_split False 0 [] False (join_args [] as) = as"
proof (cases as)
  case (Cons a rest)
  have "concat (map (\<lambda>a. '' '' @ quoteArg a) rest) = [] \<or> hd (concat (map (\<lambda>a. '' '' @ quoteArg a) rest)) = CHR '' ''"
    by (cases rest) auto
  from split_quoted [OF this, of a] split_spaced [of a rest] Cons show ?thesis
    by (simp add: join_args_from quoteArg_nonempty)
qed simp

end
