(* ===== verification/Daemon_Signals.thy ===== *)
theory Daemon_Signals
  imports Prelude
begin

text \<open>
  \<open>signalHandler\<close> and \<open>setupSignalHandlers\<close> of \<open>src/src/daemon/daemon.cpp\<close>, POSIX branch: the self-pipe that turns a signal into the end of the event
  loop. A step is a signal, the set-up, the start of the loop or its notifier; they interleave in any order that the program allows.
\<close>

datatype loop = Not_Started | In_Exec | Left_Exec | Killed

record signals =
  sg_caught :: bool            \<comment> \<open>the handlers are installed\<close>
  sg_pipe :: bool              \<comment> \<open>\<open>g_signalPipe\<close> holds descriptors, and the notifier watches them\<close>
  sg_bytes :: nat
  sg_requested :: bool         \<comment> \<open>\<open>g_shutdownRequested\<close>\<close>
  sg_loop :: loop

definition no_signals :: signals where
  "no_signals = \<lparr>sg_caught = False, sg_pipe = False, sg_bytes = 0, sg_requested = False, sg_loop = Not_Started\<rparr>"

definition signalHandler :: "signals \<Rightarrow> signals" where
  "signalHandler s = s\<lparr>sg_requested := True, sg_bytes := (if sg_pipe s then sg_bytes s + 1 else sg_bytes s)\<rparr>"

text \<open>Whether \<open>pipe\<close> succeeds is the kernel's.\<close>

definition setupSignalHandlers :: "bool \<Rightarrow> signals \<Rightarrow> signals" where
  "setupSignalHandlers piped s = s\<lparr>sg_pipe := piped, sg_caught := True\<rparr>"

text \<open>The notifier reads up to sixteen bytes and quits the loop.\<close>

definition drain_and_quit :: "signals \<Rightarrow> signals" where
  "drain_and_quit s = s\<lparr>sg_bytes := sg_bytes s - 16, sg_loop := Left_Exec\<rparr>"

inductive signal_step :: "signals \<Rightarrow> signals \<Rightarrow> bool" where
  set_up: "\<not> sg_caught s \<Longrightarrow> sg_loop s = Not_Started \<Longrightarrow> signal_step s (setupSignalHandlers piped s)"
| caught: "sg_caught s \<Longrightarrow> sg_loop s \<noteq> Killed \<Longrightarrow> signal_step s (signalHandler s)"
| default_action: "\<not> sg_caught s \<Longrightarrow> signal_step s (s\<lparr>sg_loop := Killed\<rparr>)"
| exec: "sg_caught s \<Longrightarrow> sg_loop s = Not_Started \<Longrightarrow> signal_step s (s\<lparr>sg_loop := In_Exec\<rparr>)"
| notified: "sg_loop s = In_Exec \<Longrightarrow> sg_pipe s \<Longrightarrow> sg_bytes s > 0 \<Longrightarrow> signal_step s (drain_and_quit s)"

inductive signal_run :: "signals \<Rightarrow> bool" where
  run_start: "signal_run no_signals"
| run_step: "signal_run s \<Longrightarrow> signal_step s t \<Longrightarrow> signal_run t"

definition signals_ok :: "signals \<Rightarrow> bool" where
  "signals_ok s \<longleftrightarrow> (sg_requested s \<longrightarrow> sg_caught s) \<and> (sg_bytes s > 0 \<longrightarrow> sg_requested s \<and> sg_pipe s)
     \<and> (sg_pipe s \<longrightarrow> sg_caught s)
     \<and> (sg_requested s \<and> sg_pipe s \<and> (sg_loop s = Not_Started \<or> sg_loop s = In_Exec) \<longrightarrow> sg_bytes s > 0)
     \<and> (sg_loop s = Left_Exec \<longrightarrow> sg_requested s) \<and> (sg_loop s = In_Exec \<longrightarrow> sg_caught s)"

lemma step_ok: "signal_step s t \<Longrightarrow> signals_ok s \<Longrightarrow> signals_ok t"
proof (induction rule: signal_step.induct)
  case (caught s)
  then show ?case by (cases "sg_pipe s"; cases "sg_loop s") (simp_all add: signals_ok_def signalHandler_def)
next
  case (exec s)
  then show ?case by (cases "sg_pipe s") (simp_all add: signals_ok_def)
qed (simp_all add: signals_ok_def setupSignalHandlers_def drain_and_quit_def, (metis neq0_conv)+)

lemma run_ok: "signal_run s \<Longrightarrow> signals_ok s"
proof (induction rule: signal_run.induct)
  case run_start
  then show ?case by (simp add: signals_ok_def no_signals_def)
qed (rule step_ok)

text \<open>
  No signal is lost: whether it came before the event loop or during it, once there was one the notifier can end the loop, and nothing but a
  signal ends it; provided the pipe could be made.
\<close>

theorem signal_ends_loop:
  assumes "signal_run s" "sg_loop s = In_Exec" "sg_pipe s"
  shows "(sg_requested s \<longrightarrow> signal_step s (drain_and_quit s)) \<and> ((\<exists>t. signal_step s t \<and> sg_loop t \<noteq> In_Exec) \<longrightarrow> sg_requested s)"
proof -
  have ok: "signals_ok s" by (rule run_ok [OF assms(1)])
  then have c: "sg_caught s" using assms(3) by (simp add: signals_ok_def)
  have "signal_step s (drain_and_quit s)" if "sg_requested s"
    using that ok assms(2,3) by (intro notified) (auto simp: signals_ok_def)
  moreover have "sg_requested s" if "signal_step s t" "sg_loop t \<noteq> In_Exec" for t
    using that(1)
  proof cases
    case notified
    with ok show ?thesis by (simp add: signals_ok_def)
  qed (use that(2) c assms(2) in \<open>simp_all add: signalHandler_def\<close>)
  ultimately show ?thesis by blast
qed

text \<open>
  Without the pipe the handlers are installed all the same: every later signal is swallowed, and the loop never ends.
\<close>

lemma step_deaf: "signal_step s t \<Longrightarrow> sg_caught s \<and> \<not> sg_pipe s \<and> sg_loop s = In_Exec \<Longrightarrow> sg_caught t \<and> \<not> sg_pipe t \<and> sg_loop t = In_Exec"
  by (induction rule: signal_step.induct) (auto simp: setupSignalHandlers_def signalHandler_def)

definition deaf :: signals where
  "deaf = (setupSignalHandlers False no_signals)\<lparr>sg_loop := In_Exec\<rparr>"

lemma deaf_without_pipe: "signal_run deaf" "signal_step\<^sup>*\<^sup>* deaf t \<Longrightarrow> sg_loop t = In_Exec"
proof -
  have "signal_run (setupSignalHandlers False no_signals)"
    by (rule run_step [OF run_start set_up]) (simp_all add: no_signals_def)
  then show "signal_run deaf"
    unfolding deaf_def by (rule run_step [OF _ exec]) (simp_all add: setupSignalHandlers_def no_signals_def)
  assume "signal_step\<^sup>*\<^sup>* deaf t"
  then have "sg_caught t \<and> \<not> sg_pipe t \<and> sg_loop t = In_Exec"
    by (induction rule: rtranclp_induct) (auto simp: deaf_def setupSignalHandlers_def no_signals_def dest: step_deaf)
  then show "sg_loop t = In_Exec" by simp
qed

definition served :: signals where
  "served = signalHandler ((setupSignalHandlers True no_signals)\<lparr>sg_loop := In_Exec\<rparr>)"

lemma signal_ends_loop_witness: "signal_step served (drain_and_quit served)"
proof -
  have 1: "signal_run (setupSignalHandlers True no_signals)"
    by (rule run_step [OF run_start set_up]) (simp_all add: no_signals_def)
  have 2: "signal_run ((setupSignalHandlers True no_signals)\<lparr>sg_loop := In_Exec\<rparr>)"
    by (rule run_step [OF 1 exec]) (simp_all add: setupSignalHandlers_def no_signals_def)
  have 3: "signal_run served"
    unfolding served_def by (rule run_step [OF 2 caught]) (simp_all add: setupSignalHandlers_def)
  show ?thesis
    using signal_ends_loop [OF 3] by (simp add: served_def signalHandler_def setupSignalHandlers_def no_signals_def)
qed

end
