(* ===== verification/Version_Text.thy ===== *)
theory Version_Text
  imports Main
begin

text \<open>
  \<open>src/src/version_info.h\<close>: what \<open>--version\<close> prints. The values of the generated header are a parameter; \<open>None\<close> is a build without it.
\<close>

record build_info =
  bi_version :: string
  bi_commit :: string
  bi_commits :: string

definition version :: "build_info option \<Rightarrow> string" where
  "version b = (case b of None \<Rightarrow> ''dev'' | Some i \<Rightarrow> if bi_version i = [] then ''dev'' else bi_version i)"

definition commit :: "build_info option \<Rightarrow> string" where
  "commit b = (case b of None \<Rightarrow> ''unknown'' | Some i \<Rightarrow> bi_commit i)"

definition versionString :: "build_info option \<Rightarrow> string \<Rightarrow> string" where
  "versionString b toolName = toolName @ '' version '' @ version b @ (case b of
      None \<Rightarrow> [CHR 10] @ ''commit: unknown (no build info)''
    | Some i \<Rightarrow> [CHR 10] @ ''commit: '' @ commit b
        @ (if bi_commits i \<noteq> [] then [CHR 10] @ ''dependency commits:'' @ [CHR 10] @ bi_commits i else []))"

text \<open>The two programs share the text and name themselves.\<close>

lemma tools_name_themselves: "versionString b ''logosctl'' \<noteq> versionString b ''logoscore''"
  by (simp add: versionString_def)

end
