(* ===== verification/Spec2Isabelle.thy ===== *)
theory Spec2Isabelle
  imports Token_Safety Daemon_Files_Props Core_Service_Props Client_State_Props Process_Util
    Rpc_Client_Props Client_Commands_Props Token_Commands Package_Bootstrap Log_Sink Paths
    Daemon_Node Daemon_Boot_Props Config_Command Package_Command_Props Main_Legacy_Props
    Web_Spawn Web_Host_Props Windows_Args Daemon_Signals Version_Text
begin

text \<open>
  The program. \<open>logoscore\<close> runs modules in a daemon and drives it from the command line. A session is a
  directory: the daemon's documents are under \<open>daemon/\<close> (configuration, \<open>state.json\<close>, \<open>tokens.json\<close>), the
  client's under \<open>client/\<close> (the dial specification \<open>config.yaml\<close> and raw token files). The daemon starts the
  core library, publishes \<open>core_service\<close> and \<open>capability_module\<close> on its transports, writes its state and a
  token for the local client, and serves until it is told to stop. A client reads the dial specification and the
  token, connects, and turns every command into a request to \<open>core_service\<close>, which loads and unloads modules,
  forwards method calls to them, and runs package operations over the two package modules.

  \<^bold>\<open>The world of the model.\<close> \<open>World\<close> holds the files, directories, clock, random source and error stream as one
  record; an operation is a function of that state (\<open>'a io\<close>). Whether a system call succeeds is decided by an
  oracle over the call and its position, so every theorem about an arbitrary world covers every pattern of I/O
  failures; \<open>w_hist\<close> keeps every intermediate state of the files, so that a property of every observable moment is
  a statement about a list. Exceptions are the left summand of a result (\<open>tbind\<close>, \<open>raise\<close>). The kernel, the
  transport library, the core library and the modules are records of functions over an abstract state \<open>'r\<close>:
  \<open>os\<close> and \<open>link\<close> (client side), \<open>runtime\<close> (module host), \<open>hooks\<close>, \<open>log_env\<close> and \<open>node_env\<close> (daemon). The libraries
  that turn values into text are records as well: \<open>json_lib\<close> (nlohmann's parser and printer), \<open>yaml_lib\<close> (yaml-cpp),
  \<open>fmt_lib\<close>, and SHA-256 in \<open>token_env\<close>; the theorems that need their documented behaviour name it as a hypothesis,
  and \<open>Samples\<close>, \<open>Host_Samples\<close> and \<open>sample_yaml\<close> in \<open>Yaml_Json\<close> are concrete instances that have it.

  \<^bold>\<open>The theories, in the order of the code.\<close>
  \<^item> \<open>Prelude\<close>, \<open>String_Utils\<close> (\<open>string_utils.h\<close>), \<open>Json\<close> (\<open>nlohmann::json\<close> values: the three number kinds,
    checked reads, integers wrapped to their width), \<open>Json_Schema\<close> (\<open>json_schema.h\<close>: reads that collect errors),
    \<open>Config\<close> (\<open>config.cpp\<close>: where a session's files live), \<open>Iso_Time\<close> (\<open>platform_compat.h\<close>'s calendar calls),
    \<open>Yaml_Json\<close> (\<open>yaml_json.cpp\<close>), \<open>Process_Util\<close> (\<open>process_util.h\<close>), \<open>Paths\<close> (\<open>paths.cpp\<close>).
  \<^item> Tokens: \<open>Token_Text\<close> and \<open>Token_Store\<close> (\<open>daemon/token_store.cpp\<close>), \<open>Token_Safety\<close> (its promises),
    \<open>Token_Commands\<close> (\<open>issue_token\<close>, \<open>list_tokens\<close> and \<open>revoke_token_command.cpp\<close>).
  \<^item> The daemon: \<open>Daemon_Config\<close> and \<open>Daemon_Files\<close> (\<open>daemon/daemon_state.cpp\<close>: documents, then files), with
    their \<open>_Props\<close>; \<open>Package_Bootstrap\<close>, \<open>Log_Sink\<close> (\<open>daemon/\<close> files of the same names); \<open>Daemon_Node\<close>
    (\<open>port_allocator.cpp\<close> and the listener sets) and \<open>Daemon_Boot\<close> (\<open>Daemon::start\<close> of \<open>daemon.cpp\<close> as one
    operation with all its early returns), with \<open>Daemon_Boot_Props\<close>.
  \<^item> The service: \<open>Module_Host\<close> (the runtime and the calls to it), \<open>Call_Envelope\<close> (\<open>call_envelope.cpp\<close>),
    \<open>Package_Ops\<close> (\<open>package_ops.cpp\<close>, \<open>rpc_deadlines.h\<close>), \<open>Core_Service\<close> (\<open>core_service_impl.cpp\<close> and the
    dispatcher), with their \<open>_Props\<close>.
  \<^item> The client: \<open>Client_State\<close> (\<open>client_state.cpp\<close>), \<open>Rpc_Client\<close> (\<open>client.cpp\<close>, \<open>local_endpoint.h\<close>),
    \<open>Output\<close> (\<open>output.cpp\<close>), \<open>Arg_Coerce\<close> (\<open>arg_coerce.cpp\<close>), \<open>Client_Commands\<close> (\<open>command.cpp\<close> and the module,
    call, status, stop, stats and watch commands), \<open>Config_Command\<close>, \<open>Catalog_Command\<close>, \<open>Package_Command\<close> (the
    files of the same names), with \<open>Client_State_Props\<close>, \<open>Rpc_Client_Props\<close>, \<open>Client_Commands_Props\<close> and
    \<open>Package_Command_Props\<close>.

  \<^item> The two programs: \<open>Listener_Plan\<close> (the listeners a daemon is started with, the \<open>--module-transport\<close> grammar and the guards),
    \<open>Command_Line\<close> (\<open>argv\<close> before CLI11, the global flags, \<open>createCommand\<close>), \<open>Main_Modern\<close> (\<open>main.cpp\<close>: routing, the daemon
    branch, the detached start seen from its parent), \<open>Main_Legacy\<close> (\<open>main_legacy.cpp\<close>: flags laid over the configuration
    of the daemon or of the client, \<open>--persist-config\<close>), with \<open>Main_Modern_Props\<close> and \<open>Main_Legacy_Props\<close>; \<open>Windows_Args\<close> (the
    quoting of the Windows branch), \<open>Daemon_Signals\<close> (the self-pipe of \<open>daemon.cpp\<close>), \<open>Version_Text\<close> (\<open>version_info.h\<close>).
  \<^item> Web modules: \<open>Web_Frames\<close> (the framing both ends share, the locale \<open>message_stream\<close>), \<open>Web_Channel\<close> (\<open>SocketChannel\<close> with its
    threads and mutexes, a step relation), \<open>Web_View\<close> (a page's death against its teardown, the end of its process),
    \<open>Web_Spawn\<close> (starting it; all of \<open>web/webhost_view.cpp\<close>), \<open>Web_Host\<close> (\<open>webhost/main.cpp\<close>: the bridge, the channel
    in the page, the handlers), with \<open>Web_Host_Props\<close>.

  \<^bold>\<open>What the lemmas show.\<close> Tokens: a token that was issued is accepted and one that was revoked is not, lookups
  are sound, \<open>tokens.json\<close> is never seen half written, and failures change nothing. Documents: what is written is
  read back (configuration, state, client configuration, YAML), a document is accepted whole or not at all, and
  machine-owned files are replaced atomically at their mode (the locale \<open>atomic_replace\<close>, interpreted for both
  writers; \<open>json_codec\<close> and \<open>text_trip\<close> are the contracts behind the round trips). Arguments: the hand-written number
  scanner is its grammar, and a scalar gets its type exactly when its text says so. The service: malformed requests
  have no effect, calls reach their target only, reload restores, package operations are gated, planned before they
  are applied, and restart what they stopped. The client: silence is never success, a shutdown is reported only on
  evidence, waiting ends, and what the daemon publishes at boot is what the client dials. The daemon: the package
  manager fails closed, the log keeps every byte, a refused second start is harmless, and a started core is cleaned
  up exactly when the boot ends with an exit code. The programs: whatever is configured or passed, no plaintext listener
  is exposed without the opt-in, and what \<open>--persist-config\<close> writes is read back. Web modules: from the daemon's write to the
  page's receivers the channel is one queue; its descriptor is never used after it was closed; it has exactly one deadlock, which
  happens (\<open>deadlock_happens\<close>); a page that cannot be started leaves nothing behind, and stopping one ends.

  \<^bold>\<open>Bounds and fuel.\<close> Integers of the source are \<open>int\<close> with the wrap written out (\<open>wrap_int 32\<close>, \<open>wrap_int 64\<close>)
  or words (\<open>32 word\<close> for the bit accumulator of \<open>generateToken\<close>, \<open>16 word\<close> for ports, \<open>64 word\<close> for the bits of a
  double). The loops that may not end, waiting for a process and confirming a shutdown, are
  \<open>partial_function (option)\<close>, so that \<open>None\<close> is never returning; \<open>wait_exact\<close> and \<open>shutdown_evidence\<close> prove that
  they return when the clock runs, and \<open>send_all_returns\<close> that a write does when interruptions end. No definition uses fuel.

  \<^bold>\<open>Not modelled.\<close> The option tables of \<open>main.cpp\<close> and \<open>main_legacy.cpp\<close>: CLI11 and its answer are a parameter, as is what
  the commands take from their own options (\<open>ap_parse\<close>). The child of the detached start between \<open>fork\<close> and \<open>exec\<close>, and the calls
  of the Windows API: both only rearrange descriptors before the program starts over. The Windows and macOS branches elsewhere.
  Qt, its event loop and its web engine: they decide when the handlers run, and every order is covered. Threads are
  modelled where they share state, in \<open>Web_Channel\<close> and \<open>Web_View\<close>; the log reader is a function of what it reads, and
  requests are served one at a time. The headers under \<open>src/\<close> that only declare what is defined elsewhere.
\<close>

end
